(* ===== verification/Prelude.thy ===== *)
theory Prelude
  imports Main "HOL-Library.Word" "HOL-Library.Sublist" "HOL-Library.Multiset"
    "HOL-Library.List_Lexorder" "HOL-Library.Char_ord"
begin

text \<open>
  Shared vocabulary of the development: Go's integers, times and byte strings, the functions of
  Go's \<^verbatim>\<open>strings\<close> package the sources use, the named collections of simplification facts, and the
  generic lemmas on lists, maps and signed words that several components share.

  A Go string is a list of bytes, so a literal outside ASCII is written as its UTF-8 bytes with
  \<open>utf8\<close>. \<^verbatim>\<open>int64\<close> is \<open>64 word\<close> read as two's complement (\<open>sint\<close>, \<open><s\<close>, \<open>\<le>s\<close>), so the
  wrap-around of \<open>+\<close>, \<open>-\<close> and \<open>*\<close> is the machine's. A \<^verbatim>\<open>time.Time\<close> is a number of nanoseconds
  since the zero time and a \<^verbatim>\<open>time.Duration\<close> a number of nanoseconds; the sources compare,
  add and subtract them in ranges far inside 64 bits, so both are \<open>int\<close>.
\<close>

named_theorems model_defs \<open>definitions a component unfolds in its own proofs\<close>
named_theorems step_simps \<open>equations that evaluate one operation of a component\<close>
named_theorems frame_simps \<open>fields an operation leaves unchanged\<close>

section \<open>Machine integers and times\<close>

type_synonym int64 = "64 word"
type_synonym uint64 = "64 word"
type_synonym gotime = int
type_synonym duration = int

definition nanosecond :: duration where "nanosecond = 1"
definition millisecond :: duration where "millisecond = 1000000"
definition second :: duration where "second = 1000000000"
definition minute :: duration where "minute = 60 * second"
definition hour :: duration where "hour = 60 * minute"

lemmas duration_defs = nanosecond_def millisecond_def second_def minute_def hour_def

text \<open>Nanoseconds between the zero time (year 1) and the Unix epoch.\<close>

definition unix_epoch :: gotime where "unix_epoch = 62135596800 * second"

definition unix_milli :: "gotime \<Rightarrow> int" where
  "unix_milli t = (t - unix_epoch) div millisecond"

definition of_unix_milli :: "int \<Rightarrow> gotime" where
  "of_unix_milli ms = unix_epoch + ms * millisecond"

definition unix_nano :: "gotime \<Rightarrow> int" where
  "unix_nano t = t - unix_epoch"

definition is_zero_time :: "gotime \<Rightarrow> bool" where
  "is_zero_time t \<longleftrightarrow> t = 0"

text \<open>Integer division of a duration truncates towards zero.\<close>

definition trunc_div :: "int \<Rightarrow> int \<Rightarrow> int" where
  "trunc_div a b = sgn a * sgn b * (\<bar>a\<bar> div \<bar>b\<bar>)"

definition milliseconds :: "duration \<Rightarrow> int" where
  "milliseconds d = trunc_div d millisecond"

lemma unix_milli_of_unix_milli [simp]: "unix_milli (of_unix_milli ms) = ms"
  by (simp add: unix_milli_def of_unix_milli_def millisecond_def)

lemma unix_milli_mono: "s \<le> t \<Longrightarrow> unix_milli s \<le> unix_milli t"
  by (simp add: unix_milli_def millisecond_def zdiv_mono1)

lemma milliseconds_nonneg: "0 \<le> d \<Longrightarrow> milliseconds d = d div millisecond"
  by (cases "d = 0") (simp_all add: milliseconds_def trunc_div_def millisecond_def)

section \<open>Signed words\<close>

lemma sint64_range: "- (2 ^ 63) \<le> sint (x :: int64)" "sint (x :: int64) < 2 ^ 63"
  using sint_ge [of x] sint_lt [of x] by simp_all

lemma sint64_of_int:
  assumes "- (2 ^ 63) \<le> i" and "i < 2 ^ 63"
  shows "sint (word_of_int i :: int64) = i"
  using assms by (simp add: sint_sbintrunc' signed_take_bit_int_eq_self)

lemma sint64_add:
  assumes "- (2 ^ 63) \<le> sint (x :: int64) + sint y" and "sint x + sint y < 2 ^ 63"
  shows "sint (x + y) = sint x + sint y"
proof -
  have "x + y = word_of_int (sint x + sint y)" by simp
  then show ?thesis using assms sint64_of_int by metis
qed

lemma sint64_diff:
  assumes "- (2 ^ 63) \<le> sint (x :: int64) - sint y" and "sint x - sint y < 2 ^ 63"
  shows "sint (x - y) = sint x - sint y"
proof -
  have "x - y = word_of_int (sint x - sint y)" by simp
  then show ?thesis using assms sint64_of_int by metis
qed

lemma sint64_uminus:
  assumes "sint (x :: int64) \<noteq> - (2 ^ 63)"
  shows "sint (- x) = - sint x"
proof -
  have "- x = word_of_int (- sint x)" by simp
  moreover have "- (2 ^ 63) \<le> - sint x" "- sint x < 2 ^ 63"
    using sint64_range [of x] assms by linarith+
  ultimately show ?thesis using sint64_of_int by metis
qed

lemma sint64_mult:
  assumes "- (2 ^ 63) \<le> sint (x :: int64) * sint y" and "sint x * sint y < 2 ^ 63"
  shows "sint (x * y) = sint x * sint y"
proof -
  have "x * y = word_of_int (sint x * sint y)" by simp
  then show ?thesis using assms sint64_of_int by metis
qed

lemmas signed_less = word_sless_alt word_sle_eq

section \<open>Byte strings\<close>

definition utf8 :: "nat list \<Rightarrow> string" where
  "utf8 bs = map char_of bs"

definition has_prefix :: "string \<Rightarrow> string \<Rightarrow> bool" where
  "has_prefix s p \<longleftrightarrow> take (length p) s = p"

fun contains :: "string \<Rightarrow> string \<Rightarrow> bool" where
  "contains [] p = (p = [])"
| "contains (c # s) p = (has_prefix (c # s) p \<or> contains s p)"

text \<open>
  The UTF-8 encodings of the runes Go's \<^verbatim>\<open>unicode.IsSpace\<close> accepts: tab, newline, vertical tab,
  form feed, carriage return, space, U+0085, U+00A0, U+1680, U+2000 to U+200A, U+2028, U+2029,
  U+202F, U+205F and U+3000.
\<close>

definition space_runes :: "string list" where
  "space_runes = map utf8
     ([[9], [10], [11], [12], [13], [32], [0xC2, 0x85], [0xC2, 0xA0], [0xE1, 0x9A, 0x80]] @
      map (\<lambda>i. [0xE2, 0x80, 0x80 + i]) [0..<11] @
      [[0xE2, 0x80, 0xA8], [0xE2, 0x80, 0xA9], [0xE2, 0x80, 0xAF], [0xE2, 0x81, 0x9F],
       [0xE3, 0x80, 0x80]])"

definition space_at :: "string list \<Rightarrow> string \<Rightarrow> nat option" where
  "space_at rs s = map_option length (find (has_prefix s) rs)"

text \<open>
  UTF-8 is self-synchronising, so the last rune of a string is a space exactly when one of the
  encodings is a suffix of its bytes. Cutting from the right is cutting the reversed bytes from
  the left by the reversed encodings.
\<close>

fun trim_by :: "nat \<Rightarrow> string list \<Rightarrow> string \<Rightarrow> string" where
  "trim_by 0 rs s = s"
| "trim_by (Suc n) rs s =
     (case space_at rs s of None \<Rightarrow> s | Some k \<Rightarrow> trim_by n rs (drop k s))"

definition trim_left :: "string \<Rightarrow> string" where
  "trim_left s = trim_by (length s) space_runes s"

definition trim_right :: "string \<Rightarrow> string" where
  "trim_right s = rev (trim_by (length s) (map rev space_runes) (rev s))"

definition trim_space :: "string \<Rightarrow> string" where
  "trim_space s = trim_right (trim_left s)"

lemma space_at_None: "space_at rs s = None \<longleftrightarrow> (\<forall>r\<in>set rs. \<not> has_prefix s r)"
  by (auto simp: space_at_def find_None_iff)

lemma space_at_Some:
  assumes "space_at rs s = Some k"
  shows "\<exists>r\<in>set rs. has_prefix s r \<and> k = length r"
  using assms by (fastforce simp: space_at_def find_Some_iff)

text \<open>The bound \<open>length s\<close> on the number of cuts is enough: each cut removes a byte.\<close>

lemma trim_by_done:
  assumes "[] \<notin> set rs" and "length s \<le> n"
  shows "space_at rs (trim_by n rs s) = None"
  using assms
proof (induction n arbitrary: s)
  case 0
  then show ?case by (auto simp: space_at_None has_prefix_def)
next
  case (Suc n)
  show ?case
  proof (cases "space_at rs s")
    case None
    then show ?thesis by simp
  next
    case (Some k)
    then have "0 < k" using Suc.prems(1) by (auto dest!: space_at_Some)
    then have "length (drop k s) \<le> n" using Suc.prems(2) by auto
    with Suc Some show ?thesis by simp
  qed
qed

lemma trim_by_id: "space_at rs s = None \<Longrightarrow> trim_by n rs s = s"
  by (cases n) simp_all

lemma trim_by_suffix: "suffix (trim_by n rs s) s"
proof (induction n arbitrary: s)
  case (Suc n)
  then show ?case
    by (auto split: option.splits intro: suffix_order.trans [OF _ suffix_drop])
qed simp

lemma space_runes_nonempty: "[] \<notin> set space_runes" "[] \<notin> set (map rev space_runes)"
  by (auto simp: space_runes_def utf8_def)

lemma trim_right_prefix: "prefix (trim_right s) s"
  using trim_by_suffix [of "length s" "map rev space_runes" "rev s"]
  by (simp add: trim_right_def suffix_to_prefix)

lemma has_prefix_append: "has_prefix s p \<Longrightarrow> has_prefix (s @ t) p"
  by (metis has_prefix_def append_take_drop_id append_assoc append_eq_conv_conj)

lemma trim_right_no_leading:
  assumes "space_at space_runes s = None"
  shows "space_at space_runes (trim_right s) = None"
proof -
  from trim_right_prefix [of s] obtain t where "s = trim_right s @ t"
    by (auto simp: prefix_def)
  with assms has_prefix_append show ?thesis
    unfolding space_at_None by metis
qed

theorem trim_space_idem: "trim_space (trim_space s) = trim_space s"
proof -
  let ?t = "trim_left s"
  have l: "space_at space_runes ?t = None"
    unfolding trim_left_def by (rule trim_by_done) (simp_all add: space_runes_nonempty)
  have r: "space_at (map rev space_runes) (rev (trim_right ?t)) = None"
    unfolding trim_right_def rev_rev_ident
    by (rule trim_by_done) (use space_runes_nonempty(2) in simp_all)
  from trim_right_no_leading [OF l]
  have "trim_left (trim_right ?t) = trim_right ?t"
    by (simp add: trim_left_def trim_by_id)
  moreover from r have "trim_right (trim_right ?t) = trim_right ?t"
    by (simp add: trim_right_def trim_by_id)
  ultimately show ?thesis by (simp add: trim_space_def)
qed

lemma trim_space_Nil [simp]: "trim_space [] = []"
  by (simp add: trim_space_def trim_left_def trim_right_def)

text \<open>A string that starts and ends with a visible ASCII character is not changed by trimming.\<close>

definition visible :: "char \<Rightarrow> bool" where
  "visible c \<longleftrightarrow> 33 \<le> (of_char c :: nat) \<and> (of_char c :: nat) \<le> 126"

lemma space_runes_ends:
  "r \<in> set space_runes \<Longrightarrow> r \<noteq> [] \<and> \<not> visible (hd r) \<and> \<not> visible (last r)"
  by (auto simp: space_runes_def utf8_def visible_def take_bit_eq_mod last_map)

lemma has_prefix_hd: "has_prefix s r \<Longrightarrow> r \<noteq> [] \<Longrightarrow> hd s = hd r"
  by (cases r; cases s) (auto simp: has_prefix_def)

lemma trim_space_visible:
  assumes "visible (hd s)" and "visible (last s)" and "s \<noteq> []"
  shows "trim_space s = s"
proof -
  have "space_at space_runes s = None"
    using assms space_runes_ends by (auto simp: space_at_None dest!: has_prefix_hd)
  moreover have "space_at (map rev space_runes) (rev s) = None"
    using assms space_runes_ends
    by (fastforce simp: space_at_None hd_rev dest!: has_prefix_hd)
  ultimately show ?thesis
    by (simp add: trim_space_def trim_left_def trim_right_def trim_by_id)
qed

section \<open>Lists\<close>

lemma foldl_invariant:
  assumes "P a" and "\<And>b x. P b \<Longrightarrow> x \<in> set xs \<Longrightarrow> P (f b x)"
  shows "P (foldl f a xs)"
  using assms by (induction xs arbitrary: a) simp_all

lemma list_all2_mapI:
  assumes "\<And>x. x \<in> set xs \<Longrightarrow> R x (f x)"
  shows "list_all2 R xs (map f xs)"
  using assms by (induction xs) simp_all

end
