(* ===== verification/Runes.thy ===== *)
theory Runes
  imports Prelude
begin

text \<open>
  The runes of a byte string as Go counts them (\<^verbatim>\<open>len([]rune(s))\<close>, \<^verbatim>\<open>utf8.RuneCountInString\<close>): a
  well-formed UTF-8 sequence is one rune, and a byte that does not start one is a rune of its own.
\<close>

definition byte_in :: "nat \<Rightarrow> nat \<Rightarrow> char \<Rightarrow> bool" where
  "byte_in lo hi c \<longleftrightarrow> lo \<le> (of_char c :: nat) \<and> (of_char c :: nat) \<le> hi"

text \<open>The bytes a leading byte asks for: the range of the second one and the length.\<close>

definition sequence_of :: "char \<Rightarrow> (nat \<times> nat \<times> nat) option" where
  "sequence_of c =
     (if byte_in 0xC2 0xDF c then Some (0x80, 0xBF, 2)
      else if byte_in 0xE0 0xE0 c then Some (0xA0, 0xBF, 3)
      else if byte_in 0xED 0xED c then Some (0x80, 0x9F, 3)
      else if byte_in 0xE1 0xEF c then Some (0x80, 0xBF, 3)
      else if byte_in 0xF0 0xF0 c then Some (0x90, 0xBF, 4)
      else if byte_in 0xF1 0xF3 c then Some (0x80, 0xBF, 4)
      else if byte_in 0xF4 0xF4 c then Some (0x80, 0x8F, 4)
      else None)"

definition rune_width :: "string \<Rightarrow> nat" where
  "rune_width s =
     (case s of
        [] \<Rightarrow> 0
      | c # rest \<Rightarrow>
          (case sequence_of c of
             None \<Rightarrow> 1
           | Some (lo, hi, n) \<Rightarrow>
               if n \<le> length s \<and> byte_in lo hi (rest ! 0) \<and>
                  list_all (byte_in 0x80 0xBF) (take (n - 2) (drop 1 rest))
               then n else 1))"

lemma sequence_of_length: "sequence_of c = Some (lo, hi, n) \<Longrightarrow> 1 < n"
  by (auto simp: sequence_of_def split: if_splits)

lemma rune_width_bounds: "s \<noteq> [] \<Longrightarrow> 0 < rune_width s \<and> rune_width s \<le> length s"
  by (cases s) (auto simp: rune_width_def Suc_le_eq split: option.splits dest!: sequence_of_length)

function rune_count :: "string \<Rightarrow> nat" where
  "rune_count s = (if s = [] then 0 else Suc (rune_count (drop (rune_width s) s)))"
  by auto
termination
  by (relation "measure length") (auto dest: rune_width_bounds)

declare rune_count.simps [simp del]

lemma rune_count_Nil [simp]: "rune_count [] = 0"
  by (simp add: rune_count.simps)

text \<open>There are at most as many runes as bytes, and exactly as many in an ASCII text.\<close>

lemma rune_count_le_length: "rune_count s \<le> length s"
proof (induction s rule: rune_count.induct)
  case (1 s)
  then show ?case
    using rune_width_bounds [of s] by (cases "s = []") (auto simp: rune_count.simps [of s])
qed

lemma rune_width_ascii: "byte_in 0 0x7F c \<Longrightarrow> rune_width (c # s) = 1"
  by (simp add: rune_width_def sequence_of_def byte_in_def)

lemma rune_count_ascii: "list_all (byte_in 0 0x7F) s \<Longrightarrow> rune_count s = length s"
  by (induction s) (simp_all add: rune_count.simps [of "_ # _"] rune_width_ascii)

section \<open>Well-formed text\<close>

text \<open>A text is valid UTF-8 when no byte of it is a rune of its own unless it is ASCII.\<close>

function valid_utf8 :: "string \<Rightarrow> bool" where
  "valid_utf8 s =
     (if s = [] then True
      else (rune_width s = 1 \<longrightarrow> byte_in 0 0x7F (hd s)) \<and> valid_utf8 (drop (rune_width s) s))"
  by auto
termination
  by (relation "measure length") (auto dest: rune_width_bounds)

declare valid_utf8.simps [simp del]

lemma valid_utf8_Nil [simp]: "valid_utf8 []"
  by (simp add: valid_utf8.simps)

lemma valid_utf8_ascii: "list_all (byte_in 0 0x7F) s \<Longrightarrow> valid_utf8 s"
  by (induction s) (simp_all add: valid_utf8.simps [of "_ # _"] rune_width_ascii)

end
