(* ===== verification/GoStrings.thy ===== *)
theory GoStrings
  imports Runes
begin

text \<open>
  More of Go's \<^verbatim>\<open>strings\<close>, \<^verbatim>\<open>strconv\<close> and \<^verbatim>\<open>fmt\<close>: decimal numbers (\<^verbatim>\<open>%d\<close>, \<^verbatim>\<open>strconv.Atoi\<close> on digits),
  \<^verbatim>\<open>Fields\<close>, \<^verbatim>\<open>Join\<close>, \<^verbatim>\<open>Split\<close>, \<^verbatim>\<open>ContainsAny\<close>, \<^verbatim>\<open>ToLower\<close> and \<^verbatim>\<open>ToUpper\<close>. The lemmas say when
  a printed number can be read back, and that removing the white space of a well-formed text
  leaves none, which the functions that compare normalised names rest on.
\<close>

section \<open>Decimal numbers\<close>

function digits :: "int \<Rightarrow> string" where
  "digits n =
     (if n < 10 then [char_of (48 + n)] else digits (n div 10) @ [char_of (48 + n mod 10)])"
  by auto
termination by (relation "measure nat") auto

declare digits.simps [simp del]

definition int_text :: "int \<Rightarrow> string" where
  "int_text i = (if i < 0 then ''-'' @ digits (- i) else digits i)"

definition is_digit :: "char \<Rightarrow> bool" where
  "is_digit c \<longleftrightarrow> 48 \<le> (of_char c :: nat) \<and> (of_char c :: nat) \<le> 57"

definition digit_value :: "char \<Rightarrow> int" where
  "digit_value c = int (of_char c) - 48"

definition digits_value :: "string \<Rightarrow> int" where
  "digits_value s = foldl (\<lambda>n c. 10 * n + digit_value c) 0 s"

lemma digits_value_snoc [simp]: "digits_value (s @ [c]) = 10 * digits_value s + digit_value c"
  by (simp add: digits_value_def)

lemma digits_value_Nil [simp]: "digits_value [] = 0"
  by (simp add: digits_value_def)

lemma char_of_int_digit:
  assumes "0 \<le> n" and "n < 10"
  shows "is_digit (char_of (48 + n :: int))" and "digit_value (char_of (48 + n)) = n"
proof -
  have "of_char (char_of (48 + n :: int) :: char) = 48 + n" using assms by simp
  then have "int (of_char (char_of (48 + n :: int) :: char)) = 48 + n"
    by (simp add: of_char_def)
  then show "digit_value (char_of (48 + n)) = n" "is_digit (char_of (48 + n :: int))"
    using assms by (simp_all add: digit_value_def is_digit_def)
qed

lemma digits_are_digits:
  assumes "0 \<le> n"
  shows "list_all is_digit (digits n)" and "digits n \<noteq> []" and "digits_value (digits n) = n"
  using assms
  by (induction n rule: digits.induct; subst digits.simps; auto simp: char_of_int_digit digits_value_def)+

lemma digits_inject: "\<lbrakk>0 \<le> m; 0 \<le> n; digits m = digits n\<rbrakk> \<Longrightarrow> m = n"
  by (metis digits_are_digits(3))

lemma digit_value_bounds: "is_digit c \<Longrightarrow> 0 \<le> digit_value c \<and> digit_value c < 10"
  by (auto simp: is_digit_def digit_value_def)

lemma digit_value_inject: "digit_value c = digit_value d \<Longrightarrow> c = d"
  by (simp add: digit_value_def)

lemma digits_value_nonneg: "list_all is_digit s \<Longrightarrow> 0 \<le> digits_value s"
  by (induction s rule: rev_induct) (auto dest: digit_value_bounds)

text \<open>Two digit sequences of the same length with the same value are the same.\<close>

lemma digits_value_same_length:
  assumes "length s = length t" and "list_all is_digit s" and "list_all is_digit t"
    and "digits_value s = digits_value t"
  shows "s = t"
  using assms
proof (induction s arbitrary: t rule: rev_induct)
  case (snoc c s)
  then obtain d t' where t: "t = t' @ [d]"
    by (metis length_append_singleton length_0_conv nat.distinct(1) rev_exhaust)
  with snoc.prems have b: "0 \<le> digit_value c" "digit_value c < 10" "0 \<le> digit_value d"
    "digit_value d < 10"
    by (simp_all add: digit_value_bounds)
  with snoc.prems t have "digits_value s = digits_value t' \<and> digit_value c = digit_value d"
    by (simp add: t; presburger)
  with snoc t show ?case by (simp add: digit_value_inject)
qed simp

text \<open>A number is read off the front, or off the end, of a text up to the first other byte.\<close>

lemma takeWhile_digits [simp]:
  "0 \<le> n \<Longrightarrow> \<not> is_digit c \<Longrightarrow> takeWhile is_digit (digits n @ c # s) = digits n"
  using digits_are_digits(1) [of n] by (simp add: takeWhile_append list_all_iff)

lemma digits_front_inject:
  assumes "0 \<le> m" and "0 \<le> n" and "\<not> is_digit c" and "digits m @ c # s = digits n @ c # t"
  shows "m = n" and "s = t"
proof -
  show "m = n" using assms by (metis takeWhile_digits digits_inject)
  with assms(4) show "s = t" by simp
qed

lemma digits_back_inject:
  assumes "0 \<le> m" and "0 \<le> n" and "\<not> is_digit c" and "s @ c # digits m = t @ c # digits n"
  shows "m = n" and "s = t"
proof -
  have "takeWhile is_digit (rev (x @ c # digits k)) = rev (digits k)" if "0 \<le> k" for x k
    using digits_are_digits(1) [OF that] assms(3) by (simp add: takeWhile_append list_all_iff)
  with assms show "m = n" by (metis digits_inject rev_rev_ident)
  with assms(4) show "s = t" by simp
qed

section \<open>Splitting and joining\<close>

text \<open>\<^verbatim>\<open>strings.Fields\<close>: the pieces between runs of white space.\<close>

lemma space_at_positive: "space_at space_runes s = Some k \<Longrightarrow> 0 < k"
  using space_runes_nonempty by (auto dest!: space_at_Some)

function go_fields_from :: "string \<Rightarrow> string \<Rightarrow> string list" where
  "go_fields_from current s =
     (let done = (if current = [] then [] else [current])
      in if s = [] then done
         else case space_at space_runes s of
                Some k \<Rightarrow> done @ go_fields_from [] (drop k s)
              | None \<Rightarrow> go_fields_from (current @ [hd s]) (tl s))"
  by pat_completeness auto
termination
  by (relation "measure (length \<circ> snd)") (auto dest: space_at_positive)

declare go_fields_from.simps [simp del]

definition go_fields :: "string \<Rightarrow> string list" where
  "go_fields s = go_fields_from [] s"

fun join :: "string \<Rightarrow> string list \<Rightarrow> string" where
  "join sep [] = []"
| "join sep [x] = x"
| "join sep (x # xs) = x @ sep @ join sep xs"

lemma join_empty: "join [] xs = concat xs"
  by (induction "[] :: string" xs rule: join.induct) simp_all

definition contains_any :: "string \<Rightarrow> string list \<Rightarrow> bool" where
  "contains_any s runes \<longleftrightarrow> list_ex (contains s) runes"

lemma fields_from_visible:
  assumes "\<And>i. i < length s \<Longrightarrow> space_at space_runes (drop i s) = None"
  shows "concat (go_fields_from current s) = current @ s"
  using assms
proof (induction s arbitrary: current)
  case Nil
  then show ?case by (simp add: go_fields_from.simps)
next
  case (Cons c s)
  have "space_at space_runes (drop i s) = None" if "i < length s" for i
    using Cons.prems [of "Suc i"] that by simp
  then have "concat (go_fields_from (current @ [c]) s) = (current @ [c]) @ s" by (rule Cons.IH)
  moreover have "space_at space_runes (c # s) = None" using Cons.prems [of 0] by simp
  ultimately show ?case by (simp add: go_fields_from.simps [of current "c # s"])
qed

section \<open>White space\<close>

definition no_space :: "string \<Rightarrow> bool" where
  "no_space s \<longleftrightarrow> (\<forall>i\<le>length s. space_at space_runes (drop i s) = None)"

text \<open>Every rune of white space is removed, wherever it stands.\<close>

function strip_spaces :: "string \<Rightarrow> string" where
  "strip_spaces s =
     (if s = [] then []
      else let k = rune_width s
           in (if take k s \<in> set space_runes then [] else take k s) @ strip_spaces (drop k s))"
  by auto
termination
  by (relation "measure length") (auto dest: rune_width_bounds)

declare strip_spaces.simps [simp del]

definition space_lead :: "string \<Rightarrow> bool" where
  "space_lead p \<longleftrightarrow>
     p \<noteq> [] \<and> \<not> byte_in 0x80 0xBF (hd p) \<and>
     (if byte_in 0 0x7F (hd p) then length p = 1
      else case sequence_of (hd p) of None \<Rightarrow> False | Some (lo, hi, n) \<Rightarrow> n = length p)"

lemma upt_eleven: "map f [0..<11::nat] = [f 0, f 1, f 2, f 3, f 4, f 5, f 6, f 7, f 8, f 9, f 10]"
  by (simp add: upt_rec_numeral eval_nat_numeral)

lemma space_rune_lead: "p \<in> set space_runes \<Longrightarrow> space_lead p"
proof -
  have "list_all space_lead space_runes"
    unfolding space_runes_def upt_eleven
    by (simp add: utf8_def space_lead_def byte_in_def sequence_of_def take_bit_eq_mod)
  then show "p \<in> set space_runes \<Longrightarrow> space_lead p" by (simp add: list_all_iff)
qed

text \<open>The bytes of one well-formed rune: ASCII, or a leading byte and its continuation bytes.\<close>

definition rune_bytes :: "string \<Rightarrow> bool" where
  "rune_bytes r \<longleftrightarrow>
     (case r of
        [] \<Rightarrow> False
      | c # cs \<Rightarrow> byte_in 0 0x7F c \<and> cs = [] \<or>
          (\<exists>lo hi. sequence_of c = Some (lo, hi, Suc (length cs))) \<and>
          list_all (byte_in 0x80 0xBF) cs)"

lemma rune_shape:
  assumes "valid_utf8 s" and "s \<noteq> []"
  shows "rune_bytes (take (rune_width s) s)"
proof -
  obtain c t where s: "s = c # t" using assms(2) by (cases s) auto
  show ?thesis
  proof (cases "rune_width s = 1")
    case True
    with assms s have "byte_in 0 0x7F c" by (simp add: valid_utf8.simps [of "c # t"])
    with True s show ?thesis by (simp add: rune_bytes_def)
  next
    case False
    then obtain lo hi n where q: "sequence_of c = Some (lo, hi, n)" and w: "rune_width s = n"
      and n: "n \<le> length s" "byte_in lo hi (t ! 0)"
        "list_all (byte_in 0x80 0xBF) (take (n - 2) (drop 1 t))"
      by (auto simp: s rune_width_def split: option.splits if_splits)
    have n1: "1 < n" by (rule sequence_of_length [OF q])
    then obtain d u where t: "t = d # u" using n(1) s by (cases t) auto
    have "byte_in 0x80 0xBF d"
      using n(2) q by (auto simp: t sequence_of_def byte_in_def split: if_splits)
    moreover obtain m where m: "n = Suc (Suc m)"
      using n1 by (metis less_imp_Suc_add plus_1_eq_Suc add_Suc)
    ultimately have "list_all (byte_in 0x80 0xBF) (take (n - 1) t)"
      using n(3) by (simp add: t)
    moreover have "length (take (n - 1) t) = n - 1" using n(1) s by simp
    ultimately show ?thesis
      using q w n1 by (simp add: rune_bytes_def s take_Cons')
  qed
qed

lemma no_space_append:
  assumes "r \<notin> set space_runes" and "rune_bytes r" and "no_space t"
  shows "no_space (r @ t)"
  unfolding no_space_def space_at_None
proof (intro allI impI ballI notI)
  fix i p assume i: "i \<le> length (r @ t)" and p: "p \<in> set space_runes"
    and pre: "has_prefix (drop i (r @ t)) p"
  note lead = space_rune_lead [OF p, unfolded space_lead_def]
  obtain c cs where r: "r = c # cs" using assms(2) by (cases r) (simp_all add: rune_bytes_def)
  consider "i = 0" | "0 < i" "i < length r" | "length r \<le> i" by linarith
  then show False
  proof cases
    case 1
    with pre r lead have "hd p = c" by (auto dest: has_prefix_hd)
    with lead assms(2) r have "length p = length r"
      by (auto simp: rune_bytes_def byte_in_def sequence_of_def split: if_splits)
    with pre 1 have "p = r" by (metis has_prefix_def append_eq_conv_conj drop0)
    with assms(1) p show False by simp
  next
    case 2
    then obtain j where j: "i = Suc j" "j < length cs" by (cases i) (simp_all add: r)
    with pre r lead have "hd p = cs ! j"
      by (auto simp: hd_drop_conv_nth nth_append dest!: has_prefix_hd)
    moreover have "byte_in 0x80 0xBF (cs ! j)"
      using j assms(2)
      by (auto simp: r rune_bytes_def list_all_length)
    ultimately show False using lead by simp
  next
    case 3
    with pre have "has_prefix (drop (i - length r) t) p" by simp
    moreover have "i - length r \<le> length t" using i by simp
    ultimately show False using p assms(3) by (auto simp: no_space_def space_at_None)
  qed
qed

lemma no_space_Nil [simp]: "no_space []"
  by (auto simp: no_space_def space_at_None has_prefix_def space_lead_def dest: space_rune_lead)

lemma strip_spaces_no_space: "valid_utf8 s \<Longrightarrow> no_space (strip_spaces s)"
proof (induction s rule: strip_spaces.induct)
  case (1 s)
  show ?case
  proof (cases "s = []")
    case True
    then show ?thesis by (simp add: strip_spaces.simps)
  next
    case False
    with 1 have "no_space (strip_spaces (drop (rune_width s) s))"
      by (simp add: valid_utf8.simps [of s] Let_def)
    with False 1(2) rune_shape no_space_append show ?thesis
      by (simp add: strip_spaces.simps [of s] Let_def)
  qed
qed

text \<open>A text without white space is its own single field.\<close>

lemma no_space_trim: "no_space s \<Longrightarrow> trim_left s = s"
  by (simp add: no_space_def trim_left_def trim_by_id) (metis drop0 le0 trim_by_id)

lemma no_space_fields: "no_space s \<Longrightarrow> join [] (go_fields s) = s"
  using fields_from_visible [of s "[]"] by (simp add: no_space_def go_fields_def join_empty)

text \<open>A text is not changed by trimming when its first and last bytes start and end no white space.\<close>

lemma space_runes_bytes:
  assumes "r \<in> set space_runes"
  shows "(of_char (hd r) :: nat) \<in> {9, 10, 11, 12, 13, 32, 0xC2, 0xE1, 0xE2, 0xE3} \<and>
    ((of_char (last r) :: nat) \<in> {9, 10, 11, 12, 13, 32, 0x85, 0x9F, 0xA0, 0xA8, 0xA9, 0xAF} \<or>
     0x80 \<le> (of_char (last r) :: nat) \<and> (of_char (last r) :: nat) \<le> 0x8A)"
  using assms by (auto simp: space_runes_def utf8_def take_bit_eq_mod last_map)

lemma trim_space_ends:
  assumes "s \<noteq> []" and "visible (hd s) \<or> 0xE3 < (of_char (hd s) :: nat)"
    and "visible (last s) \<or> 0x8A < (of_char (last s) :: nat) \<and> (of_char (last s) :: nat) < 0x9F"
  shows "trim_space s = s"
proof -
  have "space_at space_runes s = None"
    using assms(1,2) space_runes_ends space_runes_bytes
    by (fastforce simp: space_at_None dest!: has_prefix_hd)
  moreover have "space_at (map rev space_runes) (rev s) = None"
    using assms(1,3) space_runes_ends space_runes_bytes
    by (fastforce simp: space_at_None hd_rev dest!: has_prefix_hd)
  ultimately show ?thesis
    by (simp add: trim_space_def trim_left_def trim_right_def trim_by_id)
qed

section \<open>Letter case, prefixes and pieces\<close>

text \<open>
  \<^verbatim>\<open>strings.ToUpper\<close> and \<^verbatim>\<open>ToLower\<close>: ASCII texts byte by byte, others by the Unicode tables, which are
  the parameter.
\<close>

definition ascii_upper :: "char \<Rightarrow> char" where
  "ascii_upper c = (if byte_in 97 122 c then char_of (of_char c - 32 :: nat) else c)"

definition ascii_lower :: "char \<Rightarrow> char" where
  "ascii_lower c = (if byte_in 65 90 c then char_of (of_char c + 32 :: nat) else c)"

definition is_ascii :: "string \<Rightarrow> bool" where
  "is_ascii s \<longleftrightarrow> list_all (byte_in 0 0x7F) s"

definition to_upper :: "(string \<Rightarrow> string) \<Rightarrow> string \<Rightarrow> string" where
  "to_upper unicode s = (if is_ascii s then map ascii_upper s else unicode s)"

definition to_lower :: "(string \<Rightarrow> string) \<Rightarrow> string \<Rightarrow> string" where
  "to_lower unicode s = (if is_ascii s then map ascii_lower s else unicode s)"

definition trim_prefix :: "string \<Rightarrow> string \<Rightarrow> string" where
  "trim_prefix s p = (if has_prefix s p then drop (length p) s else s)"

text \<open>\<^verbatim>\<open>strings.Split\<close> by a separator of one byte.\<close>

fun split_on :: "char \<Rightarrow> string \<Rightarrow> string list" where
  "split_on sep [] = [[]]"
| "split_on sep (c # s) =
     (if c = sep then [] # split_on sep s
      else case split_on sep s of [] \<Rightarrow> [[c]] | piece # pieces \<Rightarrow> (c # piece) # pieces)"

lemma split_on_nonempty: "split_on sep s \<noteq> []"
  by (induction s) (auto split: list.splits)

end
