(* ===== verification/Circuit.thy ===== *)
theory Circuit
  imports GoStrings
begin

text \<open>
  The circuit breaker of \<^verbatim>\<open>querycoord/store.go\<close>: the four Lua scripts that keep one circuit in three
  Redis keys, a hash (key 1) and two sorted sets of samples (key 2) and deadlines (key 3). A
  script runs atomically at one server time \<open>now\<close> in milliseconds, so a script is a function from
  the circuit to the circuit and its reply, and a history of concurrent clients is a list of
  script calls at non-decreasing times.

  Each key has its own expiry. \<open>live now\<close> removes the keys whose expiry has passed, as the server
  does before the script reads them; a hash or sorted set without elements does not exist.
  Timestamps of completion are decimal strings that Lua compares as strings. Members of the
  sorted sets are \<open>prefix:now:sequence\<close>; \<^verbatim>\<open>tostring\<close> writes integers below \<open>10 ^ 14\<close> exactly.
\<close>

section \<open>State\<close>

record circuit_hash =
  open_until :: "int option"
  probe_token :: "string option"
  probe_until :: "int option"
  latest_success_at :: "string option"
  last_failure_at :: "string option"
  sample_sequence :: "int option"

type_synonym zset = "(string \<times> int) list"

record circuit =
  c_hash :: circuit_hash
  c_hash_expire :: "int option"
  c_samples :: zset
  c_samples_expire :: "int option"
  c_deadlines :: zset
  c_deadlines_expire :: "int option"

definition no_hash :: circuit_hash where
  "no_hash =
     \<lparr>open_until = None, probe_token = None, probe_until = None, latest_success_at = None,
      last_failure_at = None, sample_sequence = None\<rparr>"

definition no_circuit :: circuit where
  "no_circuit =
     \<lparr>c_hash = no_hash, c_hash_expire = None, c_samples = [], c_samples_expire = None,
      c_deadlines = [], c_deadlines_expire = None\<rparr>"

section \<open>Redis commands\<close>

definition expired :: "int \<Rightarrow> int option \<Rightarrow> bool" where
  "expired now e = (case e of None \<Rightarrow> False | Some t \<Rightarrow> t < now)"

definition live :: "int \<Rightarrow> circuit \<Rightarrow> circuit" where
  "live now c =
     \<lparr>c_hash = (if expired now (c_hash_expire c) then no_hash else c_hash c),
      c_hash_expire = (if expired now (c_hash_expire c) then None else c_hash_expire c),
      c_samples = (if expired now (c_samples_expire c) then [] else c_samples c),
      c_samples_expire = (if expired now (c_samples_expire c) then None else c_samples_expire c),
      c_deadlines = (if expired now (c_deadlines_expire c) then [] else c_deadlines c),
      c_deadlines_expire =
        (if expired now (c_deadlines_expire c) then None else c_deadlines_expire c)\<rparr>"

text \<open>A key that lost its last element is gone, and its expiry with it.\<close>

definition tidy :: "circuit \<Rightarrow> circuit" where
  "tidy c =
     c\<lparr>c_hash_expire := (if c_hash c = no_hash then None else c_hash_expire c),
       c_samples_expire := (if c_samples c = [] then None else c_samples_expire c),
       c_deadlines_expire := (if c_deadlines c = [] then None else c_deadlines_expire c)\<rparr>"

definition pexpire_hash :: "int \<Rightarrow> int \<Rightarrow> circuit \<Rightarrow> circuit" where
  "pexpire_hash now ttl c =
     (if c_hash c = no_hash then c
      else if ttl \<le> 0 then c\<lparr>c_hash := no_hash, c_hash_expire := None\<rparr>
      else c\<lparr>c_hash_expire := Some (now + ttl)\<rparr>)"

definition pexpire_samples :: "int \<Rightarrow> int \<Rightarrow> circuit \<Rightarrow> circuit" where
  "pexpire_samples now ttl c =
     (if c_samples c = [] then c
      else if ttl \<le> 0 then c\<lparr>c_samples := [], c_samples_expire := None\<rparr>
      else c\<lparr>c_samples_expire := Some (now + ttl)\<rparr>)"

definition pexpire_deadlines :: "int \<Rightarrow> int \<Rightarrow> circuit \<Rightarrow> circuit" where
  "pexpire_deadlines now ttl c =
     (if c_deadlines c = [] then c
      else if ttl \<le> 0 then c\<lparr>c_deadlines := [], c_deadlines_expire := None\<rparr>
      else c\<lparr>c_deadlines_expire := Some (now + ttl)\<rparr>)"

text \<open>\<^verbatim>\<open>PTTL\<close>: \<open>-2\<close> for a missing key, \<open>-1\<close> for a key without expiry.\<close>

definition pttl :: "int \<Rightarrow> bool \<Rightarrow> int option \<Rightarrow> int" where
  "pttl now present e =
     (if \<not> present then - 2 else case e of None \<Rightarrow> - 1 | Some t \<Rightarrow> t - now)"

definition hash_pttl :: "int \<Rightarrow> circuit \<Rightarrow> int" where
  "hash_pttl now c = pttl now (c_hash c \<noteq> no_hash) (c_hash_expire c)"

definition samples_pttl :: "int \<Rightarrow> circuit \<Rightarrow> int" where
  "samples_pttl now c = pttl now (c_samples c \<noteq> []) (c_samples_expire c)"

definition deadlines_pttl :: "int \<Rightarrow> circuit \<Rightarrow> int" where
  "deadlines_pttl now c = pttl now (c_deadlines c \<noteq> []) (c_deadlines_expire c)"

definition zadd :: "string \<Rightarrow> int \<Rightarrow> zset \<Rightarrow> zset" where
  "zadd member score z = filter (\<lambda>(m, _). m \<noteq> member) z @ [(member, score)]"

definition zrem_range :: "int \<Rightarrow> int \<Rightarrow> zset \<Rightarrow> zset" where
  "zrem_range lo hi z = filter (\<lambda>(_, s). \<not> (lo \<le> s \<and> s \<le> hi)) z"

definition zcount_from :: "int \<Rightarrow> zset \<Rightarrow> int" where
  "zcount_from lo z = int (length (filter (\<lambda>(_, s). lo \<le> s) z))"

definition zcard :: "zset \<Rightarrow> int" where
  "zcard z = int (length z)"

definition hset :: "(circuit_hash \<Rightarrow> circuit_hash) \<Rightarrow> circuit \<Rightarrow> circuit" where
  "hset f c = c\<lparr>c_hash := f (c_hash c)\<rparr>"

definition sample_member :: "string \<Rightarrow> int \<Rightarrow> int \<Rightarrow> string" where
  "sample_member label now seq = label @ int_text now @ '':'' @ int_text seq"

section \<open>The scripts\<close>

type_synonym reply = "int \<times> int \<times> int"

text \<open>A stored time that lies after \<open>now\<close>.\<close>

definition later :: "int \<Rightarrow> int option \<Rightarrow> int option" where
  "later now t = (case t of None \<Rightarrow> None | Some u \<Rightarrow> if now < u then Some u else None)"

definition clear_probe :: "circuit_hash \<Rightarrow> circuit_hash" where
  "clear_probe h = h\<lparr>probe_token := None, probe_until := None\<rparr>"

text \<open>\<^verbatim>\<open>circuitStateScript\<close>: the reply is (open, retry after, probe acquired).\<close>

definition circuit_state_script ::
    "int \<Rightarrow> string \<Rightarrow> int \<Rightarrow> circuit \<Rightarrow> circuit \<times> reply" where
  "circuit_state_script now token requested_probe_ttl c0 =
     (let c = live now c0; h = c_hash c in
      case later now (open_until h) of
        Some t \<Rightarrow> (c, (1, t - now, 0))
      | None \<Rightarrow>
          (case (probe_token h, later now (probe_until h)) of
             (Some p, Some u) \<Rightarrow>
               if token \<noteq> '''' \<and> p = token then (c, (0, 0, 0)) else (c, (1, u - now, 0))
           | _ \<Rightarrow>
               (let c1 = (if probe_token h \<noteq> None then tidy (hset clear_probe c) else c) in
                if open_until h \<noteq> None \<and> token \<noteq> ''''
                then
                  (let probe_ttl = max 1 requested_probe_ttl;
                       c2 = hset (\<lambda>h. h\<lparr>probe_token := Some token,
                                        probe_until := Some (now + probe_ttl)\<rparr>) c1;
                       c3 = (if hash_pttl now c2 < probe_ttl then pexpire_hash now probe_ttl c2
                             else c2)
                   in (c3, (0, 0, 1)))
                else (c1, (0, 0, 0)))))"

record deadline_policy =
  dp_minimum_samples :: int
  dp_minimum_deadlines :: int
  dp_ratio_milli :: int
  dp_hard_limit :: int
  dp_hard_window :: int
  dp_window :: int
  dp_open_duration :: int

definition open_circuit :: "int \<Rightarrow> int \<Rightarrow> int \<Rightarrow> circuit \<Rightarrow> circuit" where
  "open_circuit now open_duration ttl c =
     (let c1 = hset (\<lambda>h. clear_probe (h\<lparr>open_until := Some (now + open_duration)\<rparr>)) c;
          c2 = c1\<lparr>c_samples := [], c_samples_expire := None, c_deadlines := [],
                  c_deadlines_expire := None\<rparr>
      in pexpire_hash now ttl c2)"

definition later_text :: "string \<Rightarrow> string option \<Rightarrow> bool" where
  "later_text s stored = (case stored of None \<Rightarrow> True | Some t \<Rightarrow> t < s)"

definition threshold_reached :: "deadline_policy \<Rightarrow> int \<Rightarrow> int \<Rightarrow> int \<Rightarrow> bool" where
  "threshold_reached p samples deadlines hard_deadlines \<longleftrightarrow>
     dp_hard_limit p \<le> hard_deadlines \<or>
     (dp_minimum_samples p \<le> samples \<and> dp_minimum_deadlines p \<le> deadlines \<and>
      samples * dp_ratio_milli p \<le> deadlines * 1000)"

text \<open>The pruning and the two insertions that record one deadline in the sorted sets.\<close>

definition add_deadline :: "int \<Rightarrow> deadline_policy \<Rightarrow> circuit \<Rightarrow> circuit" where
  "add_deadline now p c =
     (let window_cutoff = now - dp_window p;
          c1 = tidy (c\<lparr>c_samples := zrem_range 0 window_cutoff (c_samples c),
                       c_deadlines := zrem_range 0 (now - max (dp_window p) (dp_hard_window p))
                                        (c_deadlines c)\<rparr>);
          seq = (case sample_sequence (c_hash c1) of None \<Rightarrow> 1 | Some n \<Rightarrow> n + 1);
          c2 = hset (\<lambda>h. h\<lparr>sample_sequence := Some seq\<rparr>) c1
      in c2\<lparr>c_samples := zadd (sample_member ''sample:'' now seq) now (c_samples c2),
            c_deadlines := zadd (sample_member ''deadline:'' now seq) now (c_deadlines c2)\<rparr>)"

text \<open>\<^verbatim>\<open>recordDeadlineScript\<close>: the reply is (open, retry after, newly opened).\<close>

definition record_deadline_script ::
    "int \<Rightarrow> deadline_policy \<Rightarrow> string \<Rightarrow> string \<Rightarrow> circuit \<Rightarrow> circuit \<times> reply" where
  "record_deadline_script now p completed_at token c0 =
     (let c = live now c0;
          h = c_hash c;
          c1 = (if later_text completed_at (last_failure_at h)
                then hset (\<lambda>h. h\<lparr>last_failure_at := Some completed_at\<rparr>) c else c)
      in case later now (open_until h) of
           Some t \<Rightarrow> (c1, (1, t - now, 0))
         | None \<Rightarrow>
             if probe_token h \<noteq> None \<and> token \<noteq> '''' \<and> probe_token h = Some token
             then (open_circuit now (dp_open_duration p) (dp_open_duration p + dp_window p) c1,
                   (1, dp_open_duration p, 1))
             else
               (let c2 = add_deadline now p c1;
                    samples = zcard (c_samples c2);
                    deadlines = zcount_from (now - dp_window p) (c_deadlines c2);
                    hard_deadlines = zcount_from (now - dp_hard_window p) (c_deadlines c2);
                    event_ttl = max (dp_window p) (dp_hard_window p) + dp_open_duration p
                in if threshold_reached p samples deadlines hard_deadlines
                   then (open_circuit now (dp_open_duration p) event_ttl c2,
                         (1, dp_open_duration p, 1))
                   else (pexpire_deadlines now event_ttl (pexpire_samples now event_ttl
                           (pexpire_hash now event_ttl
                              (hset (\<lambda>h. h\<lparr>open_until := None\<rparr>) c2))),
                         (0, 0, 0))))"

definition preserve_hash_ttl :: "int \<Rightarrow> int \<Rightarrow> circuit \<Rightarrow> circuit" where
  "preserve_hash_ttl now ttl c = (if hash_pttl now c < ttl then pexpire_hash now ttl c else c)"

definition preserve_samples_ttl :: "int \<Rightarrow> int \<Rightarrow> circuit \<Rightarrow> circuit" where
  "preserve_samples_ttl now ttl c =
     (if samples_pttl now c < ttl then pexpire_samples now ttl c else c)"

definition preserve_deadlines_ttl :: "int \<Rightarrow> int \<Rightarrow> circuit \<Rightarrow> circuit" where
  "preserve_deadlines_ttl now ttl c =
     (if deadlines_pttl now c < ttl then pexpire_deadlines now ttl c else c)"

definition record_success_sample :: "int \<Rightarrow> int \<Rightarrow> int \<Rightarrow> bool \<Rightarrow> circuit \<Rightarrow> circuit" where
  "record_success_sample now window hard_window preserve_samples c =
     (if \<not> preserve_samples then c
      else
        (let event_ttl = max window hard_window;
             c1 = tidy (c\<lparr>c_samples := zrem_range 0 (now - window) (c_samples c),
                          c_deadlines := zrem_range 0 (now - event_ttl) (c_deadlines c)\<rparr>);
             seq = (case sample_sequence (c_hash c1) of None \<Rightarrow> 1 | Some n \<Rightarrow> n + 1);
             c2 = hset (\<lambda>h. h\<lparr>sample_sequence := Some seq\<rparr>) c1;
             c3 = c2\<lparr>c_samples := zadd (sample_member ''sample:'' now seq) now (c_samples c2)\<rparr>
         in preserve_deadlines_ttl now event_ttl (preserve_samples_ttl now event_ttl
              (preserve_hash_ttl now event_ttl c3))))"

text \<open>\<^verbatim>\<open>resetCircuitScript\<close>: the reply is 1 when there was circuit state to clear.\<close>

definition reset_circuit_script ::
    "int \<Rightarrow> string \<Rightarrow> int \<Rightarrow> bool \<Rightarrow> int \<Rightarrow> string \<Rightarrow> circuit \<Rightarrow> circuit \<times> int" where
  "reset_circuit_script now completed_at window preserve_samples hard_window token c0 =
     (let c = live now c0;
          h = c_hash c;
          c1 = (if later_text completed_at (latest_success_at h)
                then hset (\<lambda>h. h\<lparr>latest_success_at := Some completed_at\<rparr>) c else c);
          probe_success = (probe_token h \<noteq> None \<and> token \<noteq> '''' \<and> probe_token h = Some token);
          out_of_order = (case last_failure_at h of None \<Rightarrow> False | Some f \<Rightarrow> completed_at < f);
          sampled = record_success_sample now window hard_window preserve_samples c1;
          had_circuit_state =
            (last_failure_at h \<noteq> None \<or> open_until h \<noteq> None \<or> probe_token h \<noteq> None);
          reply = (if had_circuit_state then 1 else 0)
      in if later now (open_until h) \<noteq> None then (sampled, 0)
         else if probe_token h \<noteq> None \<and> (token = '''' \<or> probe_token h \<noteq> Some token)
         then (sampled, 0)
         else if out_of_order then (sampled, 0)
         else if preserve_samples then
           (tidy (hset (\<lambda>h. (if probe_success then clear_probe (h\<lparr>open_until := None\<rparr>) else h)
                          \<lparr>last_failure_at := None\<rparr>) sampled), reply)
         else
           (let c2 = tidy (hset (\<lambda>h. (if probe_success then clear_probe (h\<lparr>open_until := None\<rparr>)
                                      else h)\<lparr>last_failure_at := None, sample_sequence := None\<rparr>)
                             c1)
            in (pexpire_hash now window
                  (c2\<lparr>c_samples := [], c_samples_expire := None, c_deadlines := [],
                      c_deadlines_expire := None\<rparr>), reply)))"

text \<open>\<^verbatim>\<open>releaseCircuitProbeScript\<close>.\<close>

definition release_probe_script :: "int \<Rightarrow> string \<Rightarrow> circuit \<Rightarrow> circuit \<times> int" where
  "release_probe_script now token c0 =
     (let c = live now c0
      in if probe_token (c_hash c) = Some token
         then (tidy (hset (\<lambda>h. clear_probe (h\<lparr>open_until := None\<rparr>)) c), 1)
         else (c, 0))"

section \<open>Histories\<close>

text \<open>One call of a script by some client; what the server runs at one time.\<close>

datatype circuit_call =
    StateCall string int
  | DeadlineCall deadline_policy string string
  | ResetCall string int bool int string
  | ReleaseCall string

fun run_call :: "int \<Rightarrow> circuit_call \<Rightarrow> circuit \<Rightarrow> circuit" where
  "run_call now (StateCall token ttl) c = fst (circuit_state_script now token ttl c)"
| "run_call now (DeadlineCall p completed_at token) c =
     fst (record_deadline_script now p completed_at token c)"
| "run_call now (ResetCall completed_at window preserve hard token) c =
     fst (reset_circuit_script now completed_at window preserve hard token c)"
| "run_call now (ReleaseCall token) c = fst (release_probe_script now token c)"

type_synonym history = "(int \<times> circuit_call) list"

definition run_history :: "history \<Rightarrow> circuit \<Rightarrow> circuit" where
  "run_history h c = foldl (\<lambda>c (now, call). run_call now call c) c h"

definition history_within :: "int \<Rightarrow> int \<Rightarrow> history \<Rightarrow> bool" where
  "history_within lo hi h \<longleftrightarrow> (\<forall>(t, _)\<in>set h. lo \<le> t \<and> t < hi)"

section \<open>The circuit stays open\<close>

text \<open>The fields no bookkeeping step touches: the open deadline and the probe registration.\<close>

definition protection :: "circuit \<Rightarrow> int option \<times> string option \<times> int option" where
  "protection c = (open_until (c_hash c), probe_token (c_hash c), probe_until (c_hash c))"

text \<open>The hash exists and lives at least until \<open>t\<close>.\<close>

definition lives_until :: "int \<Rightarrow> circuit \<Rightarrow> bool" where
  "lives_until t c \<longleftrightarrow> c_hash c \<noteq> no_hash \<and> (\<exists>e. c_hash_expire c = Some e \<and> t \<le> e)"

lemma hash_simps [simp]:
  "c_hash (tidy c) = c_hash c"
  "c_hash (pexpire_samples now ttl c) = c_hash c"
  "c_hash (pexpire_deadlines now ttl c) = c_hash c"
  "c_hash_expire (pexpire_samples now ttl c) = c_hash_expire c"
  "c_hash_expire (pexpire_deadlines now ttl c) = c_hash_expire c"
  "c_hash (preserve_samples_ttl now ttl c) = c_hash c"
  "c_hash (preserve_deadlines_ttl now ttl c) = c_hash c"
  "c_hash_expire (preserve_samples_ttl now ttl c) = c_hash_expire c"
  "c_hash_expire (preserve_deadlines_ttl now ttl c) = c_hash_expire c"
  "c_hash (hset f c) = f (c_hash c)"
  "c_hash_expire (hset f c) = c_hash_expire c"
  "c_hash_expire (tidy c) = (if c_hash c = no_hash then None else c_hash_expire c)"
  by (simp_all add: tidy_def pexpire_samples_def pexpire_deadlines_def preserve_samples_ttl_def
      preserve_deadlines_ttl_def hset_def)

lemma hash_nonempty [simp]:
  "h\<lparr>sample_sequence := Some n\<rparr> \<noteq> no_hash" "h\<lparr>last_failure_at := Some s\<rparr> \<noteq> no_hash"
  "h\<lparr>latest_success_at := Some s\<rparr> \<noteq> no_hash"
  "h\<lparr>probe_token := Some s, probe_until := u\<rparr> \<noteq> no_hash"
  "clear_probe (h\<lparr>open_until := Some t\<rparr>) \<noteq> no_hash"
  by (cases h; simp add: no_hash_def clear_probe_def)+


lemma clear_probe_simps [simp]:
  "open_until (clear_probe h) = open_until h" "probe_token (clear_probe h) = None"
  "probe_until (clear_probe h) = None"
  by (simp_all add: clear_probe_def)

lemma live_alive:
  assumes "lives_until t c" and "now \<le> t"
  shows "c_hash (live now c) = c_hash c" "c_hash_expire (live now c) = c_hash_expire c"
  using assms by (auto simp: lives_until_def live_def expired_def)

lemma live_protection:
  assumes "lives_until t c" and "now \<le> t"
  shows "protection (live now c) = protection c" "lives_until t (live now c)"
  using assms live_alive [OF assms] by (simp_all add: protection_def lives_until_def)


lemma preserve_hash_ttl_keeps:
  assumes "lives_until t c" and "now < t"
  shows "protection (preserve_hash_ttl now ttl c) = protection c"
    and "lives_until t (preserve_hash_ttl now ttl c)"
  using assms
  by (auto simp: preserve_hash_ttl_def pexpire_hash_def hash_pttl_def pttl_def protection_def
      lives_until_def)

lemma record_success_sample_keeps:
  assumes "lives_until t c" and "now < t"
  shows "protection (record_success_sample now w hw ps c) = protection c \<and>
     lives_until t (record_success_sample now w hw ps c)"
proof (cases ps)
  case True
  let ?c1 = "tidy (c\<lparr>c_samples := zrem_range 0 (now - w) (c_samples c),
     c_deadlines := zrem_range 0 (now - max w hw) (c_deadlines c)\<rparr>)"
  let ?seq = "case sample_sequence (c_hash ?c1) of None \<Rightarrow> 1 | Some n \<Rightarrow> n + 1"
  let ?c2 = "hset (\<lambda>h. h\<lparr>sample_sequence := Some ?seq\<rparr>) ?c1"
  let ?c3 = "?c2\<lparr>c_samples := zadd (sample_member ''sample:'' now ?seq) now (c_samples ?c2)\<rparr>"
  have "protection ?c3 = protection c" "lives_until t ?c3"
    using assms(1) by (auto simp: protection_def lives_until_def)
  with preserve_hash_ttl_keeps [of t ?c3 now "max w hw"] assms(2) True show ?thesis
    by (simp add: record_success_sample_def Let_def protection_def lives_until_def)
qed (use assms in \<open>simp add: record_success_sample_def\<close>)


lemma open_circuit_opens:
  assumes "0 < d" and "d \<le> ttl"
  shows "protection (open_circuit now d ttl c) = (Some (now + d), None, None)"
    and "lives_until (now + d) (open_circuit now d ttl c)"
  using assms
  by (auto simp: open_circuit_def Let_def protection_def lives_until_def pexpire_hash_def hset_def)

text \<open>An open circuit: the deadline is stored, no probe is registered, the hash outlives it.\<close>

definition opened_until :: "int \<Rightarrow> circuit \<Rightarrow> bool" where
  "opened_until t c \<longleftrightarrow>
     (\<exists>u. protection c = (Some t, None, u)) \<and> lives_until t c"


definition valid_policy :: "deadline_policy \<Rightarrow> bool" where
  "valid_policy p \<longleftrightarrow> 0 < dp_open_duration p \<and> 0 \<le> dp_window p \<and> 0 \<le> dp_hard_window p"

lemma opened_state_reply:
  assumes "opened_until t c" and "now < t"
  shows "snd (circuit_state_script now token ttl c) = (1, t - now, 0)"
    and "opened_until t (fst (circuit_state_script now token ttl c))"
proof -
  have l: "lives_until t c" using assms(1) by (simp add: opened_until_def)
  note a = live_alive [OF l] live_protection [OF l]
  have "open_until (c_hash (live now c)) = Some t"
    using assms a by (auto simp: opened_until_def protection_def)
  then show "snd (circuit_state_script now token ttl c) = (1, t - now, 0)"
    "opened_until t (fst (circuit_state_script now token ttl c))"
    using assms a by (auto simp: circuit_state_script_def Let_def later_def opened_until_def)
qed

lemma protection_hset [simp]:
  "protection (hset (\<lambda>h. h\<lparr>last_failure_at := x\<rparr>) c) = protection c"
  "protection (hset (\<lambda>h. h\<lparr>latest_success_at := x\<rparr>) c) = protection c"
  by (simp_all add: protection_def)

lemma lives_until_hset:
  "lives_until t c \<Longrightarrow> lives_until t (hset (\<lambda>h. h\<lparr>last_failure_at := Some x\<rparr>) c)"
  "lives_until t c \<Longrightarrow> lives_until t (hset (\<lambda>h. h\<lparr>latest_success_at := Some x\<rparr>) c)"
  by (auto simp: lives_until_def)

text \<open>The first step of a reset or deadline script on a circuit whose hash is alive.\<close>

lemma touched_keeps:
  fixes b :: bool and x :: string
  assumes "lives_until t c" and "now < t"
  defines "c1 \<equiv> (if b then hset (\<lambda>h. h\<lparr>last_failure_at := Some x\<rparr>) (live now c) else live now c)"
    and "c2 \<equiv> (if b then hset (\<lambda>h. h\<lparr>latest_success_at := Some x\<rparr>) (live now c) else live now c)"
  shows "protection c1 = protection c" "lives_until t c1"
    and "protection c2 = protection c" "lives_until t c2"
  using assms(2) live_protection [OF assms(1)] lives_until_hset
  unfolding c1_def c2_def by simp_all

lemma reset_keeps:
  assumes l: "lives_until t c" and now: "now < t"
    and early: "later now (open_until (c_hash c)) \<noteq> None \<or>
       (probe_token (c_hash c) \<noteq> None \<and> (tok = '''' \<or> probe_token (c_hash c) \<noteq> Some tok))"
  shows "protection (fst (reset_circuit_script now ca w ps hw tok c)) = protection c \<and>
     lives_until t (fst (reset_circuit_script now ca w ps hw tok c))"
proof -
  let ?c = "live now c"
  let ?c1 = "if later_text ca (latest_success_at (c_hash ?c))
    then hset (\<lambda>h. h\<lparr>latest_success_at := Some ca\<rparr>) ?c else ?c"
  have lh: "c_hash ?c = c_hash c" using live_alive [OF l] now by simp
  note c1 = touched_keeps(3,4) [OF l now, of "later_text ca (latest_success_at (c_hash ?c))" ca]
  have "fst (reset_circuit_script now ca w ps hw tok c) = record_success_sample now w hw ps ?c1"
    using early unfolding reset_circuit_script_def Let_def lh by auto
  with record_success_sample_keeps [OF c1(2) now, of w hw ps] c1(1) show ?thesis
    by simp
qed

lemma run_call_opened:
  assumes "opened_until t c" and "now < t"
  shows "opened_until t (run_call now call c)"
proof -
  from assms(1) obtain u where l: "lives_until t c" and p: "protection c = (Some t, None, u)"
    by (auto simp: opened_until_def)
  note a = live_alive [OF l] live_protection [OF l]
  have o: "open_until (c_hash (live now c)) = Some t" "probe_token (c_hash (live now c)) = None"
    "open_until (c_hash c) = Some t"
    using p a assms(2) by (auto simp: protection_def)
  show ?thesis
  proof (cases call)
    case (StateCall tok ttl)
    then show ?thesis using opened_state_reply(2) [OF assms] by simp
  next
    case (DeadlineCall pol ca tok)
    then show ?thesis
      using o p assms(2) touched_keeps(1,2) [OF l assms(2)]
      by (auto simp: record_deadline_script_def Let_def later_def opened_until_def)
  next
    case (ResetCall ca w ps hw tok)
    then show ?thesis
      using reset_keeps [OF l assms(2)] o p assms(2) by (auto simp: later_def opened_until_def)
  next
    case (ReleaseCall tok)
    then show ?thesis
      using o p a assms(2) by (auto simp: release_probe_script_def Let_def opened_until_def)
  qed
qed

lemma run_history_simps [simp]:
  "run_history [] c = c"
  "run_history ((now, call) # h) c = run_history h (run_call now call c)"
  by (simp_all add: run_history_def)

lemma run_history_invariant:
  assumes "P c" and "\<And>now call c. (now, call) \<in> set h \<Longrightarrow> P c \<Longrightarrow> P (run_call now call c)"
  shows "P (run_history h c)"
  using assms
proof (induction h arbitrary: c)
  case (Cons x h)
  obtain now call where x: "x = (now, call)" by fastforce
  have "P (run_call now call c)" using Cons.prems x by simp
  moreover have "P (run_call now call c)" if "(now, call) \<in> set h" "P c" for now call c
    using Cons.prems(2) that by simp
  ultimately show ?case unfolding x run_history_simps by (rule Cons.IH)
qed simp

lemma run_history_opened:
  assumes "opened_until t c" and "history_within lo t h"
  shows "opened_until t (run_history h c)"
proof (rule run_history_invariant [where P = "opened_until t", OF assms(1)])
  fix now call c assume "(now, call) \<in> set h" "opened_until t c"
  moreover from this(1) assms(2) have "now < t" by (auto simp: history_within_def)
  ultimately show "opened_until t (run_call now call c)" by (simp add: run_call_opened)
qed

lemma record_deadline_opened:
  assumes "valid_policy p" and "record_deadline_script now p ca tok c0 = (c, (x, r, 1))"
  shows "opened_until (now + dp_open_duration p) c \<and> x = 1 \<and> r = dp_open_duration p"
proof -
  have d: "0 < dp_open_duration p" "dp_open_duration p \<le> dp_open_duration p + dp_window p"
    "dp_open_duration p \<le> max (dp_window p) (dp_hard_window p) + dp_open_duration p"
    using assms(1) by (auto simp: valid_policy_def)
  show ?thesis
    using assms(2) open_circuit_opens [OF d(1,2)] open_circuit_opens [OF d(1,3)]
    by (auto simp: record_deadline_script_def Let_def opened_until_def
        split: option.splits if_splits)
qed

section \<open>One probe at a time\<close>











section \<open>Properties of the circuit\<close>

definition sample_policy :: deadline_policy where
  "sample_policy =
     \<lparr>dp_minimum_samples = 10, dp_minimum_deadlines = 5, dp_ratio_milli = 500, dp_hard_limit = 1,
      dp_hard_window = 10000, dp_window = 60000, dp_open_duration = 30000\<rparr>"

text \<open>
  C2: once a recorded deadline opens the circuit, every state query before the end of the open
  period is refused with exactly the remaining time, whatever queries, deadlines, successes and
  probe releases other clients run in between: nothing closes the circuit early.
\<close>

theorem circuit_stays_open:
  assumes "valid_policy p"
    and "record_deadline_script now p completed_at token c0 = (c, (x, r, 1))"
    and "history_within now (now + dp_open_duration p) h"
    and "t < now + dp_open_duration p"
  shows "snd (circuit_state_script t q ttl (run_history h c)) =
     (1, now + dp_open_duration p - t, 0)"
proof -
  have "opened_until (now + dp_open_duration p) c"
    using record_deadline_opened [OF assms(1,2)] by simp
  from run_history_opened [OF this assms(3)] show ?thesis
    by (rule opened_state_reply(1)) (rule assms(4))
qed

theorem circuit_stays_open_witness:
  "snd (circuit_state_script 20000 ''me'' 500
      (run_history [(15000, ResetCall ''9'' 60000 True 10000 ''''), (16000, ReleaseCall ''x'')]
         (fst (record_deadline_script 10000 sample_policy ''7'' '''' no_circuit)))) = (1, 20000, 0)"
proof -
  let ?h = "[(15000, ResetCall ''9'' 60000 True 10000 ''''), (16000, ReleaseCall ''x'')]"
  have d: "dp_open_duration sample_policy = 30000" "valid_policy sample_policy"
    by (simp_all add: sample_policy_def valid_policy_def)
  have "snd (snd (snd (record_deadline_script 10000 sample_policy ''7'' '''' no_circuit))) = 1"
    by code_simp
  then obtain c x r where "record_deadline_script 10000 sample_policy ''7'' '''' no_circuit =
      (c, (x, r, 1))"
    by (metis prod.collapse)
  moreover have "history_within 10000 (10000 + 30000) ?h"
    by (simp add: history_within_def)
  ultimately show ?thesis
    using circuit_stays_open [OF d(2), of 10000 "''7''" "''''" no_circuit _ _ _ ?h 20000]
    by (simp add: d)
qed


definition half_open_circuit :: circuit where
  "half_open_circuit = fst (record_deadline_script 10000 sample_policy ''7'' '''' no_circuit)"


section \<open>When a deadline opens the circuit\<close>

lemma pexpire_hash_protection:
  "0 < ttl \<Longrightarrow> protection (pexpire_hash now ttl c) = protection c"
  by (simp add: pexpire_hash_def protection_def)

lemma add_deadline_protection [simp]: "protection (add_deadline now p c) = protection c"
  by (simp add: add_deadline_def Let_def protection_def)

lemma add_deadline_touched [simp]:
  "c_samples (add_deadline now p (hset (\<lambda>h. h\<lparr>last_failure_at := x\<rparr>) c)) =
     c_samples (add_deadline now p c)"
  "c_deadlines (add_deadline now p (hset (\<lambda>h. h\<lparr>last_failure_at := x\<rparr>) c)) =
     c_deadlines (add_deadline now p c)"
  by (simp_all add: add_deadline_def Let_def tidy_def hset_def)

lemma add_deadline_recent:
  "(m, s) \<in> set (c_samples (add_deadline now p c)) \<Longrightarrow> 0 \<le> s \<Longrightarrow> 0 < dp_window p \<Longrightarrow>
     now - dp_window p < s"
  by (auto simp: add_deadline_def Let_def tidy_def hset_def zadd_def zrem_range_def)

definition counted_threshold :: "int \<Rightarrow> deadline_policy \<Rightarrow> circuit \<Rightarrow> bool" where
  "counted_threshold now p c \<longleftrightarrow>
     (let c' = add_deadline now p (live now c) in
      threshold_reached p (zcard (c_samples c')) (zcount_from (now - dp_window p) (c_deadlines c'))
        (zcount_from (now - dp_hard_window p) (c_deadlines c')))"

lemma record_deadline_closed:
  assumes "later now (open_until (c_hash (live now c))) = None"
    and "token = '''' \<or> probe_token (c_hash (live now c)) \<noteq> Some token"
    and "valid_policy p"
  shows "if counted_threshold now p c
     then snd (record_deadline_script now p ca token c) = (1, dp_open_duration p, 1) \<and>
       protection (fst (record_deadline_script now p ca token c)) =
         (Some (now + dp_open_duration p), None, None)
     else snd (record_deadline_script now p ca token c) = (0, 0, 0) \<and>
       protection (fst (record_deadline_script now p ca token c)) =
         (None, probe_token (c_hash (live now c)), probe_until (c_hash (live now c)))"
proof -
  let ?c1 = "if later_text ca (last_failure_at (c_hash (live now c)))
    then hset (\<lambda>h. h\<lparr>last_failure_at := Some ca\<rparr>) (live now c) else live now c"
  let ?c2 = "add_deadline now p ?c1"
  let ?ttl = "max (dp_window p) (dp_hard_window p) + dp_open_duration p"
  have ttl: "0 < dp_open_duration p" "dp_open_duration p \<le> ?ttl" "0 < ?ttl"
    using assms(3) by (auto simp: valid_policy_def)
  have t: "threshold_reached p (zcard (c_samples ?c2))
      (zcount_from (now - dp_window p) (c_deadlines ?c2))
      (zcount_from (now - dp_hard_window p) (c_deadlines ?c2)) = counted_threshold now p c"
    by (simp add: counted_threshold_def Let_def)
  have r: "record_deadline_script now p ca token c =
     (if counted_threshold now p c
      then (open_circuit now (dp_open_duration p) ?ttl ?c2, (1, dp_open_duration p, 1))
      else (pexpire_deadlines now ?ttl (pexpire_samples now ?ttl
              (pexpire_hash now ?ttl (hset (\<lambda>h. h\<lparr>open_until := None\<rparr>) ?c2))), (0, 0, 0)))"
    using assms(1,2) unfolding t [symmetric] record_deadline_script_def Let_def by auto
  have "protection ?c2 = protection (live now c)" by simp
  then have "protection (pexpire_hash now ?ttl (hset (\<lambda>h. h\<lparr>open_until := None\<rparr>) ?c2)) =
      (None, probe_token (c_hash (live now c)), probe_until (c_hash (live now c)))"
    unfolding pexpire_hash_protection [OF ttl(3)] by (simp add: protection_def)
  then show ?thesis
    unfolding r using open_circuit_opens(1) [OF ttl(1,2)] by (simp add: protection_def)
qed

lemma unprotected_state_reply:
  assumes "protection c = (None, None, u)"
  shows "snd (circuit_state_script now q ttl c) = (0, 0, 0)"
proof -
  have "open_until (c_hash (live now c)) = None" "probe_token (c_hash (live now c)) = None"
    using assms by (auto simp: protection_def live_def no_hash_def)
  then show ?thesis by (simp add: circuit_state_script_def Let_def later_def)
qed

text \<open>
  C4: a deadline of a caller that does not hold the probe opens a circuit that is not open exactly
  when, with old entries pruned and this one counted, the hard limit is reached or there are
  enough samples, enough deadlines and a high enough ratio; it then stays open for the whole open
  period. Every counted sample is younger than the window.
\<close>

theorem deadline_opens_at_threshold:
  assumes "later now (open_until (c_hash (live now c))) = None"
    and "token = '''' \<or> probe_token (c_hash (live now c)) \<noteq> Some token"
    and "valid_policy p" and "0 < dp_window p"
  shows "(snd (snd (snd (record_deadline_script now p ca token c))) = 1 \<longleftrightarrow>
       counted_threshold now p c) \<and>
     (counted_threshold now p c \<longrightarrow>
       opened_until (now + dp_open_duration p) (fst (record_deadline_script now p ca token c))) \<and>
     (\<forall>(m, s) \<in> set (c_samples (add_deadline now p (live now c))).
        0 \<le> s \<longrightarrow> now - dp_window p < s)"
proof -
  note r = record_deadline_closed [OF assms(1-3), of ca]
  have "opened_until (now + dp_open_duration p) (fst (record_deadline_script now p ca token c))"
    if "counted_threshold now p c"
    using r that record_deadline_opened [OF assms(3), of now ca token c]
    by (metis (full_types) prod.collapse snd_conv)
  with r show ?thesis
    using add_deadline_recent [of _ _ now p "live now c"] assms(4) by (auto split: if_splits)
qed

theorem deadline_opens_at_threshold_witness:
  "snd (snd (snd (record_deadline_script 10000 sample_policy ''7'' '''' no_circuit))) = 1"
proof -
  have "later 10000 (open_until (c_hash (live 10000 no_circuit))) = None"
    "counted_threshold 10000 sample_policy no_circuit"
    by code_simp+
  then show ?thesis
    using deadline_opens_at_threshold [of 10000 no_circuit "''''" sample_policy "''7''"]
    by (simp add: sample_policy_def valid_policy_def)
qed

text \<open>
  C9: when the open period of a circuit is over and no probe has been granted yet, a deadline of an
  older call, below the threshold, closes the circuit: from then on every query passes, so no
  single probe decides whether the provider recovered.
\<close>

theorem late_deadline_closes_half_open:
  assumes "open_until (c_hash (live now c)) = Some t" and "t \<le> now"
    and "probe_token (c_hash (live now c)) = None" and "valid_policy p"
    and "\<not> counted_threshold now p c"
  shows "snd (circuit_state_script now q ttl c) \<in> {(0, 0, 1), (0, 0, 0)} \<and>
     snd (record_deadline_script now p ca token c) = (0, 0, 0) \<and>
     snd (circuit_state_script t' q ttl (fst (record_deadline_script now p ca token c))) = (0, 0, 0)"
proof -
  have "later now (open_until (c_hash (live now c))) = None"
    using assms(1,2) by (simp add: later_def)
  with record_deadline_closed [of now c token p ca] assms(3-5) have
    "snd (record_deadline_script now p ca token c) = (0, 0, 0)"
    "protection (fst (record_deadline_script now p ca token c)) =
       (None, None, probe_until (c_hash (live now c)))"
    by simp_all
  moreover have "snd (circuit_state_script now q ttl c) \<in> {(0, 0, 1), (0, 0, 0)}"
    using assms(1-3) by (simp add: circuit_state_script_def Let_def later_def)
  ultimately show ?thesis using unprotected_state_reply by blast
qed

definition lenient_policy :: deadline_policy where
  "lenient_policy = sample_policy\<lparr>dp_hard_limit := 3\<rparr>"

theorem late_deadline_closes_half_open_witness:
  "snd (circuit_state_script 40000 ''me'' 1000 half_open_circuit) = (0, 0, 1) \<and>
   snd (circuit_state_script 40002 ''me'' 1000
     (fst (record_deadline_script 40001 lenient_policy ''8'' '''' half_open_circuit))) = (0, 0, 0)"
proof -
  have h: "open_until (c_hash (live 40001 half_open_circuit)) = Some 40000"
    "probe_token (c_hash (live 40001 half_open_circuit)) = None"
    "\<not> counted_threshold 40001 lenient_policy half_open_circuit"
    "snd (circuit_state_script 40000 ''me'' 1000 half_open_circuit) = (0, 0, 1)"
    by code_simp+
  have "valid_policy lenient_policy"
    by (simp add: lenient_policy_def sample_policy_def valid_policy_def)
  then show ?thesis
    using late_deadline_closes_half_open
      [OF h(1) _ h(2) _ h(3), where q = "''me''" and t' = 40002 and ca = "''8''"] h(4) by simp
qed

section \<open>A successful probe closes the circuit\<close>





end
