(* ===== verification/RateLimit.thy ===== *)
theory RateLimit
  imports Complex_Main Prelude
begin

text \<open>
  The distributed token bucket of \<^verbatim>\<open>querycoord/store.go\<close> (\<^verbatim>\<open>rateLimitScript\<close>), which bounds how many
  provider calls all instances may start. Lua computes with doubles: tokens are rationals and
  every arithmetic operation is followed by the rounding \<open>fl\<close>, a parameter. The bound needs only
  that its relative error is at most \<open>u\<close> (for doubles \<open>2 ^ -53\<close>); with \<open>u = 0\<close> it is the bound of
  exact arithmetic. The bucket is stored with 17 significant digits, which a double survives.
\<close>

section \<open>The script\<close>

record bucket =
  bk_tokens :: rat
  bk_updated_at :: int
  bk_expire :: int

definition live_bucket :: "int \<Rightarrow> bucket option \<Rightarrow> bucket option" where
  "live_bucket now b =
     (case b of None \<Rightarrow> None | Some x \<Rightarrow> if bk_expire x < now then None else Some x)"

definition refilled :: "(rat \<Rightarrow> rat) \<Rightarrow> int \<Rightarrow> int \<Rightarrow> int \<Rightarrow> bucket option \<Rightarrow> rat" where
  "refilled fl now rate capacity b =
     (case live_bucket now b of
        None \<Rightarrow> of_int capacity
      | Some x \<Rightarrow>
          (let elapsed = max 0 (now - bk_updated_at x)
           in min (of_int capacity)
                (fl (bk_tokens x + fl (fl (of_int elapsed * of_int rate) / 1000)))))"

definition bucket_ttl :: "(rat \<Rightarrow> rat) \<Rightarrow> int \<Rightarrow> int \<Rightarrow> int" where
  "bucket_ttl fl rate capacity =
     \<lceil>fl (fl (fl (of_int capacity / of_int rate) * 2000) + 1000)\<rceil>"

text \<open>The reply is (allowed, retry after in milliseconds).\<close>

definition rate_limit_script ::
    "(rat \<Rightarrow> rat) \<Rightarrow> int \<Rightarrow> int \<Rightarrow> int \<Rightarrow> bucket option \<Rightarrow> bucket option \<times> int \<times> int" where
  "rate_limit_script fl now rate capacity b =
     (let tokens = refilled fl now rate capacity b;
          allowed = 1 \<le> tokens;
          left = (if allowed then fl (tokens - 1) else tokens);
          retry_after = (if allowed then 0
                         else \<lceil>fl (fl (fl (1 - tokens) * 1000) / of_int rate)\<rceil>);
          ttl = bucket_ttl fl rate capacity
      in (if ttl \<le> 0 then None
          else Some \<lparr>bk_tokens = left, bk_updated_at = now, bk_expire = now + ttl\<rparr>,
          if allowed then 1 else 0, retry_after))"

text \<open>A run of the script at the given times, with the number of calls it allowed.\<close>

fun run_limiter ::
    "(rat \<Rightarrow> rat) \<Rightarrow> int \<Rightarrow> int \<Rightarrow> int list \<Rightarrow> bucket option \<Rightarrow> nat \<times> bucket option" where
  "run_limiter fl rate capacity [] b = (0, b)"
| "run_limiter fl rate capacity (t # ts) b =
     (let (b', allowed, _) = rate_limit_script fl t rate capacity b;
          (n, b'') = run_limiter fl rate capacity ts b'
      in (nat allowed + n, b''))"

section \<open>The bound\<close>

definition rounds_within :: "rat \<Rightarrow> (rat \<Rightarrow> rat) \<Rightarrow> bool" where
  "rounds_within u fl \<longleftrightarrow> 0 \<le> u \<and> u \<le> 1 / 8 \<and> (\<forall>x. \<bar>fl x - x\<bar> \<le> u * \<bar>x\<bar>)"

lemma rounds_nonneg:
  assumes "rounds_within u fl" and "0 \<le> x"
  shows "fl x \<le> x * (1 + u)" "x * (1 - u) \<le> fl x" "0 \<le> fl x"
proof -
  have "\<bar>fl x - x\<bar> \<le> u * \<bar>x\<bar>" using assms(1) unfolding rounds_within_def by blast
  then have "\<bar>fl x - x\<bar> \<le> u * x" using assms(2) by simp
  then show "fl x \<le> x * (1 + u)" "x * (1 - u) \<le> fl x" by (auto simp: algebra_simps)
  moreover have "0 \<le> x * (1 - u)" using assms by (auto simp: rounds_within_def)
  ultimately show "0 \<le> fl x" by linarith
qed

lemma rounds_lower:
  assumes "rounds_within u fl" and "0 \<le> x"
  shows "x * (7 / 8) \<le> fl x"
proof -
  have "x * (7 / 8) \<le> x * (1 - u)"
    using assms by (intro mult_left_mono) (simp_all add: rounds_within_def)
  with rounds_nonneg(2) [OF assms] show ?thesis by linarith
qed

lemma mult_excess: "(y :: rat) * k = y + y * (k - 1)"
  by (simp add: right_diff_distrib)

definition slack :: "rat \<Rightarrow> int \<Rightarrow> rat" where
  "slack u capacity = of_int capacity * ((1 + u) ^ 3 - 1 + u)"

lemma rounded_refill:
  assumes r: "rounds_within u fl" and "0 \<le> t" and "0 \<le> d"
  shows "fl (t + fl (fl d / 1000)) \<le> (t + d / 1000) * (1 + u) ^ 3"
    and "0 \<le> fl (t + fl (fl d / 1000))"
proof -
  have u: "0 \<le> u" using r by (simp add: rounds_within_def)
  have d1: "0 \<le> fl d" "fl d \<le> d * (1 + u)" using rounds_nonneg [OF r assms(3)] by simp_all
  have "0 \<le> fl d / 1000" using d1 by simp
  note d2 = rounds_nonneg [OF r this]
  have "fl d / 1000 * (1 + u) \<le> d * (1 + u) / 1000 * (1 + u)"
    using d1(2) u by (intro mult_right_mono divide_right_mono) simp_all
  with d2 have z: "0 \<le> fl (fl d / 1000)" "fl (fl d / 1000) \<le> d / 1000 * (1 + u) ^ 2"
    by (simp_all add: power2_eq_square)
  have s: "0 \<le> t + fl (fl d / 1000)" using z(1) assms(2) by simp
  note s2 = rounds_nonneg [OF r s]
  show "0 \<le> fl (t + fl (fl d / 1000))" by (rule s2(3))
  have "1 \<le> (1 + u) ^ 2" using u by (simp add: one_le_power)
  then have "t * 1 \<le> t * (1 + u) ^ 2" using assms(2) by (intro mult_left_mono) simp_all
  then have "t + fl (fl d / 1000) \<le> (t + d / 1000) * (1 + u) ^ 2"
    using z(2) by (simp add: algebra_simps)
  then have "(t + fl (fl d / 1000)) * (1 + u) \<le> (t + d / 1000) * (1 + u) ^ 2 * (1 + u)"
    using u by (intro mult_right_mono) simp_all
  with s2(1) show "fl (t + fl (fl d / 1000)) \<le> (t + d / 1000) * (1 + u) ^ 3"
    by (simp add: power3_eq_cube power2_eq_square mult.assoc)
qed

lemma capped_refill:
  assumes "rounds_within u fl" and "0 \<le> t" and "0 \<le> d" and "0 \<le> c"
  shows "min c (fl (t + fl (fl d / 1000))) \<le> t + d / 1000 + c * ((1 + u) ^ 3 - 1)"
proof (cases "t + d / 1000 \<le> c")
  case True
  have u: "0 \<le> u" using assms(1) by (simp add: rounds_within_def)
  have p: "0 \<le> (1 + u) ^ 3 - 1" using u by (simp add: one_le_power)
  have "(t + d / 1000) * (1 + u) ^ 3 = (t + d / 1000) + (t + d / 1000) * ((1 + u) ^ 3 - 1)"
    by (rule mult_excess)
  also have "\<dots> \<le> (t + d / 1000) + c * ((1 + u) ^ 3 - 1)"
    using True p by (intro add_left_mono mult_right_mono) simp_all
  finally show ?thesis using rounded_refill(1) [OF assms(1-3)] by linarith
next
  case False
  have "0 \<le> c * ((1 + u) ^ 3 - 1)"
    using assms by (intro mult_nonneg_nonneg) (simp_all add: rounds_within_def one_le_power)
  with False show ?thesis by linarith
qed

lemma ttl_arith:
  "c * (7 / 8) \<le> x \<Longrightarrow> x * 2000 * (7 / 8) \<le> y \<Longrightarrow> (y + 1000) * (7 / 8) \<le> z \<Longrightarrow> 0 < c \<Longrightarrow>
   c * 1000 < (z :: rat)"
proof -
  assume a: "c * (7 / 8) \<le> x" "x * 2000 * (7 / 8) \<le> y" "(y + 1000) * (7 / 8) \<le> z" "0 < c"
  have "7 * c \<le> 8 * x" "1750 * x \<le> y" "7 * y + 7000 \<le> 8 * z"
    using a by (simp_all add: field_simps)
  with a(4) show ?thesis by linarith
qed

lemma bucket_ttl_long:
  assumes "rounds_within u fl" and "0 < rate" and "0 < capacity"
  shows "of_int capacity * 1000 \<le> of_int (bucket_ttl fl rate capacity) * (of_int rate :: rat)"
    and "0 < bucket_ttl fl rate capacity"
proof -
  let ?c = "of_int capacity / of_int rate :: rat"
  have c: "0 < ?c" using assms by simp
  have a1: "?c * (7 / 8) \<le> fl ?c" by (rule rounds_lower [OF assms(1)]) (rule less_imp_le [OF c])
  have a2: "0 \<le> fl ?c * 2000" using a1 c by simp
  have b1: "fl ?c * 2000 * (7 / 8) \<le> fl (fl ?c * 2000)" by (rule rounds_lower [OF assms(1) a2])
  have b2: "0 \<le> fl (fl ?c * 2000) + 1000" using a2 b1 by simp
  have d1: "(fl (fl ?c * 2000) + 1000) * (7 / 8) \<le> fl (fl (fl ?c * 2000) + 1000)"
    by (rule rounds_lower [OF assms(1) b2])
  have "?c * 1000 < fl (fl (fl ?c * 2000) + 1000)" by (rule ttl_arith [OF a1 b1 d1 c])
  also have "\<dots> \<le> of_int (bucket_ttl fl rate capacity)"
    by (simp add: bucket_ttl_def le_of_int_ceiling)
  finally have t: "?c * 1000 < of_int (bucket_ttl fl rate capacity)" .
  have "?c * 1000 * of_int rate \<le> of_int (bucket_ttl fl rate capacity) * (of_int rate :: rat)"
    using t assms(2) by (intro mult_right_mono) simp_all
  then show "of_int capacity * 1000 \<le> of_int (bucket_ttl fl rate capacity) * (of_int rate :: rat)"
    using assms(2) by simp
  from c have "0 < ?c * 1000" by (rule mult_pos_pos) simp
  with t have "0 < (of_int (bucket_ttl fl rate capacity) :: rat)" by (rule less_trans [rotated])
  then show "0 < bucket_ttl fl rate capacity" by simp
qed

text \<open>What a call leaves behind: a bucket of its own time, with the tokens it may still grant.\<close>

definition bucket_at :: "(rat \<Rightarrow> rat) \<Rightarrow> int \<Rightarrow> int \<Rightarrow> int \<Rightarrow> bucket \<Rightarrow> bool" where
  "bucket_at fl rate capacity now b \<longleftrightarrow>
     bk_updated_at b = now \<and> bk_expire b = now + bucket_ttl fl rate capacity \<and>
     0 \<le> bk_tokens b"

lemma call_result:
  assumes "rounds_within u fl" and "0 < rate" and "0 < capacity"
    and "0 \<le> refilled fl t rate capacity b" and "refilled fl t rate capacity b \<le> of_int capacity"
    and "rate_limit_script fl t rate capacity b = (b', a, w)"
  obtains x where "b' = Some x" "bucket_at fl rate capacity t x" "a = 0 \<or> a = 1"
    "of_int a + bk_tokens x \<le> refilled fl t rate capacity b + of_int capacity * u"
proof -
  let ?k = "refilled fl t rate capacity b"
  have u: "0 \<le> u" using assms(1) by (simp add: rounds_within_def)
  have ttl: "0 < bucket_ttl fl rate capacity" by (rule bucket_ttl_long(2) [OF assms(1-3)])
  let ?left = "if 1 \<le> ?k then fl (?k - 1) else ?k"
  have l: "0 \<le> ?left \<and> (if 1 \<le> ?k then 1 else 0) + ?left \<le> ?k + of_int capacity * u"
  proof (cases "1 \<le> ?k")
    case True
    then have "0 \<le> ?k - 1" by simp
    note r = rounds_nonneg [OF assms(1) this]
    have "(?k - 1) * u \<le> of_int capacity * u"
      using assms(5) u by (intro mult_right_mono) simp_all
    with r True show ?thesis by (simp add: algebra_simps)
  next
    case False
    then show ?thesis using assms(3,4) u by simp
  qed
  show thesis
    using assms(6) ttl l that
    by (auto simp: rate_limit_script_def Let_def bucket_at_def split: if_splits)
qed

lemma next_refill:
  assumes "rounds_within u fl" and "0 < rate" and "0 < capacity"
    and "bucket_at fl rate capacity s x" and "s \<le> t"
  shows "0 \<le> refilled fl t rate capacity (Some x)"
    and "refilled fl t rate capacity (Some x) \<le>
       bk_tokens x + of_int rate * of_int (t - s) / 1000 + of_int capacity * ((1 + u) ^ 3 - 1)"
proof -
  have x: "bk_updated_at x = s" "bk_expire x = s + bucket_ttl fl rate capacity" "0 \<le> bk_tokens x"
    using assms(4) by (simp_all add: bucket_at_def)
  have d: "0 \<le> of_int (t - s) * (of_int rate :: rat)" using assms(2,5) by simp
  have c: "0 \<le> (of_int capacity :: rat)" using assms(3) by simp
  have e: "0 \<le> of_int capacity * ((1 + u) ^ 3 - 1)"
    using assms(1,3) by (intro mult_nonneg_nonneg) (simp_all add: rounds_within_def one_le_power)
  have "0 \<le> refilled fl t rate capacity (Some x) \<and>
     refilled fl t rate capacity (Some x) \<le>
       bk_tokens x + of_int (t - s) * of_int rate / 1000 + of_int capacity * ((1 + u) ^ 3 - 1)"
  proof (cases "bk_expire x < t")
    case True
    then have "bucket_ttl fl rate capacity \<le> t - s" using x by simp
    then have "of_int (bucket_ttl fl rate capacity) \<le> (of_int (t - s) :: rat)"
      by (simp only: of_int_le_iff)
    then have "of_int (bucket_ttl fl rate capacity) * (of_int rate :: rat) \<le>
        of_int (t - s) * of_int rate"
      by (rule mult_right_mono) (use assms(2) in simp)
    with bucket_ttl_long(1) [OF assms(1-3)]
    have "of_int capacity \<le> of_int (t - s) * (of_int rate :: rat) / 1000" by simp
    with True x(3) c e show ?thesis by (simp add: refilled_def live_bucket_def)
  next
    case False
    then have "refilled fl t rate capacity (Some x) = min (of_int capacity)
        (fl (bk_tokens x + fl (fl (of_int (t - s) * of_int rate) / 1000)))"
      using x assms(5) by (simp add: refilled_def live_bucket_def Let_def max_def)
    then show ?thesis
      using capped_refill [OF assms(1) x(3) d c] rounded_refill(2) [OF assms(1) x(3) d] c
      by simp
  qed
  then show "0 \<le> refilled fl t rate capacity (Some x)"
    "refilled fl t rate capacity (Some x) \<le>
       bk_tokens x + of_int rate * of_int (t - s) / 1000 + of_int capacity * ((1 + u) ^ 3 - 1)"
    by (simp_all add: mult.commute)
qed

lemma run_limiter_from_bucket:
  assumes "rounds_within u fl" and "0 < rate" and "0 < capacity"
    and "bucket_at fl rate capacity s x" and "sorted (s # ts)"
  shows "of_nat (fst (run_limiter fl rate capacity ts (Some x))) \<le>
     bk_tokens x + of_int rate * of_int (last (s # ts) - s) / 1000 +
       of_nat (length ts) * slack u capacity"
  using assms(4,5)
proof (induction ts arbitrary: s x)
  case Nil
  then show ?case by (simp add: bucket_at_def)
next
  case (Cons t ts)
  obtain b' a w where call: "rate_limit_script fl t rate capacity (Some x) = (b', a, w)"
    by (metis prod_cases3)
  have st: "s \<le> t" "sorted (t # ts)" using Cons.prems(2) by simp_all
  note refill = next_refill [OF assms(1-3) Cons.prems(1) st(1)]
  have cap: "refilled fl t rate capacity (Some x) \<le> of_int capacity"
    by (simp add: refilled_def Let_def split: option.splits)
  obtain y where y: "b' = Some y" "bucket_at fl rate capacity t y" "a = 0 \<or> a = 1"
    "of_int a + bk_tokens y \<le> refilled fl t rate capacity (Some x) + of_int capacity * u"
    by (rule call_result [OF assms(1-3) refill(1) cap call])
  have n: "fst (run_limiter fl rate capacity (t # ts) (Some x)) =
      nat a + fst (run_limiter fl rate capacity ts (Some y))"
    using call y(1) by (simp split: prod.splits)
  have a: "of_nat (nat a) = (of_int a :: rat)" using y(3) by auto
  have "of_int rate * of_int (last (t # ts) - t) / 1000 + of_int rate * of_int (t - s) / 1000 =
      (of_int rate * of_int (last (t # ts) - t) + of_int rate * of_int (t - s)) / (1000 :: rat)"
    by (rule add_divide_distrib [symmetric])
  also have "of_int rate * of_int (last (t # ts) - t) + of_int rate * of_int (t - s) =
      of_int rate * (of_int (last (s # t # ts) - s) :: rat)"
    by (simp add: distrib_left [symmetric] del: of_int_diff)
  finally have "of_int rate * of_int (last (t # ts) - t) / 1000 + of_int rate * of_int (t - s) / 1000 =
      of_int rate * of_int (last (s # t # ts) - s) / (1000 :: rat)" .
  moreover have "of_nat (length (t # ts)) * slack u capacity =
      of_nat (length ts) * slack u capacity + slack u capacity"
    by (simp add: algebra_simps)
  moreover have "slack u capacity = of_int capacity * ((1 + u) ^ 3 - 1) + of_int capacity * u"
    by (simp add: slack_def algebra_simps)
  ultimately show ?case
    using Cons.IH [OF y(2) st(2)] y(4) refill(2) unfolding n of_nat_add a by linarith
qed

text \<open>
  C5: in any run of the limiter at non-decreasing server times, from any stored bucket, the number
  of allowed calls is at most the burst capacity plus the rate times the elapsed seconds, plus an
  error of the double arithmetic that is proportional to the number of calls and vanishes when the
  arithmetic is exact. An expired bucket key gives nothing away.
\<close>

theorem rate_limiter_bound:
  assumes "rounds_within u fl" and "0 < rate" and "0 < capacity" and "sorted (t # ts)"
    and "case b of None \<Rightarrow> True | Some x \<Rightarrow> 0 \<le> bk_tokens x"
  shows "of_nat (fst (run_limiter fl rate capacity (t # ts) b)) \<le>
     of_int capacity + of_int rate * of_int (last (t # ts) - t) / 1000 +
       of_nat (length (t # ts)) * slack u capacity"
proof -
  obtain b' a w where call: "rate_limit_script fl t rate capacity b = (b', a, w)"
    by (metis prod_cases3)
  have c: "0 \<le> (of_int capacity :: rat)" using assms(3) by simp
  have d: "0 \<le> of_int (max 0 (t - s)) * (of_int rate :: rat)" for s
    using assms(2) by simp
  have cap: "0 \<le> refilled fl t rate capacity b \<and> refilled fl t rate capacity b \<le> of_int capacity"
    using c assms(5) rounded_refill(2) [OF assms(1) _ d]
    by (auto simp: refilled_def live_bucket_def Let_def split: option.splits)
  obtain y where y: "b' = Some y" "bucket_at fl rate capacity t y" "a = 0 \<or> a = 1"
    "of_int a + bk_tokens y \<le> refilled fl t rate capacity b + of_int capacity * u"
    using call_result [OF assms(1-3) _ _ call] cap by blast
  have n: "fst (run_limiter fl rate capacity (t # ts) b) =
      nat a + fst (run_limiter fl rate capacity ts (Some y))"
    using call y(1) by (simp split: prod.splits)
  have a: "of_nat (nat a) = (of_int a :: rat)" using y(3) by auto
  have s: "of_int capacity * u \<le> slack u capacity"
  proof -
    have "0 \<le> of_int capacity * ((1 + u) ^ 3 - 1)"
      using assms(1) c by (intro mult_nonneg_nonneg) (simp_all add: rounds_within_def one_le_power)
    then show ?thesis by (simp add: slack_def algebra_simps)
  qed
  moreover have "of_nat (length (t # ts)) * slack u capacity =
      of_nat (length ts) * slack u capacity + slack u capacity"
    by (simp add: algebra_simps)
  ultimately show ?thesis
    using run_limiter_from_bucket [OF assms(1-3) y(2) assms(4)] y(4) cap
    unfolding n of_nat_add a by linarith
qed

theorem rate_limiter_bound_witness:
  "of_nat (fst (run_limiter id 10 20 [1000, 1500, 2000] None)) \<le> (30 :: rat)"
proof -
  have "rounds_within 0 id" by (simp add: rounds_within_def)
  from rate_limiter_bound [OF this, of 10 20 1000 "[1500, 2000]" None] show ?thesis
    by (simp add: slack_def)
qed

end
