(* ===== verification/GoErrors.thy ===== *)
theory GoErrors
  imports Prelude
begin

text \<open>
  Go error values as the sources build and inspect them. An error is a tree: \<^verbatim>\<open>errors.New\<close>
  sentinels, the application error of \<^verbatim>\<open>core/apperror\<close> with its optional cause, the busy error of
  \<^verbatim>\<open>academic/application\<close>, \<^verbatim>\<open>fmt.Errorf\<close> values with one or more \<open>%w\<close> verbs and \<^verbatim>\<open>errors.Join\<close>.
  \<open>errors_is\<close> and the two \<open>errors_as\<close> functions walk that tree in Go's order (the value itself,
  then what it unwraps to, depth first and left to right). A nil error is \<open>None\<close>.
\<close>

section \<open>Error values\<close>

text \<open>
  The sentinels the sources compare with \<^verbatim>\<open>errors.Is\<close>. Those starting with \<open>V\<close> belong to
  \<^verbatim>\<open>academic_verification/application\<close>: they are values of their own, different from the ones of
  \<^verbatim>\<open>academic/application\<close> that carry the same text.
\<close>

datatype sentinel =
    ErrProviderUnavailable | ErrPeriodNotFound | ErrInvalidCredentials | ErrPasswordExpired
  | ErrChallengeRequired | ErrAccountRestricted | ErrContractChanged | ErrProviderBusy
  | ErrProviderRetryable
  | VErrInvalidCredentials | VErrPasswordExpired | VErrProviderUnavailable
  | VErrIdentityTypeAmbiguous | VErrIdentityTypeUnresolved | VErrIdentityTypeMismatch
  | VErrChallengeRequired | VErrAccountRestricted | VErrProviderRetryable
  | ErrRunAlreadyLocked | ErrEmptySnapshot | ErrRecordNotFound
  | ErrInvalidCachedSession | ErrRedirectPolicy | ErrPortalStudentMismatch
  | Canceled | DeadlineExceeded

datatype err =
    Sentinel sentinel
  | AppError int string string "err option"
    \<comment> \<open>HTTP status, public code, message, internal cause\<close>
  | ProviderBusyError duration
  | Errorf string "err list"
    \<comment> \<open>the text around the verbs, and the wrapped errors in order\<close>
  | Joined "err list"
  | Opaque string
    \<comment> \<open>\<^verbatim>\<open>errors.New\<close> of a text nothing compares with, or an error of a library\<close>

definition app_new :: "int \<Rightarrow> string \<Rightarrow> string \<Rightarrow> err" where
  "app_new status code message = AppError status code message None"

definition app_wrap :: "int \<Rightarrow> string \<Rightarrow> string \<Rightarrow> err \<Rightarrow> err" where
  "app_wrap status code message cause = AppError status code message (Some cause)"

definition wrapf :: "string \<Rightarrow> err \<Rightarrow> err" where
  "wrapf text e = Errorf text [e]"

section \<open>Inspection\<close>

fun errors_is :: "err \<Rightarrow> sentinel \<Rightarrow> bool" where
  "errors_is (Sentinel s) t = (s = t)"
| "errors_is (AppError _ _ _ None) t = False"
| "errors_is (AppError _ _ _ (Some e)) t = errors_is e t"
| "errors_is (ProviderBusyError _) t = (t = ErrProviderBusy)"
| "errors_is (Errorf _ es) t = (\<exists>e\<in>set es. errors_is e t)"
| "errors_is (Joined es) t = (\<exists>e\<in>set es. errors_is e t)"
| "errors_is (Opaque _) t = False"

fun first_some :: "'a option list \<Rightarrow> 'a option" where
  "first_some [] = None"
| "first_some (None # xs) = first_some xs"
| "first_some (Some x # xs) = Some x"

fun as_app_error :: "err \<Rightarrow> (int \<times> string \<times> string) option" where
  "as_app_error (AppError status code message _) = Some (status, code, message)"
| "as_app_error (Errorf _ es) = first_some (map as_app_error es)"
| "as_app_error (Joined es) = first_some (map as_app_error es)"
| "as_app_error _ = None"

fun as_busy_error :: "err \<Rightarrow> duration option" where
  "as_busy_error (ProviderBusyError d) = Some d"
| "as_busy_error (AppError _ _ _ (Some e)) = as_busy_error e"
| "as_busy_error (Errorf _ es) = first_some (map as_busy_error es)"
| "as_busy_error (Joined es) = first_some (map as_busy_error es)"
| "as_busy_error _ = None"

text \<open>\<^verbatim>\<open>errors.Join\<close> drops nil errors and is nil when nothing is left.\<close>

definition errors_join :: "err option list \<Rightarrow> err option" where
  "errors_join es =
     (let present = List.map_filter (\<lambda>e. e) es
      in if present = [] then None else Some (Joined present))"

definition is_err :: "err option \<Rightarrow> sentinel \<Rightarrow> bool" where
  "is_err e t = (case e of None \<Rightarrow> False | Some x \<Rightarrow> errors_is x t)"

section \<open>The errors of the academic application\<close>

text \<open>\<^verbatim>\<open>ProviderRetryAfter\<close>: the delay of the first busy error in the tree, if positive.\<close>

definition provider_retry_after :: "err option \<Rightarrow> duration option" where
  "provider_retry_after e =
     (case Option.bind e as_busy_error of
        None \<Rightarrow> None
      | Some d \<Rightarrow> if d \<le> 0 then None else Some d)"

definition new_provider_retryable_error :: "err option \<Rightarrow> err" where
  "new_provider_retryable_error cause =
     (case cause of
        None \<Rightarrow> Sentinel ErrProviderRetryable
      | Some e \<Rightarrow> Errorf '': '' [Sentinel ErrProviderRetryable, e])"

definition new_verification_retryable_error :: "err option \<Rightarrow> err" where
  "new_verification_retryable_error cause =
     (case cause of
        None \<Rightarrow> Sentinel VErrProviderRetryable
      | Some e \<Rightarrow> Errorf '': '' [Sentinel VErrProviderRetryable, e])"

section \<open>Facts\<close>

lemma errors_is_app_new [simp]: "\<not> errors_is (app_new s c m) t"
  by (simp add: app_new_def)

lemma errors_is_app_wrap [simp]: "errors_is (app_wrap s c m e) t = errors_is e t"
  by (simp add: app_wrap_def)

lemma errors_is_wrapf [simp]: "errors_is (wrapf x e) t = errors_is e t"
  by (simp add: wrapf_def)

lemma as_app_error_new [simp]:
  "as_app_error (app_new s c m) = Some (s, c, m)"
  "as_app_error (app_wrap s c m e) = Some (s, c, m)"
  by (simp_all add: app_new_def app_wrap_def)

lemma errors_join_None [simp]: "errors_join es = None \<longleftrightarrow> (\<forall>e\<in>set es. e = None)"
  by (induction es) (auto simp: errors_join_def Let_def map_filter_def split: if_splits)

lemma errors_join_is:
  "is_err (errors_join es) t \<longleftrightarrow> (\<exists>e\<in>set es. is_err e t)"
  by (induction es)
     (auto simp: is_err_def errors_join_def Let_def map_filter_def split: if_splits option.splits)

lemma is_err_None [simp]: "\<not> is_err None t"
  by (simp add: is_err_def)

lemma retryable_is_retryable:
  "errors_is (new_provider_retryable_error cause) ErrProviderRetryable"
  by (simp add: new_provider_retryable_error_def split: option.splits)

text \<open>The classification keeps what the cause was, so a timeout stays recognisable.\<close>

lemma retryable_keeps_cause:
  "errors_is (new_provider_retryable_error cause) t \<longleftrightarrow>
     t = ErrProviderRetryable \<or> is_err cause t"
  by (auto simp: new_provider_retryable_error_def is_err_def split: option.splits)

end
