(* ===== verification/AcademicDomain.thy ===== *)
theory AcademicDomain
  imports Complex_Main Prelude
begin

text \<open>
  \<^verbatim>\<open>academic/domain/models.go\<close> and the data types of \<^verbatim>\<open>academic/application/service.go\<close>: the values that
  travel between the providers, the query cache and the service. String enumerations of the
  sources are strings here too, since a provider can put any text into them; a nil pointer is
  \<open>None\<close>.
\<close>

section \<open>Floating point values\<close>

text \<open>A \<^verbatim>\<open>float64\<close> as the sources use it: stored, compared and copied.\<close>

datatype float64 = Finite rat | NaN | PosInf | NegInf

fun float_less :: "float64 \<Rightarrow> float64 \<Rightarrow> bool" where
  "float_less (Finite x) (Finite y) = (x < y)"
| "float_less NegInf (Finite _) = True"
| "float_less (Finite _) PosInf = True"
| "float_less NegInf PosInf = True"
| "float_less _ _ = False"

section \<open>Constants\<close>

definition education_level_undergraduate :: string where
  "education_level_undergraduate = ''undergraduate''"

definition education_level_graduate :: string where
  "education_level_graduate = ''graduate''"

definition unknown_education_level :: string where
  "unknown_education_level = ''unknown''"

definition grade_type_number :: string where
  "grade_type_number = ''number''"

definition grade_type_level :: string where
  "grade_type_level = ''level''"

definition grade_level_excellent :: string where
  "grade_level_excellent = utf8 [0xE4, 0xBC, 0x98, 0xE7, 0xA7, 0x80]"

definition grade_level_good :: string where
  "grade_level_good = utf8 [0xE8, 0x89, 0xAF, 0xE5, 0xA5, 0xBD]"

definition grade_level_medium :: string where
  "grade_level_medium = utf8 [0xE4, 0xB8, 0xAD, 0xE7, 0xAD, 0x89]"

definition grade_level_pass :: string where
  "grade_level_pass = utf8 [0xE5, 0x8F, 0x8A, 0xE6, 0xA0, 0xBC]"

definition grade_level_fail :: string where
  "grade_level_fail = utf8 [0xE4, 0xB8, 0x8D, 0xE5, 0x8F, 0x8A, 0xE6, 0xA0, 0xBC]"

definition grade_level_exempt :: string where
  "grade_level_exempt = utf8 [0xE5, 0x85, 0x8D, 0xE4, 0xBF, 0xAE]"

definition exam_phase_midterm :: string where
  "exam_phase_midterm = utf8 [0xE6, 0x9C, 0x9F, 0xE4, 0xB8, 0xAD]"

definition exam_phase_final :: string where
  "exam_phase_final = utf8 [0xE6, 0x9C, 0x9F, 0xE6, 0x9C, 0xAB]"

definition exam_phase_makeup :: string where
  "exam_phase_makeup = utf8 [0xE8, 0xA1, 0xA5, 0xE8, 0x80, 0x83]"

definition exam_phase_entrance :: string where
  "exam_phase_entrance = utf8 [0xE5, 0x85, 0xA5, 0xE5, 0xAD, 0xA6]"

definition course_selection_selected :: string where
  "course_selection_selected = ''selected''"

definition course_selection_pending :: string where
  "course_selection_pending = ''pending''"

definition course_selection_failed :: string where
  "course_selection_failed = ''failed''"

definition calendar_event_term_start :: string where
  "calendar_event_term_start = ''term_start''"

definition calendar_event_teaching :: string where
  "calendar_event_teaching = ''teaching''"

definition calendar_event_exam :: string where
  "calendar_event_exam = ''exam''"

definition calendar_event_holiday :: string where
  "calendar_event_holiday = ''holiday''"

definition calendar_event_makeup :: string where
  "calendar_event_makeup = ''makeup''"

definition calendar_event_registration :: string where
  "calendar_event_registration = ''registration''"

definition calendar_event_other :: string where
  "calendar_event_other = ''other''"

definition calendar_event_priority_normal :: string where
  "calendar_event_priority_normal = ''normal''"

definition calendar_event_priority_important :: string where
  "calendar_event_priority_important = ''important''"

section \<open>Academic records\<close>

record period =
  pd_id :: string
  pd_label :: string
  pd_short_label :: string
  pd_start_date :: gotime
  pd_week_count :: int
  pd_is_current :: bool

record calendar_event =
  ce_id :: string
  ce_title :: string
  ce_type :: string
  ce_start_date :: gotime
  ce_end_date :: gotime
  ce_period_id :: string
  ce_campuses :: "string list"
  ce_description :: string
  ce_homepage_recommended :: bool
  ce_priority :: string
  ce_remindable :: bool

record calendar =
  cal_education_level :: string
  cal_timezone :: string
  cal_refreshed_at :: gotime
  cal_periods :: "period list"
  cal_events :: "calendar_event list"

record course =
  co_id :: string
  co_period_id :: string
  co_course_code :: string
  co_class_num :: string
  co_name :: string
  co_teacher :: string
  co_campus :: string
  co_location :: string
  co_note :: string
  co_weekday :: int
  co_start_section :: int
  co_end_section :: int
  co_weeks :: "int list"

record course_schedule =
  cs_courses :: "course list"
  cs_schedule_note :: string

record grade =
  gr_id :: string
  gr_period_id :: string
  gr_course_code :: string
  gr_course_name :: string
  gr_course_type :: string
  gr_credit :: float64
  gr_grade_type :: string
  gr_score :: "float64 option"
  gr_grade_level :: "string option"

record exam =
  ex_id :: string
  ex_period_id :: string
  ex_course_code :: string
  ex_course_name :: string
  ex_start_at :: gotime
  ex_end_at :: gotime
  ex_campus :: string
  ex_location :: string
  ex_seat :: string
  ex_phase :: string
  ex_method :: string
  ex_materials :: string
  ex_notice :: string

record course_selection =
  sel_id :: string
  sel_period_id :: string
  sel_course_code :: string
  sel_course_name :: string
  sel_course_type :: string
  sel_credit :: float64
  sel_teacher :: string
  sel_campus :: string
  sel_location :: string
  sel_schedule :: string
  sel_capacity :: int
  sel_enrolled :: int
  sel_status :: string
  sel_selected_at :: "gotime option"
  sel_result_text :: "string option"
  sel_note :: "string option"

record course_catalog_entry =
  ent_source_key :: string
  ent_period_id :: string
  ent_opening_code :: string
  ent_course_code :: string
  ent_course_name :: string
  ent_course_type :: string
  ent_department :: string
  ent_teachers :: string
  ent_campus :: string
  ent_classes :: string
  ent_schedule :: string
  ent_location :: string
  ent_language :: string
  ent_capacity :: int
  ent_enrolled :: int
  ent_note :: string

record course_catalog_page =
  pg_entries :: "course_catalog_entry list"
  pg_page :: int
  pg_page_size :: int
  pg_total_count :: int
  pg_total_pages :: int
  pg_has_more :: bool

section \<open>Requests and results\<close>

record student_reference =
  sr_user_id :: uint64
  sr_student_no :: string
  sr_provider :: string
  sr_education_level :: string

record credential =
  cr_student_no :: string
  cr_password :: string

datatype cache_state = CacheMiss | CacheFresh | CacheStale

record cache_metadata =
  cm_cached_at :: gotime
  cm_fresh_until :: gotime
  cm_state :: cache_state

record 'v query_result =
  qr_records :: 'v
  qr_cache :: "cache_metadata option"

definition no_student :: student_reference where
  "no_student =
     \<lparr>sr_user_id = 0, sr_student_no = '''', sr_provider = '''', sr_education_level = ''''\<rparr>"

end
