(* ===== verification/QueryStore.thy ===== *)
theory QueryStore
  imports Circuit RateLimit GoErrors AcademicDomain
begin

text \<open>
  \<^verbatim>\<open>querycoord/store.go\<close>: the encrypted result cache, the leases, the failure markers and the access
  to the circuit and the rate limiter, over one Redis server shared by all instances.

  The server is a record of typed key spaces (the sources give each its own prefix). Every
  command is one step: other clients may first change the server (\<open>se_interfere\<close>), the server
  clock says \<open>se_server_ms\<close>, and the command can fail (\<open>se_fault\<close>), applied or not
  (\<open>se_applied\<close>). HMAC, AES-GCM, zstd and the JSON encoding of records and values are the
  functions of \<open>codec\<close>; \<open>codec_laws\<close> states what the sources rely on.
\<close>

section \<open>The server\<close>

record 'c redis =
  r_results :: "string \<Rightarrow> ('c \<times> int) option"
  r_indexes :: "string \<Rightarrow> (string list \<times> int option) option"
  r_leases :: "string \<Rightarrow> (string \<times> int) option"
  r_failures :: "string \<Rightarrow> (string \<times> int) option"
  r_circuits :: "string \<Rightarrow> circuit"
  r_buckets :: "string \<Rightarrow> bucket option"

definition empty_redis :: "'c redis" where
  "empty_redis =
     \<lparr>r_results = Map.empty, r_indexes = Map.empty, r_leases = Map.empty, r_failures = Map.empty,
      r_circuits = (\<lambda>_. no_circuit), r_buckets = Map.empty\<rparr>"

text \<open>\<^verbatim>\<open>GET\<close> of a key with an expiry.\<close>

definition live_get :: "int \<Rightarrow> ('a \<times> int) option \<Rightarrow> 'a option" where
  "live_get now v = (case v of None \<Rightarrow> None | Some (x, e) \<Rightarrow> if e < now then None else Some x)"

definition live_index :: "int \<Rightarrow> (string list \<times> int option) option \<Rightarrow> (string list \<times> int option) option"
where
  "live_index now v =
     (case v of None \<Rightarrow> None | Some (ks, e) \<Rightarrow> if expired now e then None else Some (ks, e))"

record 'c store_env =
  se_server_ms :: "nat \<Rightarrow> int"
  se_now :: "nat \<Rightarrow> gotime"
  se_fault :: "nat \<Rightarrow> err option"
  se_applied :: "nat \<Rightarrow> bool"
  se_interfere :: "nat \<Rightarrow> 'c redis \<Rightarrow> 'c redis"
  se_random :: "nat \<Rightarrow> err + string"
  se_round :: "rat \<Rightarrow> rat"

record 'c world =
  w_step :: nat
  w_redis :: "'c redis"

definition redis_command ::
    "('c, 'e) store_env_scheme \<Rightarrow> (int \<Rightarrow> 'c redis \<Rightarrow> 'c redis \<times> 'a) \<Rightarrow> ('c, 'x) world_scheme \<Rightarrow>
     ('c, 'x) world_scheme \<times> (err + 'a)" where
  "redis_command env f w =
     (let n = w_step w;
          r = se_interfere env n (w_redis w);
          (r', x) = f (se_server_ms env n) r
      in case se_fault env n of
           None \<Rightarrow> (w\<lparr>w_step := n + 1, w_redis := r'\<rparr>, Inr x)
         | Some e \<Rightarrow> (w\<lparr>w_step := n + 1, w_redis := (if se_applied env n then r' else r)\<rparr>, Inl e))"

definition client_now :: "('c, 'e) store_env_scheme \<Rightarrow> ('c, 'x) world_scheme \<Rightarrow> gotime" where
  "client_now env w = se_now env (w_step w)"

definition map_err :: "string \<Rightarrow> err + 'a \<Rightarrow> err + 'a" where
  "map_err text r = (case r of Inl e \<Rightarrow> Inl (wrapf text e) | Inr x \<Rightarrow> Inr x)"

section \<open>Cache records\<close>

definition cache_version_v1 :: int where "cache_version_v1 = 1"
definition cache_version_v2 :: int where "cache_version_v2 = 2"
definition cache_version :: int where "cache_version = 3"
definition cache_encoding_zstd :: string where "cache_encoding_zstd = ''zstd''"
definition max_cache_payload_size :: int where "max_cache_payload_size = 8 * 1024 * 1024"
definition key_prefix :: string where "key_prefix = ''academic-query:v1:''"

record cache_record =
  cr_version :: int
  cr_encoding :: string
  cr_cached_at :: int
  cr_fresh_until :: int
  cr_stale_until :: int
  cr_payload :: string

record cache_record_v1 =
  cr1_version :: int
  cr1_fresh_until :: int
  cr1_stale_until :: int
  cr1_payload :: string

text \<open>
  \<open>'v\<close> is the type of query results, \<open>'p\<close> of record plaintexts and \<open>'c\<close> of the stored texts.
  Encryption takes the number of the step, for the nonce it draws.
\<close>

record ('v, 'p, 'c) codec =
  cd_digest :: "string \<Rightarrow> string"
  cd_marshal :: "'v \<Rightarrow> err + string"
  cd_unmarshal :: "string \<Rightarrow> err + 'v"
  cd_compress :: "string \<Rightarrow> string"
  cd_decompress :: "string \<Rightarrow> err + string"
  cd_encode_record :: "cache_record \<Rightarrow> err + 'p"
  cd_header :: "'p \<Rightarrow> int option"
  cd_decode_v1 :: "'p \<Rightarrow> cache_record_v1 option"
  cd_decode :: "'p \<Rightarrow> cache_record option"
  cd_plain_size :: "'p \<Rightarrow> int"
  cd_encrypt :: "nat \<Rightarrow> 'p \<Rightarrow> string \<Rightarrow> err + 'c"
  cd_decrypt :: "'c \<Rightarrow> string \<Rightarrow> err + 'p"
  cd_cipher_size :: "'c \<Rightarrow> int"

section \<open>Keys\<close>

definition digest :: "('v, 'p, 'c) codec \<Rightarrow> string list \<Rightarrow> string" where
  "digest cd parts = cd_digest cd (concat (map (\<lambda>part. part @ [char_of (0 :: nat)]) parts))"

definition result_key :: "string \<Rightarrow> string" where
  "result_key d = key_prefix @ ''result:'' @ d"

definition query_lease_key :: "string \<Rightarrow> string" where
  "query_lease_key d = key_prefix @ ''lease:query:'' @ d"

definition student_lease_key :: "string \<Rightarrow> string" where
  "student_lease_key d = key_prefix @ ''lease:student:'' @ d"

definition student_index_key :: "('v, 'p, 'c) codec \<Rightarrow> string \<Rightarrow> string" where
  "student_index_key cd student_no =
     key_prefix @ ''index:student:'' @ digest cd [''student-index'', student_no]"

definition failure_key :: "string \<Rightarrow> string" where
  "failure_key d = key_prefix @ ''failure:'' @ d"

definition circuit_key :: "('v, 'p, 'c) codec \<Rightarrow> string \<Rightarrow> string \<Rightarrow> string" where
  "circuit_key cd operation education_level =
     key_prefix @ ''circuit:'' @ operation @ '':'' @ digest cd [''education-level'', education_level]"

section \<open>Failure markers\<close>

definition stale_fallback_deadline :: string where "stale_fallback_deadline = ''deadline''"
definition stale_fallback_unavailable :: string where "stale_fallback_unavailable = ''unavailable''"
definition stale_fallback_busy :: string where "stale_fallback_busy = ''busy''"
definition stale_fallback_circuit :: string where "stale_fallback_circuit = ''circuit''"

definition failed_recently ::
    "('c, 'e) store_env_scheme \<Rightarrow> string \<Rightarrow> ('c, 'x) world_scheme \<Rightarrow>
     ('c, 'x) world_scheme \<times> (err + string option)" where
  "failed_recently env key w =
     (let (w', r) = redis_command env (\<lambda>now r. (r, live_get now (r_failures r key))) w
      in (w', case map_err ''load academic query failure marker'' r of
                Inl e \<Rightarrow> Inl e
              | Inr None \<Rightarrow> Inr None
              | Inr (Some reason) \<Rightarrow>
                  Inr (Some (if reason = ''1'' then stale_fallback_busy else reason))))"

definition mark_failure ::
    "('c, 'e) store_env_scheme \<Rightarrow> string \<Rightarrow> string \<Rightarrow> duration \<Rightarrow> ('c, 'x) world_scheme \<Rightarrow>
     ('c, 'x) world_scheme \<times> (err + unit)" where
  "mark_failure env key reason ttl w =
     (let (w', r) = redis_command env
        (\<lambda>now r. (r\<lparr>r_failures := (r_failures r)(key \<mapsto> (reason, now + milliseconds ttl))\<rparr>, ())) w
      in (w', map_err ''save academic query failure marker'' r))"

section \<open>Circuit access\<close>

definition circuit_command ::
    "('c, 'e) store_env_scheme \<Rightarrow> string \<Rightarrow> (int \<Rightarrow> circuit \<Rightarrow> circuit \<times> 'a) \<Rightarrow>
     ('c, 'x) world_scheme \<Rightarrow> ('c, 'x) world_scheme \<times> (err + 'a)" where
  "circuit_command env key f w =
     redis_command env
       (\<lambda>now r. let (c, x) = f now (r_circuits r key)
                in (r\<lparr>r_circuits := (r_circuits r)(key := c)\<rparr>, x)) w"

definition circuit_open ::
    "('c, 'e) store_env_scheme \<Rightarrow> string \<Rightarrow> string \<Rightarrow> duration \<Rightarrow> ('c, 'x) world_scheme \<Rightarrow>
     ('c, 'x) world_scheme \<times> (err + bool \<times> duration \<times> bool)" where
  "circuit_open env key token probe_ttl w =
     (let (w', r) = circuit_command env key
        (\<lambda>now c. circuit_state_script now token (milliseconds probe_ttl) c) w
      in (w', case map_err ''load academic query circuit state'' r of
                Inl e \<Rightarrow> Inl e
              | Inr (open_value, retry, probe) \<Rightarrow>
                  Inr (open_value = 1, retry * millisecond, probe = 1)))"

definition record_deadline_with_policy ::
    "('c, 'e) store_env_scheme \<Rightarrow> string \<Rightarrow> int \<Rightarrow> int \<Rightarrow> rat \<Rightarrow> int \<Rightarrow> duration \<Rightarrow> duration \<Rightarrow>
     duration \<Rightarrow> gotime \<Rightarrow> string \<Rightarrow> ('c, 'x) world_scheme \<Rightarrow>
     ('c, 'x) world_scheme \<times> (err + bool \<times> duration \<times> bool)" where
  "record_deadline_with_policy env key minimum_samples minimum_deadlines ratio hard_limit hard_window
       window open_duration completed_at token w =
     (let policy =
            \<lparr>dp_minimum_samples = minimum_samples, dp_minimum_deadlines = minimum_deadlines,
             dp_ratio_milli = \<lfloor>se_round env (ratio * 1000)\<rfloor>, dp_hard_limit = hard_limit,
             dp_hard_window = milliseconds hard_window, dp_window = milliseconds window,
             dp_open_duration = milliseconds open_duration\<rparr>;
          (w', r) = circuit_command env key
            (\<lambda>now c. record_deadline_script now policy (int_text (unix_nano completed_at)) token c) w
      in (w', case map_err ''record academic query deadline'' r of
                Inl e \<Rightarrow> Inl e
              | Inr (open_value, retry, opened) \<Rightarrow>
                  Inr (open_value = 1, retry * millisecond, opened = 1)))"

definition record_deadline ::
    "('c, 'e) store_env_scheme \<Rightarrow> string \<Rightarrow> int \<Rightarrow> duration \<Rightarrow> duration \<Rightarrow> gotime \<Rightarrow> string \<Rightarrow>
     ('c, 'x) world_scheme \<Rightarrow> ('c, 'x) world_scheme \<times> (err + bool \<times> duration \<times> bool)" where
  "record_deadline env key threshold window open_duration completed_at token w =
     record_deadline_with_policy env key threshold threshold 1 threshold window window open_duration
       completed_at token w"

definition reset_circuit_with_probe_policy ::
    "('c, 'e) store_env_scheme \<Rightarrow> string \<Rightarrow> gotime \<Rightarrow> duration \<Rightarrow> bool \<Rightarrow> duration \<Rightarrow> string \<Rightarrow>
     ('c, 'x) world_scheme \<Rightarrow> ('c, 'x) world_scheme \<times> (err + bool)" where
  "reset_circuit_with_probe_policy env key completed_at window preserve hard_window token w =
     (let (w', r) = circuit_command env key
        (\<lambda>now c. reset_circuit_script now (int_text (unix_nano completed_at)) (milliseconds window)
           preserve (milliseconds hard_window) token c) w
      in (w', case map_err ''reset academic query circuit'' r of
                Inl e \<Rightarrow> Inl e | Inr deleted \<Rightarrow> Inr (0 < deleted)))"

definition reset_circuit_with_policy ::
    "('c, 'e) store_env_scheme \<Rightarrow> string \<Rightarrow> gotime \<Rightarrow> duration \<Rightarrow> bool \<Rightarrow> duration \<Rightarrow>
     ('c, 'x) world_scheme \<Rightarrow> ('c, 'x) world_scheme \<times> (err + bool)" where
  "reset_circuit_with_policy env key completed_at window preserve hard_window w =
     reset_circuit_with_probe_policy env key completed_at window preserve hard_window '''' w"

definition reset_circuit ::
    "('c, 'e) store_env_scheme \<Rightarrow> string \<Rightarrow> gotime \<Rightarrow> duration \<Rightarrow> ('c, 'x) world_scheme \<Rightarrow>
     ('c, 'x) world_scheme \<times> (err + bool)" where
  "reset_circuit env key completed_at window w =
     reset_circuit_with_policy env key completed_at window False window w"

definition release_circuit_probe ::
    "('c, 'e) store_env_scheme \<Rightarrow> string \<Rightarrow> string \<Rightarrow> ('c, 'x) world_scheme \<Rightarrow>
     ('c, 'x) world_scheme \<times> (err + unit)" where
  "release_circuit_probe env key token w =
     (if token = '''' then (w, Inr ())
      else
        (let (w', r) = circuit_command env key (\<lambda>now c. release_probe_script now token c) w
         in (w', case map_err ''release academic query circuit probe'' r of
                   Inl e \<Rightarrow> Inl e | Inr _ \<Rightarrow> Inr ())))"

section \<open>The result cache\<close>

definition delete_result ::
    "('c, 'e) store_env_scheme \<Rightarrow> string \<Rightarrow> ('c, 'x) world_scheme \<Rightarrow> ('c, 'x) world_scheme" where
  "delete_result env key w =
     fst (redis_command env (\<lambda>now r. (r\<lparr>r_results := (r_results r)(key := None)\<rparr>, ())) w)"

text \<open>What a record plaintext says: version, cached at, fresh until, stale until and payload.\<close>

type_synonym record_content = "int \<times> int \<times> int \<times> int \<times> string"

definition read_record :: "('v, 'p, 'c) codec \<Rightarrow> 'p \<Rightarrow> err + record_content" where
  "read_record cd plain =
     (let undecodable = Inl (Opaque ''decode academic query cache record'');
          corrupt = Inl (Opaque ''decompress academic query cache payload'')
      in case cd_header cd plain of
           None \<Rightarrow> undecodable
         | Some version \<Rightarrow>
             if version = cache_version_v1 then
               (case cd_decode_v1 cd plain of
                  None \<Rightarrow> undecodable
                | Some r \<Rightarrow> Inr (version, 0, cr1_fresh_until r, cr1_stale_until r, cr1_payload r))
             else if version = cache_version_v2 \<or> version = cache_version then
               (case cd_decode cd plain of
                  None \<Rightarrow> undecodable
                | Some r \<Rightarrow>
                    if cr_encoding r \<noteq> cache_encoding_zstd then undecodable
                    else
                      (case cd_decompress cd (cr_payload r) of
                         Inl e \<Rightarrow> corrupt
                       | Inr payload \<Rightarrow>
                           if max_cache_payload_size < int (length payload) then corrupt
                           else Inr (version, cr_cached_at r, cr_fresh_until r, cr_stale_until r,
                                     payload)))
             else undecodable)"

type_synonym 'v loaded = "cache_state \<times> cache_metadata option \<times> 'v option"

definition missed :: "'v loaded" where
  "missed = (CacheMiss, None, None)"

definition load_content ::
    "('v, 'p, 'c) codec \<Rightarrow> ('c, 'e) store_env_scheme \<Rightarrow> string \<Rightarrow> record_content \<Rightarrow>
     ('c, 'x) world_scheme \<Rightarrow> ('c, 'x) world_scheme \<times> (err + 'v loaded)" where
  "load_content cd env key content w =
     (let (version, cached_at, fresh_until, stale_until, payload) = content;
          now = unix_milli (client_now env w)
      in if stale_until \<le> now \<or> stale_until < fresh_until then (delete_result env key w, Inr missed)
         else if version = cache_version \<and> (cached_at \<le> 0 \<or> fresh_until < cached_at)
         then (delete_result env key w, Inr missed)
         else if max_cache_payload_size < int (length payload)
         then (w, Inl (Opaque ''academic query cache payload exceeds safe size''))
         else
           (case cd_unmarshal cd payload of
              Inl e \<Rightarrow> (delete_result env key w, Inl (wrapf ''decode academic query cache payload'' e))
            | Inr v \<Rightarrow>
                (let state = (if now < fresh_until then CacheFresh else CacheStale);
                     metadata =
                       (if version = cache_version \<and> 0 < cached_at
                        then Some \<lparr>cm_cached_at = of_unix_milli cached_at,
                                   cm_fresh_until = of_unix_milli fresh_until, cm_state = state\<rparr>
                        else None)
                 in (w, Inr (state, metadata, Some v)))))"

definition load_with_metadata ::
    "('v, 'p, 'c) codec \<Rightarrow> ('c, 'e) store_env_scheme \<Rightarrow> string \<Rightarrow> ('c, 'x) world_scheme \<Rightarrow>
     ('c, 'x) world_scheme \<times> (err + 'v loaded)" where
  "load_with_metadata cd env key w =
     (let (w1, r) = redis_command env (\<lambda>now r. (r, live_get now (r_results r key))) w
      in case r of
           Inl e \<Rightarrow> (w1, Inl (wrapf ''load academic query cache'' e))
         | Inr None \<Rightarrow> (w1, Inr missed)
         | Inr (Some encoded) \<Rightarrow>
             if max_cache_payload_size * 2 < cd_cipher_size cd encoded
             then (delete_result env key w1,
                   Inl (Opaque ''academic query cache ciphertext exceeds safe size''))
             else
               (case cd_decrypt cd encoded key of
                  Inl e \<Rightarrow> (delete_result env key w1, Inl (wrapf ''decrypt academic query cache'' e))
                | Inr plain \<Rightarrow>
                    if max_cache_payload_size * 2 < cd_plain_size cd plain
                    then (delete_result env key w1,
                          Inl (Opaque ''academic query cache record exceeds safe size''))
                    else
                      (case read_record cd plain of
                         Inl e \<Rightarrow> (delete_result env key w1, Inl e)
                       | Inr content \<Rightarrow> load_content cd env key content w1)))"

definition load ::
    "('v, 'p, 'c) codec \<Rightarrow> ('c, 'e) store_env_scheme \<Rightarrow> string \<Rightarrow> ('c, 'x) world_scheme \<Rightarrow>
     ('c, 'x) world_scheme \<times> (err + cache_state \<times> 'v option)" where
  "load cd env key w =
     (let (w', r) = load_with_metadata cd env key w
      in (w', case r of Inl e \<Rightarrow> Inl e | Inr (state, _, v) \<Rightarrow> Inr (state, v)))"

text \<open>\<^verbatim>\<open>saveCacheScript\<close>.\<close>

definition save_cache_script ::
    "string \<Rightarrow> string \<Rightarrow> 'c \<Rightarrow> int \<Rightarrow> int \<Rightarrow> 'c redis \<Rightarrow> 'c redis" where
  "save_cache_script key index text ttl now r =
     (let (members, e) = (case live_index now (r_indexes r index) of
                            None \<Rightarrow> ([], None) | Some i \<Rightarrow> i);
          members' = (if key \<in> set members then members else members @ [key]);
          index_ttl = pttl now True e;
          e' = (if index_ttl < ttl then Some (now + ttl) else e)
      in r\<lparr>r_results := (r_results r)(key \<mapsto> (text, now + ttl)),
           r_indexes := (r_indexes r)(index \<mapsto> (members', e'))\<rparr>)"

definition save ::
    "('v, 'p, 'c) codec \<Rightarrow> ('c, 'e) store_env_scheme \<Rightarrow> string \<Rightarrow> string \<Rightarrow> 'v \<Rightarrow> duration \<Rightarrow>
     duration \<Rightarrow> ('c, 'x) world_scheme \<Rightarrow> ('c, 'x) world_scheme \<times> (err + unit)" where
  "save cd env key index v fresh_ttl stale_ttl w =
     (case cd_marshal cd v of
        Inl e \<Rightarrow> (w, Inl (wrapf ''encode academic query result'' e))
      | Inr payload \<Rightarrow>
          if max_cache_payload_size < int (length payload)
          then (w, Inl (Opaque ''academic query result exceeds safe cache size''))
          else
            (let now = client_now env w;
                 record = \<lparr>cr_version = cache_version, cr_encoding = cache_encoding_zstd,
                           cr_cached_at = unix_milli now,
                           cr_fresh_until = unix_milli (now + fresh_ttl),
                           cr_stale_until = unix_milli (now + stale_ttl),
                           cr_payload = cd_compress cd payload\<rparr>
             in case cd_encode_record cd record of
                  Inl e \<Rightarrow> (w, Inl (wrapf ''encode academic query cache record'' e))
                | Inr plain \<Rightarrow>
                    (case cd_encrypt cd (w_step w) plain key of
                       Inl e \<Rightarrow> (w, Inl (wrapf ''encrypt academic query cache'' e))
                     | Inr encoded \<Rightarrow>
                         (let (w', r) = redis_command env
                            (\<lambda>now r. (save_cache_script key index encoded (milliseconds stale_ttl)
                                        now r, ())) w
                          in (w', map_err ''save academic query cache'' r)))))"

definition delete_student ::
    "('v, 'p, 'c) codec \<Rightarrow> ('c, 'e) store_env_scheme \<Rightarrow> string \<Rightarrow> ('c, 'x) world_scheme \<Rightarrow>
     ('c, 'x) world_scheme \<times> (err + unit)" where
  "delete_student cd env student_no w =
     (let index = student_index_key cd student_no;
          (w1, r) = redis_command env
            (\<lambda>now r. (r, case live_index now (r_indexes r index) of
                            None \<Rightarrow> [] | Some (ks, _) \<Rightarrow> ks)) w
      in case r of
           Inl e \<Rightarrow> (w1, Inl (wrapf ''list student academic query cache'' e))
         | Inr ks \<Rightarrow>
             (let (w2, r2) = redis_command env
                (\<lambda>now r. (r\<lparr>r_results := (\<lambda>k. if k \<in> set ks then None else r_results r k),
                            r_indexes := (r_indexes r)(index := None)\<rparr>, ())) w1
              in (w2, map_err ''delete student academic query cache'' r2)))"

section \<open>Leases\<close>

text \<open>One lease key: \<^verbatim>\<open>SET NX PX\<close> and \<^verbatim>\<open>releaseLeaseScript\<close>.\<close>

type_synonym lease = "(string \<times> int) option"

definition lease_take :: "int \<Rightarrow> string \<Rightarrow> int \<Rightarrow> lease \<Rightarrow> lease \<times> bool" where
  "lease_take now token ttl l =
     (case live_get now l of Some _ \<Rightarrow> (l, False) | None \<Rightarrow> (Some (token, now + ttl), True))"

definition lease_drop :: "int \<Rightarrow> string \<Rightarrow> lease \<Rightarrow> lease" where
  "lease_drop now token l = (if live_get now l = Some token then None else l)"

definition acquire_lease ::
    "('c, 'e) store_env_scheme \<Rightarrow> string \<Rightarrow> duration \<Rightarrow> ('c, 'x) world_scheme \<Rightarrow>
     ('c, 'x) world_scheme \<times> (err + string \<times> bool)" where
  "acquire_lease env key ttl w =
     (case se_random env (w_step w) of
        Inl e \<Rightarrow> (w, Inl (wrapf ''generate academic query lease token'' e))
      | Inr token \<Rightarrow>
          (let (w', r) = redis_command env
             (\<lambda>now r. let (l, acquired) = lease_take now token (milliseconds ttl) (r_leases r key)
                      in (r\<lparr>r_leases := (r_leases r)(key := l)\<rparr>, (token, acquired))) w
           in (w', map_err ''acquire academic query lease'' r)))"

definition release_lease ::
    "('c, 'e) store_env_scheme \<Rightarrow> string \<Rightarrow> string \<Rightarrow> ('c, 'x) world_scheme \<Rightarrow>
     ('c, 'x) world_scheme \<times> (err + unit)" where
  "release_lease env key token w =
     (if token = '''' then (w, Inr ())
      else
        (let (w', r) = redis_command env
           (\<lambda>now r. (r\<lparr>r_leases := (r_leases r)(key := lease_drop now token (r_leases r key))\<rparr>, ())) w
         in (w', map_err ''release academic query lease'' r)))"

section \<open>The global rate limit\<close>

definition allow_global ::
    "('c, 'e) store_env_scheme \<Rightarrow> string \<Rightarrow> int \<Rightarrow> int \<Rightarrow> ('c, 'x) world_scheme \<Rightarrow>
     ('c, 'x) world_scheme \<times> (err + bool \<times> duration)" where
  "allow_global env revision rate burst w =
     (let key = key_prefix @ ''global-rate:'' @ revision;
          (w', r) = redis_command env
            (\<lambda>now r. let (b, allowed, retry) =
                           rate_limit_script (se_round env) now rate burst (r_buckets r key)
                     in (r\<lparr>r_buckets := (r_buckets r)(key := b)\<rparr>, (allowed, retry))) w
      in (w', case map_err ''apply academic query global rate limit'' r of
                Inl e \<Rightarrow> Inl e
              | Inr (allowed, retry) \<Rightarrow> Inr (allowed = 1, retry * millisecond)))"

section \<open>A lease excludes\<close>

datatype lease_call = TakeCall string int | DropCall string

text \<open>
  The contract of a lease that a token takes for a time: while it is held, nobody else takes it
  and nobody else's release touches it.
\<close>

locale token_lease =
  fixes take_lease :: "int \<Rightarrow> string \<Rightarrow> int \<Rightarrow> 'l \<Rightarrow> 'l \<times> bool"
    and drop_lease :: "int \<Rightarrow> string \<Rightarrow> 'l \<Rightarrow> 'l"
    and held_until :: "string \<Rightarrow> int \<Rightarrow> 'l \<Rightarrow> bool"
  assumes take_holds: "snd (take_lease now tok ttl l) \<Longrightarrow>
      held_until tok (now + ttl) (fst (take_lease now tok ttl l))"
    and take_refused: "held_until tok u l \<Longrightarrow> now \<le> u \<Longrightarrow> take_lease now q ttl l = (l, False)"
    and drop_ignored: "held_until tok u l \<Longrightarrow> now \<le> u \<Longrightarrow> q \<noteq> tok \<Longrightarrow> drop_lease now q l = l"
begin

fun run_lease :: "(int \<times> lease_call) list \<Rightarrow> 'l \<Rightarrow> 'l \<times> bool list" where
  "run_lease [] l = (l, [])"
| "run_lease ((now, TakeCall q ttl) # h) l =
     (let (l1, ok) = take_lease now q ttl l; (l2, oks) = run_lease h l1 in (l2, ok # oks))"
| "run_lease ((now, DropCall q) # h) l = run_lease h (drop_lease now q l)"

definition others :: "string \<Rightarrow> int \<Rightarrow> (int \<times> lease_call) list \<Rightarrow> bool" where
  "others tok u h \<longleftrightarrow>
     (\<forall>(now, c)\<in>set h. now \<le> u \<and> (case c of TakeCall q _ \<Rightarrow> True | DropCall q \<Rightarrow> q \<noteq> tok))"

lemma others_refused:
  assumes "held_until tok u l" and "others tok u h"
  shows "fst (run_lease h l) = l \<and> True \<notin> set (snd (run_lease h l))"
  using assms
proof (induction h)
  case (Cons x h)
  obtain now c where x: "x = (now, c)" by fastforce
  have h: "others tok u h" "now \<le> u" using Cons.prems(2) by (auto simp: others_def x)
  note IH = Cons.IH [OF Cons.prems(1) h(1)]
  show ?case
  proof (cases c)
    case (TakeCall q ttl)
    with IH take_refused [OF Cons.prems(1) h(2), of q ttl] show ?thesis
      by (cases "run_lease h l") (simp add: x)
  next
    case (DropCall q)
    with Cons.prems(2) have "q \<noteq> tok" by (auto simp: others_def x)
    with DropCall IH drop_ignored [OF Cons.prems(1) h(2)] show ?thesis by (simp add: x)
  qed
qed simp

lemma taken_excludes:
  assumes "take_lease now tok ttl l0 = (l, True)" and "others tok (now + ttl) h"
  shows "fst (run_lease h l) = l \<and> True \<notin> set (snd (run_lease h l))"
  using assms take_holds [of now tok ttl l0] by (intro others_refused) simp_all

end

definition redis_lease_held :: "string \<Rightarrow> int \<Rightarrow> lease \<Rightarrow> bool" where
  "redis_lease_held token u l \<longleftrightarrow> l = Some (token, u)"

interpretation redis_lease: token_lease lease_take lease_drop redis_lease_held
  by unfold_locales
     (auto simp: lease_take_def lease_drop_def redis_lease_held_def live_get_def
       split: option.splits if_splits)

text \<open>
  C6: a lease taken in Redis excludes everybody else for its whole time to live: whatever the
  other clients try at server times up to its end, none of their attempts succeeds, none of their
  releases removes it, and it is still there.
\<close>

theorem lease_excludes_others:
  assumes "lease_take now tok ttl l0 = (l, True)"
    and "\<forall>(t, c)\<in>set h. t \<le> now + ttl \<and> (case c of TakeCall q _ \<Rightarrow> True | DropCall q \<Rightarrow> q \<noteq> tok)"
  shows "fst (redis_lease.run_lease h l) = Some (tok, now + ttl) \<and>
     True \<notin> set (snd (redis_lease.run_lease h l))"
proof -
  have "l = Some (tok, now + ttl)"
    using assms(1) by (auto simp: lease_take_def split: option.splits)
  with redis_lease.taken_excludes [OF assms(1), of h] assms(2) show ?thesis
    unfolding redis_lease.others_def by simp
qed

theorem lease_excludes_others_witness:
  "True \<notin> set (snd (redis_lease.run_lease [(5, TakeCall ''b'' 9), (6, DropCall ''b''), (10, TakeCall ''c'' 1)]
      (Some (''a'', 10))))"
proof -
  have "lease_take 0 ''a'' 10 None = (Some (''a'', 10), True)"
    by (simp add: lease_take_def live_get_def)
  from lease_excludes_others
    [OF this, of "[(5, TakeCall ''b'' 9), (6, DropCall ''b''), (10, TakeCall ''c'' 1)]"]
  show ?thesis by simp
qed

section \<open>Cache round trip\<close>

text \<open>
  What the sources rely on from the codecs: decoding inverts encoding, decryption with the key the
  text was encrypted for inverts encryption, and records of payloads within the limit fit the
  limits of the reader.
\<close>

definition codec_laws :: "('v, 'p, 'c) codec \<Rightarrow> bool" where
  "codec_laws cd \<longleftrightarrow>
     (\<forall>v payload. cd_marshal cd v = Inr payload \<longrightarrow> cd_unmarshal cd payload = Inr v) \<and>
     (\<forall>payload. cd_decompress cd (cd_compress cd payload) = Inr payload) \<and>
     (\<forall>r plain. cd_encode_record cd r = Inr plain \<longrightarrow>
        cd_header cd plain = Some (cr_version r) \<and> cd_decode cd plain = Some r) \<and>
     (\<forall>r plain payload. cd_encode_record cd r = Inr plain \<longrightarrow> cr_payload r = cd_compress cd payload \<longrightarrow>
        int (length payload) \<le> max_cache_payload_size \<longrightarrow>
        cd_plain_size cd plain \<le> 2 * max_cache_payload_size \<and>
        (\<forall>n k c. cd_encrypt cd n plain k = Inr c \<longrightarrow>
           cd_cipher_size cd c \<le> 2 * max_cache_payload_size)) \<and>
     (\<forall>n plain k c. cd_encrypt cd n plain k = Inr c \<longrightarrow> cd_decrypt cd c k = Inr plain)"

lemma redis_command_Inr:
  assumes "redis_command env f w = (w', Inr x)"
  shows "w_step w' = w_step w + 1"
    and "(w_redis w', x) = f (se_server_ms env (w_step w)) (se_interfere env (w_step w) (w_redis w))"
  using assms by (auto simp: redis_command_def Let_def split: prod.splits option.splits)

lemma redis_command_ok:
  assumes "se_fault env (w_step w) = None"
    and "f (se_server_ms env (w_step w)) (se_interfere env (w_step w) (w_redis w)) = (r, x)"
  shows "redis_command env f w = (w\<lparr>w_step := w_step w + 1, w_redis := r\<rparr>, Inr x)"
  using assms by (simp add: redis_command_def Let_def)

text \<open>The record \<^verbatim>\<open>save\<close> writes.\<close>

definition saved_record ::
    "('v, 'p, 'c) codec \<Rightarrow> gotime \<Rightarrow> duration \<Rightarrow> duration \<Rightarrow> string \<Rightarrow> cache_record" where
  "saved_record cd now fresh_ttl stale_ttl payload =
     \<lparr>cr_version = cache_version, cr_encoding = cache_encoding_zstd, cr_cached_at = unix_milli now,
      cr_fresh_until = unix_milli (now + fresh_ttl), cr_stale_until = unix_milli (now + stale_ttl),
      cr_payload = cd_compress cd payload\<rparr>"

lemma save_Inr:
  assumes "save cd env key index v fresh_ttl stale_ttl w = (w1, Inr ())"
  obtains payload plain encoded
  where "cd_marshal cd v = Inr payload" and "int (length payload) \<le> max_cache_payload_size"
    and "cd_encode_record cd (saved_record cd (client_now env w) fresh_ttl stale_ttl payload) =
           Inr plain"
    and "cd_encrypt cd (w_step w) plain key = Inr encoded"
    and "w_step w1 = w_step w + 1"
    and "w_redis w1 = save_cache_script key index encoded (milliseconds stale_ttl)
           (se_server_ms env (w_step w)) (se_interfere env (w_step w) (w_redis w))"
proof -
  obtain payload where p: "cd_marshal cd v = Inr payload"
    using assms by (auto simp: save_def split: sum.splits)
  let ?r = "saved_record cd (client_now env w) fresh_ttl stale_ttl payload"
  have size: "int (length payload) \<le> max_cache_payload_size"
    using assms p by (auto simp: save_def split: if_splits)
  obtain plain where e: "cd_encode_record cd ?r = Inr plain"
    using assms p size by (auto simp: save_def saved_record_def Let_def split: sum.splits if_splits)
  obtain encoded where c: "cd_encrypt cd (w_step w) plain key = Inr encoded"
    using assms p size e
    by (auto simp: save_def saved_record_def Let_def split: sum.splits if_splits)
  obtain w' q where cmd: "redis_command env (\<lambda>now r. (save_cache_script key index encoded
      (milliseconds stale_ttl) now r, ())) w = (w', q)" by fastforce
  have "w1 = w'" "q = Inr ()"
    using assms p size e c cmd
    by (auto simp: save_def saved_record_def Let_def map_err_def split: sum.splits if_splits)
  with cmd have "redis_command env (\<lambda>now r. (save_cache_script key index encoded
      (milliseconds stale_ttl) now r, ())) w = (w1, Inr ())" by simp
  from redis_command_Inr [OF this] that p size e c show thesis by auto
qed

lemma save_cache_script_result:
  "r_results (save_cache_script key index text ttl now r) =
     (r_results r)(key \<mapsto> (text, now + ttl))"
  by (simp add: save_cache_script_def Let_def split: prod.splits)

lemma load_saved:
  assumes laws: "codec_laws cd"
    and "cd_marshal cd v = Inr payload" and size: "int (length payload) \<le> max_cache_payload_size"
    and rec: "cd_encode_record cd (saved_record cd t0 fresh_ttl stale_ttl payload) = Inr plain"
    and enc: "cd_encrypt cd n plain key = Inr encoded"
    and live: "live_get (se_server_ms env (w_step w))
           (r_results (se_interfere env (w_step w) (w_redis w)) key) = Some encoded"
    and ok: "se_fault env (w_step w) = None"
  shows "load_with_metadata cd env key w =
     load_content cd env key
       (cache_version, unix_milli t0, unix_milli (t0 + fresh_ttl), unix_milli (t0 + stale_ttl), payload)
       (w\<lparr>w_step := w_step w + 1, w_redis := se_interfere env (w_step w) (w_redis w)\<rparr>)"
proof -
  let ?r = "saved_record cd t0 fresh_ttl stale_ttl payload"
  have h: "cd_header cd plain = Some (cr_version ?r)" "cd_decode cd plain = Some ?r"
    using laws rec unfolding codec_laws_def by blast+
  have z: "cd_plain_size cd plain \<le> 2 * max_cache_payload_size"
    "cd_cipher_size cd encoded \<le> 2 * max_cache_payload_size"
    using laws rec size enc unfolding codec_laws_def saved_record_def
    by (metis cache_record.select_convs(6))+
  have d: "cd_decrypt cd encoded key = Inr plain" "cd_decompress cd (cd_compress cd payload) = Inr payload"
    using laws enc unfolding codec_laws_def by blast+
  have "read_record cd plain = Inr (cache_version, unix_milli t0, unix_milli (t0 + fresh_ttl),
      unix_milli (t0 + stale_ttl), payload)"
    using h d size
    by (simp add: read_record_def saved_record_def cache_version_def cache_version_v1_def
        cache_version_v2_def)
  then show ?thesis
    using z d live ok by (simp add: load_with_metadata_def redis_command_def Let_def)
qed

text \<open>
  C7: what \<^verbatim>\<open>save\<close> stored for a key, a later \<^verbatim>\<open>load\<close> of that key returns: the same value, marked
  fresh before the fresh time is over and stale afterwards, with the time it was stored; once the
  stale time is over it is a miss and nothing of it is returned.
\<close>

theorem cache_round_trip:
  fixes w :: "('c, 'x) world_scheme"
  assumes laws: "codec_laws cd"
    and saved: "save cd env key index v fresh_ttl stale_ttl w = (w1, Inr ())"
    and kept: "r_results (se_interfere env (w_step w1) (w_redis w1)) key = r_results (w_redis w1) key"
    and ok: "se_fault env (w_step w1) = None"
    and server: "se_server_ms env (w_step w1) \<le> se_server_ms env (w_step w) + milliseconds stale_ttl"
    and ttl: "0 \<le> fresh_ttl" "fresh_ttl \<le> stale_ttl"
    and epoch: "0 < unix_milli (client_now env w)"
  shows "snd (load_with_metadata cd env key w1) =
     (let t0 = client_now env w;
          t1 = unix_milli (se_now env (w_step w1 + 1));
          state = (if t1 < unix_milli (t0 + fresh_ttl) then CacheFresh else CacheStale)
      in if unix_milli (t0 + stale_ttl) \<le> t1 then Inr missed
         else Inr (state, Some \<lparr>cm_cached_at = of_unix_milli (unix_milli t0),
                                cm_fresh_until = of_unix_milli (unix_milli (t0 + fresh_ttl)),
                                cm_state = state\<rparr>, Some v))"
proof (rule save_Inr [OF saved])
  fix payload plain encoded
  assume m: "cd_marshal cd v = Inr payload" "int (length payload) \<le> max_cache_payload_size"
    and rec: "cd_encode_record cd (saved_record cd (client_now env w) fresh_ttl stale_ttl payload) =
      Inr plain"
    and enc: "cd_encrypt cd (w_step w) plain key = Inr encoded"
    and step: "w_step w1 = w_step w + 1"
    and red: "w_redis w1 = save_cache_script key index encoded (milliseconds stale_ttl)
      (se_server_ms env (w_step w)) (se_interfere env (w_step w) (w_redis w))"
  let ?t0 = "client_now env w"
  have "live_get (se_server_ms env (w_step w1))
      (r_results (se_interfere env (w_step w1) (w_redis w1)) key) = Some encoded"
    unfolding kept unfolding red using server
    by (simp add: save_cache_script_result live_get_def)
  note l = load_saved [OF laws m rec enc this ok]
  have u: "cd_unmarshal cd payload = Inr v" using laws m unfolding codec_laws_def by blast
  have o: "unix_milli ?t0 \<le> unix_milli (?t0 + fresh_ttl)"
    "unix_milli (?t0 + fresh_ttl) \<le> unix_milli (?t0 + stale_ttl)"
    using ttl by (simp_all add: unix_milli_mono)
  have v: "cache_version = 3" by (simp add: cache_version_def)
  show ?thesis
    unfolding l using m(2) u o epoch
    by (auto simp: load_content_def Let_def client_now_def)
qed

definition sample_codec :: "(string, cache_record, cache_record \<times> string) codec" where
  "sample_codec =
     \<lparr>cd_digest = id, cd_marshal = Inr, cd_unmarshal = Inr, cd_compress = id, cd_decompress = Inr,
      cd_encode_record = Inr, cd_header = (\<lambda>r. Some (cr_version r)), cd_decode_v1 = (\<lambda>_. None),
      cd_decode = Some, cd_plain_size = (\<lambda>_. 0), cd_encrypt = (\<lambda>n r k. Inr (r, k)),
      cd_decrypt = (\<lambda>(r, k') k. if k = k' then Inr r else Inl (Opaque ''decrypt'')),
      cd_cipher_size = (\<lambda>_. 0)\<rparr>"

lemma sample_codec_laws: "codec_laws sample_codec"
  by (simp add: codec_laws_def sample_codec_def max_cache_payload_size_def)

definition quiet_env :: "'c store_env" where
  "quiet_env =
     \<lparr>se_server_ms = (\<lambda>n. 1000 + int n), se_now = (\<lambda>n. of_unix_milli (1000 + int n)),
      se_fault = (\<lambda>_. None), se_applied = (\<lambda>_. True), se_interfere = (\<lambda>_ r. r),
      se_random = (\<lambda>n. Inr (int_text (int n))), se_round = id\<rparr>"

definition quiet_world :: "'c world" where
  "quiet_world = \<lparr>w_step = 0, w_redis = empty_redis\<rparr>"

lemma quiet_env_simps [simp]:
  "se_server_ms quiet_env n = 1000 + int n" "se_now quiet_env n = of_unix_milli (1000 + int n)"
  "se_fault quiet_env n = None" "se_interfere quiet_env n r = r"
  "se_random quiet_env n = Inr (int_text (int n))" "se_round quiet_env = id"
  by (simp_all add: quiet_env_def)

theorem cache_round_trip_witness:
  "snd (load_with_metadata sample_codec quiet_env ''k''
      (fst (save sample_codec quiet_env ''k'' ''i'' ''rows'' minute hour quiet_world))) =
   Inr (CacheFresh, Some \<lparr>cm_cached_at = of_unix_milli 1000, cm_fresh_until = of_unix_milli 61000,
          cm_state = CacheFresh\<rparr>, Some ''rows'')"
proof -
  let ?s = "save sample_codec quiet_env ''k'' ''i'' ''rows'' minute hour quiet_world"
  have ok: "snd ?s = Inr ()" and step: "w_step (fst ?s) = 1"
    by (simp_all add: save_def sample_codec_def quiet_world_def redis_command_def
        Let_def client_now_def map_err_def max_cache_payload_size_def)
  then have s: "?s = (fst ?s, Inr ())" by (metis prod.collapse)
  have h: "of_unix_milli 1000 + minute = of_unix_milli 61000"
    "of_unix_milli 1000 + hour = of_unix_milli 3601000" "milliseconds hour = 3600000"
    by (simp_all add: of_unix_milli_def duration_defs milliseconds_def trunc_div_def)
  have t: "client_now quiet_env quiet_world = of_unix_milli 1000"
    by (simp add: client_now_def quiet_world_def)
  have d: "0 \<le> minute" "minute \<le> hour" "w_step quiet_world = 0"
    by (simp_all add: duration_defs quiet_world_def)
  show ?thesis
    using cache_round_trip [OF sample_codec_laws s]
    by (simp add: step t h d Let_def)
qed

section \<open>Revocation of a student\<close>

text \<open>
  \<open>owner\<close> gives the index key of the student whose result a key holds. The index covers the
  results when every live result is a member of its live index and the index outlives it.
\<close>

definition index_covers :: "(string \<Rightarrow> string) \<Rightarrow> int \<Rightarrow> 'c redis \<Rightarrow> bool" where
  "index_covers owner now r \<longleftrightarrow>
     (\<forall>key text e. r_results r key = Some (text, e) \<longrightarrow> now \<le> e \<longrightarrow>
        (\<exists>members x. r_indexes r (owner key) = Some (members, Some x) \<and> key \<in> set members \<and>
           e \<le> x))"

text \<open>
  What the instances do to the cache: save a result under its owner's index, drop a result (the
  reader does when it cannot use it), revoke a student (with its keys read while the student lease
  kept others from saving), or anything that touches neither results nor indexes.
\<close>

inductive cache_step :: "(string \<Rightarrow> string) \<Rightarrow> int \<times> 'c redis \<Rightarrow> int \<times> 'c redis \<Rightarrow> bool"
  for owner :: "string \<Rightarrow> string" where
  saved: "t \<le> t' \<Longrightarrow> cache_step owner (t, r) (t', save_cache_script key (owner key) text ttl t' r)"
| dropped: "t \<le> t' \<Longrightarrow>
    cache_step owner (t, r) (t', r\<lparr>r_results := (r_results r)(key := None)\<rparr>)"
| revoked: "t \<le> t' \<Longrightarrow>
    ks = (case live_index t' (r_indexes r index) of None \<Rightarrow> [] | Some (ks, _) \<Rightarrow> ks) \<Longrightarrow>
    cache_step owner (t, r)
      (t', r\<lparr>r_results := (\<lambda>k. if k \<in> set ks then None else r_results r k),
             r_indexes := (r_indexes r)(index := None)\<rparr>)"
| other: "t \<le> t' \<Longrightarrow> r_results r' = r_results r \<Longrightarrow> r_indexes r' = r_indexes r \<Longrightarrow>
    cache_step owner (t, r) (t', r')"

lemma index_covers_later:
  "index_covers owner t r \<Longrightarrow> t \<le> t' \<Longrightarrow> index_covers owner t' r"
  unfolding index_covers_def using order_trans by blast

lemma save_cache_script_index:
  "r_indexes (save_cache_script key index text ttl now r) index =
     (case live_index now (r_indexes r index) of
        None \<Rightarrow> Some ([key], if - 1 < ttl then Some (now + ttl) else None)
      | Some (ms, e) \<Rightarrow>
          Some (if key \<in> set ms then ms else ms @ [key],
                if pttl now True e < ttl then Some (now + ttl) else e))"
  "j \<noteq> index \<Longrightarrow> r_indexes (save_cache_script key index text ttl now r) j = r_indexes r j"
  by (auto simp: save_cache_script_def Let_def pttl_def split: option.splits prod.splits)

lemma covers_live_index:
  assumes "index_covers owner now r" and "r_results r key = Some (text, e)" and "now \<le> e"
  shows "\<exists>members x. live_index now (r_indexes r (owner key)) = Some (members, Some x) \<and>
     key \<in> set members \<and> e \<le> x"
  using assms unfolding index_covers_def live_index_def expired_def
  by (fastforce split: option.splits)

lemma save_covers:
  assumes "index_covers owner now r"
  shows "index_covers owner now (save_cache_script key (owner key) text ttl now r)"
  unfolding index_covers_def
proof (intro allI impI)
  let ?r = "save_cache_script key (owner key) text ttl now r"
  fix k tx e assume k: "r_results ?r k = Some (tx, e)" "now \<le> e"
  show "\<exists>members x. r_indexes ?r (owner k) = Some (members, Some x) \<and> k \<in> set members \<and> e \<le> x"
  proof (cases "k = key")
    case True
    with k have "e = now + ttl" by (simp add: save_cache_script_result)
    then show ?thesis
      using True k(2) by (auto simp: save_cache_script_index(1) pttl_def split: option.splits)
  next
    case False
    with k have rk: "r_results r k = Some (tx, e)" by (simp add: save_cache_script_result)
    show ?thesis
    proof (cases "owner k = owner key")
      case True
      from covers_live_index [OF assms rk k(2)] obtain ms x where
        "live_index now (r_indexes r (owner key)) = Some (ms, Some x)" "k \<in> set ms" "e \<le> x"
        using True by auto
      then show ?thesis
        using True k(2) by (auto simp: save_cache_script_index(1) pttl_def split: option.splits)
    next
      case False
      then show ?thesis
        using assms rk k(2) unfolding save_cache_script_index(2) [OF False] index_covers_def
        by blast
    qed
  qed
qed

lemma drop_covers:
  "index_covers owner now r \<Longrightarrow> index_covers owner now (r\<lparr>r_results := (r_results r)(key := None)\<rparr>)"
  by (simp add: index_covers_def)

lemma revoke_covers:
  assumes "index_covers owner now r"
    and "\<forall>key text e. owner key = index \<longrightarrow> r_results r key = Some (text, e) \<longrightarrow> now \<le> e \<longrightarrow>
           key \<in> set ks"
  shows "index_covers owner now
     (r\<lparr>r_results := (\<lambda>k. if k \<in> set ks then None else r_results r k),
        r_indexes := (r_indexes r)(index := None)\<rparr>)"
  using assms unfolding index_covers_def by auto

lemma index_members_cover:
  assumes "index_covers owner now r" and "owner key = index" and "r_results r key = Some (text, e)"
    and "now \<le> e"
  shows "key \<in> set (case live_index now (r_indexes r index) of None \<Rightarrow> [] | Some (ks, _) \<Rightarrow> ks)"
  using covers_live_index [OF assms(1,3,4)] assms(2) by auto

lemma cache_step_covers:
  assumes "cache_step owner x y" and "index_covers owner (fst x) (snd x)"
  shows "index_covers owner (fst y) (snd y)"
  using assms
proof (induction rule: cache_step.induct)
  case (saved t t' r key tx ttl)
  then show ?case using save_covers [OF index_covers_later [of owner t r t']] by simp
next
  case (dropped t t' r key)
  then show ?case using drop_covers [OF index_covers_later [of owner t r t']] by simp
next
  case (revoked t t' ks r index)
  then have c: "index_covers owner t' r" using index_covers_later [of owner t r t'] by simp
  show ?case
    unfolding fst_conv snd_conv
    by (rule revoke_covers [OF c]) (use index_members_cover [OF c] revoked(2) in blast)
next
  case (other t t' r' r)
  then show ?case
    using index_covers_later [of owner t r t'] by (simp add: index_covers_def)
qed

lemma cache_steps_cover:
  assumes "(cache_step owner)\<^sup>*\<^sup>* x y" and "index_covers owner (fst x) (snd x)"
  shows "index_covers owner (fst y) (snd y)"
  using assms by (induction rule: rtranclp_induct) (auto dest: cache_step_covers)

lemma empty_covers: "index_covers owner t empty_redis"
  by (simp add: index_covers_def empty_redis_def)

text \<open>
  C8: revoking a student leaves none of the student's results readable. The server was reached by
  saves, drops, expiry and earlier revocations in any order; while the two commands of
  \<^verbatim>\<open>deleteStudent\<close> run, other clients do not add results of that student (the student lease keeps
  them out) but may do anything else.
\<close>

theorem revocation_is_complete:
  fixes w :: "('c, 'x) world_scheme"
  assumes history: "(cache_step owner)\<^sup>*\<^sup>* (t0, empty_redis)
      (se_server_ms env (w_step w), se_interfere env (w_step w) (w_redis w))"
    and quiet: "\<And>key r. owner key = student_index_key cd student_no \<Longrightarrow>
      r_results (se_interfere env (w_step w + 1) r) key \<in> {None, r_results r key}"
    and finished: "delete_student cd env student_no w = (w', Inr ())"
    and owned: "owner key = student_index_key cd student_no" and later: "se_server_ms env (w_step w) \<le> t"
  shows "live_get t (r_results (w_redis w') key) = None"
proof -
  let ?index = "student_index_key cd student_no"
  let ?now = "se_server_ms env (w_step w)"
  let ?r = "se_interfere env (w_step w) (w_redis w)"
  define ks where "ks = (case live_index ?now (r_indexes ?r ?index) of
     None \<Rightarrow> [] | Some (ks, _) \<Rightarrow> ks)"
  let ?w1 = "w\<lparr>w_step := w_step w + 1, w_redis := ?r\<rparr>"
  have ok: "se_fault env (w_step w) = None"
    using finished by (auto simp: delete_student_def redis_command_def Let_def split: option.splits)
  have covers: "index_covers owner ?now ?r"
    using cache_steps_cover [OF history] by (simp add: empty_covers)
  obtain w2 q where second: "redis_command env
      (\<lambda>now r. (r\<lparr>r_results := (\<lambda>k. if k \<in> set ks then None else r_results r k),
                  r_indexes := (r_indexes r)(?index := None)\<rparr>, ())) ?w1 = (w2, q)" by fastforce
  have "w' = w2" "q = Inr ()"
    using finished ok second
    by (auto simp: delete_student_def redis_command_def [of env _ w] Let_def map_err_def ks_def
        split: sum.splits)
  with second have second': "redis_command env
      (\<lambda>now r. (r\<lparr>r_results := (\<lambda>k. if k \<in> set ks then None else r_results r k),
                  r_indexes := (r_indexes r)(?index := None)\<rparr>, ())) ?w1 = (w', Inr ())"
    by (simp only:)
  from redis_command_Inr(2) [OF second']
  have r': "w_redis w' = (se_interfere env (w_step w + 1) ?r)
      \<lparr>r_results := (\<lambda>k. if k \<in> set ks then None
                          else r_results (se_interfere env (w_step w + 1) ?r) k),
       r_indexes := (r_indexes (se_interfere env (w_step w + 1) ?r))(?index := None)\<rparr>"
    by (simp cong: if_cong)
  show ?thesis
  proof (cases "r_results (w_redis w') key")
    case (Some x)
    obtain tx e where x: "x = (tx, e)" by fastforce
    from Some have n: "key \<notin> set ks" "r_results ?r key = Some (tx, e)"
      using quiet [OF owned, of ?r] by (auto simp: r' x split: if_splits)
    with index_members_cover [OF covers owned n(2)] have "e < ?now" by (fastforce simp: ks_def)
    with later Some x show ?thesis by (simp add: live_get_def)
  qed (simp add: live_get_def)
qed

definition saved_text :: "cache_record \<times> string" where
  "saved_text = (saved_record sample_codec 0 minute hour ''rows'', ''r1'')"

definition saved_redis :: "(cache_record \<times> string) redis" where
  "saved_redis = save_cache_script ''r1'' (student_index_key sample_codec ''s1'') saved_text 5000 900
     empty_redis"

theorem revocation_is_complete_witness:
  "live_get 2000 (r_results saved_redis ''r1'') = Some saved_text \<and>
   live_get 2000 (r_results (w_redis (fst (delete_student sample_codec quiet_env ''s1''
     \<lparr>w_step = 0, w_redis = saved_redis\<rparr>))) ''r1'') = None"
proof -
  let ?w = "\<lparr>w_step = 0, w_redis = saved_redis\<rparr>"
  let ?owner = "\<lambda>_. student_index_key sample_codec ''s1''"
  have "cache_step ?owner (900, empty_redis) (900, saved_redis)"
    unfolding saved_redis_def by (rule cache_step.saved) simp
  moreover have "cache_step ?owner (900, saved_redis) (1000, saved_redis)"
    by (rule cache_step.other) simp_all
  ultimately have "(cache_step ?owner)\<^sup>*\<^sup>* (900, empty_redis)
      (se_server_ms quiet_env (w_step ?w), se_interfere quiet_env (w_step ?w) (w_redis ?w))"
    by simp
  moreover have "delete_student sample_codec quiet_env ''s1'' ?w =
      (fst (delete_student sample_codec quiet_env ''s1'' ?w), Inr ())"
    by (simp add: delete_student_def redis_command_def map_err_def Let_def)
  moreover have "live_get 2000 (r_results saved_redis ''r1'') = Some saved_text"
    by (simp add: saved_redis_def save_cache_script_result live_get_def)
  ultimately show ?thesis
    using revocation_is_complete [of ?owner 900 quiet_env ?w sample_codec "''s1''"] by simp
qed

section \<open>What the operations leave alone\<close>

text \<open>
  An operation of the store changes the server and moves the step counter on; the fields other
  components add to the world stay as they are.
\<close>

definition store_frame :: "('c, 'x) world_scheme \<Rightarrow> ('c, 'x) world_scheme \<Rightarrow> bool" where
  "store_frame w w' \<longleftrightarrow> world.more w' = world.more w \<and> w_step w \<le> w_step w'"

lemma store_frame_refl [simp]: "store_frame w w"
  by (simp add: store_frame_def)

lemma store_frame_trans: "store_frame w w1 \<Longrightarrow> store_frame w1 w2 \<Longrightarrow> store_frame w w2"
  by (simp add: store_frame_def)

lemma redis_command_frame [frame_simps]: "store_frame w (fst (redis_command env f w))"
  by (simp add: store_frame_def redis_command_def Let_def split: prod.splits option.splits)

lemma redis_command_framed: "redis_command env f w = (w', r) \<Longrightarrow> store_frame w w'"
  using redis_command_frame [of w env f] by simp

lemma mark_failure_frame [frame_simps]: "store_frame w (fst (mark_failure env key reason ttl w))"
  by (auto simp: mark_failure_def dest: redis_command_framed split: prod.splits)

lemma failed_recently_frame [frame_simps]: "store_frame w (fst (failed_recently env key w))"
  by (auto simp: failed_recently_def dest: redis_command_framed split: prod.splits)

lemma circuit_command_frame [frame_simps]: "store_frame w (fst (circuit_command env key f w))"
  by (simp add: circuit_command_def redis_command_frame)

lemma circuit_command_framed: "circuit_command env key f w = (w', r) \<Longrightarrow> store_frame w w'"
  using circuit_command_frame [of w env key f] by simp

lemma circuit_open_frame [frame_simps]: "store_frame w (fst (circuit_open env key token ttl w))"
  by (auto simp: circuit_open_def dest: circuit_command_framed split: prod.splits)

lemma record_deadline_frame [frame_simps]:
  "store_frame w (fst (record_deadline_with_policy env key a b c d e f g completed_at token w))"
  by (auto simp: record_deadline_with_policy_def Let_def dest: circuit_command_framed
      split: prod.splits)

lemma reset_circuit_frame [frame_simps]:
  "store_frame w (fst (reset_circuit_with_probe_policy env key completed_at a b c token w))"
  by (auto simp: reset_circuit_with_probe_policy_def dest: circuit_command_framed
      split: prod.splits)

lemma release_circuit_probe_frame [frame_simps]:
  "store_frame w (fst (release_circuit_probe env key token w))"
  by (auto simp: release_circuit_probe_def dest: circuit_command_framed split: prod.splits)

lemma delete_result_frame [frame_simps]: "store_frame w (delete_result env key w)"
  by (simp add: delete_result_def redis_command_frame)

lemma load_content_frame [frame_simps]: "store_frame w (fst (load_content cd env key content w))"
  by (auto simp: load_content_def Let_def delete_result_frame split: prod.splits sum.splits)

lemma load_frame [frame_simps]: "store_frame w (fst (load_with_metadata cd env key w))"
proof -
  obtain w1 r where c: "redis_command env (\<lambda>now r. (r, live_get now (r_results r key))) w = (w1, r)"
    by fastforce
  have f: "store_frame w w1" using redis_command_framed [OF c] .
  have d: "store_frame w (delete_result env key w1)"
    using store_frame_trans [OF f delete_result_frame] .
  have l: "store_frame w (fst (load_content cd env key content w1))" for content
    using store_frame_trans [OF f load_content_frame] .
  show ?thesis
    using f d l by (simp add: load_with_metadata_def c split: sum.splits option.splits)
qed

lemma save_frame [frame_simps]: "store_frame w (fst (save cd env key index v a b w))"
  by (auto simp: save_def Let_def dest: redis_command_framed split: prod.splits sum.splits)

lemma delete_student_frame [frame_simps]: "store_frame w (fst (delete_student cd env no w))"
  by (auto simp: delete_student_def Let_def dest!: redis_command_framed
      intro: store_frame_trans split: prod.splits sum.splits)

lemma acquire_lease_frame [frame_simps]: "store_frame w (fst (acquire_lease env key ttl w))"
  by (auto simp: acquire_lease_def dest: redis_command_framed split: prod.splits sum.splits)

lemma release_lease_frame [frame_simps]: "store_frame w (fst (release_lease env key token w))"
  by (auto simp: release_lease_def dest: redis_command_framed split: prod.splits)

lemma allow_global_frame [frame_simps]: "store_frame w (fst (allow_global env revision rate burst w))"
  by (auto simp: allow_global_def Let_def dest: redis_command_framed split: prod.splits)

text \<open>Every command is a step of its own, so a loop around one makes progress.\<close>

lemma acquire_lease_step:
  "acquire_lease env key ttl w = (w', Inr x) \<Longrightarrow> w_step w' = w_step w + 1"
  by (auto simp: acquire_lease_def redis_command_def Let_def map_err_def
      split: prod.splits sum.splits option.splits)

text \<open>The metadata of a read says the state the read reports.\<close>

lemma load_content_metadata:
  "snd (load_content cd env key content w) = Inr (state, Some m, v) \<Longrightarrow>
     cm_state m = state \<and> state \<noteq> CacheMiss \<and> v \<noteq> None"
  by (auto simp: load_content_def Let_def missed_def split: prod.splits sum.splits if_splits)

lemma load_metadata:
  assumes "load_with_metadata cd env key w = (w', Inr (state, Some m, v))"
  shows "cm_state m = state \<and> state \<noteq> CacheMiss \<and> v \<noteq> None"
proof -
  have "snd (load_with_metadata cd env key w) = Inr (state, Some m, v)" using assms by simp
  then show ?thesis
    by (auto simp: load_with_metadata_def missed_def split: prod.splits sum.splits option.splits
        if_splits dest: load_content_metadata)
qed

end
