(* ===== verification/QueryConfig.thy ===== *)
theory QueryConfig
  imports QueryStore
begin

text \<open>
  The pure part of \<^verbatim>\<open>querycoord/coordinator.go\<close> and \<^verbatim>\<open>querycoord/observer.go\<close>: the configuration
  and its validation, the policies derived from it, and the classification of errors and cache
  states that decides about stale fallbacks and metric labels.

  Durations and \<^verbatim>\<open>int\<close> settings are only compared (the one product, the size of the bookkeeping
  queue, is bounded by the validation), so they are \<open>int\<close>. The deadline ratio is a \<^verbatim>\<open>float64\<close>, with
  the values a comparison treats specially.
\<close>

section \<open>Configuration\<close>

text \<open>The double the literal \<^verbatim>\<open>0.01\<close> denotes.\<close>

definition float_one_percent :: float64 where
  "float_one_percent = Finite (5764607523034235 / 576460752303423488)"

definition operation_courses :: string where "operation_courses = ''courses''"
definition operation_grades :: string where "operation_grades = ''grades''"
definition operation_exams :: string where "operation_exams = ''exams''"
definition operation_selections :: string where "operation_selections = ''selections''"

definition circuit_event_open :: string where "circuit_event_open = ''open''"
definition circuit_event_reject :: string where "circuit_event_reject = ''reject''"
definition circuit_event_reset :: string where "circuit_event_reset = ''reset''"

definition cache_mode_normal :: string where "cache_mode_normal = ''normal''"
definition cache_mode_no_stale :: string where "cache_mode_no_stale = ''no_stale''"
definition cache_mode_force_upstream :: string where
  "cache_mode_force_upstream = ''force_upstream''"

record config =
  cache_mode :: string
  courses_timeout :: duration
  grades_timeout :: duration
  exams_timeout :: duration
  selections_timeout :: duration
  stale_refresh_timeout :: duration
  lease_ttl :: duration
  poll_interval :: duration
  max_concurrent :: int
  config_rate :: int
  config_burst :: int
  retry_after :: duration
  courses_fresh_ttl :: duration
  courses_stale_ttl :: duration
  grades_fresh_ttl :: duration
  grades_stale_ttl :: duration
  exams_fresh_ttl :: duration
  exams_stale_ttl :: duration
  selections_fresh_ttl :: duration
  selections_stale_ttl :: duration
  circuit_threshold :: int
  circuit_window :: duration
  circuit_open_duration :: duration
  circuit_minimum_samples :: int
  circuit_deadline_threshold :: int
  circuit_deadline_ratio :: float64
  circuit_hard_protection_count :: int
  circuit_hard_protection_window :: duration

record cache_policy =
  fresh_ttl :: duration
  stale_ttl :: duration

record circuit_policy =
  cp_minimum_samples :: int
  cp_deadline_threshold :: int
  cp_deadline_ratio :: float64
  cp_hard_protection_count :: int
  cp_hard_protection_window :: duration

definition circuit_policy_of :: "config \<Rightarrow> circuit_policy" where
  "circuit_policy_of c =
     \<lparr>cp_minimum_samples =
        (if circuit_minimum_samples c = 0 then circuit_threshold c else circuit_minimum_samples c),
      cp_deadline_threshold =
        (if circuit_deadline_threshold c = 0 then circuit_threshold c
         else circuit_deadline_threshold c),
      cp_deadline_ratio =
        (if circuit_deadline_ratio c = Finite 0 then Finite 1 else circuit_deadline_ratio c),
      cp_hard_protection_count =
        (if circuit_hard_protection_count c = 0 then circuit_threshold c
         else circuit_hard_protection_count c),
      cp_hard_protection_window =
        (if circuit_hard_protection_window c = 0 then circuit_window c
         else circuit_hard_protection_window c)\<rparr>"

definition policy_of :: "config \<Rightarrow> string \<Rightarrow> cache_policy" where
  "policy_of c operation =
     (if operation = operation_courses
      then \<lparr>fresh_ttl = courses_fresh_ttl c, stale_ttl = courses_stale_ttl c\<rparr>
      else if operation = operation_grades
      then \<lparr>fresh_ttl = grades_fresh_ttl c, stale_ttl = grades_stale_ttl c\<rparr>
      else if operation = operation_exams
      then \<lparr>fresh_ttl = exams_fresh_ttl c, stale_ttl = exams_stale_ttl c\<rparr>
      else \<lparr>fresh_ttl = selections_fresh_ttl c, stale_ttl = selections_stale_ttl c\<rparr>)"

definition returns_fresh :: "config \<Rightarrow> bool" where
  "returns_fresh c \<longleftrightarrow> cache_mode c \<noteq> cache_mode_force_upstream"

definition allows_stale :: "config \<Rightarrow> bool" where
  "allows_stale c \<longleftrightarrow> cache_mode c = cache_mode_normal"

definition timeout_of :: "config \<Rightarrow> string \<Rightarrow> cache_state \<Rightarrow> duration" where
  "timeout_of c operation state =
     (if state = CacheStale \<and> allows_stale c then stale_refresh_timeout c
      else if operation = operation_courses then courses_timeout c
      else if operation = operation_grades then grades_timeout c
      else if operation = operation_exams then exams_timeout c
      else selections_timeout c)"

definition result_cache_discriminator :: "string \<Rightarrow> string" where
  "result_cache_discriminator operation =
     (if operation = operation_courses then ''result-courses-v3'' else ''result-v1'')"

section \<open>Validation\<close>

text \<open>The loop over the timeouts: the first one out of range fails, else the largest is kept.\<close>

fun maximum_timeout :: "duration list \<Rightarrow> duration \<Rightarrow> duration option" where
  "maximum_timeout [] largest = Some largest"
| "maximum_timeout (t # ts) largest =
     (if t < second \<or> 30 * second < t then None
      else maximum_timeout ts (if largest < t then t else largest))"

definition bad_ttls :: "cache_policy \<Rightarrow> bool" where
  "bad_ttls p \<longleftrightarrow>
     fresh_ttl p < second \<or> stale_ttl p \<le> fresh_ttl p \<or> 90 * 24 * hour < stale_ttl p"

definition bad_circuit_policy :: "circuit_policy \<Rightarrow> bool" where
  "bad_circuit_policy p \<longleftrightarrow>
     cp_minimum_samples p < 1 \<or> 10000 < cp_minimum_samples p \<or>
     cp_deadline_threshold p < 1 \<or> 10000 < cp_deadline_threshold p \<or>
     cp_deadline_ratio p = NaN \<or> cp_deadline_ratio p = PosInf \<or> cp_deadline_ratio p = NegInf \<or>
     float_less (cp_deadline_ratio p) float_one_percent \<or>
     float_less (Finite 1) (cp_deadline_ratio p) \<or>
     cp_hard_protection_count p < 1 \<or> 10000 < cp_hard_protection_count p"

definition validate_config :: "config \<Rightarrow> err option" where
  "validate_config c =
     (if cache_mode c \<notin> {cache_mode_normal, cache_mode_no_stale, cache_mode_force_upstream}
      then Some (Opaque ''academic query cache mode must be normal, no_stale, or force_upstream'')
      else case maximum_timeout [courses_timeout c, grades_timeout c, exams_timeout c,
                                 selections_timeout c, stale_refresh_timeout c] 0 of
        None \<Rightarrow> Some (Opaque ''academic query operation timeout must be between 1s and 30s'')
      | Some largest \<Rightarrow>
          if lease_ttl c \<le> largest \<or> 2 * minute < lease_ttl c
          then Some (Opaque ''academic query lease TTL must exceed every operation timeout'')
          else if poll_interval c < 10 * millisecond \<or> second < poll_interval c
          then Some (Opaque ''academic query poll interval must be between 10ms and 1s'')
          else if max_concurrent c < 1 \<or> 1024 < max_concurrent c
          then Some (Opaque ''academic query max concurrency must be between 1 and 1024'')
          else if config_rate c < 1 \<or> 1000 < config_rate c \<or> config_burst c < 1 \<or>
                  2000 < config_burst c
          then Some (Opaque ''academic query global rate or burst is outside the safe range'')
          else if retry_after c < second \<or> minute < retry_after c
          then Some (Opaque ''academic query retry-after must be between 1s and 1m'')
          else if list_ex bad_ttls [policy_of c operation_courses, policy_of c operation_grades,
                                    policy_of c operation_exams, policy_of c operation_selections]
          then Some (Opaque ''academic query cache TTLs are outside the safe range'')
          else if (circuit_threshold c < 1 \<or> 100 < circuit_threshold c) \<and>
                  circuit_minimum_samples c = 0 \<and> circuit_deadline_threshold c = 0 \<and>
                  circuit_hard_protection_count c = 0
          then Some (Opaque ''academic query circuit threshold must be between 1 and 100'')
          else if bad_circuit_policy (circuit_policy_of c)
          then Some (Opaque ''academic query circuit ratio policy is outside the safe range'')
          else if cp_hard_protection_window (circuit_policy_of c) < second \<or>
                  10 * minute < cp_hard_protection_window (circuit_policy_of c)
          then Some (Opaque ''academic query circuit hard protection window must be between 1s and 10m'')
          else if circuit_window c < second \<or> 10 * minute < circuit_window c
          then Some (Opaque ''academic query circuit window must be between 1s and 10m'')
          else if circuit_open_duration c < 15 * second \<or> 30 * second < circuit_open_duration c
          then Some (Opaque ''academic query circuit open duration must be between 15s and 30s'')
          else None)"

text \<open>
  \<^verbatim>\<open>New\<close>, up to the derivation of keys and the construction of library objects: an empty cache mode
  means the normal one, and only a validated configuration is kept.
\<close>

definition new_config :: "bool \<Rightarrow> int \<Rightarrow> config \<Rightarrow> err + config" where
  "new_config has_provider key_length c =
     (if \<not> has_provider then Inl (Opaque ''academic query provider is required'')
      else if key_length \<noteq> 32
      then Inl (Opaque ''academic query cache key must contain exactly 32 bytes'')
      else
        let c' = (if cache_mode c = '''' then c\<lparr>cache_mode := cache_mode_normal\<rparr> else c)
        in case validate_config c' of Some e \<Rightarrow> Inl e | None \<Rightarrow> Inr c')"

text \<open>The capacities of the two channels \<^verbatim>\<open>New\<close> makes.\<close>

definition permit_capacity :: "config \<Rightarrow> nat" where
  "permit_capacity c = nat (max_concurrent c)"

definition bookkeeping_capacity :: "config \<Rightarrow> nat" where
  "bookkeeping_capacity c = nat (max_concurrent c * 4)"

section \<open>Classification\<close>

definition stale_eligible :: "err \<Rightarrow> bool" where
  "stale_eligible e \<longleftrightarrow>
     errors_is e ErrProviderUnavailable \<or> errors_is e ErrProviderRetryable \<or>
     errors_is e ErrProviderBusy \<or> errors_is e DeadlineExceeded"

definition stale_fallback_reason :: "err \<Rightarrow> string" where
  "stale_fallback_reason e =
     (if errors_is e DeadlineExceeded then stale_fallback_deadline
      else if errors_is e ErrProviderBusy then stale_fallback_busy
      else if errors_is e ErrProviderRetryable then ''retryable''
      else stale_fallback_unavailable)"

definition cache_state_label :: "cache_state \<Rightarrow> err option \<Rightarrow> string" where
  "cache_state_label state e =
     (if e \<noteq> None then ''error''
      else case state of CacheFresh \<Rightarrow> ''fresh'' | CacheStale \<Rightarrow> ''stale'' | CacheMiss \<Rightarrow> ''miss'')"

definition query_outcome :: "err option \<Rightarrow> string" where
  "query_outcome e =
     (case e of
        None \<Rightarrow> ''success''
      | Some x \<Rightarrow>
          if errors_is x Canceled then ''canceled''
          else if errors_is x DeadlineExceeded then ''deadline''
          else if errors_is x ErrInvalidCredentials then ''invalid_credentials''
          else if errors_is x ErrPasswordExpired then ''password_expired''
          else if errors_is x ErrChallengeRequired then ''challenge_required''
          else if errors_is x ErrAccountRestricted then ''account_restricted''
          else if errors_is x ErrProviderBusy then ''busy''
          else if errors_is x ErrProviderRetryable then ''retryable''
          else if errors_is x ErrProviderUnavailable then ''unavailable''
          else ''error'')"

section \<open>Combined revocation\<close>

text \<open>
  \<^verbatim>\<open>revoker.go\<close>: nil revokers are dropped, every other one is run, and their errors are joined one
  after the other. A revoker is its effect on the state \<open>'s\<close>.
\<close>

type_synonym 's revoker = "string \<Rightarrow> 's \<Rightarrow> 's \<times> err option"

definition combine_revokers :: "'s revoker option list \<Rightarrow> 's revoker list" where
  "combine_revokers rs = List.map_filter (\<lambda>r. r) rs"

fun combined_delete :: "'s revoker list \<Rightarrow> string \<Rightarrow> 's \<Rightarrow> err option \<Rightarrow> 's \<times> err option" where
  "combined_delete [] student_no s result = (s, result)"
| "combined_delete (r # rs) student_no s result =
     (let (s', e) = r student_no s in combined_delete rs student_no s' (errors_join [result, e]))"

definition delete_student_everywhere :: "'s revoker option list \<Rightarrow> 's revoker" where
  "delete_student_everywhere rs student_no s =
     combined_delete (combine_revokers rs) student_no s None"

section \<open>Facts\<close>

lemma maximum_timeout_bounds:
  assumes "maximum_timeout ts m = Some largest"
  shows "m \<le> largest \<and> (\<forall>t\<in>set ts. second \<le> t \<and> t \<le> 30 * second \<and> t \<le> largest)"
  using assms by (induction ts m rule: maximum_timeout.induct) (auto split: if_splits)

lemma check_passed: "((if b then Some e else r) = None) = (\<not> b \<and> r = None)"
  by simp

lemma valid_config_cases:
  "validate_config c = None \<longleftrightarrow>
     cache_mode c \<in> {cache_mode_normal, cache_mode_no_stale, cache_mode_force_upstream} \<and>
     (\<exists>largest. maximum_timeout [courses_timeout c, grades_timeout c, exams_timeout c,
                   selections_timeout c, stale_refresh_timeout c] 0 = Some largest \<and>
        largest < lease_ttl c \<and> lease_ttl c \<le> 2 * minute) \<and>
     10 * millisecond \<le> poll_interval c \<and> poll_interval c \<le> second \<and>
     1 \<le> max_concurrent c \<and> max_concurrent c \<le> 1024 \<and>
     1 \<le> config_rate c \<and> config_rate c \<le> 1000 \<and> 1 \<le> config_burst c \<and> config_burst c \<le> 2000 \<and>
     second \<le> retry_after c \<and> retry_after c \<le> minute \<and>
     \<not> list_ex bad_ttls [policy_of c operation_courses, policy_of c operation_grades,
                        policy_of c operation_exams, policy_of c operation_selections] \<and>
     \<not> ((circuit_threshold c < 1 \<or> 100 < circuit_threshold c) \<and> circuit_minimum_samples c = 0 \<and>
        circuit_deadline_threshold c = 0 \<and> circuit_hard_protection_count c = 0) \<and>
     \<not> bad_circuit_policy (circuit_policy_of c) \<and>
     second \<le> cp_hard_protection_window (circuit_policy_of c) \<and>
     cp_hard_protection_window (circuit_policy_of c) \<le> 10 * minute \<and>
     second \<le> circuit_window c \<and> circuit_window c \<le> 10 * minute \<and>
     15 * second \<le> circuit_open_duration c \<and> circuit_open_duration c \<le> 30 * second"
proof (cases "maximum_timeout [courses_timeout c, grades_timeout c, exams_timeout c,
    selections_timeout c, stale_refresh_timeout c] 0")
  case None
  then show ?thesis by (simp only: validate_config_def option.case check_passed) simp
next
  case (Some m)
  show ?thesis
    unfolding validate_config_def Some option.case check_passed not_le not_less de_Morgan_disj
    by (simp only: option.inject ex_simps not_less not_le) blast
qed

lemma valid_timeouts:
  assumes "validate_config c = None"
  shows "second \<le> timeout_of c operation state \<and> timeout_of c operation state \<le> 30 * second \<and>
     timeout_of c operation state < lease_ttl c \<and> lease_ttl c \<le> 2 * minute"
proof -
  obtain m where m: "maximum_timeout [courses_timeout c, grades_timeout c, exams_timeout c,
      selections_timeout c, stale_refresh_timeout c] 0 = Some m"
    and l: "m < lease_ttl c" "lease_ttl c \<le> 2 * minute"
    using assms unfolding valid_config_cases by blast
  from maximum_timeout_bounds [OF m] l show ?thesis by (auto simp: timeout_of_def)
qed

lemma valid_policies:
  assumes "validate_config c = None"
  shows "second \<le> fresh_ttl (policy_of c operation)"
    and "fresh_ttl (policy_of c operation) < stale_ttl (policy_of c operation)"
proof -
  have "\<not> list_ex bad_ttls [policy_of c operation_courses, policy_of c operation_grades,
      policy_of c operation_exams, policy_of c operation_selections]"
    using assms unfolding valid_config_cases by blast
  moreover have "policy_of c operation \<in> {policy_of c operation_courses,
      policy_of c operation_grades, policy_of c operation_exams, policy_of c operation_selections}"
    by (simp add: policy_of_def operation_courses_def operation_grades_def operation_exams_def
        operation_selections_def)
  ultimately have "\<not> bad_ttls (policy_of c operation)" by auto
  then show "second \<le> fresh_ttl (policy_of c operation)"
    and "fresh_ttl (policy_of c operation) < stale_ttl (policy_of c operation)"
    by (auto simp: bad_ttls_def)
qed

lemma valid_circuit_policy:
  assumes "validate_config c = None"
  shows "\<exists>q. cp_deadline_ratio (circuit_policy_of c) = Finite q \<and> 0 < q \<and> q \<le> 1"
    and "1 \<le> cp_minimum_samples (circuit_policy_of c)"
    and "1 \<le> cp_deadline_threshold (circuit_policy_of c)"
    and "1 \<le> cp_hard_protection_count (circuit_policy_of c)"
    and "second \<le> cp_hard_protection_window (circuit_policy_of c)" and "second \<le> circuit_window c"
    and "15 * second \<le> circuit_open_duration c" and "circuit_open_duration c \<le> 30 * second"
proof -
  have b: "\<not> bad_circuit_policy (circuit_policy_of c)"
    using assms unfolding valid_config_cases by blast
  then show "1 \<le> cp_minimum_samples (circuit_policy_of c)"
    "1 \<le> cp_deadline_threshold (circuit_policy_of c)"
    "1 \<le> cp_hard_protection_count (circuit_policy_of c)"
    unfolding bad_circuit_policy_def by simp_all
  show "\<exists>q. cp_deadline_ratio (circuit_policy_of c) = Finite q \<and> 0 < q \<and> q \<le> 1"
    using b by (cases "cp_deadline_ratio (circuit_policy_of c)")
      (simp_all add: bad_circuit_policy_def float_one_percent_def)
  show "second \<le> cp_hard_protection_window (circuit_policy_of c)" "second \<le> circuit_window c"
    "15 * second \<le> circuit_open_duration c" "circuit_open_duration c \<le> 30 * second"
    using assms unfolding valid_config_cases by blast+
qed

lemma stale_fallback_reason_eligible:
  "stale_eligible e \<Longrightarrow> stale_fallback_reason e \<in> {''deadline'', ''busy'', ''retryable'', ''unavailable''}"
  by (auto simp: stale_fallback_reason_def stale_fallback_deadline_def stale_fallback_busy_def
      stale_fallback_unavailable_def)

lemma map_filter_id: "List.map_filter (\<lambda>r. r) (r # rs) =
    (case r of None \<Rightarrow> [] | Some x \<Rightarrow> [x]) @ List.map_filter (\<lambda>r. r) rs"
  by (simp add: map_filter_def split: option.splits)

lemma combined_delete_error:
  "is_err (snd (combined_delete rs student_no s result)) t \<longleftrightarrow>
     is_err result t \<or> is_err (snd (combined_delete rs student_no s None)) t"
proof (induction rs arbitrary: s result)
  case (Cons r rs)
  obtain s' e where r: "r student_no s = (s', e)" by fastforce
  show ?case
    unfolding combined_delete.simps r Let_def prod.case Cons.IH [of s' "errors_join _"]
    by (simp add: errors_join_is)
qed (simp add: is_err_def)

end
