(* ===== verification/RateLimitConfig.thy ===== *)
theory RateLimitConfig
  imports GoErrors
begin

text \<open>
  \<^verbatim>\<open>core/ratelimitconfig/config.go\<close>: the anti-abuse policy, its validation and the resolver that
  keeps the last valid policy while it reloads the document from the configuration centre.

  JSON and SHA-256 are the fields of \<open>document_codec\<close>: what the strict decoder returns for a text
  (the policy with zero values for missing members, and whether the text ends after it), whether
  the document has a \<^verbatim>\<open>private_message\<close> member, and the fingerprint of the canonical encoding.
  Counts are \<^verbatim>\<open>int64\<close>/\<^verbatim>\<open>int\<close> values that are only compared, so they are \<open>int\<close>; the one
  multiplication (\<^verbatim>\<open>Rule.Window\<close>) wraps.
\<close>

section \<open>Policies\<close>

record rule =
  limit :: int
  window_seconds :: int

definition rule_window :: "rule \<Rightarrow> duration" where
  "rule_window r =
     sint (word_of_int (window_seconds r) * word_of_int second :: int64)"

record auth_policy =
  password_login_ip :: rule
  login_failure_username :: rule
  wechat_login_ip :: rule
  refresh_family :: rule
  refresh_ip :: rule

record academic_credentials_policy =
  user_failure :: rule
  student_failure :: rule
  ip_failure :: rule

record error_report_policy =
  source_ip :: rule

record private_message_policy =
  actor :: rule
  conversation :: rule

record academic_query_policy =
  global_rate :: int
  global_burst :: int

record policy =
  version :: int
  auth :: auth_policy
  academic_credentials :: academic_credentials_policy
  academic_query :: academic_query_policy
  error_report :: error_report_policy
  private_message :: private_message_policy
  revision :: string
  configured :: bool

definition rule_of :: "int \<Rightarrow> int \<Rightarrow> rule" where
  "rule_of l w = \<lparr>limit = l, window_seconds = w\<rparr>"

definition default_private_message_policy :: private_message_policy where
  "default_private_message_policy = \<lparr>actor = rule_of 60 60, conversation = rule_of 30 60\<rparr>"

text \<open>The values of \<^verbatim>\<open>defaultDocument\<close>.\<close>

definition default_values :: policy where
  "default_values =
     \<lparr>version = 1,
      auth = \<lparr>password_login_ip = rule_of 300 900, login_failure_username = rule_of 5 900,
              wechat_login_ip = rule_of 600 900, refresh_family = rule_of 20 300,
              refresh_ip = rule_of 300 300\<rparr>,
      academic_credentials = \<lparr>user_failure = rule_of 5 900, student_failure = rule_of 5 900,
                              ip_failure = rule_of 50 900\<rparr>,
      academic_query = \<lparr>global_rate = 10, global_burst = 20\<rparr>,
      error_report = \<lparr>source_ip = rule_of 300 900\<rparr>,
      private_message = \<lparr>actor = rule_of 60 60, conversation = rule_of 30 60\<rparr>,
      revision = '''', configured = False\<rparr>"

section \<open>Validation\<close>

datatype policy_error =
    BadVersion
  | BadLimit string int int
  | BadWindow string int int
  | LimitBelow string string
  | BadRate
  | BadBurst

text \<open>The rows of the table in \<^verbatim>\<open>validate\<close>: name, rule, limits and window limits.\<close>

definition policy_rules :: "policy \<Rightarrow> (string \<times> rule \<times> int \<times> int \<times> int \<times> int) list" where
  "policy_rules p =
     [(''auth.password_login_ip'', password_login_ip (auth p), 30, 10000, 60, 3600),
      (''auth.login_failure_username'', login_failure_username (auth p), 3, 20, 60, 3600),
      (''auth.wechat_login_ip'', wechat_login_ip (auth p), 100, 20000, 60, 3600),
      (''auth.refresh_family'', refresh_family (auth p), 5, 100, 60, 3600),
      (''auth.refresh_ip'', refresh_ip (auth p), 100, 20000, 60, 3600),
      (''academic_credentials.user_failure'', user_failure (academic_credentials p), 3, 20, 60, 3600),
      (''academic_credentials.student_failure'', student_failure (academic_credentials p),
         3, 20, 60, 3600),
      (''academic_credentials.ip_failure'', ip_failure (academic_credentials p), 20, 10000, 60, 3600),
      (''error_report.source_ip'', source_ip (error_report p), 100, 20000, 60, 3600),
      (''private_message.actor'', actor (private_message p), 10, 1000, 60, 3600),
      (''private_message.conversation'', conversation (private_message p), 5, 1000, 60, 3600)]"

fun check_rules :: "(string \<times> rule \<times> int \<times> int \<times> int \<times> int) list \<Rightarrow> policy_error option" where
  "check_rules [] = None"
| "check_rules ((name, r, lo, hi, min_window, max_window) # rs) =
     (if limit r < lo \<or> hi < limit r then Some (BadLimit name lo hi)
      else if window_seconds r < min_window \<or> max_window < window_seconds r
      then Some (BadWindow name min_window max_window)
      else check_rules rs)"

definition validate :: "policy \<Rightarrow> policy_error option" where
  "validate p =
     (if version p \<noteq> 1 then Some BadVersion
      else case check_rules (policy_rules p) of
        Some e \<Rightarrow> Some e
      | None \<Rightarrow>
          let identity_limit = max (limit (user_failure (academic_credentials p)))
                                   (limit (student_failure (academic_credentials p)))
          in if limit (password_login_ip (auth p)) < limit (login_failure_username (auth p))
             then Some (LimitBelow ''auth.password_login_ip'' ''auth.login_failure_username'')
             else if limit (refresh_ip (auth p)) < limit (refresh_family (auth p))
             then Some (LimitBelow ''auth.refresh_ip'' ''auth.refresh_family'')
             else if limit (actor (private_message p)) < limit (conversation (private_message p))
             then Some (LimitBelow ''private_message.actor'' ''private_message.conversation'')
             else if limit (ip_failure (academic_credentials p)) < identity_limit
             then Some (LimitBelow ''academic_credentials.ip_failure'' ''academic_credentials'')
             else if global_rate (academic_query p) < 1 \<or> 1000 < global_rate (academic_query p)
             then Some BadRate
             else if global_burst (academic_query p) < 1 \<or> 2000 < global_burst (academic_query p)
             then Some BadBurst
             else None)"

section \<open>Documents\<close>

datatype document_error =
    NotJson
  | MoreThanOneDocument
  | Invalid policy_error
  | NotEncodable

record document_codec =
  dc_decode :: "string \<Rightarrow> (policy \<times> bool) option"
  dc_has_private_message :: "string \<Rightarrow> bool option"
  dc_canonical :: "policy \<Rightarrow> string option"
  dc_sha256_hex :: "string \<Rightarrow> string"

definition parse_document :: "document_codec \<Rightarrow> string \<Rightarrow> document_error + policy" where
  "parse_document dc text =
     (case dc_decode dc text of
        None \<Rightarrow> Inl NotJson
      | Some (p0, at_end) \<Rightarrow>
          if \<not> at_end then Inl MoreThanOneDocument
          else case dc_has_private_message dc text of
            None \<Rightarrow> Inl NotJson
          | Some present \<Rightarrow>
              let p = (if present then p0
                       else p0\<lparr>private_message := default_private_message_policy\<rparr>)
              in case validate p of
                   Some e \<Rightarrow> Inl (Invalid e)
                 | None \<Rightarrow>
                     (case dc_canonical dc p of
                        None \<Rightarrow> Inl NotEncodable
                      | Some canonical \<Rightarrow>
                          Inr (p\<lparr>revision := dc_sha256_hex dc canonical, configured := True\<rparr>)))"

definition validate_document :: "document_codec \<Rightarrow> string \<Rightarrow> document_error option" where
  "validate_document dc text =
     (case parse_document dc text of Inl e \<Rightarrow> Some e | Inr _ \<Rightarrow> None)"

text \<open>
  \<^verbatim>\<open>defaultPolicy\<close>: the built-in document, parsed when the program starts and marked as not
  configured.
\<close>

definition default_policy :: "document_codec \<Rightarrow> policy" where
  "default_policy dc =
     default_values\<lparr>revision := dc_sha256_hex dc (the (dc_canonical dc default_values)),
                    configured := False\<rparr>"

section \<open>The resolver\<close>

text \<open>
  The resolver's state is its policy. \<open>refresh\<close> gets what the source listed (\<^verbatim>\<open>values[Key]\<close> is the
  empty string when the row is missing) and the ticks of \<^verbatim>\<open>loop\<close> are a list of such listings.
\<close>

datatype refresh_error = SourceFailed err | BadDocument document_error

definition refresh ::
    "document_codec \<Rightarrow> err + string option \<Rightarrow> policy \<Rightarrow> policy \<times> refresh_error option" where
  "refresh dc listed p =
     (case listed of
        Inl e \<Rightarrow> (p, Some (SourceFailed e))
      | Inr row \<Rightarrow>
          let text = trim_space (case row of None \<Rightarrow> '''' | Some t \<Rightarrow> t)
          in if text = '''' then (default_policy dc, None)
             else case parse_document dc text of
                    Inl e \<Rightarrow> (p, Some (BadDocument e))
                  | Inr p' \<Rightarrow> (p', None))"

definition new_resolver ::
    "document_codec \<Rightarrow> err + string option \<Rightarrow> refresh_error + policy" where
  "new_resolver dc listed =
     (case refresh dc listed (default_policy dc) of
        (p, None) \<Rightarrow> Inr p
      | (_, Some e) \<Rightarrow> Inl e)"

definition refresh_loop :: "document_codec \<Rightarrow> (err + string option) list \<Rightarrow> policy \<Rightarrow> policy" where
  "refresh_loop dc ticks p = fold (\<lambda>listed p. fst (refresh dc listed p)) ticks p"

text \<open>\<^verbatim>\<open>Resolve\<close>: a nil resolver gives the default policy.\<close>

definition resolve :: "document_codec \<Rightarrow> policy option \<Rightarrow> policy" where
  "resolve dc r = (case r of None \<Rightarrow> default_policy dc | Some p \<Rightarrow> p)"

section \<open>Facts\<close>

lemma policy_rules_update [simp]:
  "policy_rules (p\<lparr>revision := r\<rparr>) = policy_rules p"
  "policy_rules (p\<lparr>configured := c\<rparr>) = policy_rules p"
  by (simp_all add: policy_rules_def)

lemma validate_update [simp]:
  "validate (p\<lparr>revision := r\<rparr>) = validate p" "validate (p\<lparr>configured := c\<rparr>) = validate p"
  by (simp_all add: validate_def Let_def cong: option.case_cong)

lemma check_rules_None:
  "check_rules rs = None \<longleftrightarrow>
     (\<forall>(name, r, lo, hi, min_window, max_window)\<in>set rs.
        lo \<le> limit r \<and> limit r \<le> hi \<and> min_window \<le> window_seconds r \<and>
        window_seconds r \<le> max_window)"
  by (induction rs rule: check_rules.induct) auto

lemma default_values_valid: "validate default_values = None"
  by (simp add: validate_def policy_rules_def default_values_def rule_of_def)

lemma default_policy_valid: "validate (default_policy dc) = None"
  by (simp add: default_policy_def default_values_valid)

lemma parse_document_valid: "parse_document dc text = Inr p \<Longrightarrow> validate p = None"
  by (auto simp: parse_document_def Let_def split: option.splits prod.splits if_splits)

lemma refresh_valid: "validate p = None \<Longrightarrow> validate (fst (refresh dc listed p)) = None"
  by (auto simp: refresh_def Let_def default_policy_valid dest: parse_document_valid
      split: sum.splits)

lemma refresh_loop_valid: "validate p = None \<Longrightarrow> validate (refresh_loop dc ticks p) = None"
  unfolding refresh_loop_def by (induction ticks arbitrary: p) (simp_all add: refresh_valid)

lemma new_resolver_valid: "new_resolver dc listed = Inr p \<Longrightarrow> validate p = None"
  using refresh_valid [OF default_policy_valid, of dc listed dc]
  by (auto simp: new_resolver_def split: prod.splits option.splits)

lemma validate_rate:
  "validate p = None \<Longrightarrow>
     1 \<le> global_rate (academic_query p) \<and> global_rate (academic_query p) \<le> 1000 \<and>
     1 \<le> global_burst (academic_query p) \<and> global_burst (academic_query p) \<le> 2000"
  by (auto simp: validate_def Let_def split: if_splits option.splits)

lemma validate_rules:
  "validate p = None \<Longrightarrow> check_rules (policy_rules p) = None"
  by (auto simp: validate_def split: if_splits option.splits)

text \<open>
  C17: whatever the configuration centre returns over time, errors and malformed documents
  included, the policy the limiters see is a validated one: every rule has a limit and a window
  within its bounds, the window in seconds does not overflow, and the global query rate and burst
  stay in range.
\<close>

theorem resolved_policy_is_valid:
  assumes "new_resolver dc first = Inr p0"
  shows "let p = resolve dc (Some (refresh_loop dc ticks p0)) in
     validate p = None \<and>
     (\<forall>(name, r, lo, hi, min_window, max_window)\<in>set (policy_rules p).
        lo \<le> limit r \<and> limit r \<le> hi \<and> rule_window r = window_seconds r * second \<and>
        min_window * second \<le> rule_window r \<and> rule_window r \<le> max_window * second) \<and>
     global_rate (academic_query p) \<in> {1..1000} \<and> global_burst (academic_query p) \<in> {1..2000}"
proof -
  let ?p = "refresh_loop dc ticks p0"
  have v: "validate ?p = None" using refresh_loop_valid new_resolver_valid [OF assms] by blast
  have w: "rule_window r = window_seconds r * second"
    if "60 \<le> window_seconds r" "window_seconds r \<le> 3600" for r
  proof -
    have "word_of_int (window_seconds r) * word_of_int second =
        (word_of_int (window_seconds r * second) :: int64)" by simp
    moreover have "- (2 ^ 63) \<le> window_seconds r * second" "window_seconds r * second < 2 ^ 63"
      using that by (simp_all add: second_def)
    ultimately show ?thesis unfolding rule_window_def using sint64_of_int by metis
  qed
  have mw: "min_window = 60 \<and> max_window = 3600"
    if "(name, r, lo, hi, min_window, max_window) \<in> set (policy_rules ?p)"
    for name r lo hi min_window max_window
    using that by (auto simp: policy_rules_def)
  have rows: "\<forall>(name, r, lo, hi, min_window, max_window)\<in>set (policy_rules ?p).
      lo \<le> limit r \<and> limit r \<le> hi \<and> rule_window r = window_seconds r * second \<and>
      min_window * second \<le> rule_window r \<and> rule_window r \<le> max_window * second"
  proof (clarify)
    fix name r lo hi min_window max_window
    assume row: "(name, r, lo, hi, min_window, max_window) \<in> set (policy_rules ?p)"
    have b: "lo \<le> limit r" "limit r \<le> hi" "60 \<le> window_seconds r" "window_seconds r \<le> 3600"
      using validate_rules [OF v] row mw [OF row] unfolding check_rules_None by auto
    show "lo \<le> limit r \<and> limit r \<le> hi \<and> rule_window r = window_seconds r * second \<and>
        min_window * second \<le> rule_window r \<and> rule_window r \<le> max_window * second"
      unfolding w [OF b(3,4)] using b mw [OF row] by (simp add: second_def)
  qed
  show ?thesis
    unfolding resolve_def Let_def option.case atLeastAtMost_iff
    using v validate_rate [OF v] rows by (intro conjI) simp_all
qed

definition sample_document_codec :: document_codec where
  "sample_document_codec =
     \<lparr>dc_decode = (\<lambda>t. if t = ''fast'' then
          Some (default_values\<lparr>academic_query := \<lparr>global_rate = 50, global_burst = 100\<rparr>\<rparr>, True)
        else None),
      dc_has_private_message = (\<lambda>_. Some True), dc_canonical = (\<lambda>_. Some ''canonical''),
      dc_sha256_hex = id\<rparr>"

lemma sample_new_resolver:
  "new_resolver sample_document_codec (Inr None) = Inr (default_policy sample_document_codec)"
  by (simp add: new_resolver_def refresh_def)

theorem resolved_policy_is_valid_witness:
  "global_rate (academic_query (resolve sample_document_codec
     (Some (refresh_loop sample_document_codec [Inr (Some ''fast''), Inr (Some ''broken''), Inl (Opaque ''down'')]
       (default_policy sample_document_codec))))) \<in> {1..1000}"
  using resolved_policy_is_valid [OF sample_new_resolver,
      of "[Inr (Some ''fast''), Inr (Some ''broken''), Inl (Opaque ''down'')]"]
  unfolding Let_def by blast

text \<open>
  A reload that fails (the source is down, the document is malformed or out of range) changes
  nothing: the limiters go on with the policy they had, and only a document that passes
  validation, or a missing row, replaces it.
\<close>

theorem failed_refresh_keeps_policy:
  "(case refresh dc listed p of
      (p', Some e) \<Rightarrow> p' = p
    | (p', None) \<Rightarrow>
        (\<exists>row. listed = Inr row \<and>
           (case trim_space (case row of None \<Rightarrow> '''' | Some t \<Rightarrow> t) of
              [] \<Rightarrow> p' = default_policy dc \<and> \<not> configured p'
            | c # cs \<Rightarrow> parse_document dc (c # cs) = Inr p' \<and> configured p')))"
  by (auto simp: refresh_def Let_def parse_document_def default_policy_def
      split: sum.splits list.splits option.splits prod.splits if_splits)

end
