(* ===== verification/GoContext.thy ===== *)
theory GoContext
  imports GoErrors
begin

text \<open>
  Go's \<^verbatim>\<open>context\<close> package as the sources use it. A context is its deadline and the steps at which
  it is already cancelled; what the time is, whether the timer of a deadline has run and which step
  the world is in are read off the world by a \<open>clock\<close>.
\<close>

record go_ctx =
  cx_deadline :: "gotime option"
  cx_cancelled :: "nat \<Rightarrow> bool"

record 'w clock =
  ck_now :: "'w \<Rightarrow> gotime"
  ck_timer :: "'w \<Rightarrow> bool"
  ck_step :: "'w \<Rightarrow> nat"

text \<open>
  \<^verbatim>\<open>ctx.Err()\<close>. A deadline is reported once its timer has run, which can be later than the deadline.
\<close>

definition context_err :: "'w clock \<Rightarrow> go_ctx \<Rightarrow> 'w \<Rightarrow> err option" where
  "context_err ck cx w =
     (if cx_cancelled cx (ck_step ck w) then Some (Sentinel Canceled)
      else case cx_deadline cx of
             None \<Rightarrow> None
           | Some d \<Rightarrow>
               if d \<le> ck_now ck w \<and> ck_timer ck w then Some (Sentinel DeadlineExceeded) else None)"

definition with_deadline :: "go_ctx \<Rightarrow> gotime \<Rightarrow> go_ctx" where
  "with_deadline cx d =
     cx\<lparr>cx_deadline := Some (case cx_deadline cx of None \<Rightarrow> d | Some e \<Rightarrow> min e d)\<rparr>"

definition context_with_timeout :: "'w clock \<Rightarrow> go_ctx \<Rightarrow> duration \<Rightarrow> 'w \<Rightarrow> go_ctx" where
  "context_with_timeout ck cx d w = with_deadline cx (ck_now ck w + d)"

definition background :: go_ctx where
  "background = \<lparr>cx_deadline = None, cx_cancelled = (\<lambda>_. False)\<rparr>"

text \<open>A context reports one of two errors.\<close>

lemma context_err_cases:
  assumes "context_err ck cx w = Some e"
  shows "e = Sentinel Canceled \<or> e = Sentinel DeadlineExceeded"
  using assms by (auto simp: context_err_def split: if_splits option.splits)

lemma context_err_background [simp]: "context_err ck background w = None"
  by (simp add: context_err_def background_def)

end
