(* ===== verification/Coordinator.thy ===== *)
theory Coordinator
  imports QueryConfig RateLimitConfig GoContext
begin

text \<open>
  \<^verbatim>\<open>querycoord/coordinator.go\<close>: one request through the coordinator. The functions below follow the
  Go functions statement by statement; a \<^verbatim>\<open>defer\<close> is the wrapper that runs after the inner part.

  The world of \<open>QueryStore\<close> is extended by the two channels (\<open>k_permits\<close> tokens in \<^verbatim>\<open>permits\<close>, the
  tasks in \<^verbatim>\<open>bookkeeping\<close>), the shared flag of the cache-bypass metric, the call sequence and the
  trace of what happened. What other goroutines do to Redis and to the channels, the clock, faults,
  the choice of a \<^verbatim>\<open>select\<close> with several ready cases, the role \<^verbatim>\<open>singleflight\<close> gives the caller and
  the answers of the provider are functions of the step number in \<open>coord_env\<close>, so a theorem about
  all environments covers every interleaving with the rest of the system.

  A loop that waits (for a lease, a permit, another leader) takes fuel and its value is \<open>None\<close> when
  the fuel is used up; one unit is one turn of the loop.
\<close>

section \<open>Requests, tasks and the environment\<close>

datatype 'v flight = Lead | Follow "err + 'v query_result option"

datatype task =
    TimeoutMarkers string string string string string string gotime
    \<comment> \<open>operation, education level, circuit key, failure key, probe token, reason, completed at\<close>
  | CircuitReset string string string gotime string
    \<comment> \<open>operation, education level, circuit key, completed at, probe token\<close>
  | ProbeRelease string string
  | LeaseRelease string string

text \<open>The trace: calls of the observer, and the calls that take and give back resources.\<close>

datatype event =
    ObserveCache string string string
  | ObserveCacheBypass string string string string
  | ObserveQuery string string string
  | ObserveCircuit string string string
  | ObserveStaleFallback string string string
  | ObserveSingleflight string string string
  | LeaseAcquired string string
  | LeaseReleased string string
  | CircuitPassed string bool
  | ProbeReleased string string
  | PermitAcquired
  | PermitReleased
  | RateAllowed
  | ProviderCalled string
  | ResultSaved string
  | TimeoutReported string string
  | BookkeepingFull task

record ('c, 'v) coord_env = "'c store_env" +
  ke_timer :: "nat \<Rightarrow> bool"
  ke_choose :: "nat \<Rightarrow> bool"
  ke_flight :: "nat \<Rightarrow> 'v flight"
  ke_permits :: "nat \<Rightarrow> nat \<Rightarrow> nat"
  ke_tasks :: "nat \<Rightarrow> task list \<Rightarrow> task list"
  ke_next :: "nat \<Rightarrow> student_reference \<Rightarrow> credential \<Rightarrow> string \<Rightarrow> string \<Rightarrow> err + 'v"
  ke_zero :: 'v
  ke_rate_limits :: "(nat \<Rightarrow> policy) option"
  ke_observes_flights :: bool

record 'c cworld = "'c world" +
  k_events :: "event list"
  k_permits :: nat
  k_tasks :: "task list"
  k_bypass_observed :: bool
  k_calls :: nat

definition emit :: "event \<Rightarrow> 'c cworld \<Rightarrow> 'c cworld" where
  "emit e w = w\<lparr>k_events := k_events w @ [e]\<rparr>"

text \<open>Time passes without a call of this request.\<close>

definition pass_time :: "'c cworld \<Rightarrow> 'c cworld" where
  "pass_time w = w\<lparr>w_step := w_step w + 1\<rparr>"

text \<open>
  \<^verbatim>\<open>ctx.Err()\<close>. A deadline is reported once its timer has run, which can be later than the deadline.
\<close>

definition ctx_err :: "('c, 'v) coord_env \<Rightarrow> go_ctx \<Rightarrow> 'c cworld \<Rightarrow> err option" where
  "ctx_err env cx w =
     (if cx_cancelled cx (w_step w) then Some (Sentinel Canceled)
      else case cx_deadline cx of
             None \<Rightarrow> None
           | Some d \<Rightarrow>
               if d \<le> client_now env w \<and> ke_timer env (w_step w)
               then Some (Sentinel DeadlineExceeded) else None)"

definition with_timeout ::
    "('c, 'v) coord_env \<Rightarrow> go_ctx \<Rightarrow> duration \<Rightarrow> 'c cworld \<Rightarrow> go_ctx" where
  "with_timeout env cx d w = with_deadline cx (client_now env w + d)"

text \<open>The clock of the request, for the components that only need the time.\<close>

definition coordinator_clock :: "('c, 'v) coord_env \<Rightarrow> 'c cworld clock" where
  "coordinator_clock env =
     \<lparr>ck_now = client_now env, ck_timer = (\<lambda>w. ke_timer env (w_step w)), ck_step = w_step\<rparr>"

lemma context_err_coordinator [simp]: "context_err (coordinator_clock env) cx w = ctx_err env cx w"
  by (cases "cx_deadline cx") (simp_all add: context_err_def ctx_err_def coordinator_clock_def)

lemma context_with_timeout_coordinator [simp]:
  "context_with_timeout (coordinator_clock env) cx d w = with_timeout env cx d w"
  by (simp add: context_with_timeout_def with_timeout_def coordinator_clock_def)

definition detached_timeout_context ::
    "('c, 'v) coord_env \<Rightarrow> go_ctx \<Rightarrow> duration \<Rightarrow> 'c cworld \<Rightarrow> go_ctx" where
  "detached_timeout_context env cx timeout w =
     (case cx_deadline cx of
        Some d \<Rightarrow>
          if d - client_now env w < timeout then with_deadline background d
          else with_timeout env background timeout w
      | None \<Rightarrow> with_timeout env background timeout w)"

section \<open>Bookkeeping\<close>

definition observe_singleflight ::
    "('c, 'v) coord_env \<Rightarrow> string \<Rightarrow> string \<Rightarrow> string \<Rightarrow> 'c cworld \<Rightarrow> 'c cworld" where
  "observe_singleflight env operation role level w =
     (if ke_observes_flights env then emit (ObserveSingleflight operation role level) w else w)"

definition observe_cache_bypass ::
    "config \<Rightarrow> string \<Rightarrow> cache_state \<Rightarrow> err option \<Rightarrow> string \<Rightarrow> 'c cworld \<Rightarrow> 'c cworld" where
  "observe_cache_bypass cfg operation state e level w =
     (if k_bypass_observed w \<or> e \<noteq> None then w
      else if (state = CacheFresh \<and> \<not> returns_fresh cfg) \<or> (state = CacheStale \<and> \<not> allows_stale cfg)
      then (emit (ObserveCacheBypass operation (cache_state_label state None) level (cache_mode cfg)) w)
             \<lparr>k_bypass_observed := True\<rparr>
      else w)"

definition enqueue_bookkeeping ::
    "('c, 'v) coord_env \<Rightarrow> config \<Rightarrow> task \<Rightarrow> 'c cworld \<Rightarrow> 'c cworld" where
  "enqueue_bookkeeping env cfg t w =
     (let ts = ke_tasks env (w_step w) (k_tasks w)
      in if length ts < bookkeeping_capacity cfg then w\<lparr>k_tasks := ts @ [t]\<rparr>
         else emit (BookkeepingFull t) (w\<lparr>k_tasks := ts\<rparr>))"

text \<open>A failed marker is only logged.\<close>

definition mark_query_failure ::
    "('c, 'v) coord_env \<Rightarrow> config \<Rightarrow> string \<Rightarrow> string \<Rightarrow> 'c cworld \<Rightarrow> 'c cworld" where
  "mark_query_failure env cfg key reason w = fst (mark_failure env key reason (retry_after cfg) w)"

text \<open>
  The ratio as a number: \<^verbatim>\<open>New\<close> refuses configurations whose ratio is not finite
  (\<open>valid_circuit_policy\<close>).
\<close>

definition ratio_value :: "float64 \<Rightarrow> rat" where
  "ratio_value x = (case x of Finite q \<Rightarrow> q | _ \<Rightarrow> 0)"

definition record_query_deadline ::
    "('c, 'v) coord_env \<Rightarrow> config \<Rightarrow> string \<Rightarrow> string \<Rightarrow> string \<Rightarrow> string \<Rightarrow> gotime \<Rightarrow> 'c cworld \<Rightarrow>
     'c cworld" where
  "record_query_deadline env cfg operation level key token completed_at w =
     (let p = circuit_policy_of cfg;
          (w', r) = record_deadline_with_policy env key (cp_minimum_samples p)
            (cp_deadline_threshold p) (ratio_value (cp_deadline_ratio p))
            (cp_hard_protection_count p) (cp_hard_protection_window p) (circuit_window cfg)
            (circuit_open_duration cfg) completed_at token w
      in case r of
           Inl e \<Rightarrow> w'
         | Inr (_, _, opened) \<Rightarrow>
             if opened then emit (ObserveCircuit operation circuit_event_open level) w' else w')"

definition reset_command ::
    "('c, 'v) coord_env \<Rightarrow> config \<Rightarrow> string \<Rightarrow> gotime \<Rightarrow> string \<Rightarrow> 'c cworld \<Rightarrow>
     'c cworld \<times> (err + bool)" where
  "reset_command env cfg key completed_at token w =
     reset_circuit_with_probe_policy env key completed_at (circuit_window cfg)
       (0 < circuit_minimum_samples cfg) (cp_hard_protection_window (circuit_policy_of cfg)) token w"

definition observe_reset :: "string \<Rightarrow> string \<Rightarrow> bool \<Rightarrow> 'c cworld \<Rightarrow> 'c cworld" where
  "observe_reset operation level reset w =
     (if reset then emit (ObserveCircuit operation circuit_event_reset level) w else w)"

definition reset_query_circuit ::
    "('c, 'v) coord_env \<Rightarrow> config \<Rightarrow> go_ctx \<Rightarrow> string \<Rightarrow> string \<Rightarrow> string \<Rightarrow> gotime \<Rightarrow> string \<Rightarrow>
     'c cworld \<Rightarrow> 'c cworld" where
  "reset_query_circuit env cfg cx operation level key completed_at token w =
     (let reset_cx = with_timeout env cx second w;
          (w', r) = reset_command env cfg key completed_at token w
      in case r of
           Inl e \<Rightarrow>
             if ctx_err env reset_cx w' \<noteq> None
             then enqueue_bookkeeping env cfg
                    (CircuitReset operation level key completed_at token) w'
             else w'
         | Inr reset \<Rightarrow> observe_reset operation level reset w')"

definition record_timed_out_failure ::
    "('c, 'v) coord_env \<Rightarrow> config \<Rightarrow> string \<Rightarrow> string \<Rightarrow> string \<Rightarrow> string \<Rightarrow> string \<Rightarrow> string \<Rightarrow>
     'c cworld \<Rightarrow> 'c cworld" where
  "record_timed_out_failure env cfg operation level circuit_k failure_k token reason w =
     enqueue_bookkeeping env cfg
       (TimeoutMarkers operation level circuit_k failure_k token reason (client_now env w))
       (emit (TimeoutReported circuit_k token) w)"

definition release_query_probe ::
    "('c, 'v) coord_env \<Rightarrow> config \<Rightarrow> go_ctx \<Rightarrow> string \<Rightarrow> string \<Rightarrow> 'c cworld \<Rightarrow>
     'c cworld \<times> err option" where
  "release_query_probe env cfg cx key token w =
     (let release_cx = with_timeout env cx second w;
          (w', r) = release_circuit_probe env key token (emit (ProbeReleased key token) w)
      in case r of
           Inr _ \<Rightarrow> (w', None)
         | Inl e \<Rightarrow>
             if ctx_err env release_cx w' = None then (w', Some e)
             else (enqueue_bookkeeping env cfg (ProbeRelease key token) w', None))"

definition release_query_lease ::
    "('c, 'v) coord_env \<Rightarrow> config \<Rightarrow> go_ctx \<Rightarrow> string \<Rightarrow> string \<Rightarrow> 'c cworld \<Rightarrow>
     'c cworld \<times> err option" where
  "release_query_lease env cfg cx key token w =
     (let release_cx = with_timeout env cx second w;
          (w', r) = release_lease env key token (emit (LeaseReleased key token) w)
      in case r of
           Inr _ \<Rightarrow> (w', None)
         | Inl e \<Rightarrow>
             if ctx_err env release_cx w' = None then (w', Some e)
             else (enqueue_bookkeeping env cfg (LeaseRelease key token) w', None))"

text \<open>
  What the goroutine of \<^verbatim>\<open>enqueueBookkeeping\<close> does with a task. An error is only logged, and the slot
  of the channel is free afterwards.
\<close>

definition run_task :: "('c, 'v) coord_env \<Rightarrow> config \<Rightarrow> task \<Rightarrow> 'c cworld \<Rightarrow> 'c cworld" where
  "run_task env cfg t w =
     (case t of
        TimeoutMarkers operation level circuit_k failure_k token reason completed_at \<Rightarrow>
          mark_query_failure env cfg failure_k reason
            (record_query_deadline env cfg operation level circuit_k token completed_at w)
      | CircuitReset operation level key completed_at token \<Rightarrow>
          (let (w', r) = reset_command env cfg key completed_at token w
           in case r of Inl e \<Rightarrow> w' | Inr reset \<Rightarrow> observe_reset operation level reset w')
      | ProbeRelease key token \<Rightarrow> fst (release_circuit_probe env key token w)
      | LeaseRelease key token \<Rightarrow> fst (release_lease env key token w))"

definition complete_task :: "('c, 'v) coord_env \<Rightarrow> config \<Rightarrow> nat \<Rightarrow> 'c cworld \<Rightarrow> 'c cworld" where
  "complete_task env cfg i w =
     (if i < length (k_tasks w)
      then (run_task env cfg (k_tasks w ! i) w)
             \<lparr>k_tasks := take i (k_tasks w) @ drop (Suc i) (k_tasks w)\<rparr>
      else w)"

section \<open>Waiting\<close>

fun wait_for_student_lease ::
    "nat \<Rightarrow> ('c, 'v) coord_env \<Rightarrow> config \<Rightarrow> go_ctx \<Rightarrow> string \<Rightarrow> 'c cworld \<Rightarrow>
     ('c cworld \<times> (err + string)) option" where
  "wait_for_student_lease 0 env cfg cx key w = None"
| "wait_for_student_lease (Suc n) env cfg cx key w =
     (case acquire_lease env key (lease_ttl cfg) w of
        (w1, Inl e) \<Rightarrow> Some (w1, Inl (Sentinel ErrProviderUnavailable))
      | (w1, Inr (token, acquired)) \<Rightarrow>
          if acquired then Some (emit (LeaseAcquired key token) w1, Inr token)
          else
            let w2 = pass_time w1
            in case ctx_err env cx w2 of
                 Some e \<Rightarrow>
                   if ke_choose env (w_step w2) then wait_for_student_lease n env cfg cx key w2
                   else Some (w2, Inl e)
               | None \<Rightarrow> wait_for_student_lease n env cfg cx key w2)"

fun acquire_permit ::
    "nat \<Rightarrow> ('c, 'v) coord_env \<Rightarrow> config \<Rightarrow> go_ctx \<Rightarrow> 'c cworld \<Rightarrow>
     ('c cworld \<times> err option) option" where
  "acquire_permit 0 env cfg cx w = None"
| "acquire_permit (Suc n) env cfg cx w =
     (let p = ke_permits env (w_step w) (k_permits w);
          w1 = w\<lparr>k_permits := p\<rparr>;
          taken = Some (emit PermitAcquired (w1\<lparr>k_permits := p + 1\<rparr>), None);
          free = (p < permit_capacity cfg)
      in case ctx_err env cx w of
           Some e \<Rightarrow> if free \<and> ke_choose env (w_step w) then taken else Some (w1, Some e)
         | None \<Rightarrow> if free then taken else acquire_permit n env cfg cx (pass_time w1))"

definition release_permit :: "'c cworld \<Rightarrow> 'c cworld" where
  "release_permit w = emit PermitReleased (w\<lparr>k_permits := k_permits w - 1\<rparr>)"

section \<open>One load\<close>

text \<open>The arguments a load keeps passing on.\<close>

record query =
  q_student :: student_reference
  q_credential :: credential
  q_operation :: string
  q_period :: string
  q_digest :: string

definition level_of :: "query \<Rightarrow> string" where
  "level_of q = sr_education_level (q_student q)"

definition circuit_key_of :: "('v, 'p, 'c) codec \<Rightarrow> query \<Rightarrow> string" where
  "circuit_key_of cd q = circuit_key cd (q_operation q) (level_of q)"

text \<open>What a load may fall back to: the state, the value and the metadata of the last read.\<close>

type_synonym 'v fallback = "'v loaded"

definition cached_result :: "'v \<Rightarrow> 'v fallback \<Rightarrow> 'v query_result" where
  "cached_result zero fb =
     (case fb of (_, metadata, v) \<Rightarrow>
        \<lparr>qr_records = (case v of None \<Rightarrow> zero | Some x \<Rightarrow> x), qr_cache = metadata\<rparr>)"

definition loaded_or_miss :: "err + 'v loaded \<Rightarrow> 'v loaded" where
  "loaded_or_miss r = (case r of Inl _ \<Rightarrow> missed | Inr l \<Rightarrow> l)"

definition error_of :: "err + 'a \<Rightarrow> err option" where
  "error_of r = (case r of Inl e \<Rightarrow> Some e | Inr _ \<Rightarrow> None)"

text \<open>
  The stale fallback: with stale reads allowed and a stale value at hand it is returned and
  reported, otherwise the error is.
\<close>

definition fall_back ::
    "('c, 'v) coord_env \<Rightarrow> config \<Rightarrow> query \<Rightarrow> 'v fallback \<Rightarrow> string \<Rightarrow> err \<Rightarrow> 'c cworld \<Rightarrow>
     'c cworld \<times> (err + 'v query_result)" where
  "fall_back env cfg q fb reason e w =
     (if allows_stale cfg \<and> fst fb = CacheStale
      then (emit (ObserveStaleFallback (q_operation q) reason (level_of q)) w,
            Inr (cached_result (ke_zero env) fb))
      else (w, Inl e))"

definition current_rate :: "('c, 'v) coord_env \<Rightarrow> config \<Rightarrow> nat \<Rightarrow> string \<times> int \<times> int" where
  "current_rate env cfg n =
     (case ke_rate_limits env of
        Some policies \<Rightarrow>
          (let p = policies n
           in if configured p
              then (revision p, global_rate (academic_query p), global_burst (academic_query p))
              else (''bootstrap'', config_rate cfg, config_burst cfg))
      | None \<Rightarrow> (''bootstrap'', config_rate cfg, config_burst cfg))"

text \<open>
  After the provider answered. The flag of the result says whether the probe is still to be
  released on exit.
\<close>

definition after_error ::
    "('v, 'p, 'c) codec \<Rightarrow> ('c, 'v) coord_env \<Rightarrow> config \<Rightarrow> query \<Rightarrow> string \<Rightarrow> 'v fallback \<Rightarrow> bool \<Rightarrow>
     err \<Rightarrow> 'c cworld \<Rightarrow> 'c cworld \<times> bool \<times> (err + 'v query_result)" where
  "after_error cd env cfg q token fb probe e w =
     (if \<not> stale_eligible e then (w, probe, Inl e)
      else
        let reason = stale_fallback_reason e;
            late = errors_is e DeadlineExceeded;
            w1 = (if late
                  then record_timed_out_failure env cfg (q_operation q) (level_of q)
                         (circuit_key_of cd q) (failure_key (q_digest q)) token reason w
                  else mark_query_failure env cfg (failure_key (q_digest q)) reason w);
            (w2, r) = fall_back env cfg q fb reason e w1
        in (w2, probe \<and> \<not> late, r))"

definition after_success ::
    "('v, 'p, 'c) codec \<Rightarrow> ('c, 'v) coord_env \<Rightarrow> config \<Rightarrow> go_ctx \<Rightarrow> query \<Rightarrow> string \<Rightarrow> bool \<Rightarrow>
     'v \<Rightarrow> 'c cworld \<Rightarrow> 'c cworld \<times> bool \<times> (err + 'v query_result)" where
  "after_success cd env cfg cx q token probe v w =
     (let w1 = reset_query_circuit env cfg cx (q_operation q) (level_of q) (circuit_key_of cd q)
                 (client_now env w) (if probe then token else '''') w;
          policy = policy_of cfg (q_operation q);
          key = result_key (q_digest q);
          (w2, r) = save cd env key (student_index_key cd (sr_student_no (q_student q))) v
                      (fresh_ttl policy) (stale_ttl policy) w1;
          w3 = (case r of Inl e \<Rightarrow> w2 | Inr _ \<Rightarrow> emit (ResultSaved key) w2)
      in (w3, probe, Inr \<lparr>qr_records = v, qr_cache = None\<rparr>))"

text \<open>The part of \<^verbatim>\<open>loadAsLeader\<close> that runs with a permit.\<close>

definition call_provider ::
    "('v, 'p, 'c) codec \<Rightarrow> ('c, 'v) coord_env \<Rightarrow> config \<Rightarrow> go_ctx \<Rightarrow> query \<Rightarrow> string \<Rightarrow>
     'v fallback \<Rightarrow> bool \<Rightarrow> 'c cworld \<Rightarrow> 'c cworld \<times> bool \<times> (err + 'v query_result)" where
  "call_provider cd env cfg cx q token fb probe w =
     (let (rev, rate, burst) = current_rate env cfg (w_step w);
          (w1, r) = allow_global env rev rate burst w
      in case r of
           Inl e \<Rightarrow> (w1, probe, Inl (Sentinel ErrProviderUnavailable))
         | Inr (allowed, wait) \<Rightarrow>
             if \<not> allowed then
               (let retry = (if wait < retry_after cfg then retry_after cfg else wait);
                    w2 = mark_query_failure env cfg (failure_key (q_digest q)) stale_fallback_busy w1;
                    (w3, r) = fall_back env cfg q fb stale_fallback_busy (ProviderBusyError retry) w2
                in (w3, probe, r))
             else
               (let w2 = emit (ProviderCalled (q_operation q)) (emit RateAllowed w1);
                    answer = ke_next env (w_step w2) (q_student q) (q_credential q)
                               (q_operation q) (q_period q);
                    w3 = pass_time w2
                in case answer of
                     Inl e \<Rightarrow> after_error cd env cfg q token fb probe e w3
                   | Inr v \<Rightarrow> after_success cd env cfg cx q token probe v w3))"

definition with_permit ::
    "nat \<Rightarrow> ('v, 'p, 'c) codec \<Rightarrow> ('c, 'v) coord_env \<Rightarrow> config \<Rightarrow> go_ctx \<Rightarrow> query \<Rightarrow> string \<Rightarrow>
     'v fallback \<Rightarrow> bool \<Rightarrow> 'c cworld \<Rightarrow> ('c cworld \<times> bool \<times> (err + 'v query_result)) option" where
  "with_permit n cd env cfg cx q token fb probe w =
     (case acquire_permit n env cfg cx w of
        None \<Rightarrow> None
      | Some (w1, Some e) \<Rightarrow> Some (w1, probe, Inl e)
      | Some (w1, None) \<Rightarrow>
          (let (w2, probe', r) = call_provider cd env cfg cx q token fb probe w1
           in Some (release_permit w2, probe', r)))"

text \<open>
  The part that runs with the student lease: read again, ask the circuit (for the probe too), and
  give the probe back on the way out.
\<close>

definition probe_ttl_of ::
    "('c, 'v) coord_env \<Rightarrow> config \<Rightarrow> go_ctx \<Rightarrow> 'c cworld \<Rightarrow> duration" where
  "probe_ttl_of env cfg cx w =
     (case cx_deadline cx of None \<Rightarrow> lease_ttl cfg | Some d \<Rightarrow> d - client_now env w)"

definition enter_circuit ::
    "nat \<Rightarrow> ('v, 'p, 'c) codec \<Rightarrow> ('c, 'v) coord_env \<Rightarrow> config \<Rightarrow> go_ctx \<Rightarrow> query \<Rightarrow> string \<Rightarrow>
     'v fallback \<Rightarrow> 'c cworld \<Rightarrow> ('c cworld \<times> (err + 'v query_result)) option" where
  "enter_circuit n cd env cfg cx q token fb w =
     (let ttl = probe_ttl_of env cfg cx w;
          key = circuit_key_of cd q
      in if cx_deadline cx \<noteq> None \<and> ttl \<le> 0
         then Some (w, case ctx_err env cx w of
                         Some e \<Rightarrow> Inl e
                       | None \<Rightarrow> Inr \<lparr>qr_records = ke_zero env, qr_cache = None\<rparr>)
         else
           case circuit_open env key token ttl w of
             (w1, Inl e) \<Rightarrow> Some (w1, Inl (Sentinel ErrProviderUnavailable))
           | (w1, Inr (is_open, retry, probe)) \<Rightarrow>
               if is_open then
                 Some (fall_back env cfg q fb stale_fallback_circuit (ProviderBusyError retry)
                         (emit (ObserveCircuit (q_operation q) circuit_event_reject (level_of q)) w1))
               else
                 (case with_permit n cd env cfg cx q token fb probe
                         (emit (CircuitPassed key probe) w1) of
                    None \<Rightarrow> None
                  | Some (w2, release_probe, r) \<Rightarrow>
                      Some (if release_probe then fst (release_query_probe env cfg cx key token w2)
                            else w2, r)))"

text \<open>A read of the cache on the way: what it found, and whether that is the answer already.\<close>

definition read_for_load ::
    "('v, 'p, 'c) codec \<Rightarrow> ('c, 'v) coord_env \<Rightarrow> config \<Rightarrow> query \<Rightarrow> 'c cworld \<Rightarrow>
     'c cworld \<times> bool \<times> 'v fallback" where
  "read_for_load cd env cfg q w =
     (let (w1, r) = load_with_metadata cd env (result_key (q_digest q)) w;
          fb = loaded_or_miss r;
          w2 = observe_cache_bypass cfg (q_operation q) (fst fb) (error_of r) (level_of q) w1
      in (w2, error_of r = None \<and> fst fb = CacheFresh \<and> returns_fresh cfg, fb))"

text \<open>A read that failed counts as a miss, so a stale state means that the read succeeded.\<close>

definition with_student_lease ::
    "nat \<Rightarrow> ('v, 'p, 'c) codec \<Rightarrow> ('c, 'v) coord_env \<Rightarrow> config \<Rightarrow> go_ctx \<Rightarrow> query \<Rightarrow> string \<Rightarrow>
     'v fallback \<Rightarrow> 'c cworld \<Rightarrow> ('c cworld \<times> (err + 'v query_result)) option" where
  "with_student_lease n cd env cfg cx q token fb w =
     (let (w1, hit, refreshed) = read_for_load cd env cfg q w
      in if hit then Some (w1, Inr (cached_result (ke_zero env) refreshed))
         else
           enter_circuit n cd env cfg cx q token
             (if fst refreshed = CacheStale \<and> allows_stale cfg then refreshed else fb) w1)"

definition load_as_leader ::
    "nat \<Rightarrow> ('v, 'p, 'c) codec \<Rightarrow> ('c, 'v) coord_env \<Rightarrow> config \<Rightarrow> go_ctx \<Rightarrow> query \<Rightarrow> string \<Rightarrow>
     'v fallback \<Rightarrow> 'c cworld \<Rightarrow> ('c cworld \<times> (err + 'v query_result)) option" where
  "load_as_leader n cd env cfg cx q token fb w =
     (let student_key = student_lease_key (digest cd [''student'', sr_student_no (q_student q)]);
          give_back = (\<lambda>w. fst (release_query_lease env cfg cx (query_lease_key (q_digest q)) token w))
      in case wait_for_student_lease n env cfg cx student_key w of
           None \<Rightarrow> None
         | Some (w1, Inl e) \<Rightarrow> Some (give_back w1, Inl e)
         | Some (w1, Inr student_token) \<Rightarrow>
             (case with_student_lease n cd env cfg cx q token fb w1 of
                None \<Rightarrow> None
              | Some (w2, r) \<Rightarrow>
                  Some (give_back (fst (release_query_lease env cfg cx student_key student_token w2)),
                        r)))"

text \<open>
  One turn of the loop of \<^verbatim>\<open>loadDistributed\<close>: read the cache, the circuit and the failure marker,
  then try to become the leader; wait for a tick otherwise.
\<close>

datatype ('c, 'v) turn =
    Finished "'c cworld" "err + 'v query_result"
  | Leads "'c cworld" string
  | Waits "'c cworld"

definition wait_for_tick ::
    "('c, 'v) coord_env \<Rightarrow> go_ctx \<Rightarrow> 'c cworld \<Rightarrow> ('c, 'v) turn" where
  "wait_for_tick env cx w =
     (let w1 = pass_time w
      in case ctx_err env cx w1 of
           Some e \<Rightarrow> if ke_choose env (w_step w1) then Waits w1 else Finished w1 (Inl e)
         | None \<Rightarrow> Waits w1)"

definition try_to_lead ::
    "('c, 'v) coord_env \<Rightarrow> config \<Rightarrow> go_ctx \<Rightarrow> query \<Rightarrow> 'c cworld \<Rightarrow> ('c, 'v) turn" where
  "try_to_lead env cfg cx q w =
     (let key = query_lease_key (q_digest q)
      in case acquire_lease env key (lease_ttl cfg) w of
           (w1, Inl e) \<Rightarrow> Finished w1 (Inl (Sentinel ErrProviderUnavailable))
         | (w1, Inr (token, acquired)) \<Rightarrow>
             if acquired then Leads (emit (LeaseAcquired key token) w1) token
             else wait_for_tick env cx w1)"

definition finished_by :: "'c cworld \<times> (err + 'v query_result) \<Rightarrow> ('c, 'v) turn" where
  "finished_by x = (case x of (w, r) \<Rightarrow> Finished w r)"

text \<open>The failure marker is not asked when every request is forced upstream.\<close>

definition check_marker ::
    "('c, 'v) coord_env \<Rightarrow> config \<Rightarrow> go_ctx \<Rightarrow> query \<Rightarrow> 'v fallback \<Rightarrow> 'c cworld \<Rightarrow>
     ('c, 'v) turn" where
  "check_marker env cfg cx q fb w =
     (if \<not> returns_fresh cfg then try_to_lead env cfg cx q w
      else
        case failed_recently env (failure_key (q_digest q)) w of
          (w1, Inl e) \<Rightarrow> Finished w1 (Inl (Sentinel ErrProviderUnavailable))
        | (w1, Inr (Some reason)) \<Rightarrow>
            finished_by (fall_back env cfg q fb reason (ProviderBusyError (retry_after cfg)) w1)
        | (w1, Inr None) \<Rightarrow> try_to_lead env cfg cx q w1)"

definition check_circuit ::
    "('v, 'p, 'c) codec \<Rightarrow> ('c, 'v) coord_env \<Rightarrow> config \<Rightarrow> go_ctx \<Rightarrow> query \<Rightarrow> 'v fallback \<Rightarrow>
     'c cworld \<Rightarrow> ('c, 'v) turn" where
  "check_circuit cd env cfg cx q fb w =
     (case circuit_open env (circuit_key_of cd q) '''' 0 w of
        (w1, Inl e) \<Rightarrow> Finished w1 (Inl (Sentinel ErrProviderUnavailable))
      | (w1, Inr (is_open, retry, _)) \<Rightarrow>
          if is_open then
            finished_by (fall_back env cfg q fb stale_fallback_circuit (ProviderBusyError retry)
              (emit (ObserveCircuit (q_operation q) circuit_event_reject (level_of q)) w1))
          else check_marker env cfg cx q fb w1)"

fun load_distributed ::
    "nat \<Rightarrow> ('v, 'p, 'c) codec \<Rightarrow> ('c, 'v) coord_env \<Rightarrow> config \<Rightarrow> go_ctx \<Rightarrow> query \<Rightarrow> 'c cworld \<Rightarrow>
     ('c cworld \<times> (err + 'v query_result)) option" where
  "load_distributed 0 cd env cfg cx q w = None"
| "load_distributed (Suc n) cd env cfg cx q w =
     (let (w1, hit, fb) = read_for_load cd env cfg q w
      in if hit then Some (w1, Inr (cached_result (ke_zero env) fb))
         else
           case check_circuit cd env cfg cx q fb w1 of
             Finished w2 r \<Rightarrow> Some (w2, r)
           | Leads w2 token \<Rightarrow> load_as_leader n cd env cfg cx q token fb w2
           | Waits w2 \<Rightarrow> load_distributed n cd env cfg cx q w2)"

section \<open>One request\<close>

definition query_digest ::
    "('v, 'p, 'c) codec \<Rightarrow> student_reference \<Rightarrow> credential \<Rightarrow> string \<Rightarrow> string \<Rightarrow> string" where
  "query_digest cd student cred operation period =
     digest cd [result_cache_discriminator operation, sr_provider student,
                sr_education_level student, sr_student_no student, operation, period,
                digest cd [''credential-v1'', cr_student_no cred, cr_password cred]]"

text \<open>
  The answer of the load, or of the leader a follower waited for. A value of another type than the
  operation's (\<open>None\<close>) is refused.
\<close>

definition use_result ::
    "('c, 'v) coord_env \<Rightarrow> config \<Rightarrow> query \<Rightarrow> 'v fallback \<Rightarrow> err + 'v query_result option \<Rightarrow>
     'c cworld \<Rightarrow> 'c cworld \<times> (err + 'v query_result)" where
  "use_result env cfg q fb r w =
     (case r of
        Inl e \<Rightarrow>
          if stale_eligible e then fall_back env cfg q fb (stale_fallback_reason e) e w
          else (w, Inl e)
      | Inr None \<Rightarrow> (w, Inl (Sentinel ErrProviderUnavailable))
      | Inr (Some v) \<Rightarrow> (w, Inr v))"

text \<open>
  The final \<^verbatim>\<open>select\<close>. When the caller's context is done by the time the result is there, either
  case may have been taken. A follower is reported in both cases (in the second one by a goroutine
  that waits for the result).
\<close>

definition await ::
    "('c, 'v) coord_env \<Rightarrow> config \<Rightarrow> go_ctx \<Rightarrow> query \<Rightarrow> 'v fallback \<Rightarrow> bool \<Rightarrow>
     err + 'v query_result option \<Rightarrow> 'c cworld \<Rightarrow> 'c cworld \<times> (err + 'v query_result)" where
  "await env cfg cx q fb follower r w =
     (let w1 = (if follower
                then observe_singleflight env (q_operation q) ''follower'' (level_of q) w else w)
      in case ctx_err env cx w1 of
           Some e \<Rightarrow> if ke_choose env (w_step w1) then use_result env cfg q fb r w1 else (w1, Inl e)
         | None \<Rightarrow> use_result env cfg q fb r w1)"

definition run_load ::
    "nat \<Rightarrow> ('v, 'p, 'c) codec \<Rightarrow> ('c, 'v) coord_env \<Rightarrow> config \<Rightarrow> go_ctx \<Rightarrow> query \<Rightarrow> cache_state \<Rightarrow>
     'c cworld \<Rightarrow> ('c cworld \<times> (err + 'v query_result)) option" where
  "run_load n cd env cfg cx q state w =
     (let w1 = (if returns_fresh cfg
                then observe_singleflight env (q_operation q) ''leader'' (level_of q) w else w)
      in load_distributed n cd env cfg
           (detached_timeout_context env cx (timeout_of cfg (q_operation q) state) w1) q w1)"

definition as_any :: "err + 'v query_result \<Rightarrow> err + 'v query_result option" where
  "as_any r = (case r of Inl e \<Rightarrow> Inl e | Inr v \<Rightarrow> Inr (Some v))"

definition execute_query ::
    "nat \<Rightarrow> ('v, 'p, 'c) codec \<Rightarrow> ('c, 'v) coord_env \<Rightarrow> config \<Rightarrow> go_ctx \<Rightarrow> query \<Rightarrow> 'c cworld \<Rightarrow>
     ('c cworld \<times> (err + 'v query_result)) option" where
  "execute_query n cd env cfg cx q w =
     (case ctx_err env cx w of
        Some e \<Rightarrow> Some (w, Inl e)
      | None \<Rightarrow>
          if cr_student_no (q_credential q) \<noteq> sr_student_no (q_student q)
          then Some (w, Inl (Sentinel ErrInvalidCredentials))
          else
            let (w1, r) = load_with_metadata cd env (result_key (q_digest q)) w;
                fb = loaded_or_miss r;
                w2 = emit (ObserveCache (q_operation q) (cache_state_label (fst fb) (error_of r))
                             (level_of q)) w1;
                w3 = observe_cache_bypass cfg (q_operation q) (fst fb) (error_of r) (level_of q)
                       (w2\<lparr>k_bypass_observed := False\<rparr>)
            in if error_of r = None \<and> fst fb = CacheFresh \<and> returns_fresh cfg
               then Some (w3, Inr (cached_result (ke_zero env) fb))
               else
                 let w4 = w3\<lparr>k_calls := k_calls w3 + 1\<rparr>
                 in if returns_fresh cfg \<and> ke_flight env (w_step w4) \<noteq> Lead
                    then (case ke_flight env (w_step w4) of
                            Follow shared \<Rightarrow> Some (await env cfg cx q fb True shared (pass_time w4))
                          | Lead \<Rightarrow> None)
                    else
                      (case run_load n cd env cfg cx q (fst fb) w4 of
                         None \<Rightarrow> None
                       | Some (w5, r) \<Rightarrow> Some (await env cfg cx q fb False (as_any r) w5)))"

definition execute ::
    "nat \<Rightarrow> ('v, 'p, 'c) codec \<Rightarrow> ('c, 'v) coord_env \<Rightarrow> config \<Rightarrow> go_ctx \<Rightarrow> student_reference \<Rightarrow>
     credential \<Rightarrow> string \<Rightarrow> string \<Rightarrow> 'c cworld \<Rightarrow> ('c cworld \<times> (err + 'v query_result)) option"
where
  "execute n cd env cfg cx student cred operation period w =
     (case execute_query n cd env cfg cx
             \<lparr>q_student = student, q_credential = cred, q_operation = operation, q_period = period,
              q_digest = query_digest cd student cred operation period\<rparr> w of
        None \<Rightarrow> None
      | Some (w', r) \<Rightarrow>
          Some (emit (ObserveQuery operation (query_outcome (error_of r))
                        (sr_education_level student)) w', r))"

text \<open>The exported operations: with provenance, and the records alone.\<close>

definition list_courses_with_cache where
  "list_courses_with_cache n cd env cfg cx student cred period =
     execute n cd env cfg cx student cred operation_courses period"

definition list_grades_with_cache where
  "list_grades_with_cache n cd env cfg cx student cred period =
     execute n cd env cfg cx student cred operation_grades period"

definition list_exams_with_cache where
  "list_exams_with_cache n cd env cfg cx student cred period =
     execute n cd env cfg cx student cred operation_exams period"

definition list_course_selections_with_cache where
  "list_course_selections_with_cache n cd env cfg cx student cred period =
     execute n cd env cfg cx student cred operation_selections period"

definition records_only ::
    "('c cworld \<times> (err + 'v query_result)) option \<Rightarrow> ('c cworld \<times> (err + 'v)) option" where
  "records_only r =
     map_option (\<lambda>(w, x). (w, case x of Inl e \<Rightarrow> Inl e | Inr v \<Rightarrow> Inr (qr_records v))) r"

definition list_courses where
  "list_courses n cd env cfg cx student cred period w =
     records_only (list_courses_with_cache n cd env cfg cx student cred period w)"

definition list_grades where
  "list_grades n cd env cfg cx student cred period w =
     records_only (list_grades_with_cache n cd env cfg cx student cred period w)"

definition list_exams where
  "list_exams n cd env cfg cx student cred period w =
     records_only (list_exams_with_cache n cd env cfg cx student cred period w)"

definition list_course_selections where
  "list_course_selections n cd env cfg cx student cred period w =
     records_only (list_course_selections_with_cache n cd env cfg cx student cred period w)"

text \<open>
  \<^verbatim>\<open>GetCourseSelectionSchedule\<close> is passed on to a provider that has it.
\<close>

definition get_course_selection_schedule ::
    "(student_reference \<Rightarrow> credential \<Rightarrow> string \<Rightarrow> err + 'v) option \<Rightarrow> student_reference \<Rightarrow>
     credential \<Rightarrow> string \<Rightarrow> err + 'v" where
  "get_course_selection_schedule provider student cred period =
     (case provider of
        None \<Rightarrow> Inl (Sentinel ErrProviderUnavailable)
      | Some f \<Rightarrow> f student cred period)"

section \<open>Revocation\<close>

definition delete_student_results ::
    "nat \<Rightarrow> ('v, 'p, 'c) codec \<Rightarrow> ('c, 'v) coord_env \<Rightarrow> config \<Rightarrow> go_ctx \<Rightarrow> string \<Rightarrow> 'c cworld \<Rightarrow>
     ('c cworld \<times> err option) option" where
  "delete_student_results n cd env cfg cx student_no w =
     (let key = student_lease_key (digest cd [''student'', student_no])
      in case wait_for_student_lease n env cfg cx key w of
           None \<Rightarrow> None
         | Some (w1, Inl e) \<Rightarrow> Some (w1, Some e)
         | Some (w1, Inr token) \<Rightarrow>
             (let (w2, r) = delete_student cd env student_no w1
              in Some (fst (release_query_lease env cfg cx key token w2), error_of r)))"

end
