(* ===== verification/CoordinatorSafety.thy ===== *)
theory CoordinatorSafety
  imports Coordinator
begin

text \<open>
  What every run of the coordinator respects, for all environments: the protocol of leases,
  circuit, permit and rate limit around a provider call, the cache modes, the bounds of contexts
  and queues, and that the waiting loops return.
\<close>

section \<open>The protocol around a provider call\<close>

text \<open>What a request holds, read off its trace.\<close>

record hold =
  h_query :: "(string \<times> string) option"
  h_student :: "(string \<times> string) option"
  h_circuit :: "(string \<times> bool) option"
  h_permit :: bool
  h_allowed :: bool

definition no_hold :: hold where
  "no_hold = \<lparr>h_query = None, h_student = None, h_circuit = None, h_permit = False,
              h_allowed = False\<rparr>"

text \<open>
  The specification: which event is allowed in which situation. A provider call needs both leases,
  a circuit that let the request pass, a permit and a token of the rate limiter (used up by the
  call). Results are saved under the student lease. Everything is given back in reverse order, and
  the student lease not before a granted probe was released or its timeout was reported.
\<close>

definition protocol :: "hold \<Rightarrow> event \<Rightarrow> hold option" where
  "protocol h e =
     (case e of
        LeaseAcquired k t \<Rightarrow>
          if h_query h = None then Some (h\<lparr>h_query := Some (k, t)\<rparr>)
          else if h_student h = None then Some (h\<lparr>h_student := Some (k, t)\<rparr>) else None
      | CircuitPassed k p \<Rightarrow>
          if h_student h \<noteq> None \<and> h_circuit h = None then Some (h\<lparr>h_circuit := Some (k, p)\<rparr>)
          else None
      | PermitAcquired \<Rightarrow>
          if h_circuit h \<noteq> None \<and> \<not> h_permit h then Some (h\<lparr>h_permit := True\<rparr>) else None
      | RateAllowed \<Rightarrow> if h_permit h then Some (h\<lparr>h_allowed := True\<rparr>) else None
      | ProviderCalled _ \<Rightarrow>
          if h_query h \<noteq> None \<and> h_student h \<noteq> None \<and> h_circuit h \<noteq> None \<and> h_permit h \<and>
             h_allowed h
          then Some (h\<lparr>h_allowed := False\<rparr>) else None
      | ResultSaved _ \<Rightarrow> if h_student h \<noteq> None \<and> h_permit h then Some h else None
      | TimeoutReported k t \<Rightarrow>
          if map_option fst (h_circuit h) = Some k \<and> map_option snd (h_query h) = Some t
          then Some (h\<lparr>h_circuit := Some (k, False)\<rparr>) else None
      | PermitReleased \<Rightarrow>
          if h_permit h then Some (h\<lparr>h_permit := False, h_allowed := False\<rparr>) else None
      | ProbeReleased k t \<Rightarrow>
          if h_circuit h = Some (k, True) \<and> \<not> h_permit h \<and> map_option snd (h_query h) = Some t
          then Some (h\<lparr>h_circuit := Some (k, False)\<rparr>) else None
      | LeaseReleased k t \<Rightarrow>
          if h_permit h then None
          else if h_student h = Some (k, t) \<and> map_option snd (h_circuit h) \<noteq> Some True
          then Some (h\<lparr>h_student := None, h_circuit := None\<rparr>)
          else if h_student h = None \<and> h_query h = Some (k, t) then Some (h\<lparr>h_query := None\<rparr>)
          else None
      | _ \<Rightarrow> Some h)"

fun protocol_run :: "hold \<Rightarrow> event list \<Rightarrow> hold option" where
  "protocol_run h [] = Some h"
| "protocol_run h (e # es) = (case protocol h e of None \<Rightarrow> None | Some h' \<Rightarrow> protocol_run h' es)"

lemma protocol_run_append:
  "protocol_run h (es @ fs) =
     (case protocol_run h es of None \<Rightarrow> None | Some h' \<Rightarrow> protocol_run h' fs)"
  by (induction es arbitrary: h) (simp_all split: option.splits)

definition moves :: "hold \<Rightarrow> 'c cworld \<Rightarrow> hold \<Rightarrow> 'c cworld \<Rightarrow> bool" where
  "moves h w h' w' \<longleftrightarrow> (\<exists>es. k_events w' = k_events w @ es \<and> protocol_run h es = Some h')"

lemma moves_same: "k_events w' = k_events w \<Longrightarrow> moves h w h w'"
  by (simp add: moves_def)

lemma moves_refl [simp]: "moves h w h w"
  by (simp add: moves_same)

lemma moves_trans: "moves h w h1 w1 \<Longrightarrow> moves h1 w1 h2 w2 \<Longrightarrow> moves h w h2 w2"
  unfolding moves_def by (fastforce simp: protocol_run_append)

lemma moves_emit: "protocol h e = Some h' \<Longrightarrow> moves h w h' (emit e w)"
  by (simp add: moves_def emit_def)

lemma moves_emit_after:
  "moves h w h1 w1 \<Longrightarrow> protocol h1 e = Some h2 \<Longrightarrow> moves h w h2 (emit e w1)"
  using moves_trans moves_emit by blast

lemma cworld_fields:
  "world.more (w :: 'c cworld) =
     cworld.fields (k_events w) (k_permits w) (k_tasks w) (k_bypass_observed w) (k_calls w)"
  by (cases w) (simp add: cworld.defs)

lemma cworld_more:
  fixes w w' :: "'c cworld"
  assumes "world.more w' = world.more w"
  shows "k_events w' = k_events w" and "k_permits w' = k_permits w" and "k_tasks w' = k_tasks w"
    and "k_bypass_observed w' = k_bypass_observed w" and "k_calls w' = k_calls w"
  using assms unfolding cworld_fields cworld.fields_def by (simp_all only: cworld.ext_inject)

lemma store_frame_moves: "store_frame w w' \<Longrightarrow> moves h w h w'"
  unfolding store_frame_def by (elim conjE) (intro moves_same cworld_more)

text \<open>The form in which an operation's equation gives its effect on the trace.\<close>

lemma framed:
  assumes "store_frame w (fst p)" and "p = (w', r)"
  shows "moves h w h w'"
  using assms store_frame_moves by simp

lemmas store_moves =
  framed [OF mark_failure_frame] framed [OF failed_recently_frame] framed [OF circuit_open_frame]
  framed [OF record_deadline_frame] framed [OF reset_circuit_frame]
  framed [OF release_circuit_probe_frame] framed [OF load_frame] framed [OF save_frame]
  framed [OF delete_student_frame] framed [OF acquire_lease_frame] framed [OF release_lease_frame]
  framed [OF allow_global_frame]

lemma moves_observers:
  "moves h w h (observe_singleflight env a b c w)" "moves h w h (pass_time w)"
  by (auto simp: observe_singleflight_def pass_time_def protocol_def
      intro: moves_emit moves_same)

lemma moves_bypass: "moves h w h (observe_cache_bypass cfg a st e c w)"
  by (simp add: observe_cache_bypass_def moves_def emit_def protocol_def)

lemma moves_enqueue: "moves h w h (enqueue_bookkeeping env cfg t w)"
  by (simp add: enqueue_bookkeeping_def Let_def moves_def emit_def protocol_def)

lemma moves_mark: "moves h w h (mark_query_failure env cfg key reason w)"
  unfolding mark_query_failure_def by (rule store_frame_moves) (rule mark_failure_frame)

lemmas moves_quiet = moves_observers(1) moves_bypass moves_enqueue moves_mark moves_observers(2)

lemma moves_then:
  "moves h w h1 w1 \<Longrightarrow> moves h w h1 (observe_singleflight env a b c w1)"
  "moves h w h1 w1 \<Longrightarrow> moves h w h1 (observe_cache_bypass cfg a st e c w1)"
  "moves h w h1 w1 \<Longrightarrow> moves h w h1 (enqueue_bookkeeping env cfg t w1)"
  "moves h w h1 w1 \<Longrightarrow> moves h w h1 (mark_query_failure env cfg key reason w1)"
  "moves h w h1 w1 \<Longrightarrow> moves h w h1 (pass_time w1)"
  by (erule moves_trans, rule moves_quiet)+

lemma moves_reset:
  "moves h w h (reset_query_circuit env cfg cx operation level key completed_at token w)"
proof -
  obtain w' r where c: "reset_command env cfg key completed_at token w = (w', r)" by fastforce
  have m: "moves h w h w'"
    using c store_moves(5) unfolding reset_command_def by blast
  show ?thesis
    using m
    by (auto simp: reset_query_circuit_def Let_def c observe_reset_def protocol_def
        intro: moves_emit_after moves_then(3) split: sum.splits)
qed

lemma moves_release_probe:
  assumes "protocol h (ProbeReleased key token) = Some h'"
  shows "moves h w h' (fst (release_query_probe env cfg cx key token w))"
proof -
  obtain w' r where
    c: "release_circuit_probe env key token (emit (ProbeReleased key token) w) = (w', r)"
    by fastforce
  have m: "moves h w h' w'"
    using moves_trans [OF moves_emit [OF assms] store_moves(6) [OF c]] .
  show ?thesis
    using m by (auto simp: release_query_probe_def Let_def c intro: moves_then(3) split: sum.splits)
qed

lemma moves_release_lease:
  assumes "protocol h (LeaseReleased key token) = Some h'"
  shows "moves h w h' (fst (release_query_lease env cfg cx key token w))"
proof -
  obtain w' r where
    c: "release_lease env key token (emit (LeaseReleased key token) w) = (w', r)" by fastforce
  have m: "moves h w h' w'"
    using moves_trans [OF moves_emit [OF assms] store_moves(11) [OF c]] .
  show ?thesis
    using m by (auto simp: release_query_lease_def Let_def c intro: moves_then(3) split: sum.splits)
qed

lemma moves_fall_back:
  "fall_back env cfg q fb reason e w = (w', r) \<Longrightarrow> moves h w h w'"
  by (auto simp: fall_back_def protocol_def intro: moves_emit split: if_splits)

lemma moves_wait:
  assumes "wait_for_student_lease n env cfg cx key w = Some (w', r)"
    and "\<And>t. protocol h (LeaseAcquired key t) = Some (f t)"
  shows "moves h w (case r of Inl _ \<Rightarrow> h | Inr t \<Rightarrow> f t) w'"
  using assms(1)
proof (induction n arbitrary: w)
  case (Suc n)
  obtain w1 a where a: "acquire_lease env key (lease_ttl cfg) w = (w1, a)" by fastforce
  note m = store_moves(10) [OF a, of h]
  show ?case
  proof (cases a)
    case (Inl e)
    with Suc.prems a m show ?thesis by auto
  next
    case (Inr b)
    obtain token acquired where b: "b = (token, acquired)" by fastforce
    show ?thesis
    proof (cases acquired)
      case True
      with Suc.prems a b Inr m show ?thesis
        using moves_emit_after [OF m assms(2)] by auto
    next
      case False
      have p: "moves h w h (pass_time w1)" using moves_then(5) [OF m] .
      have "Some (w', r) = Some (pass_time w1, Inl (the (ctx_err env cx (pass_time w1)))) \<or>
          wait_for_student_lease n env cfg cx key (pass_time w1) = Some (w', r)"
        using Suc.prems a b Inr False by (simp add: Let_def split: option.splits if_splits)
      then show ?thesis
        using p Suc.IH moves_trans [OF p] by auto
    qed
  qed
qed simp

lemma moves_permit:
  assumes "acquire_permit n env cfg cx w = Some (w', r)"
    and "protocol h PermitAcquired = Some h'"
  shows "moves h w (case r of None \<Rightarrow> h' | Some _ \<Rightarrow> h) w'"
  using assms(1)
proof (induction n arbitrary: w)
  case (Suc n)
  let ?w1 = "w\<lparr>k_permits := ke_permits env (w_step w) (k_permits w)\<rparr>"
  have p: "moves h w h ?w1" by (simp add: moves_same)
  have t: "moves h w h' (emit PermitAcquired (?w1\<lparr>k_permits := k_permits ?w1 + 1\<rparr>))"
    by (rule moves_emit_after [OF _ assms(2)]) (simp add: moves_same)
  have "Some (w', r) = Some (emit PermitAcquired (?w1\<lparr>k_permits := k_permits ?w1 + 1\<rparr>), None) \<or>
      (\<exists>e. Some (w', r) = Some (?w1, Some e)) \<or>
      acquire_permit n env cfg cx (pass_time ?w1) = Some (w', r)"
    using Suc.prems by (auto simp: Let_def split: option.splits if_splits)
  then show ?case
    using p t Suc.IH moves_trans [OF moves_then(5) [OF p]] by auto
qed simp

text \<open>The situations a load goes through.\<close>

definition holding :: "string \<times> string \<Rightarrow> (string \<times> string) option \<Rightarrow> (string \<times> bool) option \<Rightarrow> bool \<Rightarrow> hold"
where
  "holding ql sl circuit permit =
     \<lparr>h_query = Some ql, h_student = sl, h_circuit = circuit, h_permit = permit,
      h_allowed = False\<rparr>"

lemma holding_steps [simp]:
  "protocol no_hold (LeaseAcquired k t) = Some (holding (k, t) None None False)"
  "protocol (holding ql None None False) (LeaseAcquired k t) =
     Some (holding ql (Some (k, t)) None False)"
  "protocol (holding ql (Some sl) None False) (CircuitPassed ck p) =
     Some (holding ql (Some sl) (Some (ck, p)) False)"
  "protocol (holding ql so (Some d) False) PermitAcquired = Some (holding ql so (Some d) True)"
  "protocol (holding ql so c True) PermitReleased = Some (holding ql so c False)"
  "protocol (holding (qk, t) so (Some (ck, p)) x) (TimeoutReported ck t) =
     Some (holding (qk, t) so (Some (ck, False)) x)"
  "protocol (holding (qk, t) so (Some (ck, True)) False) (ProbeReleased ck t) =
     Some (holding (qk, t) so (Some (ck, False)) False)"
  "protocol (holding ql (Some sl) c True) (ResultSaved rk) = Some (holding ql (Some sl) c True)"
  "protocol (holding ql (Some (k, t)) None False) (LeaseReleased k t) =
     Some (holding ql None None False)"
  "protocol (holding ql (Some (k, t)) (Some (ck, False)) False) (LeaseReleased k t) =
     Some (holding ql None None False)"
  "protocol (holding (k, t) None None False) (LeaseReleased k t) = Some no_hold"
  by (simp_all add: protocol_def holding_def no_hold_def)

lemma protocol_observers [simp]:
  "protocol h (ObserveCache a b c) = Some h" "protocol h (ObserveCircuit a b c) = Some h"
  "protocol h (ObserveStaleFallback a b c) = Some h" "protocol h (ObserveQuery a b c) = Some h"
  by (simp_all add: protocol_def)

lemma moves_allowed_call:
  assumes "moves h w (holding ql (Some sl) (Some c) True) w1"
  shows "moves h w (holding ql (Some sl) (Some c) True)
     (emit (ProviderCalled a) (emit RateAllowed w1))"
  using assms
  by (rule moves_trans) (simp add: moves_def emit_def protocol_def holding_def)

lemma moves_after_error:
  assumes "after_error cd env cfg q t fb p e w = (w', p', r)"
  shows "moves (holding (qk, t) sl (Some (circuit_key_of cd q, p)) True) w
     (holding (qk, t) sl (Some (circuit_key_of cd q, p')) True) w'"
proof (cases "stale_eligible e")
  case False
  with assms show ?thesis by (simp add: after_error_def)
next
  case True
  let ?late = "errors_is e DeadlineExceeded"
  let ?ck = "circuit_key_of cd q"
  define w1 where "w1 = (if ?late
    then record_timed_out_failure env cfg (q_operation q) (level_of q) ?ck
           (failure_key (q_digest q)) t (stale_fallback_reason e) w
    else mark_query_failure env cfg (failure_key (q_digest q)) (stale_fallback_reason e) w)"
  have fb: "fall_back env cfg q fb (stale_fallback_reason e) e w1 = (w', r)"
    and p': "p' = (p \<and> \<not> ?late)"
    using assms True unfolding after_error_def w1_def Let_def
    by (auto split: prod.splits if_splits)
  have m: "moves (holding (qk, t) sl (Some (?ck, p)) True) w
      (holding (qk, t) sl (Some (?ck, p')) True) w1"
  proof (cases ?late)
    case True
    then have "w1 = enqueue_bookkeeping env cfg (TimeoutMarkers (q_operation q) (level_of q) ?ck
        (failure_key (q_digest q)) t (stale_fallback_reason e) (client_now env w))
        (emit (TimeoutReported ?ck t) w)"
      by (simp add: w1_def record_timed_out_failure_def)
    then show ?thesis unfolding p' using True by (auto intro!: moves_then(3) moves_emit)
  next
    case False
    then show ?thesis unfolding w1_def p' by (simp add: moves_quiet)
  qed
  show ?thesis using moves_trans [OF m moves_fall_back [OF fb]] .
qed

lemma moves_after_success:
  assumes "after_success cd env cfg cx q t p v w = (w', p', r)"
  shows "p' = p \<and> moves (holding ql (Some sl) c True) w (holding ql (Some sl) c True) w'"
proof -
  let ?h = "holding ql (Some sl) c True"
  define w1 where "w1 = reset_query_circuit env cfg cx (q_operation q) (level_of q)
    (circuit_key_of cd q) (client_now env w) (if p then t else '''') w"
  obtain w2 s where s: "save cd env (result_key (q_digest q))
      (student_index_key cd (sr_student_no (q_student q))) v
      (fresh_ttl (policy_of cfg (q_operation q))) (stale_ttl (policy_of cfg (q_operation q))) w1 =
      (w2, s)" by fastforce
  have "moves ?h w ?h w1" unfolding w1_def by (rule moves_reset)
  then have m: "moves ?h w ?h w2" using moves_trans store_moves(8) [OF s] by blast
  show ?thesis
    using assms s m unfolding after_success_def Let_def w1_def [symmetric]
    by (auto intro: moves_emit_after split: sum.splits)
qed

lemma moves_call_provider:
  assumes "call_provider cd env cfg cx q t fb p w = (w', p', r)"
  shows "moves (holding (qk, t) (Some sl) (Some (circuit_key_of cd q, p)) True) w
     (holding (qk, t) (Some sl) (Some (circuit_key_of cd q, p')) True) w'"
    (is "moves (?h p) w (?h p') w'")
proof -
  obtain rev rate burst where c: "current_rate env cfg (w_step w) = (rev, rate, burst)"
    by (metis prod_cases3)
  obtain w1 a where a: "allow_global env rev rate burst w = (w1, a)" by fastforce
  have m: "moves (?h p) w (?h p) w1" using store_moves(12) [OF a] .
  show ?thesis
  proof (cases a)
    case (Inl e)
    with assms c a m show ?thesis by (simp add: call_provider_def)
  next
    case (Inr b)
    obtain allowed wait where b: "b = (allowed, wait)" by fastforce
    show ?thesis
    proof (cases allowed)
      case False
      define w2 where "w2 = mark_query_failure env cfg (failure_key (q_digest q)) stale_fallback_busy w1"
      obtain w3 r3 where f: "fall_back env cfg q fb stale_fallback_busy (ProviderBusyError
          (if wait < retry_after cfg then retry_after cfg else wait)) w2 = (w3, r3)" by fastforce
      have "w' = w3" "p' = p"
        using assms c a b Inr False f w2_def by (simp_all add: call_provider_def Let_def)
      then show ?thesis
        using moves_trans [OF moves_then(4) [OF m] moves_fall_back [OF f [unfolded w2_def]]] by simp
    next
      case True
      define w3 where "w3 = pass_time (emit (ProviderCalled (q_operation q)) (emit RateAllowed w1))"
      have m3: "moves (?h p) w (?h p) w3"
        unfolding w3_def by (rule moves_then(5)) (rule moves_allowed_call [OF m])
      define answer where "answer = ke_next env
        (w_step (emit (ProviderCalled (q_operation q)) (emit RateAllowed w1)))
        (q_student q) (q_credential q) (q_operation q) (q_period q)"
      have result: "(case answer of Inl e \<Rightarrow> after_error cd env cfg q t fb p e w3
          | Inr v \<Rightarrow> after_success cd env cfg cx q t p v w3) = (w', p', r)"
        using assms c a b Inr True unfolding call_provider_def Let_def w3_def answer_def by simp
      have "moves (?h p) w3 (?h p') w'"
      proof (cases answer)
        case (Inl e)
        with result
        have "after_error cd env cfg q t fb p e w3 = (w', p', r)" by simp
        then show ?thesis by (rule moves_after_error)
      next
        case (Inr v)
        with result
        have "after_success cd env cfg cx q t p v w3 = (w', p', r)" by simp
        from moves_after_success [OF this, of "(qk, t)" sl] show ?thesis by simp
      qed
      then show ?thesis by (rule moves_trans [OF m3])
    qed
  qed
qed

lemma moves_with_permit:
  assumes "with_permit n cd env cfg cx q t fb p w = Some (w', p', r)"
  shows "moves (holding (qk, t) (Some sl) (Some (circuit_key_of cd q, p)) False) w
     (holding (qk, t) (Some sl) (Some (circuit_key_of cd q, p')) False) w'"
    (is "moves (?h p False) w (?h p' False) w'")
proof -
  obtain w1 a where a: "acquire_permit n env cfg cx w = Some (w1, a)"
    using assms by (auto simp: with_permit_def split: option.splits)
  have m: "moves (?h p False) w (case a of None \<Rightarrow> ?h p True | Some _ \<Rightarrow> ?h p False) w1"
    by (rule moves_permit [OF a]) simp
  show ?thesis
  proof (cases a)
    case (Some e)
    with assms a m show ?thesis by (simp add: with_permit_def)
  next
    case None
    obtain w2 where c: "call_provider cd env cfg cx q t fb p w1 = (w2, p', r)"
      and w': "w' = release_permit w2"
      using assms a None by (auto simp: with_permit_def split: prod.splits)
    have "moves (?h p' True) w2 (?h p' False) w'"
      unfolding w' release_permit_def by (rule moves_emit_after [OF moves_same]) simp_all
    moreover have "moves (?h p False) w (?h p True) w1" using m None by simp
    ultimately show ?thesis using moves_call_provider [OF c, of qk sl] moves_trans by blast
  qed
qed

lemma moves_enter_circuit:
  assumes "enter_circuit n cd env cfg cx q t fb w = Some (w', r)"
  shows "\<exists>c. moves (holding (qk, t) (Some sl) None False) w (holding (qk, t) (Some sl) c False) w' \<and>
     (c = None \<or> c = Some (circuit_key_of cd q, False))"
proof (cases "cx_deadline cx \<noteq> None \<and> probe_ttl_of env cfg cx w \<le> 0")
  case True
  with assms have "w' = w" by (simp add: enter_circuit_def)
  then show ?thesis by (intro exI [of _ None]) simp
next
  case False
  let ?k = "circuit_key_of cd q"
  let ?h = "\<lambda>c. holding (qk, t) (Some sl) c False"
  obtain w1 a where a: "circuit_open env ?k t (probe_ttl_of env cfg cx w) w = (w1, a)" by fastforce
  have m: "moves (?h None) w (?h None) w1" using store_moves(3) [OF a] .
  show ?thesis
  proof (cases a)
    case (Inl e)
    with assms False a m show ?thesis unfolding enter_circuit_def Let_def by auto
  next
    case (Inr b)
    obtain is_open retry p where b: "b = (is_open, retry, p)" by (metis prod_cases3)
    show ?thesis
    proof (cases is_open)
      case True
      then have f: "fall_back env cfg q fb stale_fallback_circuit (ProviderBusyError retry)
          (emit (ObserveCircuit (q_operation q) circuit_event_reject (level_of q)) w1) = (w', r)"
        using assms False a b Inr unfolding enter_circuit_def Let_def by auto
      have "moves (?h None) w (?h None) w'"
        by (rule moves_trans [OF moves_emit_after [OF m] moves_fall_back [OF f]]) simp
      then show ?thesis by blast
    next
      case closed: False
      obtain w2 p' where p: "with_permit n cd env cfg cx q t fb p (emit (CircuitPassed ?k p) w1) =
          Some (w2, p', r)"
        and w': "w' = (if p' then fst (release_query_probe env cfg cx ?k t w2) else w2)"
        using assms False a b Inr closed unfolding enter_circuit_def Let_def
        by (auto split: option.splits)
      have m2: "moves (?h None) w (?h (Some (?k, p'))) w2"
        by (rule moves_trans [OF moves_emit_after [OF m] moves_with_permit [OF p]]) simp
      have "moves (?h (Some (?k, p'))) w2 (?h (Some (?k, False))) w'"
        unfolding w' by (cases p') (auto intro: moves_release_probe)
      then have "moves (?h None) w (?h (Some (?k, False))) w'" by (rule moves_trans [OF m2])
      then show ?thesis by blast
    qed
  qed
qed

lemma read_for_load:
  assumes "read_for_load cd env cfg q w = (w1, hit, fb)"
  shows "moves h w h w1" and "w_step w \<le> w_step w1"
    and "\<exists>v a. load_with_metadata cd env (result_key (q_digest q)) w = (v, a) \<and> fb = loaded_or_miss a"
    and "hit \<Longrightarrow> fst fb = CacheFresh \<and> returns_fresh cfg"
proof -
  obtain v a where a: "load_with_metadata cd env (result_key (q_digest q)) w = (v, a)" by fastforce
  have w1: "w1 = observe_cache_bypass cfg (q_operation q) (fst fb) (error_of a) (level_of q) v"
    and fb: "fb = loaded_or_miss a"
    and hit: "hit = (error_of a = None \<and> fst fb = CacheFresh \<and> returns_fresh cfg)"
    using assms by (auto simp: read_for_load_def a Let_def)
  show "moves h w h w1"
    unfolding w1 using moves_then(2) [OF store_moves(7) [OF a]] .
  have "store_frame w v" using load_frame [of w cd env "result_key (q_digest q)"] a by simp
  then show "w_step w \<le> w_step w1"
    unfolding w1 by (simp add: observe_cache_bypass_def emit_def store_frame_def)
  show "\<exists>v a. load_with_metadata cd env (result_key (q_digest q)) w = (v, a) \<and> fb = loaded_or_miss a"
    using a fb by blast
  show "hit \<Longrightarrow> fst fb = CacheFresh \<and> returns_fresh cfg"
    using hit by simp
qed

lemma with_student_lease_cases:
  assumes "with_student_lease n cd env cfg cx q t fb w = Some (w', r)"
  obtains (hit) fb' where "read_for_load cd env cfg q w = (w', True, fb')"
      "r = Inr (cached_result (ke_zero env) fb')"
  | (enter) w1 fb' where "read_for_load cd env cfg q w = (w1, False, fb')"
      "enter_circuit n cd env cfg cx q t
         (if fst fb' = CacheStale \<and> allows_stale cfg then fb' else fb) w1 = Some (w', r)"
proof -
  obtain w1 hit fb' where r: "read_for_load cd env cfg q w = (w1, hit, fb')" by (metis prod_cases3)
  show thesis
    using assms r that by (cases hit) (simp_all add: with_student_lease_def)
qed

lemma moves_with_student_lease:
  assumes "with_student_lease n cd env cfg cx q t fb w = Some (w', r)"
  shows "\<exists>c. moves (holding (qk, t) (Some sl) None False) w (holding (qk, t) (Some sl) c False) w' \<and>
     (c = None \<or> c = Some (circuit_key_of cd q, False))"
  using assms
proof (cases rule: with_student_lease_cases)
  case (hit fb')
  with read_for_load(1) [OF hit(1)] show ?thesis by blast
next
  case (enter w1 fb')
  from moves_enter_circuit [OF enter(2), of qk sl] moves_trans [OF read_for_load(1) [OF enter(1)]]
  show ?thesis by blast
qed

lemma moves_load_as_leader:
  assumes "load_as_leader n cd env cfg cx q t fb w = Some (w', r)"
  shows "moves (holding (query_lease_key (q_digest q), t) None None False) w no_hold w'"
    (is "moves ?q w no_hold w'")
proof -
  let ?sk = "student_lease_key (digest cd [''student'', sr_student_no (q_student q)])"
  have give: "moves ?q v no_hold
      (fst (release_query_lease env cfg cx (query_lease_key (q_digest q)) t v))" for v
    by (rule moves_release_lease) simp
  obtain w1 a where a: "wait_for_student_lease n env cfg cx ?sk w = Some (w1, a)"
    using assms by (auto simp: load_as_leader_def Let_def split: option.splits)
  have m: "moves ?q w (case a of Inl _ \<Rightarrow> ?q | Inr st \<Rightarrow>
      holding (query_lease_key (q_digest q), t) (Some (?sk, st)) None False) w1"
    by (rule moves_wait [OF a]) simp
  show ?thesis
  proof (cases a)
    case (Inl e)
    with assms a m give moves_trans show ?thesis
      unfolding load_as_leader_def Let_def by fastforce
  next
    case (Inr st)
    obtain w2 where b: "with_student_lease n cd env cfg cx q t fb w1 = Some (w2, r)"
      and w': "w' = fst (release_query_lease env cfg cx (query_lease_key (q_digest q)) t
        (fst (release_query_lease env cfg cx ?sk st w2)))"
      using assms a Inr by (auto simp: load_as_leader_def Let_def split: option.splits)
    obtain c where c: "moves (holding (query_lease_key (q_digest q), t) (Some (?sk, st)) None False) w1
        (holding (query_lease_key (q_digest q), t) (Some (?sk, st)) c False) w2"
      and ok: "c = None \<or> c = Some (circuit_key_of cd q, False)"
      using moves_with_student_lease [OF b, of "query_lease_key (q_digest q)" "(?sk, st)"] by blast
    have r: "moves (holding (query_lease_key (q_digest q), t) (Some (?sk, st)) c False) w2 ?q
        (fst (release_query_lease env cfg cx ?sk st w2))"
      by (rule moves_release_lease) (use ok in auto)
    show ?thesis
      unfolding w' using m Inr moves_trans [OF _ moves_trans [OF c moves_trans [OF r give]]]
      by auto
  qed
qed

text \<open>One turn of the loop: where it leaves the request, and that it makes progress.\<close>

definition turn_ok :: "query \<Rightarrow> 'c cworld \<Rightarrow> ('c, 'v) turn \<Rightarrow> bool" where
  "turn_ok q w t \<longleftrightarrow>
     (case t of
        Finished w' _ \<Rightarrow> moves no_hold w no_hold w'
      | Leads w' token \<Rightarrow>
          moves no_hold w (holding (query_lease_key (q_digest q), token) None None False) w' \<and>
          w_step w < w_step w'
      | Waits w' \<Rightarrow> moves no_hold w no_hold w' \<and> w_step w < w_step w')"

lemma turn_ok_after:
  "moves no_hold w no_hold w1 \<Longrightarrow> w_step w \<le> w_step w1 \<Longrightarrow> turn_ok q w1 t \<Longrightarrow> turn_ok q w t"
  by (auto simp: turn_ok_def intro: moves_trans split: turn.splits)

lemma turn_ok_finished: "moves no_hold w no_hold w' \<Longrightarrow> turn_ok q w (Finished w' r)"
  by (simp add: turn_ok_def)

lemma turn_ok_fall_back: "turn_ok q w (finished_by (fall_back env cfg q' fb reason e w))"
proof -
  obtain w' r where f: "fall_back env cfg q' fb reason e w = (w', r)" by fastforce
  show ?thesis
    unfolding f finished_by_def prod.case by (rule turn_ok_finished) (rule moves_fall_back [OF f])
qed

lemma turn_ok_try_to_lead: "turn_ok q w (try_to_lead env cfg cx q w)"
proof -
  let ?k = "query_lease_key (q_digest q)"
  obtain w1 a where a: "acquire_lease env ?k (lease_ttl cfg) w = (w1, a)" by fastforce
  have m: "moves no_hold w no_hold w1" using store_moves(10) [OF a] .
  show ?thesis
  proof (cases a)
    case (Inl e)
    with a m show ?thesis by (simp add: try_to_lead_def turn_ok_finished)
  next
    case (Inr x)
    then have s: "w_step w1 = w_step w + 1" using acquire_lease_step a by blast
    show ?thesis
      using a Inr s m moves_emit_after [OF m holding_steps(1), of ?k "fst x"] moves_then(5) [OF m]
      by (auto simp: try_to_lead_def wait_for_tick_def Let_def turn_ok_def emit_def pass_time_def
          split: prod.splits option.splits)
  qed
qed

lemma turn_ok_check_marker: "turn_ok q w (check_marker env cfg cx q fb w)"
proof (cases "returns_fresh cfg")
  case False
  then show ?thesis by (simp add: check_marker_def turn_ok_try_to_lead)
next
  case True
  obtain w1 f where f: "failed_recently env (failure_key (q_digest q)) w = (w1, f)" by fastforce
  have m: "moves no_hold w no_hold w1" using store_moves(2) [OF f] .
  have s: "w_step w \<le> w_step w1"
    using failed_recently_frame [of w env "failure_key (q_digest q)"] f by (simp add: store_frame_def)
  note after = turn_ok_after [OF m s]
  show ?thesis
    using True f m
    by (auto simp: check_marker_def intro: turn_ok_finished after turn_ok_fall_back
        turn_ok_try_to_lead split: sum.splits option.splits)
qed

lemma turn_ok_check_circuit: "turn_ok q w (check_circuit cd env cfg cx q fb w)"
proof -
  obtain w1 c where c: "circuit_open env (circuit_key_of cd q) '''' 0 w = (w1, c)" by fastforce
  have m: "moves no_hold w no_hold w1" using store_moves(3) [OF c] .
  have s: "w_step w \<le> w_step w1"
    using circuit_open_frame [of w env "circuit_key_of cd q" "''''" 0] c by (simp add: store_frame_def)
  note after = turn_ok_after [OF m s]
  have e: "turn_ok q w (finished_by (fall_back env cfg q fb reason e
      (emit (ObserveCircuit a b d) w1)))" for reason e a b d
    by (rule turn_ok_after [OF moves_emit_after [OF m protocol_observers(2)] _ turn_ok_fall_back])
       (use s in \<open>simp add: emit_def\<close>)
  show ?thesis
    using c m
    by (auto simp: check_circuit_def intro: turn_ok_finished after e turn_ok_check_marker
        split: sum.splits prod.splits)
qed

text \<open>A load, as the cases of its result.\<close>

lemma load_distributed_cases:
  assumes "load_distributed (Suc n) cd env cfg cx q w = Some (w', r)"
  obtains
    (hit) fb where "read_for_load cd env cfg q w = (w', True, fb)"
      "r = Inr (cached_result (ke_zero env) fb)"
  | (finished) w1 fb where "read_for_load cd env cfg q w = (w1, False, fb)"
      "check_circuit cd env cfg cx q fb w1 = Finished w' r"
  | (leader) w1 fb w2 token where "read_for_load cd env cfg q w = (w1, False, fb)"
      "check_circuit cd env cfg cx q fb w1 = Leads w2 token"
      "load_as_leader n cd env cfg cx q token fb w2 = Some (w', r)"
  | (again) w1 fb w2 where "read_for_load cd env cfg q w = (w1, False, fb)"
      "check_circuit cd env cfg cx q fb w1 = Waits w2"
      "load_distributed n cd env cfg cx q w2 = Some (w', r)"
proof -
  obtain w1 hit fb where r: "read_for_load cd env cfg q w = (w1, hit, fb)" by (metis prod_cases3)
  show thesis
    using assms r that by (cases hit; cases "check_circuit cd env cfg cx q fb w1") simp_all
qed

lemma moves_load_distributed:
  assumes "load_distributed n cd env cfg cx q w = Some (w', r)"
  shows "moves no_hold w no_hold w'"
  using assms
proof (induction n arbitrary: w)
  case (Suc n)
  have turn: "turn_ok q w1 (check_circuit cd env cfg cx q fb w1)" for w1 fb
    by (rule turn_ok_check_circuit)
  from Suc.prems show ?case
  proof (cases rule: load_distributed_cases)
    case (hit fb)
    then show ?thesis using read_for_load(1) by blast
  next
    case (finished w1 fb)
    then show ?thesis
      using moves_trans [OF read_for_load(1) [OF finished(1)]] turn [of w1 fb]
      by (simp add: turn_ok_def)
  next
    case (leader w1 fb w2 token)
    then show ?thesis
      using moves_trans [OF read_for_load(1) [OF leader(1)]] turn [of w1 fb]
        moves_trans [OF _ moves_load_as_leader [OF leader(3)]]
      by (simp add: turn_ok_def)
  next
    case (again w1 fb w2)
    then show ?thesis
      using moves_trans [OF read_for_load(1) [OF again(1)]] turn [of w1 fb]
        moves_trans [OF _ Suc.IH [OF again(3)]]
      by (simp add: turn_ok_def)
  qed
qed simp

lemma moves_use_result:
  "use_result env cfg q fb r w = (w', x) \<Longrightarrow> moves h w h w'"
  by (auto simp: use_result_def intro: moves_fall_back split: sum.splits option.splits if_splits)

lemma moves_await: "await env cfg cx q fb follower r w = (w', x) \<Longrightarrow> moves h w h w'"
  by (cases follower)
     (auto simp: await_def Let_def intro: moves_quiet moves_use_result
        moves_trans [OF moves_observers(1) moves_use_result] split: option.splits if_splits)

lemma moves_run_load:
  assumes "run_load n cd env cfg cx q state w = Some (w', r)"
  shows "moves no_hold w no_hold w'"
proof -
  define w1 where "w1 = (if returns_fresh cfg
    then observe_singleflight env (q_operation q) ''leader'' (level_of q) w else w)"
  have "moves no_hold w no_hold w1" by (simp add: w1_def moves_quiet)
  moreover have "moves no_hold w1 no_hold w'"
    using assms unfolding run_load_def Let_def w1_def [symmetric] by (rule moves_load_distributed)
  ultimately show ?thesis by (rule moves_trans)
qed

text \<open>The world after the first read of a request, and a request as the cases of its result.\<close>

definition after_read :: "config \<Rightarrow> query \<Rightarrow> err + 'v loaded \<Rightarrow> 'c cworld \<Rightarrow> 'c cworld" where
  "after_read cfg q a w =
     observe_cache_bypass cfg (q_operation q) (fst (loaded_or_miss a)) (error_of a) (level_of q)
       ((emit (ObserveCache (q_operation q) (cache_state_label (fst (loaded_or_miss a)) (error_of a))
                 (level_of q)) w)\<lparr>k_bypass_observed := False\<rparr>)"

definition count_call :: "'c cworld \<Rightarrow> 'c cworld" where
  "count_call w = w\<lparr>k_calls := k_calls w + 1\<rparr>"

lemma moves_after_read:
  assumes "load_with_metadata cd env key w = (w1, a)"
  shows "moves h w h (after_read cfg q a w1)" and "moves h w h (count_call (after_read cfg q a w1))"
proof -
  have "moves h w h (emit (ObserveCache (q_operation q)
      (cache_state_label (fst (loaded_or_miss a)) (error_of a)) (level_of q)) w1)"
    using moves_emit_after [OF store_moves(7) [OF assms] protocol_observers(1)] .
  then show r: "moves h w h (after_read cfg q a w1)"
    unfolding after_read_def by (intro moves_then(2)) (erule moves_trans, rule moves_same, simp)
  show "moves h w h (count_call (after_read cfg q a w1))"
    by (rule moves_trans [OF r moves_same]) (simp add: count_call_def)
qed

lemma execute_query_cases:
  assumes "execute_query n cd env cfg cx q w = Some (w', r)"
  obtains
    (refused) e where "w' = w" "r = Inl e"
  | (fresh) w1 a where "load_with_metadata cd env (result_key (q_digest q)) w = (w1, a)"
      "fst (loaded_or_miss a) = CacheFresh" "returns_fresh cfg" "w' = after_read cfg q a w1"
      "r = Inr (cached_result (ke_zero env) (loaded_or_miss a))"
  | (follower) w1 a shared where
      "load_with_metadata cd env (result_key (q_digest q)) w = (w1, a)"
      "ke_flight env (w_step (count_call (after_read cfg q a w1))) = Follow shared"
      "await env cfg cx q (loaded_or_miss a) True shared
         (pass_time (count_call (after_read cfg q a w1))) = (w', r)"
  | (leader) w1 a w2 s where
      "load_with_metadata cd env (result_key (q_digest q)) w = (w1, a)"
      "run_load n cd env cfg cx q (fst (loaded_or_miss a)) (count_call (after_read cfg q a w1)) =
         Some (w2, s)"
      "await env cfg cx q (loaded_or_miss a) False (as_any s) w2 = (w', r)"
proof -
  obtain w1 a where a: "load_with_metadata cd env (result_key (q_digest q)) w = (w1, a)" by fastforce
  define fb where "fb = loaded_or_miss a"
  define w3 where "w3 = after_read cfg q a w1"
  define w4 where "w4 = count_call w3"
  have eq: "execute_query n cd env cfg cx q w =
     (case ctx_err env cx w of
        Some e \<Rightarrow> Some (w, Inl e)
      | None \<Rightarrow>
          if cr_student_no (q_credential q) \<noteq> sr_student_no (q_student q)
          then Some (w, Inl (Sentinel ErrInvalidCredentials))
          else if error_of a = None \<and> fst fb = CacheFresh \<and> returns_fresh cfg
          then Some (w3, Inr (cached_result (ke_zero env) fb))
          else if returns_fresh cfg \<and> ke_flight env (w_step w4) \<noteq> Lead
          then (case ke_flight env (w_step w4) of
                  Follow shared \<Rightarrow> Some (await env cfg cx q fb True shared (pass_time w4))
                | Lead \<Rightarrow> None)
          else (case run_load n cd env cfg cx q (fst fb) w4 of
                  None \<Rightarrow> None
                | Some (w5, r) \<Rightarrow> Some (await env cfg cx q fb False (as_any r) w5)))"
    unfolding execute_query_def Let_def a prod.case fb_def w3_def w4_def count_call_def
      after_read_def ..
  consider "\<exists>e. w' = w \<and> r = Inl e"
    | "fst fb = CacheFresh \<and> returns_fresh cfg \<and> w' = w3 \<and>
         r = Inr (cached_result (ke_zero env) fb)"
    | shared where "ke_flight env (w_step w4) = Follow shared"
        "await env cfg cx q fb True shared (pass_time w4) = (w', r)"
    | w5 s where "run_load n cd env cfg cx q (fst fb) w4 = Some (w5, s)"
        "await env cfg cx q fb False (as_any s) w5 = (w', r)"
    using assms unfolding eq by (auto split: option.splits if_splits flight.splits)
  then show thesis
    by cases (use refused fresh [OF a] follower [OF a] leader [OF a] in
      \<open>auto simp: fb_def w4_def w3_def\<close>)
qed

lemma moves_execute:
  assumes "execute n cd env cfg cx student cred operation period w = Some (w', r)"
  shows "moves no_hold w no_hold w'"
proof -
  let ?q = "\<lparr>q_student = student, q_credential = cred, q_operation = operation, q_period = period,
      q_digest = query_digest cd student cred operation period\<rparr>"
  obtain v where e: "execute_query n cd env cfg cx ?q w = Some (v, r)"
    and w': "w' = emit (ObserveQuery operation (query_outcome (error_of r))
        (sr_education_level student)) v"
    using assms by (auto simp: execute_def split: option.splits)
  from e have "moves no_hold w no_hold v"
  proof (cases rule: execute_query_cases)
    case (fresh w1 a)
    with moves_after_read(1) show ?thesis by blast
  next
    case (leader w1 a w2 s)
    show ?thesis
      using moves_trans [OF moves_after_read(2) [OF leader(1)]
          moves_trans [OF moves_run_load [OF leader(2)] moves_await [OF leader(3)]]] .
  next
    case (follower w1 a shared)
    show ?thesis
      using moves_trans [OF moves_then(5) [OF moves_after_read(2) [OF follower(1)]]
          moves_await [OF follower(3)]] .
  qed simp
  then show ?thesis unfolding w' by (rule moves_emit_after) simp
qed

text \<open>
  C10: whatever the environment does (faults of Redis at any command, other instances and other
  requests interleaved at any step, the provider failing, deadlines expiring), a request follows
  the protocol: it calls the provider only while it holds the query lease, the student lease and a
  permit, after the circuit let it pass and for a token of the rate limiter; it saves results only
  under the student lease; and when it returns it has given back everything it took, in reverse
  order, with a granted probe released or its timeout reported before the student lease goes.
\<close>

theorem requests_follow_the_protocol:
  assumes "execute n cd env cfg cx student cred operation period w = Some (w', r)"
  shows "\<exists>es. k_events w' = k_events w @ es \<and> protocol_run no_hold es = Some no_hold"
  using moves_execute [OF assms] by (simp add: moves_def)

section \<open>A sample run\<close>

definition sample_config :: config where
  "sample_config =
     \<lparr>cache_mode = cache_mode_normal, courses_timeout = 10 * second, grades_timeout = 10 * second,
      exams_timeout = 12 * second, selections_timeout = 12 * second,
      stale_refresh_timeout = 3 * second, lease_ttl = 35 * second,
      poll_interval = 100 * millisecond, max_concurrent = 2, config_rate = 10, config_burst = 20,
      retry_after = 5 * second, courses_fresh_ttl = minute, courses_stale_ttl = hour,
      grades_fresh_ttl = minute, grades_stale_ttl = hour, exams_fresh_ttl = minute,
      exams_stale_ttl = hour, selections_fresh_ttl = minute, selections_stale_ttl = hour,
      circuit_threshold = 5, circuit_window = minute, circuit_open_duration = 20 * second,
      circuit_minimum_samples = 0, circuit_deadline_threshold = 0,
      circuit_deadline_ratio = Finite 0, circuit_hard_protection_count = 0,
      circuit_hard_protection_window = 0\<rparr>"

definition sample_env :: "(err + string) \<Rightarrow> (cache_record \<times> string, string) coord_env" where
  "sample_env answer =
     \<lparr>se_server_ms = (\<lambda>n. 1000 + int n), se_now = (\<lambda>n. of_unix_milli (1000 + int n)),
      se_fault = (\<lambda>_. None), se_applied = (\<lambda>_. True), se_interfere = (\<lambda>_ r. r),
      se_random = (\<lambda>n. Inr (int_text (int n))), se_round = id, ke_timer = (\<lambda>_. True),
      ke_choose = (\<lambda>_. True), ke_flight = (\<lambda>_. Lead), ke_permits = (\<lambda>_ p. p),
      ke_tasks = (\<lambda>_ ts. ts), ke_next = (\<lambda>_ _ _ _ _. answer), ke_zero = ''none'',
      ke_rate_limits = None, ke_observes_flights = True\<rparr>"

definition sample_student :: student_reference where
  "sample_student =
     \<lparr>sr_user_id = 7, sr_student_no = ''s1'', sr_provider = ''ouc'',
      sr_education_level = ''undergraduate''\<rparr>"

definition sample_credential :: credential where
  "sample_credential = \<lparr>cr_student_no = ''s1'', cr_password = ''pw''\<rparr>"

definition empty_world :: "'c cworld" where
  "empty_world =
     \<lparr>w_step = 0, w_redis = empty_redis, k_events = [], k_permits = 0, k_tasks = [],
      k_bypass_observed = False, k_calls = 0\<rparr>"

definition sample_run ::
    "config \<Rightarrow> go_ctx \<Rightarrow> (err + string) \<Rightarrow>
     ((cache_record \<times> string) cworld \<times> (err + string query_result)) option" where
  "sample_run cfg cx answer =
     execute 3 sample_codec (sample_env answer) cfg cx sample_student sample_credential
       operation_courses ''2025-1'' empty_world"

definition answered :: "('c cworld \<times> (err + 'v query_result)) option \<Rightarrow> event list" where
  "answered r = (case r of None \<Rightarrow> [] | Some (w, _) \<Rightarrow> k_events w)"

lemma sample_run_finishes: "sample_run sample_config background (Inr ''rows'') \<noteq> None"
  by code_simp

lemma sample_run_calls:
  "ProviderCalled ''courses'' \<in> set (answered (sample_run sample_config background (Inr ''rows'')))"
  by code_simp

theorem requests_follow_the_protocol_witness:
  "\<exists>es. answered (sample_run sample_config background (Inr ''rows'')) = es \<and>
     protocol_run no_hold es = Some no_hold \<and> ProviderCalled ''courses'' \<in> set es"
proof -
  obtain w r where run: "sample_run sample_config background (Inr ''rows'') = Some (w, r)"
    using sample_run_finishes by auto
  from requests_follow_the_protocol [OF run [unfolded sample_run_def]]
  have "protocol_run no_hold (k_events w) = Some no_hold" by (simp add: empty_world_def)
  with run sample_run_calls show ?thesis by (simp add: answered_def)
qed

end
