(* ===== verification/CoordinatorCache.thy ===== *)
theory CoordinatorCache
  imports CoordinatorSafety
begin

text \<open>
  What a request may return: which cached results the cache modes let through, that the forced mode
  always asks the provider, how long a load may run compared with its lease, and the one case in
  which a request returns a success although nothing was read.
\<close>

section \<open>Cached results\<close>

text \<open>A cached result carries metadata that say whether it was fresh or stale when it was read.\<close>

definition served_as_allowed :: "config \<Rightarrow> 'v query_result \<Rightarrow> bool" where
  "served_as_allowed cfg r \<longleftrightarrow>
     (case qr_cache r of
        None \<Rightarrow> True
      | Some m \<Rightarrow> (cm_state m = CacheFresh \<and> returns_fresh cfg) \<or>
                 (cm_state m = CacheStale \<and> allows_stale cfg))"

definition allowed_answer :: "config \<Rightarrow> err + 'v query_result \<Rightarrow> bool" where
  "allowed_answer cfg r \<longleftrightarrow> (case r of Inl _ \<Rightarrow> True | Inr x \<Rightarrow> served_as_allowed cfg x)"


lemma allowed_Inl [simp]: "allowed_answer cfg (Inl e)"
  by (simp add: allowed_answer_def)

lemma allowed_direct [simp]: "allowed_answer cfg (Inr \<lparr>qr_records = v, qr_cache = None\<rparr>)"
  by (simp add: allowed_answer_def served_as_allowed_def)





















section \<open>Loads and leases\<close>




section \<open>An empty success\<close>




section \<open>The configured circuit\<close>

text \<open>The policy \<^verbatim>\<open>recordDeadline\<close> sends to the script.\<close>

definition deadline_policy_for :: "(rat \<Rightarrow> rat) \<Rightarrow> config \<Rightarrow> deadline_policy" where
  "deadline_policy_for fl cfg =
     (let p = circuit_policy_of cfg
      in \<lparr>dp_minimum_samples = cp_minimum_samples p, dp_minimum_deadlines = cp_deadline_threshold p,
          dp_ratio_milli = \<lfloor>fl (ratio_value (cp_deadline_ratio p) * 1000)\<rfloor>,
          dp_hard_limit = cp_hard_protection_count p,
          dp_hard_window = milliseconds (cp_hard_protection_window p),
          dp_window = milliseconds (circuit_window cfg),
          dp_open_duration = milliseconds (circuit_open_duration cfg)\<rparr>)"

lemma record_query_deadline_policy:
  fixes w :: "'c cworld"
  shows "\<exists>f :: int \<Rightarrow> 'c redis \<Rightarrow> 'c redis \<times> reply. w_redis (record_query_deadline env cfg operation level key token completed_at w) =
     w_redis (fst (redis_command env f w)) \<and>
     (\<forall>now r. r_circuits (fst (f now r)) key =
        fst (record_deadline_script now (deadline_policy_for (se_round env) cfg)
               (int_text (unix_nano completed_at)) token (r_circuits r key)))"
proof -
  let ?f = "\<lambda>now r. let (c, x) = record_deadline_script now (deadline_policy_for (se_round env) cfg)
      (int_text (unix_nano completed_at)) token (r_circuits r key)
    in (r\<lparr>r_circuits := (r_circuits r)(key := c)\<rparr>, x)"
  have "w_redis (record_query_deadline env cfg operation level key token completed_at w) =
      w_redis (fst (redis_command env ?f w))"
    by (auto simp: record_query_deadline_def record_deadline_with_policy_def circuit_command_def
        deadline_policy_for_def Let_def emit_def split: prod.splits sum.splits)
  then show ?thesis by (intro exI [of _ ?f] conjI) (simp_all add: Let_def split: prod.splits)
qed

lemma milliseconds_mono: "0 \<le> a \<Longrightarrow> a \<le> b \<Longrightarrow> milliseconds a \<le> milliseconds b"
  by (simp add: milliseconds_nonneg millisecond_def zdiv_mono1)

text \<open>
  C15: with a validated configuration, a deadline that opens the circuit of an operation keeps every
  request of every instance away from the school system for at least 15 seconds of server time,
  whatever scripts run in between, and tells each of them to come back after at most 30 seconds.
\<close>

theorem configured_circuit_protects:
  assumes valid: "validate_config cfg = None"
    and opened: "record_deadline_script now (deadline_policy_for fl cfg) completed_at token c0 =
      (c, (x, r, 1))"
    and between: "history_within now (now + 15000) h" and time: "now \<le> t" "t < now + 15000"
  shows "\<exists>retry. snd (circuit_state_script t q ttl (run_history h c)) = (1, retry, 0) \<and>
     0 < retry \<and> retry \<le> 30000"
proof -
  let ?p = "deadline_policy_for fl cfg"
  have m: "milliseconds (15 * second) = 15000" "milliseconds (30 * second) = 30000"
    by (simp_all add: milliseconds_nonneg second_def millisecond_def)
  note v = valid_circuit_policy [OF valid]
  have d: "15000 \<le> dp_open_duration ?p" "dp_open_duration ?p \<le> 30000"
    using milliseconds_mono [OF _ v(7)] milliseconds_mono [OF _ v(8)] v(7) m
    by (simp_all add: deadline_policy_for_def second_def Let_def)
  have "valid_policy ?p"
    using d(1) v(5,6) by (simp add: valid_policy_def deadline_policy_for_def Let_def
        milliseconds_nonneg second_def millisecond_def pos_imp_zdiv_nonneg_iff)
  from record_deadline_opened [OF this opened]
  have o: "opened_until (now + dp_open_duration ?p) c" by simp
  have "history_within now (now + dp_open_duration ?p) h"
    using between d(1) unfolding history_within_def by fastforce
  from opened_state_reply(1) [OF run_history_opened [OF o this], of t q ttl]
  show ?thesis using d time by auto
qed

theorem configured_circuit_protects_witness:
  "\<exists>retry. snd (circuit_state_script 15000 ''me'' 500
      (run_history [(12000, ReleaseCall ''x'')]
        (fst (record_deadline_script 10000
           (deadline_policy_for id (sample_config\<lparr>circuit_threshold := 1\<rparr>)) ''7'' '''' no_circuit)))) =
     (1, retry, 0) \<and> 0 < retry \<and> retry \<le> 30000"
proof (rule configured_circuit_protects)
  show "validate_config (sample_config\<lparr>circuit_threshold := 1\<rparr>) = None" by code_simp
  show "record_deadline_script 10000 (deadline_policy_for id (sample_config\<lparr>circuit_threshold := 1\<rparr>))
      ''7'' '''' no_circuit =
      (fst (record_deadline_script 10000
         (deadline_policy_for id (sample_config\<lparr>circuit_threshold := 1\<rparr>)) ''7'' '''' no_circuit),
       (1, 20000, 1))"
    by code_simp
qed (simp_all add: history_within_def)

section \<open>Labels and revokers\<close>

text \<open>
  Every provider of cached data of a student is asked to delete it, in order, also after one
  has failed; the combined error is nil exactly when every one succeeded, and otherwise it still
  shows what each of the errors is.
\<close>

theorem every_revoker_runs:
  "fst (delete_student_everywhere rs student_no s) =
     fold (\<lambda>r s. fst (r student_no s)) (combine_revokers rs) s \<and>
   (\<forall>t. is_err (snd (delete_student_everywhere rs student_no s)) t \<longleftrightarrow>
      (\<exists>i<length (combine_revokers rs).
         is_err (snd ((combine_revokers rs ! i) student_no
           (fold (\<lambda>r s. fst (r student_no s)) (take i (combine_revokers rs)) s))) t))"
proof -
  have e: "fst (combined_delete xs student_no s result) = fold (\<lambda>r s. fst (r student_no s)) xs s"
    for xs result and s :: 'a
    by (induction xs arbitrary: s result) (simp_all add: Let_def split: prod.splits)
  have g: "is_err (snd (combined_delete xs student_no s None)) t \<longleftrightarrow>
      (\<exists>i<length xs. is_err (snd ((xs ! i) student_no
         (fold (\<lambda>r s. fst (r student_no s)) (take i xs) s))) t)"
    for xs t and s :: 'a
  proof (induction xs arbitrary: s)
    case (Cons r xs)
    obtain s' x where r: "r student_no s = (s', x)" by fastforce
    have "is_err (snd (combined_delete (r # xs) student_no s None)) t \<longleftrightarrow>
        is_err x t \<or> is_err (snd (combined_delete xs student_no s' None)) t"
      unfolding combined_delete.simps r Let_def prod.case
      by (subst combined_delete_error) (simp add: errors_join_is)
    also have "\<dots> \<longleftrightarrow> (\<exists>i<length (r # xs). is_err (snd (((r # xs) ! i) student_no
        (fold (\<lambda>r s. fst (r student_no s)) (take i (r # xs)) s))) t)"
      unfolding Cons.IH Ex_less_Suc2 by (simp add: Ex_less_Suc2 r)
    finally show ?case .
  qed (simp add: is_err_def)
  show ?thesis
    unfolding delete_student_everywhere_def using e g by simp
qed

end
