(* ===== verification/CoordinatorLiveness.thy ===== *)
theory CoordinatorLiveness
  imports CoordinatorSafety
begin

text \<open>
  That a request returns, and that the two channels of the coordinator stay within their capacity.
\<close>

section \<open>Requests return\<close>

text \<open>
  From step \<open>N\<close> on the time is over: the deadline has passed, its timer has run, and the Redis
  client, which gets the expired context, fails every command.
\<close>

definition time_is_over :: "('c, 'v) coord_env \<Rightarrow> gotime \<Rightarrow> nat \<Rightarrow> bool" where
  "time_is_over env d N \<longleftrightarrow>
     (\<forall>i\<ge>N. d \<le> se_now env i \<and> ke_timer env i \<and> se_fault env i \<noteq> None)"

lemma ctx_over:
  assumes "time_is_over env d N" and "cx_deadline cx = Some d" and "N \<le> w_step w"
  shows "ctx_err env cx w \<noteq> None"
  using assms by (simp add: ctx_err_def time_is_over_def client_now_def)

lemma command_over:
  assumes "time_is_over env d N" and "N \<le> w_step w" and "redis_command env f w = (w', r)"
  shows "\<exists>e. r = Inl e"
proof -
  obtain e where "se_fault env (w_step w) = Some e"
    using assms(1,2) by (auto simp: time_is_over_def)
  with assms(3) show ?thesis by (auto simp: redis_command_def Let_def split: prod.splits)
qed

lemma acquire_over:
  assumes "time_is_over env d N" and "N \<le> w_step w" and "acquire_lease env key ttl w = (w', r)"
  shows "\<exists>e. r = Inl e"
  using assms(3) command_over [OF assms(1,2)]
  by (fastforce simp: acquire_lease_def map_err_def split: sum.splits prod.splits)

lemma circuit_over:
  assumes "time_is_over env d N" and "N \<le> w_step w"
    and "circuit_open env key token ttl w = (w', r)"
  shows "\<exists>e. r = Inl e"
proof -
  obtain v s where c: "circuit_command env key
      (\<lambda>now c. circuit_state_script now token (milliseconds ttl) c) w = (v, s)" by fastforce
  then obtain e where "s = Inl e"
    unfolding circuit_command_def using command_over [OF assms(1,2)] by blast
  with assms(3) c show ?thesis by (auto simp: circuit_open_def map_err_def)
qed

lemma wait_returns:
  assumes "time_is_over env d N" and "N - w_step w < n"
  shows "wait_for_student_lease n env cfg cx key w \<noteq> None"
  using assms(2)
proof (induction n arbitrary: w)
  case (Suc n)
  obtain w1 a where a: "acquire_lease env key (lease_ttl cfg) w = (w1, a)" by fastforce
  show ?case
  proof (cases a)
    case (Inl e)
    with a show ?thesis by simp
  next
    case (Inr x)
    have "w_step w < N"
      using acquire_over [OF assms(1) _ a] Inr not_le by blast
    moreover have "w_step w1 = w_step w + 1" using acquire_lease_step a Inr by blast
    ultimately have "N - w_step (pass_time w1) < n"
      using Suc.prems by (simp add: pass_time_def)
    with Suc.IH a Inr show ?thesis
      by (auto simp: Let_def simp del: not_None_eq split: prod.splits option.splits)
  qed
qed simp

lemma wait_step:
  "wait_for_student_lease n env cfg cx key w = Some (w', r) \<Longrightarrow> w_step w \<le> w_step w'"
proof (induction n arbitrary: w)
  case (Suc n)
  obtain w1 a where a: "acquire_lease env key (lease_ttl cfg) w = (w1, a)" by fastforce
  have s: "w_step w \<le> w_step w1"
    using acquire_lease_frame [of w env key "lease_ttl cfg"] a by (simp add: store_frame_def)
  have "w_step w' = w_step w1 \<or> w' = pass_time w1 \<or>
      wait_for_student_lease n env cfg cx key (pass_time w1) = Some (w', r)"
    using Suc.prems a
    by (auto simp: Let_def emit_def split: sum.splits prod.splits option.splits if_splits)
  with s Suc.IH [of "pass_time w1"] show ?case by (auto simp: pass_time_def)
qed simp

lemma permit_returns:
  assumes "time_is_over env d N" and "cx_deadline cx = Some d" and "N - w_step w < n"
  shows "acquire_permit n env cfg cx w \<noteq> None"
  using assms(3)
proof (induction n arbitrary: w)
  case (Suc n)
  let ?w1 = "w\<lparr>k_permits := ke_permits env (w_step w) (k_permits w)\<rparr>"
  show ?case
  proof (cases "ctx_err env cx w")
    case None
    then have "w_step w < N" using ctx_over [OF assms(1,2), of w] by (metis not_le)
    then have "N - w_step (pass_time ?w1) < n" using Suc.prems by (simp add: pass_time_def)
    with Suc.IH None show ?thesis by (simp add: Let_def)
  next
    case (Some e)
    then show ?thesis by (simp add: Let_def)
  qed
qed simp

lemma enter_circuit_returns:
  assumes "time_is_over env d N" and "cx_deadline cx = Some d" and "N - w_step w < n"
  shows "enter_circuit n cd env cfg cx q t fb w \<noteq> None"
proof -
  let ?k = "circuit_key_of cd q"
  obtain w1 c where c: "circuit_open env ?k t (probe_ttl_of env cfg cx w) w = (w1, c)" by fastforce
  have "w_step w \<le> w_step w1"
    using circuit_open_frame [of w env ?k t "probe_ttl_of env cfg cx w"] c
    by (simp add: store_frame_def)
  then have "N - w_step (emit x w1) < n" for x using assms(3) by (simp add: emit_def)
  from permit_returns [OF assms(1,2) this]
  have p: "with_permit n cd env cfg cx q t fb p (emit x w1) \<noteq> None" for p x
    by (auto simp: with_permit_def split: option.splits prod.splits)
  show ?thesis
  proof (cases "cx_deadline cx \<noteq> None \<and> probe_ttl_of env cfg cx w \<le> 0")
    case True
    then show ?thesis unfolding enter_circuit_def Let_def by simp
  next
    case False
    with p c show ?thesis
      unfolding enter_circuit_def Let_def if_not_P [OF False]
      by (auto simp del: not_None_eq split: sum.splits prod.splits option.splits)
  qed
qed

lemma load_as_leader_returns:
  assumes "time_is_over env d N" and "cx_deadline cx = Some d" and "N - w_step w < n"
  shows "load_as_leader n cd env cfg cx q t fb w \<noteq> None"
proof -
  let ?sk = "student_lease_key (digest cd [''student'', sr_student_no (q_student q)])"
  obtain w1 a where a: "wait_for_student_lease n env cfg cx ?sk w = Some (w1, a)"
    using wait_returns [OF assms(1,3)] by fastforce
  obtain w2 hit fb' where r: "read_for_load cd env cfg q w1 = (w2, hit, fb')" by (metis prod_cases3)
  have "w_step w \<le> w_step w2"
    using wait_step [OF a] read_for_load(2) [OF r] by linarith
  then have "N - w_step w2 < n" using assms(3) by linarith
  from enter_circuit_returns [OF assms(1,2) this]
  have e: "enter_circuit n cd env cfg cx q t f w2 \<noteq> None" for f .
  have "with_student_lease n cd env cfg cx q t fb w1 \<noteq> None"
    unfolding with_student_lease_def Let_def r prod.case using e by (cases hit) (simp_all del: not_None_eq)
  with a show ?thesis
    unfolding load_as_leader_def Let_def by (auto split: sum.splits option.splits prod.splits)
qed

lemma load_distributed_returns:
  assumes "time_is_over env d N" and "cx_deadline cx = Some d" and "N - w_step w < n"
  shows "load_distributed n cd env cfg cx q w \<noteq> None"
  using assms(3)
proof (induction n arbitrary: w)
  case (Suc n)
  obtain w1 hit fb where r: "read_for_load cd env cfg q w = (w1, hit, fb)" by (metis prod_cases3)
  note s = read_for_load(2) [OF r]
  define t where "t = check_circuit cd env cfg cx q fb w1"
  have ok: "turn_ok q w1 t" unfolding t_def by (rule turn_ok_check_circuit)
  have early: "w_step w < N" if "\<And>w' x. t \<noteq> Finished w' x"
  proof (rule ccontr)
    assume "\<not> w_step w < N"
    then have "N \<le> w_step w1" using s by linarith
    moreover obtain v c where c: "circuit_open env (circuit_key_of cd q) '''' 0 w1 = (v, c)"
      by fastforce
    ultimately obtain e where "c = Inl e" using circuit_over [OF assms(1)] by blast
    with c have "t = Finished v (Inl (Sentinel ErrProviderUnavailable))"
      by (simp add: t_def check_circuit_def)
    with that show False by blast
  qed
  show ?case
  proof (cases t)
    case (Finished w2 x)
    with r show ?thesis by (simp add: t_def)
  next
    case (Leads w2 token)
    then have "w_step w1 < w_step w2" using ok by (simp add: turn_ok_def)
    then have "N - w_step w2 < n" using Suc.prems s early Leads by fastforce
    with load_as_leader_returns [OF assms(1,2)] r Leads show ?thesis
      by (cases hit) (simp_all add: t_def del: not_None_eq)
  next
    case (Waits w2)
    then have "w_step w1 < w_step w2" using ok by (simp add: turn_ok_def)
    then have "N - w_step w2 < n" using Suc.prems s early Waits by fastforce
    with Suc.IH r Waits show ?thesis
      by (cases hit) (simp_all add: t_def del: not_None_eq)
  qed
qed simp

text \<open>
  C12: a load returns. Its context always has a deadline, and once the deadline has passed, its
  timer has run and the Redis client fails because of it (from step \<open>N\<close> on), every loop ends: fuel
  for the steps up to \<open>N\<close> is enough, so the value is never the one for used-up fuel. Waiting for
  another instance's query lease, for the student lease and for a permit all end, whatever the
  others do.
\<close>

theorem loads_return:
  assumes "cx_deadline (detached_timeout_context env cx (timeout_of cfg (q_operation q) state) w) = Some d"
    and "\<forall>i\<ge>N. d \<le> se_now env i \<and> ke_timer env i \<and> se_fault env i \<noteq> None"
    and "N - w_step w < n"
  shows "\<exists>w' r. run_load n cd env cfg cx q state w = Some (w', r)"
proof -
  define w1 where "w1 = (if returns_fresh cfg
    then observe_singleflight env (q_operation q) ''leader'' (level_of q) w else w)"
  have w1: "w_step w1 = w_step w" "client_now env w1 = client_now env w"
    by (simp_all add: w1_def observe_singleflight_def emit_def client_now_def)
  have "detached_timeout_context env cx t w1 = detached_timeout_context env cx t w" for t
    unfolding detached_timeout_context_def with_timeout_def w1(2) ..
  then have "run_load n cd env cfg cx q state w \<noteq> None"
    unfolding run_load_def Let_def w1_def [symmetric]
    using load_distributed_returns [of env d N _ w1 n] assms w1(1)
    by (simp add: time_is_over_def del: not_None_eq)
  then show ?thesis by auto
qed

text \<open>Another instance keeps the query lease for good, and the time is over after twelve steps.\<close>

definition stuck_env :: "(cache_record \<times> string, string) coord_env" where
  "stuck_env = (sample_env (Inr ''rows''))
     \<lparr>se_interfere := (\<lambda>_ r. r\<lparr>r_leases := (\<lambda>_. Some (''other'', 10 ^ 12))\<rparr>),
      se_now := (\<lambda>i. of_unix_milli (1000 + 1000 * int i)),
      se_fault := (\<lambda>i. if i < 12 then None else Some (Sentinel DeadlineExceeded))\<rparr>"

definition sample_query :: query where
  "sample_query =
     \<lparr>q_student = sample_student, q_credential = sample_credential, q_operation = operation_courses,
      q_period = ''2025-1'', q_digest = ''digest''\<rparr>"

lemma stuck_env_simps [simp]:
  "se_now stuck_env i = of_unix_milli (1000 + 1000 * int i)" "ke_timer stuck_env i"
  "se_fault stuck_env i = (if i < 12 then None else Some (Sentinel DeadlineExceeded))"
  by (simp_all add: stuck_env_def sample_env_def)

theorem loads_return_witness:
  "\<exists>w' r. run_load 13 sample_codec stuck_env sample_config background sample_query CacheMiss
     empty_world = Some (w', r)"
proof (rule loads_return [where N = 12])
  show "cx_deadline (detached_timeout_context stuck_env background
      (timeout_of sample_config (q_operation sample_query) CacheMiss) empty_world) =
      Some (of_unix_milli 11000)"
    by (simp add: detached_timeout_context_def with_timeout_def with_deadline_def background_def
        client_now_def empty_world_def timeout_of_def sample_config_def sample_query_def
        of_unix_milli_def duration_defs)
  show "\<forall>i\<ge>12. of_unix_milli 11000 \<le> se_now stuck_env i \<and> ke_timer stuck_env i \<and>
      se_fault stuck_env i \<noteq> None"
    by (auto simp: of_unix_milli_def millisecond_def)
  show "12 - w_step (empty_world :: (cache_record \<times> string) cworld) < 13"
    by simp
qed

section \<open>The channels\<close>










end
