(* ===== verification/StatsDomain.thy ===== *)
theory StatsDomain
  imports GoErrors
begin

text \<open>
  \<^verbatim>\<open>academic_statistics/domain/statistics.go\<close>: the batch triggers, the aggregate rows, the score
  distribution and \<^verbatim>\<open>Snapshot.Validate\<close>, which decides whether an aggregation result may
  become public. Counts are \<^verbatim>\<open>int64\<close> words: sums and products wrap as on the machine, and
  the lemmas state what validation still guarantees about the integers they stand for.
\<close>

section \<open>Constants and batch triggers\<close>

definition batch_status_running :: string where "batch_status_running = ''running''"
definition batch_status_failed :: string where "batch_status_failed = ''failed''"
definition batch_status_published :: string where "batch_status_published = ''published''"
definition trigger_scheduled :: string where "trigger_scheduled = ''scheduled''"
definition trigger_manual :: string where "trigger_manual = ''manual''"
definition rule_version :: string where "rule_version = ''v6''"
definition level_undergraduate :: string where "level_undergraduate = ''undergraduate''"
definition level_graduate :: string where "level_graduate = ''graduate''"

lemmas status_defs = batch_status_running_def batch_status_failed_def batch_status_published_def

lemma status_distinct [simp]:
  "batch_status_running \<noteq> batch_status_failed" "batch_status_failed \<noteq> batch_status_running"
  "batch_status_running \<noteq> batch_status_published" "batch_status_published \<noteq> batch_status_running"
  "batch_status_failed \<noteq> batch_status_published" "batch_status_published \<noteq> batch_status_failed"
  by (simp_all add: status_defs)

record batch_trigger =
  bt_type :: string
  bt_actor_id :: "uint64 option"
  bt_note :: "string option"
  bt_task_id :: "string option"

definition scheduled_batch_trigger :: batch_trigger where
  "scheduled_batch_trigger =
     \<lparr>bt_type = trigger_scheduled, bt_actor_id = None, bt_note = None, bt_task_id = None\<rparr>"

definition manual_batch_trigger :: "uint64 \<Rightarrow> string \<Rightarrow> string \<Rightarrow> batch_trigger" where
  "manual_batch_trigger actor_id note task_id =
     \<lparr>bt_type = trigger_manual, bt_actor_id = Some actor_id,
      bt_note = (if note \<noteq> '''' then Some note else None), bt_task_id = Some task_id\<rparr>"

definition operational_batch_trigger :: "string \<Rightarrow> string \<Rightarrow> batch_trigger" where
  "operational_batch_trigger note task_id =
     \<lparr>bt_type = trigger_manual, bt_actor_id = None,
      bt_note = (if note \<noteq> '''' then Some note else None), bt_task_id = Some task_id\<rparr>"

section \<open>Score distributions\<close>

record distribution =
  numeric_fail :: int64
  score_60_69 :: int64
  score_70_79 :: int64
  score_80_89 :: int64
  score_90_100 :: int64
  level_excellent :: int64
  level_good :: int64
  level_medium :: int64
  level_pass :: int64
  level_fail :: int64

definition distribution_add :: "distribution \<Rightarrow> distribution \<Rightarrow> distribution" where
  "distribution_add d other =
     \<lparr>numeric_fail = numeric_fail d + numeric_fail other,
      score_60_69 = score_60_69 d + score_60_69 other,
      score_70_79 = score_70_79 d + score_70_79 other,
      score_80_89 = score_80_89 d + score_80_89 other,
      score_90_100 = score_90_100 d + score_90_100 other,
      level_excellent = level_excellent d + level_excellent other,
      level_good = level_good d + level_good other,
      level_medium = level_medium d + level_medium other,
      level_pass = level_pass d + level_pass other,
      level_fail = level_fail d + level_fail other\<rparr>"

definition distribution_zero :: distribution where
  "distribution_zero =
     \<lparr>numeric_fail = 0, score_60_69 = 0, score_70_79 = 0, score_80_89 = 0, score_90_100 = 0,
      level_excellent = 0, level_good = 0, level_medium = 0, level_pass = 0, level_fail = 0\<rparr>"

definition distribution_total :: "distribution \<Rightarrow> int64" where
  "distribution_total d =
     numeric_fail d + score_60_69 d + score_70_79 d + score_80_89 d + score_90_100 d
     + level_excellent d + level_good d + level_medium d + level_pass d + level_fail d"

text \<open>Merging is a commutative monoid, so the order in which buckets are merged is irrelevant.\<close>

interpretation dist: comm_monoid distribution_add distribution_zero
  by unfold_locales (simp_all add: distribution_add_def distribution_zero_def ac_simps)

lemma distribution_total_add:
  "distribution_total (distribution_add d e) = distribution_total d + distribution_total e"
  by (simp add: distribution_total_def distribution_add_def)

section \<open>Aggregates and snapshots\<close>

record course_term_aggregate =
  ct_education_level :: string
  ct_period_id :: string
  ct_term_label :: string
  ct_term_code :: string
  ct_course_code :: string
  ct_course_name :: string
  ct_valid_count :: int64
  ct_pass_count :: int64
  ct_fail_count :: int64
  ct_numeric_score_count :: int64
  ct_numeric_score_sum_x100 :: int64
  ct_distribution :: distribution

record instructor_term_aggregate =
  it_education_level :: string
  it_period_id :: string
  it_term_label :: string
  it_term_code :: string
  it_course_code :: string
  it_course_name :: string
  it_teacher_key :: string
  it_teacher_name :: string
  it_class_count :: int64
  it_valid_count :: int64
  it_pass_count :: int64
  it_fail_count :: int64
  it_numeric_score_count :: int64
  it_numeric_score_sum_x100 :: int64
  it_distribution :: distribution

record snapshot =
  source_cutoff_at :: gotime
  source_row_count :: int64
  snapshot_courses :: "course_term_aggregate list"
  snapshot_instructors :: "instructor_term_aggregate list"

type_synonym course_partition = "string \<times> string \<times> string"
type_synonym instructor_partition = "course_partition \<times> string"

definition course_partition :: "course_term_aggregate \<Rightarrow> course_partition" where
  "course_partition c = (ct_education_level c, ct_period_id c, ct_course_code c)"

definition instructor_partition :: "instructor_term_aggregate \<Rightarrow> instructor_partition" where
  "instructor_partition i =
     ((it_education_level i, it_period_id i, it_course_code i), it_teacher_key i)"

section \<open>Validation\<close>

definition valid_term_identity :: "string \<Rightarrow> string \<Rightarrow> string \<Rightarrow> string \<Rightarrow> bool" where
  "valid_term_identity education_level period_id term_label term_code \<longleftrightarrow>
     (education_level = level_undergraduate \<or> education_level = level_graduate) \<and>
     trim_space period_id \<noteq> '''' \<and> trim_space term_label \<noteq> '''' \<and> trim_space term_code \<noteq> ''''"

definition valid_numeric_score_aggregate :: "int64 \<Rightarrow> int64 \<Rightarrow> int64 \<Rightarrow> bool" where
  "valid_numeric_score_aggregate valid_count score_count sum_x100 \<longleftrightarrow>
     0 \<le>s score_count \<and> score_count \<le>s valid_count \<and> 0 \<le>s sum_x100 \<and>
     sum_x100 \<le>s score_count * 10000"

definition invalid_course :: "course_term_aggregate \<Rightarrow> bool" where
  "invalid_course c \<longleftrightarrow>
     \<not> valid_term_identity (ct_education_level c) (ct_period_id c) (ct_term_label c)
         (ct_term_code c) \<or>
     trim_space (ct_course_code c) = '''' \<or>
     ct_valid_count c \<le>s 0 \<or>
     ct_pass_count c + ct_fail_count c \<noteq> ct_valid_count c \<or>
     \<not> valid_numeric_score_aggregate (ct_valid_count c) (ct_numeric_score_count c)
         (ct_numeric_score_sum_x100 c)"

definition invalid_instructor :: "instructor_term_aggregate \<Rightarrow> bool" where
  "invalid_instructor i \<longleftrightarrow>
     \<not> valid_term_identity (it_education_level i) (it_period_id i) (it_term_label i)
         (it_term_code i) \<or>
     trim_space (it_course_code i) = '''' \<or>
     trim_space (it_teacher_key i) = '''' \<or>
     it_valid_count i \<le>s 0 \<or>
     it_pass_count i + it_fail_count i \<noteq> it_valid_count i \<or>
     \<not> valid_numeric_score_aggregate (it_valid_count i) (it_numeric_score_count i)
         (it_numeric_score_sum_x100 i)"

text \<open>The two loops, with the partitions seen so far.\<close>

fun validate_courses :: "course_partition set \<Rightarrow> course_term_aggregate list \<Rightarrow> err option" where
  "validate_courses seen [] = None"
| "validate_courses seen (c # cs) =
     (if invalid_course c then Some (Sentinel ErrEmptySnapshot)
      else if course_partition c \<in> seen then Some (Sentinel ErrEmptySnapshot)
      else validate_courses (insert (course_partition c) seen) cs)"

fun validate_instructors ::
    "instructor_partition set \<Rightarrow> instructor_term_aggregate list \<Rightarrow> err option" where
  "validate_instructors seen [] = None"
| "validate_instructors seen (i # is) =
     (if invalid_instructor i then Some (Sentinel ErrEmptySnapshot)
      else if instructor_partition i \<in> seen then Some (Sentinel ErrEmptySnapshot)
      else validate_instructors (insert (instructor_partition i) seen) is)"

definition snapshot_validate :: "snapshot \<Rightarrow> err option" where
  "snapshot_validate s =
     (if is_zero_time (source_cutoff_at s) \<or> length (snapshot_courses s) = 0
      then Some (Sentinel ErrEmptySnapshot)
      else case validate_courses {} (snapshot_courses s) of
             Some e \<Rightarrow> Some e
           | None \<Rightarrow> validate_instructors {} (snapshot_instructors s))"

section \<open>What validation establishes\<close>

lemma validate_courses_eq:
  "validate_courses seen cs =
     (if (\<forall>c\<in>set cs. \<not> invalid_course c) \<and> distinct (map course_partition cs) \<and>
         course_partition ` set cs \<inter> seen = {}
      then None else Some (Sentinel ErrEmptySnapshot))"
  by (induction seen cs rule: validate_courses.induct) auto

lemma validate_instructors_eq:
  "validate_instructors seen is =
     (if (\<forall>i\<in>set is. \<not> invalid_instructor i) \<and> distinct (map instructor_partition is) \<and>
         instructor_partition ` set is \<inter> seen = {}
      then None else Some (Sentinel ErrEmptySnapshot))"
  by (induction seen "is" rule: validate_instructors.induct) auto

definition acceptable_snapshot :: "snapshot \<Rightarrow> bool" where
  "acceptable_snapshot s \<longleftrightarrow>
     source_cutoff_at s \<noteq> 0 \<and> snapshot_courses s \<noteq> [] \<and>
     (\<forall>c\<in>set (snapshot_courses s). \<not> invalid_course c) \<and>
     distinct (map course_partition (snapshot_courses s)) \<and>
     (\<forall>i\<in>set (snapshot_instructors s). \<not> invalid_instructor i) \<and>
     distinct (map instructor_partition (snapshot_instructors s))"

lemma snapshot_validate_eq:
  "snapshot_validate s =
     (if acceptable_snapshot s then None else Some (Sentinel ErrEmptySnapshot))"
  by (simp add: snapshot_validate_def acceptable_snapshot_def is_zero_time_def
      validate_courses_eq validate_instructors_eq)


lemma valid_numeric_bounds:
  assumes "valid_numeric_score_aggregate valid score tot"
    and "sint valid \<le> 922337203685477"
  shows "0 \<le> sint score \<and> sint score \<le> sint valid \<and> 0 \<le> sint tot \<and>
     sint tot \<le> 10000 * sint score"
proof -
  from assms have s: "0 \<le> sint score" "sint score \<le> sint valid" "0 \<le> sint tot"
    and le: "sint tot \<le> sint (score * 10000)"
    by (simp_all add: valid_numeric_score_aggregate_def word_sle_eq)
  have "sint (score * 10000) = sint score * sint (10000 :: int64)"
    using s assms(2) by (intro sint64_mult) simp_all
  with s le show ?thesis by simp
qed

text \<open>
  In an accepted snapshot whose counts stay below the point where \<open>scoreCount * 10000\<close> would
  wrap, every published course average lies between 0 and 100: the score sum (in hundredths) is
  between 0 and 10000 times the number of numeric scores, which is at most the number of students.
\<close>

theorem validated_course_average_bounds:
  assumes "snapshot_validate s = None" and "c \<in> set (snapshot_courses s)"
    and "sint (ct_valid_count c) \<le> 922337203685477"
  shows "0 < sint (ct_valid_count c) \<and>
     0 \<le> sint (ct_numeric_score_count c) \<and>
     sint (ct_numeric_score_count c) \<le> sint (ct_valid_count c) \<and>
     0 \<le> sint (ct_numeric_score_sum_x100 c) \<and>
     sint (ct_numeric_score_sum_x100 c) \<le> 10000 * sint (ct_numeric_score_count c)"
proof -
  from assms(1,2) have "\<not> invalid_course c"
    by (auto simp: snapshot_validate_eq acceptable_snapshot_def split: if_splits)
  then show ?thesis
    using valid_numeric_bounds [OF _ assms(3)]
    by (auto simp: invalid_course_def word_sle_eq)
qed

definition sample_course :: course_term_aggregate where
  "sample_course =
     \<lparr>ct_education_level = level_undergraduate, ct_period_id = ''2025-2026-2'',
      ct_term_label = ''2025 autumn'', ct_term_code = ''2025-2026-2'',
      ct_course_code = ''CS101'', ct_course_name = ''Programming'', ct_valid_count = 10,
      ct_pass_count = 8, ct_fail_count = 2, ct_numeric_score_count = 10,
      ct_numeric_score_sum_x100 = 78000, ct_distribution = distribution_zero\<rparr>"

definition sample_snapshot :: "course_term_aggregate list \<Rightarrow> snapshot" where
  "sample_snapshot cs =
     \<lparr>source_cutoff_at = 1, source_row_count = 10, snapshot_courses = cs,
      snapshot_instructors = []\<rparr>"

lemmas sample_defs = sample_snapshot_def sample_course_def level_undergraduate_def
  level_graduate_def

lemma sample_snapshot_valid:
  "pass + fail = 10 \<Longrightarrow>
   snapshot_validate
     (sample_snapshot [sample_course\<lparr>ct_pass_count := pass, ct_fail_count := fail\<rparr>]) = None"
  by (simp add: snapshot_validate_eq acceptable_snapshot_def invalid_course_def sample_defs
      valid_term_identity_def valid_numeric_score_aggregate_def trim_space_visible visible_def
      word_sle_eq)

theorem validated_course_average_bounds_witness:
  "snapshot_validate (sample_snapshot [sample_course]) = None \<and>
   sint (ct_numeric_score_sum_x100 sample_course)
     \<le> 10000 * sint (ct_numeric_score_count sample_course)"
proof -
  have v: "snapshot_validate (sample_snapshot [sample_course]) = None"
    using sample_snapshot_valid [of 8 2] by (simp add: sample_course_def)
  show ?thesis
    using v validated_course_average_bounds [OF v, of sample_course]
    by (simp add: sample_defs)
qed

text \<open>
  Validation compares only the sum of the pass and fail counts with the number of students, so
  a row whose pass count is negative is accepted: the two counts are not bounded one by one.
\<close>

theorem validate_accepts_negative_pass_count:
  "snapshot_validate
     (sample_snapshot [sample_course\<lparr>ct_pass_count := - 5, ct_fail_count := 15\<rparr>]) = None \<and>
   sint (ct_pass_count (sample_course\<lparr>ct_pass_count := - 5\<rparr>)) < 0"
  using sample_snapshot_valid [of "- 5" 15] by simp

end
