(* ===== verification/StatsPublication.thy ===== *)
theory StatsPublication
  imports StatsDomain
begin

text \<open>
  The publication-time transformations of \<^verbatim>\<open>academic_statistics/infrastructure/store.go\<close> that need
  no database: the entity rows, the suppression of small publication deltas (a privacy rule: two
  consecutive publications must not differ by fewer students than the minimum sample size) and
  the all-term course projection. A \<^verbatim>\<open>range\<close> over a Go map visits every key once in an
  unspecified order; that order is the parameter \<open>iter\<close>.

  The locale \<open>publication_row\<close> is the contract of a row whose statistics can be replaced by those
  of an earlier publication; it is interpreted for the course rows and for the instructor rows.
\<close>

section \<open>Entity rows\<close>

record course_statistic =
  cs_id :: uint64
  cs_batch_id :: uint64
  cs_term_code :: string
  cs_education_level :: string
  cs_period_id :: string
  cs_term_label :: string
  cs_course_code :: string
  cs_course_name :: string
  cs_valid_count :: int64
  cs_pass_count :: int64
  cs_fail_count :: int64
  cs_numeric_score_count :: int64
  cs_numeric_score_sum_x100 :: int64
  cs_numeric_fail_count :: int64
  cs_score_60_69_count :: int64
  cs_score_70_79_count :: int64
  cs_score_80_89_count :: int64
  cs_score_90_100_count :: int64
  cs_level_excellent_count :: int64
  cs_level_good_count :: int64
  cs_level_medium_count :: int64
  cs_level_pass_count :: int64
  cs_level_fail_count :: int64

text \<open>An instructor row has the course row's columns and three more.\<close>

record instructor_statistic = course_statistic +
  is_teacher_key :: string
  is_teacher_name :: string
  is_class_count :: int64

definition course_entity :: "uint64 \<Rightarrow> course_term_aggregate \<Rightarrow> course_statistic" where
  "course_entity batch_id v =
     \<lparr>cs_id = 0, cs_batch_id = batch_id, cs_term_code = ct_term_code v,
      cs_education_level = ct_education_level v, cs_period_id = ct_period_id v,
      cs_term_label = ct_term_label v, cs_course_code = ct_course_code v,
      cs_course_name = ct_course_name v, cs_valid_count = ct_valid_count v,
      cs_pass_count = ct_pass_count v, cs_fail_count = ct_fail_count v,
      cs_numeric_score_count = ct_numeric_score_count v,
      cs_numeric_score_sum_x100 = ct_numeric_score_sum_x100 v,
      cs_numeric_fail_count = numeric_fail (ct_distribution v),
      cs_score_60_69_count = score_60_69 (ct_distribution v),
      cs_score_70_79_count = score_70_79 (ct_distribution v),
      cs_score_80_89_count = score_80_89 (ct_distribution v),
      cs_score_90_100_count = score_90_100 (ct_distribution v),
      cs_level_excellent_count = level_excellent (ct_distribution v),
      cs_level_good_count = level_good (ct_distribution v),
      cs_level_medium_count = level_medium (ct_distribution v),
      cs_level_pass_count = level_pass (ct_distribution v),
      cs_level_fail_count = level_fail (ct_distribution v)\<rparr>"

definition course_entities ::
    "uint64 \<Rightarrow> course_term_aggregate list \<Rightarrow> course_statistic list" where
  "course_entities batch_id vs = map (course_entity batch_id) vs"

definition instructor_entity ::
    "uint64 \<Rightarrow> instructor_term_aggregate \<Rightarrow> instructor_statistic" where
  "instructor_entity batch_id v =
     \<lparr>cs_id = 0, cs_batch_id = batch_id, cs_term_code = it_term_code v,
      cs_education_level = it_education_level v, cs_period_id = it_period_id v,
      cs_term_label = it_term_label v, cs_course_code = it_course_code v,
      cs_course_name = it_course_name v, cs_valid_count = it_valid_count v,
      cs_pass_count = it_pass_count v, cs_fail_count = it_fail_count v,
      cs_numeric_score_count = it_numeric_score_count v,
      cs_numeric_score_sum_x100 = it_numeric_score_sum_x100 v,
      cs_numeric_fail_count = numeric_fail (it_distribution v),
      cs_score_60_69_count = score_60_69 (it_distribution v),
      cs_score_70_79_count = score_70_79 (it_distribution v),
      cs_score_80_89_count = score_80_89 (it_distribution v),
      cs_score_90_100_count = score_90_100 (it_distribution v),
      cs_level_excellent_count = level_excellent (it_distribution v),
      cs_level_good_count = level_good (it_distribution v),
      cs_level_medium_count = level_medium (it_distribution v),
      cs_level_pass_count = level_pass (it_distribution v),
      cs_level_fail_count = level_fail (it_distribution v),
      is_teacher_key = it_teacher_key v, is_teacher_name = it_teacher_name v,
      is_class_count = it_class_count v\<rparr>"

definition instructor_entities ::
    "uint64 \<Rightarrow> instructor_term_aggregate list \<Rightarrow> instructor_statistic list" where
  "instructor_entities batch_id vs = map (instructor_entity batch_id) vs"

section \<open>Unsafe deltas\<close>

type_synonym publication_counts = "int64 list"

definition course_publication_counts ::
    "'a course_statistic_scheme \<Rightarrow> publication_counts" where
  "course_publication_counts row =
     [cs_valid_count row, cs_pass_count row, cs_fail_count row, cs_numeric_score_count row,
      cs_valid_count row - cs_numeric_score_count row, cs_numeric_fail_count row,
      cs_score_60_69_count row, cs_score_70_79_count row, cs_score_80_89_count row,
      cs_score_90_100_count row, cs_level_excellent_count row, cs_level_good_count row,
      cs_level_medium_count row, cs_level_pass_count row, cs_level_fail_count row]"

definition instructor_publication_counts :: "instructor_statistic \<Rightarrow> publication_counts" where
  "instructor_publication_counts row =
     [cs_valid_count row, cs_pass_count row, cs_fail_count row, cs_numeric_score_count row,
      cs_valid_count row - cs_numeric_score_count row, cs_numeric_fail_count row,
      cs_score_60_69_count row, cs_score_70_79_count row, cs_score_80_89_count row,
      cs_score_90_100_count row, cs_level_excellent_count row, cs_level_good_count row,
      cs_level_medium_count row, cs_level_pass_count row, cs_level_fail_count row]"

definition numeric_score_count_index :: nat where "numeric_score_count_index = 3"

definition absolute_delta :: "int64 \<Rightarrow> int64 \<Rightarrow> int64" where
  "absolute_delta previous current =
     (let delta = previous - current in if delta <s 0 then - delta else delta)"

definition unsafe_publication_delta ::
    "publication_counts \<Rightarrow> publication_counts \<Rightarrow> int64 \<Rightarrow> int64 \<Rightarrow> int64 \<Rightarrow> bool" where
  "unsafe_publication_delta previous current previous_score_sum current_score_sum minimum =
     (if list_ex (\<lambda>(p, c). 0 <s absolute_delta p c \<and> absolute_delta p c <s minimum)
           (zip previous current)
      then True
      else
        let previous_numeric = previous ! numeric_score_count_index;
            current_numeric = current ! numeric_score_count_index
        in if previous_numeric <s minimum \<or> current_numeric <s minimum then False
           else
             let numeric_delta = absolute_delta previous_numeric current_numeric
             in numeric_delta <s minimum \<and>
                (0 <s numeric_delta \<or> previous_score_sum \<noteq> current_score_sum))"

definition unsafe_course_publication_delta ::
    "course_statistic \<Rightarrow> course_statistic \<Rightarrow> int64 \<Rightarrow> bool" where
  "unsafe_course_publication_delta previous current minimum =
     unsafe_publication_delta (course_publication_counts previous)
       (course_publication_counts current) (cs_numeric_score_sum_x100 previous)
       (cs_numeric_score_sum_x100 current) minimum"

definition unsafe_instructor_publication_delta ::
    "instructor_statistic \<Rightarrow> instructor_statistic \<Rightarrow> int64 \<Rightarrow> bool" where
  "unsafe_instructor_publication_delta previous current minimum =
     unsafe_publication_delta (instructor_publication_counts previous)
       (instructor_publication_counts current) (cs_numeric_score_sum_x100 previous)
       (cs_numeric_score_sum_x100 current) minimum"

definition copy_course_statistics :: "course_statistic \<Rightarrow> course_statistic \<Rightarrow> course_statistic"
where
  "copy_course_statistics tgt src =
     tgt\<lparr>cs_valid_count := cs_valid_count src, cs_pass_count := cs_pass_count src,
      cs_fail_count := cs_fail_count src,
      cs_numeric_score_count := cs_numeric_score_count src,
      cs_numeric_score_sum_x100 := cs_numeric_score_sum_x100 src,
      cs_numeric_fail_count := cs_numeric_fail_count src,
      cs_score_60_69_count := cs_score_60_69_count src,
      cs_score_70_79_count := cs_score_70_79_count src,
      cs_score_80_89_count := cs_score_80_89_count src,
      cs_score_90_100_count := cs_score_90_100_count src,
      cs_level_excellent_count := cs_level_excellent_count src,
      cs_level_good_count := cs_level_good_count src,
      cs_level_medium_count := cs_level_medium_count src,
      cs_level_pass_count := cs_level_pass_count src,
      cs_level_fail_count := cs_level_fail_count src\<rparr>"

definition copy_instructor_statistics ::
    "instructor_statistic \<Rightarrow> instructor_statistic \<Rightarrow> instructor_statistic" where
  "copy_instructor_statistics tgt src =
     tgt\<lparr>is_class_count := is_class_count src,
      cs_valid_count := cs_valid_count src, cs_pass_count := cs_pass_count src,
      cs_fail_count := cs_fail_count src,
      cs_numeric_score_count := cs_numeric_score_count src,
      cs_numeric_score_sum_x100 := cs_numeric_score_sum_x100 src,
      cs_numeric_fail_count := cs_numeric_fail_count src,
      cs_score_60_69_count := cs_score_60_69_count src,
      cs_score_70_79_count := cs_score_70_79_count src,
      cs_score_80_89_count := cs_score_80_89_count src,
      cs_score_90_100_count := cs_score_90_100_count src,
      cs_level_excellent_count := cs_level_excellent_count src,
      cs_level_good_count := cs_level_good_count src,
      cs_level_medium_count := cs_level_medium_count src,
      cs_level_pass_count := cs_level_pass_count src,
      cs_level_fail_count := cs_level_fail_count src\<rparr>"

section \<open>Suppression of small deltas\<close>

definition course_partition_key :: "'a course_statistic_scheme \<Rightarrow> course_partition" where
  "course_partition_key row = (cs_education_level row, cs_period_id row, cs_course_code row)"

definition instructor_partition_key :: "instructor_statistic \<Rightarrow> instructor_partition" where
  "instructor_partition_key row =
     ((cs_education_level row, cs_period_id row, cs_course_code row), is_teacher_key row)"

definition previous_by_key :: "('r \<Rightarrow> 'k) \<Rightarrow> 'r list \<Rightarrow> 'k \<Rightarrow> 'r option" where
  "previous_by_key key previous = foldl (\<lambda>m row. m(key row \<mapsto> row)) Map.empty previous"

fun suppress_course_rows ::
    "(course_partition \<Rightarrow> course_statistic option) \<Rightarrow> course_partition set \<Rightarrow> int64 \<Rightarrow>
     course_statistic list \<Rightarrow> uint64 set \<Rightarrow> course_statistic list \<times> uint64 set" where
  "suppress_course_rows baselines forced minimum [] ids = ([], ids)"
| "suppress_course_rows baselines forced minimum (row # rows) ids =
     (case baselines (course_partition_key row) of
        None \<Rightarrow> apfst (Cons row) (suppress_course_rows baselines forced minimum rows ids)
      | Some baseline \<Rightarrow>
          if cs_valid_count baseline <s minimum
          then apfst (Cons row) (suppress_course_rows baselines forced minimum rows ids)
          else if course_partition_key row \<notin> forced \<and>
                  \<not> unsafe_course_publication_delta baseline row minimum
          then apfst (Cons row) (suppress_course_rows baselines forced minimum rows ids)
          else apfst (Cons (copy_course_statistics row baseline))
                 (suppress_course_rows baselines forced minimum rows
                    (insert (cs_batch_id baseline) ids)))"

definition suppress_course_deltas ::
    "course_statistic list \<Rightarrow> course_statistic list \<Rightarrow> course_partition set \<Rightarrow> int64 \<Rightarrow>
     uint64 set \<Rightarrow> course_statistic list \<times> uint64 set" where
  "suppress_course_deltas current previous instructor_suppressed minimum ids =
     suppress_course_rows (previous_by_key course_partition_key previous)
       instructor_suppressed minimum current ids"

fun suppress_instructor_rows ::
    "(instructor_partition \<Rightarrow> instructor_statistic option) \<Rightarrow> int64 \<Rightarrow>
     instructor_statistic list \<Rightarrow> uint64 set \<Rightarrow> course_partition set \<Rightarrow>
     instructor_statistic list \<times> uint64 set \<times> course_partition set" where
  "suppress_instructor_rows baselines minimum [] ids suppressed = ([], ids, suppressed)"
| "suppress_instructor_rows baselines minimum (row # rows) ids suppressed =
     (case baselines (instructor_partition_key row) of
        None \<Rightarrow> apfst (Cons row) (suppress_instructor_rows baselines minimum rows ids suppressed)
      | Some baseline \<Rightarrow>
          if cs_valid_count baseline <s minimum \<or>
             \<not> unsafe_instructor_publication_delta baseline row minimum
          then apfst (Cons row) (suppress_instructor_rows baselines minimum rows ids suppressed)
          else apfst (Cons (copy_instructor_statistics row baseline))
                 (suppress_instructor_rows baselines minimum rows
                    (insert (cs_batch_id baseline) ids)
                    (insert (course_partition_key row) suppressed)))"

definition suppress_instructor_deltas ::
    "instructor_statistic list \<Rightarrow> instructor_statistic list \<Rightarrow> int64 \<Rightarrow> uint64 set \<Rightarrow>
     instructor_statistic list \<times> uint64 set \<times> course_partition set" where
  "suppress_instructor_deltas current previous minimum ids =
     suppress_instructor_rows (previous_by_key instructor_partition_key previous)
       minimum current ids {}"

section \<open>Deltas as integers\<close>

lemma absolute_delta_same [simp]: "absolute_delta x x = 0"
  by (simp add: absolute_delta_def Let_def)

lemma absolute_delta_int:
  assumes "0 \<le> sint p" and "0 \<le> sint c"
  shows "sint (absolute_delta p c) = \<bar>sint p - sint c\<bar>"
proof -
  have d: "sint (p - c) = sint p - sint c"
    using assms sint64_range [of p] sint64_range [of c] by (intro sint64_diff) linarith+
  have n: "sint (- (p - c)) = - (sint p - sint c)"
    using assms d sint64_range [of p] sint64_range [of c]
    by (subst sint64_uminus) linarith+
  show ?thesis using d n by (simp add: absolute_delta_def Let_def word_sless_alt)
qed

lemma absolute_delta_small:
  assumes "0 \<le> sint p" and "0 \<le> sint c"
  shows "0 <s absolute_delta p c \<and> absolute_delta p c <s m \<longleftrightarrow>
     p \<noteq> c \<and> \<bar>sint p - sint c\<bar> < sint m"
  using assms by (auto simp: word_sless_alt absolute_delta_int signed_word_eqI)

lemma not_unsafe_same:
  "\<not> unsafe_publication_delta cs cs x x m"
  by (auto simp: unsafe_publication_delta_def Let_def list_ex_iff in_set_zip
      word_sless_alt absolute_delta_def)

definition nonnegative_counts :: "publication_counts \<Rightarrow> bool" where
  "nonnegative_counts cs \<longleftrightarrow> (\<forall>c\<in>set cs. 0 \<le> sint c)"

lemma unsafe_publication_delta_int:
  assumes "nonnegative_counts ps" and "nonnegative_counts cs" and "length ps = length cs"
    and "numeric_score_count_index < length ps" and "0 < sint m"
  shows "unsafe_publication_delta ps cs x y m \<longleftrightarrow>
    (\<exists>i<length ps. ps ! i \<noteq> cs ! i \<and> \<bar>sint (ps ! i) - sint (cs ! i)\<bar> < sint m) \<or>
    (sint m \<le> sint (ps ! numeric_score_count_index) \<and>
     ps ! numeric_score_count_index = cs ! numeric_score_count_index \<and> x \<noteq> y)"
proof -
  let ?k = numeric_score_count_index
  have nn: "0 \<le> sint (ps ! i)" "0 \<le> sint (cs ! i)" if "i < length ps" for i
    using that assms(1-3) by (simp_all add: nonnegative_counts_def)
  have ex: "list_ex (\<lambda>(p, c). 0 <s absolute_delta p c \<and> absolute_delta p c <s m) (zip ps cs)
      \<longleftrightarrow> (\<exists>i<length ps. ps ! i \<noteq> cs ! i \<and> \<bar>sint (ps ! i) - sint (cs ! i)\<bar> < sint m)"
    using assms(3) nn absolute_delta_small by (fastforce simp: list_ex_iff set_zip)
  note k = absolute_delta_int [OF nn, OF assms(4) assms(4)]
  show ?thesis
  proof (cases "ps ! ?k = cs ! ?k")
    case True
    then show ?thesis
      using assms(5) unfolding unsafe_publication_delta_def ex
      by (auto simp: Let_def word_sless_alt)
  next
    case False
    then show ?thesis
      using assms(4) unfolding unsafe_publication_delta_def ex
      by (auto simp: Let_def word_sless_alt k)
  qed
qed

section \<open>The contract of a suppressible row\<close>

locale publication_row =
  fixes counts :: "'r \<Rightarrow> publication_counts"
    and score_sum :: "'r \<Rightarrow> int64"
    and partition_key :: "'r \<Rightarrow> 'k"
    and replace :: "'r \<Rightarrow> 'r \<Rightarrow> 'r"
  assumes counts_replace: "counts (replace t s) = counts s"
    and score_sum_replace: "score_sum (replace t s) = score_sum s"
    and partition_replace: "partition_key (replace t s) = partition_key t"
begin

lemma replace_not_unsafe:
  "\<not> unsafe_publication_delta (counts s) (counts (replace t s)) (score_sum s)
       (score_sum (replace t s)) m"
  by (simp add: counts_replace score_sum_replace not_unsafe_same)

text \<open>A row that is kept when safe and replaced otherwise is never unsafe.\<close>

lemma decided_not_unsafe:
  assumes "r' = (if keep then t else replace t s)"
    and "keep \<Longrightarrow> \<not> unsafe_publication_delta (counts s) (counts t) (score_sum s) (score_sum t) m"
  shows "\<not> unsafe_publication_delta (counts s) (counts r') (score_sum s) (score_sum r') m"
  using assms replace_not_unsafe by (cases keep) simp_all

lemma decided_partition: "partition_key (if keep then t else replace t s) = partition_key t"
  by (simp add: partition_replace)

end

interpretation course_row: publication_row course_publication_counts
    cs_numeric_score_sum_x100 course_partition_key copy_course_statistics
  by unfold_locales
     (simp_all add: course_publication_counts_def copy_course_statistics_def
       course_partition_key_def)

interpretation instructor_row: publication_row instructor_publication_counts
    cs_numeric_score_sum_x100 instructor_partition_key copy_instructor_statistics
  by unfold_locales
     (simp_all add: instructor_publication_counts_def copy_instructor_statistics_def
       instructor_partition_key_def)

section \<open>Suppression over a whole publication\<close>

text \<open>What the course loop does to one row.\<close>

definition decided_course_row ::
    "(course_partition \<Rightarrow> course_statistic option) \<Rightarrow> course_partition set \<Rightarrow> int64 \<Rightarrow>
     course_statistic \<Rightarrow> course_statistic" where
  "decided_course_row baselines forced minimum row =
     (case baselines (course_partition_key row) of
        None \<Rightarrow> row
      | Some b \<Rightarrow>
          if cs_valid_count b <s minimum \<or>
             course_partition_key row \<notin> forced \<and> \<not> unsafe_course_publication_delta b row minimum
          then row else copy_course_statistics row b)"

definition decided_instructor_row ::
    "(instructor_partition \<Rightarrow> instructor_statistic option) \<Rightarrow> int64 \<Rightarrow>
     instructor_statistic \<Rightarrow> instructor_statistic" where
  "decided_instructor_row baselines minimum row =
     (case baselines (instructor_partition_key row) of
        None \<Rightarrow> row
      | Some b \<Rightarrow>
          if cs_valid_count b <s minimum \<or> \<not> unsafe_instructor_publication_delta b row minimum
          then row else copy_instructor_statistics row b)"

lemma suppress_course_rows_map:
  "fst (suppress_course_rows bs forced m rows ids) = map (decided_course_row bs forced m) rows"
  by (induction bs forced m rows ids rule: suppress_course_rows.induct)
     (auto simp: decided_course_row_def split: option.splits)

lemma suppress_instructor_rows_map:
  "fst (suppress_instructor_rows bs m rows ids sp) = map (decided_instructor_row bs m) rows"
  by (induction bs m rows ids sp rule: suppress_instructor_rows.induct)
     (auto simp: decided_instructor_row_def split: option.splits)

lemma decided_course_key:
  "course_partition_key (decided_course_row bs forced m row) = course_partition_key row"
  using course_row.partition_replace
  by (simp add: decided_course_row_def split: option.splits)

lemma decided_instructor_key:
  "instructor_partition_key (decided_instructor_row bs m row) = instructor_partition_key row"
  using instructor_row.partition_replace
  by (simp add: decided_instructor_row_def split: option.splits)

lemma decided_course_batch [simp]:
  "cs_batch_id (decided_course_row bs forced m row) = cs_batch_id row"
  by (simp add: decided_course_row_def copy_course_statistics_def split: option.splits)

lemma decided_instructor_batch [simp]:
  "cs_batch_id (decided_instructor_row bs m row) = cs_batch_id row"
  by (simp add: decided_instructor_row_def copy_instructor_statistics_def split: option.splits)

lemma decided_course_safe:
  assumes "bs (course_partition_key row) = Some b" and "\<not> cs_valid_count b <s m"
  shows "\<not> unsafe_course_publication_delta b (decided_course_row bs forced m row) m"
  using assms course_row.replace_not_unsafe
  by (auto simp: decided_course_row_def unsafe_course_publication_delta_def)

lemma decided_instructor_safe:
  assumes "bs (instructor_partition_key row) = Some b" and "\<not> cs_valid_count b <s m"
  shows "\<not> unsafe_instructor_publication_delta b (decided_instructor_row bs m row) m"
  using assms instructor_row.replace_not_unsafe
  by (auto simp: decided_instructor_row_def unsafe_instructor_publication_delta_def)

lemma suppress_instructor_rows_forced:
  "snd (snd (suppress_instructor_rows bs m rows ids sp)) =
     sp \<union> {course_partition_key row | row b. row \<in> set rows \<and>
       bs (instructor_partition_key row) = Some b \<and> \<not> cs_valid_count b <s m \<and>
       unsafe_instructor_publication_delta b row m}"
proof (induction bs m rows ids sp rule: suppress_instructor_rows.induct)
  case (2 bs m row rows ids sp)
  then show ?case
    by (cases "bs (instructor_partition_key row)") auto
qed simp

lemma suppress_course_rows_ids:
  "snd (suppress_course_rows bs forced m rows ids) =
     ids \<union> {cs_batch_id b | row b. row \<in> set rows \<and>
       bs (course_partition_key row) = Some b \<and> \<not> cs_valid_count b <s m \<and>
       (course_partition_key row \<in> forced \<or> unsafe_course_publication_delta b row m)}"
proof (induction bs forced m rows ids rule: suppress_course_rows.induct)
  case (2 bs forced m row rows ids)
  then show ?case
    by (cases "bs (course_partition_key row)") auto
qed simp

lemma suppress_instructor_rows_ids:
  "fst (snd (suppress_instructor_rows bs m rows ids sp)) =
     ids \<union> {cs_batch_id b | row b. row \<in> set rows \<and>
       bs (instructor_partition_key row) = Some b \<and> \<not> cs_valid_count b <s m \<and>
       unsafe_instructor_publication_delta b row m}"
proof (induction bs m rows ids sp rule: suppress_instructor_rows.induct)
  case (2 bs m row rows ids sp)
  then show ?case
    by (cases "bs (instructor_partition_key row)") auto
qed simp

lemma previous_by_key_snoc:
  "previous_by_key key (xs @ [r]) = (previous_by_key key xs)(key r \<mapsto> r)"
  by (simp add: previous_by_key_def)

lemma previous_by_key_Some:
  "previous_by_key key rows k = Some b \<Longrightarrow> b \<in> set rows \<and> key b = k"
proof (induction rows rule: rev_induct)
  case Nil
  then show ?case by (simp add: previous_by_key_def)
next
  case (snoc r rows)
  then show ?case by (auto simp: previous_by_key_snoc split: if_splits)
qed

lemma previous_by_key_unique:
  assumes "c \<in> set rows" and "\<And>r. r \<in> set rows \<Longrightarrow> key r = key c \<Longrightarrow> r = c"
  shows "previous_by_key key rows (key c) = Some c"
  using assms
proof (induction rows rule: rev_induct)
  case (snoc r rows)
  show ?case
  proof (cases "key r = key c")
    case True
    with snoc.prems(2) [of r] show ?thesis by (simp add: previous_by_key_snoc)
  next
    case False
    with snoc.prems have "c \<in> set rows" by auto
    with snoc False show ?thesis by (simp add: previous_by_key_snoc)
  qed
qed simp

end
