(* ===== verification/StatsProjection.thy ===== *)
theory StatsProjection
  imports StatsPublication
begin

text \<open>
  The read side of \<^verbatim>\<open>academic_statistics/infrastructure/store.go\<close> that needs no database: the all-term
  course projection built at publication time, its cached count, the conversions from rows to
  domain values and the assembly of trends.

  \<open>course_pass_rate_entities\<close> groups the per-term rows by education level and course in a Go map
  and then ranges over that map, so the order of its result is unspecified: it is the parameter
  \<open>iter\<close>, of which the lemmas use only that it lists every key once.
\<close>

record pass_rate_statistic =
  pr_id :: uint64
  pr_batch_id :: uint64
  pr_education_level :: string
  pr_course_code :: string
  pr_course_name :: string
  pr_term_count :: int64
  pr_valid_count :: int64
  pr_pass_count :: int64
  pr_fail_count :: int64
  pr_numeric_score_count :: int64
  pr_numeric_score_sum_x100 :: int64
  pr_numeric_fail_count :: int64
  pr_score_60_69_count :: int64
  pr_score_70_79_count :: int64
  pr_score_80_89_count :: int64
  pr_score_90_100_count :: int64
  pr_level_excellent_count :: int64
  pr_level_good_count :: int64
  pr_level_medium_count :: int64
  pr_level_pass_count :: int64
  pr_level_fail_count :: int64

type_synonym course_key = "string \<times> string"

definition course_key :: "'a course_statistic_scheme \<Rightarrow> course_key" where
  "course_key v = (cs_education_level v, cs_course_code v)"

definition pass_rate_new :: "uint64 \<Rightarrow> course_statistic \<Rightarrow> pass_rate_statistic" where
  "pass_rate_new batch_id v =
     \<lparr>pr_id = 0, pr_batch_id = batch_id, pr_education_level = cs_education_level v,
      pr_course_code = cs_course_code v, pr_course_name = cs_course_name v,
      pr_term_count = 0, pr_valid_count = 0, pr_pass_count = 0, pr_fail_count = 0,
      pr_numeric_score_count = 0, pr_numeric_score_sum_x100 = 0, pr_numeric_fail_count = 0,
      pr_score_60_69_count = 0, pr_score_70_79_count = 0, pr_score_80_89_count = 0,
      pr_score_90_100_count = 0, pr_level_excellent_count = 0, pr_level_good_count = 0,
      pr_level_medium_count = 0, pr_level_pass_count = 0, pr_level_fail_count = 0\<rparr>"

definition pass_rate_name :: "pass_rate_statistic \<Rightarrow> course_statistic \<Rightarrow> pass_rate_statistic" where
  "pass_rate_name row v =
     (if cs_course_name v > pr_course_name row then row\<lparr>pr_course_name := cs_course_name v\<rparr>
      else row)"

definition pass_rate_add :: "pass_rate_statistic \<Rightarrow> course_statistic \<Rightarrow> pass_rate_statistic" where
  "pass_rate_add row v =
     row\<lparr>pr_term_count := pr_term_count row + 1,
      pr_valid_count := pr_valid_count row + cs_valid_count v,
      pr_pass_count := pr_pass_count row + cs_pass_count v,
      pr_fail_count := pr_fail_count row + cs_fail_count v,
      pr_numeric_score_count := pr_numeric_score_count row + cs_numeric_score_count v,
      pr_numeric_score_sum_x100 := pr_numeric_score_sum_x100 row + cs_numeric_score_sum_x100 v,
      pr_numeric_fail_count := pr_numeric_fail_count row + cs_numeric_fail_count v,
      pr_score_60_69_count := pr_score_60_69_count row + cs_score_60_69_count v,
      pr_score_70_79_count := pr_score_70_79_count row + cs_score_70_79_count v,
      pr_score_80_89_count := pr_score_80_89_count row + cs_score_80_89_count v,
      pr_score_90_100_count := pr_score_90_100_count row + cs_score_90_100_count v,
      pr_level_excellent_count := pr_level_excellent_count row + cs_level_excellent_count v,
      pr_level_good_count := pr_level_good_count row + cs_level_good_count v,
      pr_level_medium_count := pr_level_medium_count row + cs_level_medium_count v,
      pr_level_pass_count := pr_level_pass_count row + cs_level_pass_count v,
      pr_level_fail_count := pr_level_fail_count row + cs_level_fail_count v\<rparr>"

text \<open>One round of the grouping loop: the map and its keys in the order of insertion.\<close>

definition group_step ::
    "uint64 \<Rightarrow> course_key list \<times> (course_key \<rightharpoonup> pass_rate_statistic) \<Rightarrow> course_statistic \<Rightarrow>
     course_key list \<times> (course_key \<rightharpoonup> pass_rate_statistic)" where
  "group_step batch_id acc v =
     (let (keys, grouped) = acc; k = course_key v
      in case grouped k of
           None \<Rightarrow> (keys @ [k], grouped(k \<mapsto> pass_rate_add (pass_rate_new batch_id v) v))
         | Some row \<Rightarrow> (keys, grouped(k \<mapsto> pass_rate_add (pass_rate_name row v) v)))"

definition course_pass_rate_entities ::
    "(course_key list \<Rightarrow> course_key list) \<Rightarrow> uint64 \<Rightarrow> course_statistic list \<Rightarrow>
     pass_rate_statistic list" where
  "course_pass_rate_entities iter batch_id vs =
     (let (keys, grouped) = foldl (group_step batch_id) ([], Map.empty) vs
      in map (\<lambda>k. the (grouped k)) (iter keys))"

fun count_course_pass_rates :: "pass_rate_statistic list \<Rightarrow> int64 \<Rightarrow> int64" where
  "count_course_pass_rates [] minimum = 0"
| "count_course_pass_rates (row # rows) minimum =
     (if minimum \<le>s pr_valid_count row then 1 else 0) + count_course_pass_rates rows minimum"

section \<open>The projection is the SQL grouping\<close>

text \<open>
  The reference: for one key, the rows of that key folded from the left. It gives the columns
  \<open>COUNT(*)\<close>, \<open>SUM(...)\<close> and \<open>MAX(course_name)\<close> of \<^verbatim>\<open>courseGroupedSQL\<close>.
\<close>

definition group_fold :: "uint64 \<Rightarrow> course_statistic list \<Rightarrow> pass_rate_statistic option" where
  "group_fold batch_id vs =
     (case vs of [] \<Rightarrow> None
      | v # ws \<Rightarrow> Some (foldl (\<lambda>row w. pass_rate_add (pass_rate_name row w) w)
                     (pass_rate_add (pass_rate_new batch_id v) v) ws))"

lemma group_fold_snoc:
  "group_fold b (vs @ [v]) =
     Some (case group_fold b vs of
             None \<Rightarrow> pass_rate_add (pass_rate_new b v) v
           | Some row \<Rightarrow> pass_rate_add (pass_rate_name row v) v)"
  by (cases vs) (simp_all add: group_fold_def)

lemma group_fold_single:
  "group_fold b [v] = Some (pass_rate_add (pass_rate_new b v) v)"
  by (simp add: group_fold_def)

lemma group_fold_None [simp]: "group_fold b vs = None \<longleftrightarrow> vs = []"
  by (cases vs) (simp_all add: group_fold_def)

lemma foldl_group_step:
  assumes "foldl (group_step b) ([], Map.empty) vs = (keys, grouped)"
  shows "grouped = (\<lambda>k. group_fold b (filter (\<lambda>v. course_key v = k) vs)) \<and>
     set keys = course_key ` set vs \<and> distinct keys"
  using assms
proof (induction vs arbitrary: keys grouped rule: rev_induct)
  case Nil
  then show ?case by (auto simp: group_fold_def)
next
  case (snoc v vs)
  obtain ks g where f: "foldl (group_step b) ([], Map.empty) vs = (ks, g)" by fastforce
  with snoc.IH have g: "g = (\<lambda>k. group_fold b (filter (\<lambda>v. course_key v = k) vs))"
    and ks: "set ks = course_key ` set vs" "distinct ks" by auto
  have kn: "course_key v \<notin> set ks" if "g (course_key v) = None"
    using that by (auto simp: g ks filter_empty_conv)
  have kin: "course_key v \<in> set ks" if "g (course_key v) = Some row" for row
  proof -
    from that have "\<not> group_fold b (filter (\<lambda>w. course_key w = course_key v) vs) = None"
      by (simp only: g) simp
    then show ?thesis by (simp add: ks filter_empty_conv) (metis image_eqI)
  qed
  show ?case
  proof (cases "g (course_key v)")
    case None
    with snoc.prems f have "keys = ks @ [course_key v]"
      "grouped = g(course_key v \<mapsto> pass_rate_add (pass_rate_new b v) v)"
      by (simp_all add: group_step_def [of b "(ks, g)"] Let_def)
    then show ?thesis
      using ks kn [OF None] None
      by (auto simp: g group_fold_snoc group_fold_single fun_eq_iff)
  next
    case (Some row)
    with snoc.prems f have "keys = ks"
      "grouped = g(course_key v \<mapsto> pass_rate_add (pass_rate_name row v) v)"
      by (simp_all add: group_step_def [of b "(ks, g)"] Let_def)
    then show ?thesis
      using ks kin [OF Some] Some by (auto simp: g group_fold_snoc fun_eq_iff)
  qed
qed

lemma course_pass_rate_entities_eq:
  "\<exists>keys. set keys = course_key ` set vs \<and> distinct keys \<and>
     course_pass_rate_entities iter b vs =
       map (\<lambda>k. the (group_fold b (filter (\<lambda>v. course_key v = k) vs))) (iter keys)"
proof -
  obtain keys grouped where "foldl (group_step b) ([], Map.empty) vs = (keys, grouped)"
    by fastforce
  with foldl_group_step [OF this] show ?thesis
    by (auto simp: course_pass_rate_entities_def)
qed

definition pass_rate_columns :: "pass_rate_statistic \<Rightarrow> int64 list" where
  "pass_rate_columns r =
     [pr_valid_count r, pr_pass_count r, pr_fail_count r, pr_numeric_score_count r,
      pr_numeric_score_sum_x100 r, pr_numeric_fail_count r, pr_score_60_69_count r,
      pr_score_70_79_count r, pr_score_80_89_count r, pr_score_90_100_count r,
      pr_level_excellent_count r, pr_level_good_count r, pr_level_medium_count r,
      pr_level_pass_count r, pr_level_fail_count r]"

definition statistic_columns :: "course_statistic \<Rightarrow> int64 list" where
  "statistic_columns v =
     [cs_valid_count v, cs_pass_count v, cs_fail_count v, cs_numeric_score_count v,
      cs_numeric_score_sum_x100 v, cs_numeric_fail_count v, cs_score_60_69_count v,
      cs_score_70_79_count v, cs_score_80_89_count v, cs_score_90_100_count v,
      cs_level_excellent_count v, cs_level_good_count v, cs_level_medium_count v,
      cs_level_pass_count v, cs_level_fail_count v]"

definition column_sums :: "course_statistic list \<Rightarrow> int64 list" where
  "column_sums vs = map (\<lambda>i. \<Sum>v\<leftarrow>vs. statistic_columns v ! i) [0..<15]"

lemma length_columns [simp]:
  "length (statistic_columns v) = 15" "length (pass_rate_columns r) = 15"
  by (simp_all add: statistic_columns_def pass_rate_columns_def)

lemma columns_add:
  "pass_rate_columns (pass_rate_add row v) =
     map2 (+) (pass_rate_columns row) (statistic_columns v)"
  "pass_rate_columns (pass_rate_name row v) = pass_rate_columns row"
  "pass_rate_columns (pass_rate_new b v) = replicate 15 0"
  by (simp_all add: pass_rate_columns_def statistic_columns_def pass_rate_add_def
      pass_rate_name_def pass_rate_new_def numeral_eq_Suc)

lemma foldl_max_commute: "max (foldl max x ys) (y :: 'a :: linorder) = foldl max (max x y) ys"
  by (induction ys arbitrary: x) (simp_all add: max.assoc max.commute max.left_commute)

lemma pass_rate_name_max:
  "pr_course_name (pass_rate_name row v) = max (pr_course_name row) (cs_course_name v)"
  by (auto simp: pass_rate_name_def max_def)

lemma group_fold_row:
  assumes "group_fold b vs = Some row"
  shows "pass_rate_columns row = column_sums vs \<and>
     pr_term_count row = of_nat (length vs) \<and>
     pr_course_name row = Max (cs_course_name ` set vs) \<and>
     pr_batch_id row = b"
  using assms
proof (induction vs arbitrary: row rule: rev_induct)
  case (snoc v vs)
  show ?case
  proof (cases "group_fold b vs")
    case None
    then have vs: "vs = []" by simp
    with snoc.prems have row: "row = pass_rate_add (pass_rate_new b v) v"
      by (simp add: group_fold_def)
    have "pass_rate_columns row = statistic_columns v"
      by (auto simp: row columns_add intro!: nth_equalityI)
    moreover have "statistic_columns v = column_sums [v]"
      by (auto simp: column_sums_def intro!: nth_equalityI)
    ultimately show ?thesis
      by (simp add: vs row) (simp add: pass_rate_add_def pass_rate_new_def)
  next
    case (Some r)
    with snoc.IH have r: "pass_rate_columns r = column_sums vs"
      "pr_term_count r = of_nat (length vs)"
      "pr_course_name r = Max (cs_course_name ` set vs)" "pr_batch_id r = b" by auto
    have vs: "vs \<noteq> []" using Some by (metis group_fold_None option.distinct(1))
    from snoc.prems Some have row: "row = pass_rate_add (pass_rate_name r v) v"
      by (simp add: group_fold_snoc)
    have "pass_rate_columns row = column_sums (vs @ [v])"
      by (auto simp: row columns_add r column_sums_def intro!: nth_equalityI)
    moreover have "pr_course_name row = Max (cs_course_name ` set (vs @ [v]))"
      using vs by (simp add: row pass_rate_add_def pass_rate_name_max r max.commute)
    ultimately show ?thesis
      using r by (simp add: row) (simp add: pass_rate_add_def pass_rate_name_def)
  qed
qed (simp add: group_fold_def)

lemma group_fold_key:
  assumes "group_fold b vs = Some row" and "\<forall>v\<in>set vs. course_key v = k"
  shows "(pr_education_level row, pr_course_code row) = k"
  using assms
proof (induction vs arbitrary: row rule: rev_induct)
  case (snoc v vs)
  then show ?case
    by (auto simp: group_fold_snoc pass_rate_add_def pass_rate_name_def pass_rate_new_def
        course_key_def split: option.splits if_splits)
qed (simp add: group_fold_def)

lemma group_fold_of_key:
  assumes "k \<in> course_key ` set vs"
  shows "\<exists>r. group_fold b (filter (\<lambda>v. course_key v = k) vs) = Some r \<and>
     (pr_education_level r, pr_course_code r) = k"
proof -
  let ?rows = "filter (\<lambda>v. course_key v = k) vs"
  from assms have "?rows \<noteq> []" by (auto simp: filter_empty_conv)
  then obtain r where r: "group_fold b ?rows = Some r"
    using group_fold_None [of b ?rows] by (cases "group_fold b ?rows") simp_all
  then have "(pr_education_level r, pr_course_code r) = k"
    by (rule group_fold_key) simp
  with r show ?thesis by (rule_tac x = r in exI) (rule conjI)
qed

lemma course_pass_rate_entities_batch:
  assumes "\<And>ks. mset (iter ks) = mset ks" and "r \<in> set (course_pass_rate_entities iter b vs)"
  shows "pr_batch_id r = b"
proof -
  let ?rows = "\<lambda>k. filter (\<lambda>v. course_key v = k) vs"
  obtain keys where k: "set keys = course_key ` set vs"
    and e: "course_pass_rate_entities iter b vs = map (\<lambda>k. the (group_fold b (?rows k))) (iter keys)"
    using course_pass_rate_entities_eq by metis
  have "set (iter keys) = set keys"
    using assms(1) [of keys] by (metis set_mset_mset)
  with assms(2) obtain k where "k \<in> course_key ` set vs" "r = the (group_fold b (?rows k))"
    unfolding e set_map k by auto
  with group_fold_of_key [of k vs b] have "group_fold b (?rows k) = Some r" by auto
  then show ?thesis using group_fold_row by blast
qed

lemma distinct_course_pass_rate_keys:
  assumes "\<And>ks. mset (iter ks) = mset ks"
  shows "distinct (map (\<lambda>r. (pr_education_level r, pr_course_code r))
           (course_pass_rate_entities iter b vs))"
proof -
  let ?rows = "\<lambda>k. filter (\<lambda>v. course_key v = k) vs"
  let ?key = "\<lambda>r. (pr_education_level r, pr_course_code r)"
  obtain keys where k: "set keys = course_key ` set vs" "distinct keys"
    and e: "course_pass_rate_entities iter b vs = map (\<lambda>k. the (group_fold b (?rows k))) (iter keys)"
    using course_pass_rate_entities_eq by metis
  have i: "set (iter keys) = set keys" "distinct (iter keys)"
    using assms [of keys] k(2) by (metis set_mset_mset, metis mset_eq_imp_distinct_iff)
  have "?key (the (group_fold b (?rows k))) = k" if "k \<in> course_key ` set vs" for k
    using group_fold_of_key [OF that, of b] by (elim exE conjE) simp
  then have "map ?key (course_pass_rate_entities iter b vs) = iter keys"
    unfolding e map_map by (intro map_idI) (simp add: i k)
  with i show ?thesis by simp
qed

text \<open>
  C25: the projection written at publication time is what the grouped SQL query computes. For every
  iteration order of the Go map there is exactly one row per (education level, course), and each
  row holds the number of its terms, the column sums (modulo \<open>2 ^ 64\<close>, like the additions) and
  the greatest course name of its group.
\<close>

theorem course_projection_is_sql_grouping:
  assumes "\<And>ks. mset (iter ks) = mset ks"
  shows "(\<lambda>r. (pr_education_level r, pr_course_code r)) ` set (course_pass_rate_entities iter b vs)
       = course_key ` set vs \<and>
     length (course_pass_rate_entities iter b vs) = card (course_key ` set vs) \<and>
     (\<forall>r \<in> set (course_pass_rate_entities iter b vs).
        let rows = filter (\<lambda>v. course_key v = (pr_education_level r, pr_course_code r)) vs
        in pass_rate_columns r = column_sums rows \<and>
           pr_term_count r = of_nat (length rows) \<and>
           pr_course_name r = Max (cs_course_name ` set rows) \<and> pr_batch_id r = b)"
proof -
  let ?rows = "\<lambda>k. filter (\<lambda>v. course_key v = k) vs"
  obtain keys where k: "set keys = course_key ` set vs" "distinct keys"
    and e: "course_pass_rate_entities iter b vs = map (\<lambda>k. the (group_fold b (?rows k))) (iter keys)"
    using course_pass_rate_entities_eq by metis
  from assms [of keys] have ik: "set (iter keys) = set keys" "length (iter keys) = length keys"
    by (metis set_mset_mset, metis size_mset)
  let ?key = "\<lambda>r. (pr_education_level r, pr_course_code r)"
  have row: "group_fold b (?rows k) = Some (the (group_fold b (?rows k))) \<and>
      ?key (the (group_fold b (?rows k))) = k" if k: "k \<in> course_key ` set vs" for k
    using group_fold_of_key [OF k, of b] by (elim exE conjE) simp
  have "length (iter keys) = card (course_key ` set vs)"
    using ik k distinct_card by metis
  moreover have "(\<lambda>r. (pr_education_level r, pr_course_code r)) `
      set (course_pass_rate_entities iter b vs) = course_key ` set vs"
  proof -
    have "?key ` set (course_pass_rate_entities iter b vs) = (\<lambda>k. k) ` set keys"
      unfolding e set_map ik image_image
      by (rule image_cong [OF refl]) (use row k(1) in blast)
    then show ?thesis by (simp only: image_ident k(1))
  qed
  moreover have "pass_rate_columns r = column_sums rows \<and>
      pr_term_count r = of_nat (length rows) \<and>
      pr_course_name r = Max (cs_course_name ` set rows) \<and> pr_batch_id r = b"
    if "r \<in> set (course_pass_rate_entities iter b vs)"
      and "rows = ?rows (pr_education_level r, pr_course_code r)" for r rows
  proof -
    from that(1) obtain k where "k \<in> course_key ` set vs" "r = the (group_fold b (?rows k))"
      unfolding e set_map ik k(1) by blast
    with row [of k] have "group_fold b (?rows (?key r)) = Some r" by simp
    then show ?thesis using group_fold_row that(2) by blast
  qed
  ultimately show ?thesis
    unfolding Let_def e length_map by blast
qed

lemma grouping_sample:
  "course_key ` set (course_entities 7 [sample_course, sample_course]) =
     {(level_undergraduate, ''CS101'')}"
  by (simp add: course_entities_def course_entity_def course_key_def sample_course_def)

theorem course_projection_is_sql_grouping_witness:
  "length (course_pass_rate_entities rev 1 (course_entities 7 [sample_course, sample_course])) = 1"
  using course_projection_is_sql_grouping
      [of rev 1 "course_entities 7 [sample_course, sample_course]"]
  by (simp only: grouping_sample mset_rev) simp

section \<open>Projections and the values of the domain\<close>

record published_metadata =
  pm_batch_id :: uint64
  pm_source_cutoff_at :: gotime
  pm_published_at :: gotime
  pm_rule_version :: string
  pm_minimum_sample_size :: int64

record search =
  sr_keyword :: string
  sr_course_code :: string
  sr_teacher_key :: string
  sr_teacher_name :: string
  sr_term_code :: string
  sr_education_level :: string
  sr_status :: string

record course_pass_rate =
  cpr_education_level :: string
  cpr_course_code :: string
  cpr_course_name :: string
  cpr_term_count :: int64
  cpr_valid_count :: int64
  cpr_pass_count :: int64
  cpr_fail_count :: int64
  cpr_numeric_score_count :: int64
  cpr_numeric_score_sum_x100 :: int64
  cpr_distribution :: distribution

record instructor_pass_rate =
  ipr_education_level :: string
  ipr_course_code :: string
  ipr_course_name :: string
  ipr_teacher_key :: string
  ipr_teacher_name :: string
  ipr_term_count :: int64
  ipr_class_count :: int64
  ipr_valid_count :: int64
  ipr_pass_count :: int64
  ipr_fail_count :: int64
  ipr_numeric_score_count :: int64
  ipr_numeric_score_sum_x100 :: int64
  ipr_distribution :: distribution

record trend_point =
  tp_education_level :: string
  tp_period_id :: string
  tp_term_label :: string
  tp_term_code :: string
  tp_valid_count :: int64
  tp_pass_count :: int64
  tp_fail_count :: int64
  tp_numeric_score_count :: int64
  tp_numeric_score_sum_x100 :: int64
  tp_distribution :: distribution

record pass_rate_trend =
  prt_course_code :: string
  prt_course_name :: string
  prt_teacher_key :: string
  prt_teacher_name :: string
  prt_points :: "trend_point list"

record course_projection =
  cp_education_level :: string
  cp_course_code :: string
  cp_course_name :: string
  cp_term_count :: int64
  cp_valid_count :: int64
  cp_pass_count :: int64
  cp_fail_count :: int64
  cp_numeric_score_count :: int64
  cp_numeric_score_sum_x100 :: int64
  cp_numeric_fail_count :: int64
  cp_score_60_69_count :: int64
  cp_score_70_79_count :: int64
  cp_score_80_89_count :: int64
  cp_score_90_100_count :: int64
  cp_level_excellent_count :: int64
  cp_level_good_count :: int64
  cp_level_medium_count :: int64
  cp_level_pass_count :: int64
  cp_level_fail_count :: int64

record instructor_projection =
  ip_education_level :: string
  ip_course_code :: string
  ip_course_name :: string
  ip_teacher_key :: string
  ip_teacher_name :: string
  ip_term_count :: int64
  ip_class_count :: int64
  ip_valid_count :: int64
  ip_pass_count :: int64
  ip_fail_count :: int64
  ip_numeric_score_count :: int64
  ip_numeric_score_sum_x100 :: int64
  ip_numeric_fail_count :: int64
  ip_score_60_69_count :: int64
  ip_score_70_79_count :: int64
  ip_score_80_89_count :: int64
  ip_score_90_100_count :: int64
  ip_level_excellent_count :: int64
  ip_level_good_count :: int64
  ip_level_medium_count :: int64
  ip_level_pass_count :: int64
  ip_level_fail_count :: int64

record trend_projection =
  tr_education_level :: string
  tr_period_id :: string
  tr_term_label :: string
  tr_term_code :: string
  tr_course_code :: string
  tr_course_name :: string
  tr_teacher_key :: string
  tr_teacher_name :: string
  tr_valid_count :: int64
  tr_pass_count :: int64
  tr_fail_count :: int64
  tr_numeric_score_count :: int64
  tr_numeric_score_sum_x100 :: int64
  tr_numeric_fail_count :: int64
  tr_score_60_69_count :: int64
  tr_score_70_79_count :: int64
  tr_score_80_89_count :: int64
  tr_score_90_100_count :: int64
  tr_level_excellent_count :: int64
  tr_level_good_count :: int64
  tr_level_medium_count :: int64
  tr_level_pass_count :: int64
  tr_level_fail_count :: int64

definition course_projection_from_entity :: "pass_rate_statistic \<Rightarrow> course_projection" where
  "course_projection_from_entity v =
     \<lparr>cp_education_level = pr_education_level v, cp_course_code = pr_course_code v,
       cp_course_name = pr_course_name v, cp_term_count = pr_term_count v,
       cp_valid_count = pr_valid_count v, cp_pass_count = pr_pass_count v,
       cp_fail_count = pr_fail_count v, cp_numeric_score_count = pr_numeric_score_count v,
       cp_numeric_score_sum_x100 = pr_numeric_score_sum_x100 v,
       cp_numeric_fail_count = pr_numeric_fail_count v,
       cp_score_60_69_count = pr_score_60_69_count v,
       cp_score_70_79_count = pr_score_70_79_count v,
       cp_score_80_89_count = pr_score_80_89_count v,
       cp_score_90_100_count = pr_score_90_100_count v,
       cp_level_excellent_count = pr_level_excellent_count v,
       cp_level_good_count = pr_level_good_count v,
       cp_level_medium_count = pr_level_medium_count v,
       cp_level_pass_count = pr_level_pass_count v,
       cp_level_fail_count = pr_level_fail_count v\<rparr>"

definition projection_distribution :: "course_projection \<Rightarrow> distribution" where
  "projection_distribution row =
     \<lparr>numeric_fail = cp_numeric_fail_count row, score_60_69 = cp_score_60_69_count row,
       score_70_79 = cp_score_70_79_count row, score_80_89 = cp_score_80_89_count row,
       score_90_100 = cp_score_90_100_count row, level_excellent = cp_level_excellent_count row,
       level_good = cp_level_good_count row, level_medium = cp_level_medium_count row,
       level_pass = cp_level_pass_count row, level_fail = cp_level_fail_count row\<rparr>"

definition course_domain_value :: "course_projection \<Rightarrow> course_pass_rate" where
  "course_domain_value row =
     \<lparr>cpr_education_level = cp_education_level row, cpr_course_code = cp_course_code row,
       cpr_course_name = cp_course_name row, cpr_term_count = cp_term_count row,
       cpr_valid_count = cp_valid_count row, cpr_pass_count = cp_pass_count row,
       cpr_fail_count = cp_fail_count row, cpr_numeric_score_count = cp_numeric_score_count row,
       cpr_numeric_score_sum_x100 = cp_numeric_score_sum_x100 row,
       cpr_distribution = projection_distribution row\<rparr>"

definition instructor_aggregate :: "instructor_projection \<Rightarrow> course_projection" where
  "instructor_aggregate row =
     \<lparr>cp_education_level = ip_education_level row, cp_course_code = ip_course_code row,
       cp_course_name = ip_course_name row, cp_term_count = ip_term_count row,
       cp_valid_count = ip_valid_count row, cp_pass_count = ip_pass_count row,
       cp_fail_count = ip_fail_count row, cp_numeric_score_count = ip_numeric_score_count row,
       cp_numeric_score_sum_x100 = ip_numeric_score_sum_x100 row,
       cp_numeric_fail_count = ip_numeric_fail_count row,
       cp_score_60_69_count = ip_score_60_69_count row,
       cp_score_70_79_count = ip_score_70_79_count row,
       cp_score_80_89_count = ip_score_80_89_count row,
       cp_score_90_100_count = ip_score_90_100_count row,
       cp_level_excellent_count = ip_level_excellent_count row,
       cp_level_good_count = ip_level_good_count row,
       cp_level_medium_count = ip_level_medium_count row,
       cp_level_pass_count = ip_level_pass_count row,
       cp_level_fail_count = ip_level_fail_count row\<rparr>"

definition instructor_domain_value :: "instructor_projection \<Rightarrow> instructor_pass_rate" where
  "instructor_domain_value row =
     (let aggregate = instructor_aggregate row in
     \<lparr>ipr_education_level = cp_education_level aggregate,
       ipr_course_code = cp_course_code aggregate, ipr_course_name = cp_course_name aggregate,
       ipr_teacher_key = ip_teacher_key row, ipr_teacher_name = ip_teacher_name row,
       ipr_term_count = cp_term_count aggregate, ipr_class_count = ip_class_count row,
       ipr_valid_count = cp_valid_count aggregate, ipr_pass_count = cp_pass_count aggregate,
       ipr_fail_count = cp_fail_count aggregate,
       ipr_numeric_score_count = cp_numeric_score_count aggregate,
       ipr_numeric_score_sum_x100 = cp_numeric_score_sum_x100 aggregate,
       ipr_distribution = projection_distribution aggregate\<rparr>)"

definition trend_aggregate :: "trend_projection \<Rightarrow> course_projection" where
  "trend_aggregate row =
     \<lparr>cp_education_level = '''', cp_course_code = tr_course_code row,
       cp_course_name = tr_course_name row, cp_term_count = 0,
       cp_valid_count = tr_valid_count row, cp_pass_count = tr_pass_count row,
       cp_fail_count = tr_fail_count row, cp_numeric_score_count = tr_numeric_score_count row,
       cp_numeric_score_sum_x100 = tr_numeric_score_sum_x100 row,
       cp_numeric_fail_count = tr_numeric_fail_count row,
       cp_score_60_69_count = tr_score_60_69_count row,
       cp_score_70_79_count = tr_score_70_79_count row,
       cp_score_80_89_count = tr_score_80_89_count row,
       cp_score_90_100_count = tr_score_90_100_count row,
       cp_level_excellent_count = tr_level_excellent_count row,
       cp_level_good_count = tr_level_good_count row,
       cp_level_medium_count = tr_level_medium_count row,
       cp_level_pass_count = tr_level_pass_count row,
       cp_level_fail_count = tr_level_fail_count row\<rparr>"

definition trend_point_of :: "trend_projection \<Rightarrow> trend_point" where
  "trend_point_of row =
     (let aggregate = trend_aggregate row in
     \<lparr>tp_education_level = tr_education_level row, tp_period_id = tr_period_id row,
       tp_term_label = tr_term_label row, tp_term_code = tr_term_code row,
       tp_valid_count = cp_valid_count aggregate, tp_pass_count = cp_pass_count aggregate,
       tp_fail_count = cp_fail_count aggregate,
       tp_numeric_score_count = cp_numeric_score_count aggregate,
       tp_numeric_score_sum_x100 = cp_numeric_score_sum_x100 aggregate,
       tp_distribution = projection_distribution aggregate\<rparr>)"

definition trend_step :: "pass_rate_trend \<Rightarrow> trend_projection \<Rightarrow> pass_rate_trend" where
  "trend_step t row =
     (let named = (if prt_course_name t = ''''
                   then t\<lparr>prt_course_name := cp_course_name (trend_aggregate row),
                          prt_teacher_name := tr_teacher_name row\<rparr>
                   else t)
      in named\<lparr>prt_points := prt_points named @ [trend_point_of row]\<rparr>)"

definition trend_value :: "string \<Rightarrow> string \<Rightarrow> trend_projection list \<Rightarrow> pass_rate_trend" where
  "trend_value course_code teacher_key rows =
     foldl trend_step
       \<lparr>prt_course_code = course_code, prt_course_name = '''', prt_teacher_key = teacher_key,
        prt_teacher_name = '''', prt_points = []\<rparr> rows"

definition truncate_bytes :: "string \<Rightarrow> nat \<Rightarrow> string" where
  "truncate_bytes s limit = (if length s \<le> limit then s else take limit s)"

lemma trend_step_points:
  "prt_points (trend_step t row) = prt_points t @ [trend_point_of row]"
  "prt_course_code (trend_step t row) = prt_course_code t"
  "prt_teacher_key (trend_step t row) = prt_teacher_key t"
  by (simp_all add: trend_step_def Let_def)

lemma foldl_trend_points:
  "prt_points (foldl trend_step t rows) = prt_points t @ map trend_point_of rows"
  "prt_course_code (foldl trend_step t rows) = prt_course_code t"
  "prt_teacher_key (foldl trend_step t rows) = prt_teacher_key t"
  by (induction rows arbitrary: t) (simp_all add: trend_step_points)

text \<open>A trend keeps every row, in the order of the query, under the codes that were asked for.\<close>

lemma trend_value_points:
  "prt_points (trend_value c k rows) = map trend_point_of rows"
  "prt_course_code (trend_value c k rows) = c"
  "prt_teacher_key (trend_value c k rows) = k"
  by (simp_all add: trend_value_def foldl_trend_points)

lemma length_truncate_bytes: "length (truncate_bytes s n) \<le> n"
  by (simp add: truncate_bytes_def)

section \<open>The cached count\<close>

lemma count_course_pass_rates_eq:
  "count_course_pass_rates rows minimum =
     of_nat (length (filter (\<lambda>r. minimum \<le>s pr_valid_count r) rows))"
  by (induction rows) simp_all

lemma count_course_pass_rates_mset:
  "mset rows = mset rows' \<Longrightarrow>
   count_course_pass_rates rows minimum = count_course_pass_rates rows' minimum"
  unfolding count_course_pass_rates_eq by (metis mset_filter size_mset)

lemma count_course_pass_rates_counts:
  "count_course_pass_rates rows minimum =
     of_nat (length (filter ((\<le>s) minimum) (map pr_valid_count rows)))"
  by (simp add: count_course_pass_rates_eq filter_map o_def)

lemma count_course_pass_rates_map:
  "map pr_valid_count rows = map pr_valid_count rows' \<Longrightarrow>
   count_course_pass_rates rows minimum = count_course_pass_rates rows' minimum"
  by (simp only: count_course_pass_rates_counts)

end
