(* ===== verification/StatsStore.thy ===== *)
theory StatsStore
  imports StatsProjection
begin

text \<open>
  The write side of \<^verbatim>\<open>academic_statistics/infrastructure/store.go\<close> over an explicit database:
  \<open>start_batch\<close>, \<open>fail_batch\<close> and \<open>publish_batch\<close> with the transaction each runs in. A table is
  the list of its rows in insertion order, with the next value of its \<^verbatim>\<open>AUTO_INCREMENT\<close> key; the
  keys and constraints are those of the migrations (\<^verbatim>\<open>ON DELETE CASCADE\<close> from batches to rows,
  unique task identifier, unique privacy partition per batch). Text is compared byte by byte and
  times are kept to the nanosecond (the columns round to the millisecond).

  Every statement can fail: \<open>env_fault\<close> gives the error the driver returns for it, and a commit
  can also fail after the server applied it. The batch life cycle is the step relation
  \<open>db_step\<close>; its invariants hold in every state reachable from the empty database.
\<close>

section \<open>Tables\<close>

record batch =
  b_id :: uint64
  b_status :: string
  b_trigger_type :: string
  b_triggered_by :: "uint64 option"
  b_trigger_note :: "string option"
  b_trigger_task_id :: "string option"
  b_source_cutoff_at :: gotime
  b_rule_version :: string
  b_source_row_count :: int64
  b_course_stat_count :: int64
  b_course_pass_rate_count :: int64
  b_minimum_sample_size :: int64
  b_instructor_stat_count :: int64
  b_error_summary :: "string option"
  b_started_at :: gotime
  b_finished_at :: "gotime option"
  b_published_at :: "gotime option"
  b_created_at :: gotime
  b_updated_at :: gotime

record stats_db =
  db_batches :: "batch list"
  db_next_batch :: nat
  db_courses :: "course_statistic list"
  db_next_course :: nat
  db_instructors :: "instructor_statistic list"
  db_next_instructor :: nat
  db_projections :: "pass_rate_statistic list"
  db_next_projection :: nat

definition empty_db :: stats_db where
  "empty_db =
     \<lparr>db_batches = [], db_next_batch = 1, db_courses = [], db_next_course = 1,
      db_instructors = [], db_next_instructor = 1, db_projections = [], db_next_projection = 1\<rparr>"

text \<open>The statements of the store, and what the driver answers to each.\<close>

datatype statement =
    RecoverAbandoned | PruneFailed | FindTask | SaveBatch | CreateBatch | CommitStart
  | MarkFailed | CourseBaselines | InstructorBaselines | BaselineCutoffs
  | InsertCourses | InsertInstructors | InsertProjections | MarkPublished | CommitPublish
  | GetLatest

record db_env =
  env_now :: gotime
  env_fault :: "statement \<Rightarrow> err option"
  env_applied :: bool
    \<comment> \<open>whether a commit that answered with an error was applied all the same\<close>
  env_iter :: "course_key list \<Rightarrow> course_key list"
    \<comment> \<open>the order in which a Go map is visited\<close>

definition no_fault :: "statement \<Rightarrow> err option" where "no_fault s = None"

text \<open>\<^verbatim>\<open>db.Transaction\<close>: an error of the body rolls back, otherwise the commit decides.\<close>

definition transaction ::
    "db_env \<Rightarrow> statement \<Rightarrow> (stats_db \<Rightarrow> err + stats_db \<times> 'a) \<Rightarrow> stats_db \<Rightarrow> stats_db \<times> (err + 'a)"
where
  "transaction env commit body db =
     (case body db of
        Inl e \<Rightarrow> (db, Inl e)
      | Inr (db', r) \<Rightarrow>
          (case env_fault env commit of
             None \<Rightarrow> (db', Inr r)
           | Some e \<Rightarrow> (if env_applied env then db' else db, Inl e)))"

definition ret_err :: "string \<Rightarrow> err option \<Rightarrow> (err + unit)" where
  "ret_err text fault = (case fault of None \<Rightarrow> Inr () | Some e \<Rightarrow> Inl (wrapf text e))"

section \<open>StartBatch\<close>

definition abandoned_batch_summary :: string where
  "abandoned_batch_summary = ''aggregation worker terminated before completion''"

definition failed_batch_retention :: duration where
  "failed_batch_retention = 90 * 24 * hour"

definition recover_abandoned :: "gotime \<Rightarrow> gotime \<Rightarrow> stats_db \<Rightarrow> stats_db" where
  "recover_abandoned now started_at db =
     db\<lparr>db_batches := map (\<lambda>b. if b_status b = batch_status_running
        then b\<lparr>b_status := batch_status_failed, b_error_summary := Some abandoned_batch_summary,
               b_finished_at := Some started_at, b_updated_at := now\<rparr>
        else b) (db_batches db)\<rparr>"

definition delete_batches :: "(batch \<Rightarrow> bool) \<Rightarrow> stats_db \<Rightarrow> stats_db" where
  "delete_batches P db =
     (let gone = b_id ` set (filter P (db_batches db))
      in db\<lparr>db_batches := filter (\<lambda>b. \<not> P b) (db_batches db),
            db_courses := filter (\<lambda>r. cs_batch_id r \<notin> gone) (db_courses db),
            db_instructors := filter (\<lambda>r. cs_batch_id r \<notin> gone) (db_instructors db),
            db_projections := filter (\<lambda>r. pr_batch_id r \<notin> gone) (db_projections db)\<rparr>)"

definition expired_failed :: "gotime \<Rightarrow> batch \<Rightarrow> bool" where
  "expired_failed cutoff b \<longleftrightarrow> b_status b = batch_status_failed \<and> b_created_at b < cutoff"

definition prune_expired_failed_batches ::
    "db_env \<Rightarrow> gotime \<Rightarrow> stats_db \<Rightarrow> err + stats_db" where
  "prune_expired_failed_batches env cutoff db =
     (case env_fault env PruneFailed of
        Some e \<Rightarrow> Inl (wrapf ''prune expired failed academic statistics batches'' e)
      | None \<Rightarrow> Inr (delete_batches (expired_failed cutoff) db))"

definition new_batch :: "int64 \<Rightarrow> batch_trigger \<Rightarrow> gotime \<Rightarrow> gotime \<Rightarrow> batch" where
  "new_batch minimum trigger cutoff started_at =
     \<lparr>b_id = 0, b_status = batch_status_running, b_trigger_type = bt_type trigger,
      b_triggered_by = bt_actor_id trigger, b_trigger_note = bt_note trigger,
      b_trigger_task_id = bt_task_id trigger, b_source_cutoff_at = cutoff,
      b_rule_version = rule_version, b_source_row_count = 0, b_course_stat_count = 0,
      b_course_pass_rate_count = 0, b_minimum_sample_size = minimum,
      b_instructor_stat_count = 0, b_error_summary = None, b_started_at = started_at,
      b_finished_at = None, b_published_at = None, b_created_at = 0, b_updated_at = 0\<rparr>"

definition reset_batch :: "batch \<Rightarrow> batch \<Rightarrow> batch" where
  "reset_batch target source =
     target\<lparr>b_status := b_status source, b_trigger_type := b_trigger_type source,
      b_triggered_by := b_triggered_by source, b_trigger_note := b_trigger_note source,
      b_source_cutoff_at := b_source_cutoff_at source, b_rule_version := b_rule_version source,
      b_source_row_count := 0, b_course_stat_count := 0, b_course_pass_rate_count := 0,
      b_minimum_sample_size := b_minimum_sample_size source, b_instructor_stat_count := 0,
      b_error_summary := None, b_started_at := b_started_at source, b_finished_at := None,
      b_published_at := None\<rparr>"

text \<open>\<^verbatim>\<open>First\<close> orders by the primary key.\<close>

definition find_task :: "string \<Rightarrow> stats_db \<Rightarrow> batch option" where
  "find_task task db = find (\<lambda>b. b_trigger_task_id b = Some task) (db_batches db)"

definition save_batch :: "gotime \<Rightarrow> batch \<Rightarrow> stats_db \<Rightarrow> stats_db \<times> batch" where
  "save_batch now b db =
     (let saved = b\<lparr>b_updated_at := now\<rparr>
      in (db\<lparr>db_batches := map (\<lambda>x. if b_id x = b_id b then saved else x) (db_batches db)\<rparr>, saved))"

definition create_batch :: "gotime \<Rightarrow> batch \<Rightarrow> stats_db \<Rightarrow> stats_db \<times> batch" where
  "create_batch now b db =
     (let created = b\<lparr>b_id := of_nat (db_next_batch db), b_created_at := now, b_updated_at := now\<rparr>
      in (db\<lparr>db_batches := db_batches db @ [created], db_next_batch := db_next_batch db + 1\<rparr>,
          created))"

text \<open>
  The key of a new batch must fit \<^verbatim>\<open>BIGINT UNSIGNED\<close>, and its task must be new: the server
  refuses the insert otherwise.
\<close>

definition create_or_fail ::
    "db_env \<Rightarrow> batch \<Rightarrow> stats_db \<Rightarrow> err + stats_db \<times> batch" where
  "create_or_fail env b db =
     (case env_fault env CreateBatch of
        Some e \<Rightarrow> Inl (wrapf ''create academic statistics batch'' e)
      | None \<Rightarrow>
          if 2 ^ 64 \<le> int (db_next_batch db) \<or>
             b_trigger_task_id b \<noteq> None \<and>
             b_trigger_task_id b \<in> b_trigger_task_id ` set (db_batches db)
          then Inl (wrapf ''create academic statistics batch'' (Opaque ''duplicate entry''))
          else Inr (create_batch (env_now env) b db))"

definition start_body ::
    "db_env \<Rightarrow> int64 \<Rightarrow> batch_trigger \<Rightarrow> gotime \<Rightarrow> gotime \<Rightarrow> stats_db \<Rightarrow> err + stats_db \<times> batch"
where
  "start_body env minimum trigger cutoff started_at db =
     (let b = new_batch minimum trigger cutoff started_at in
      case env_fault env RecoverAbandoned of
        Some e \<Rightarrow> Inl (wrapf ''recover abandoned academic statistics batches'' e)
      | None \<Rightarrow>
          (case prune_expired_failed_batches env (started_at - failed_batch_retention)
                  (recover_abandoned (env_now env) started_at db) of
             Inl e \<Rightarrow> Inl e
           | Inr db1 \<Rightarrow>
               (case bt_task_id trigger of
                  None \<Rightarrow> create_or_fail env b db1
                | Some task \<Rightarrow>
                    (case env_fault env FindTask of
                       Some e \<Rightarrow>
                         if errors_is e ErrRecordNotFound then create_or_fail env b db1
                         else Inl (wrapf ''find academic statistics batch task'' e)
                     | None \<Rightarrow>
                         (case find_task task db1 of
                            None \<Rightarrow> create_or_fail env b db1
                          | Some existing \<Rightarrow>
                              if b_status existing = batch_status_published
                              then Inr (db1, existing)
                              else
                                (case env_fault env SaveBatch of
                                   Some e \<Rightarrow> Inl (wrapf ''restart academic statistics batch'' e)
                                 | None \<Rightarrow>
                                     Inr (save_batch (env_now env) (reset_batch existing b) db1)))))))"

definition start_batch ::
    "db_env \<Rightarrow> int64 \<Rightarrow> batch_trigger \<Rightarrow> gotime \<Rightarrow> gotime \<Rightarrow> stats_db \<Rightarrow> stats_db \<times> (err + batch)"
where
  "start_batch env minimum trigger cutoff started_at db =
     transaction env CommitStart (start_body env minimum trigger cutoff started_at) db"

section \<open>FailBatch\<close>

definition update_running ::
    "uint64 \<Rightarrow> (batch \<Rightarrow> batch) \<Rightarrow> stats_db \<Rightarrow> stats_db \<times> nat" where
  "update_running batch_id f db =
     (let hit = (\<lambda>b. b_id b = batch_id \<and> b_status b = batch_status_running)
      in (db\<lparr>db_batches := map (\<lambda>b. if hit b then f b else b) (db_batches db)\<rparr>,
          length (filter hit (db_batches db))))"

definition fail_batch ::
    "db_env \<Rightarrow> uint64 \<Rightarrow> gotime \<Rightarrow> string \<Rightarrow> stats_db \<Rightarrow> stats_db \<times> err option" where
  "fail_batch env batch_id finished_at summary db =
     (case env_fault env MarkFailed of
        Some e \<Rightarrow> (db, Some (wrapf ''fail academic statistics batch'' e))
      | None \<Rightarrow>
          (let (db', affected) = update_running batch_id
             (\<lambda>b. b\<lparr>b_status := batch_status_failed,
                    b_error_summary := Some (truncate_bytes summary 1000),
                    b_finished_at := Some finished_at, b_updated_at := env_now env\<rparr>) db
           in if affected \<noteq> 1
              then (db', Some (Opaque ''academic statistics batch is not running''))
              else (db', None)))"

section \<open>Baselines of earlier publications\<close>

text \<open>\<^verbatim>\<open>ORDER BY published_at DESC, id DESC\<close>, with SQL NULL below every time.\<close>

definition published_le :: "batch \<Rightarrow> batch \<Rightarrow> bool" where
  "published_le a b =
     (case b_published_at a of
        None \<Rightarrow> b_published_at b \<noteq> None \<or> b_id a \<le> b_id b
      | Some s \<Rightarrow>
          (case b_published_at b of
             None \<Rightarrow> False
           | Some t \<Rightarrow> s < t \<or> s = t \<and> b_id a \<le> b_id b))"

definition public_batch :: "batch \<Rightarrow> bool" where
  "public_batch b \<longleftrightarrow> b_status b = batch_status_published \<and> b_rule_version b = rule_version"

text \<open>The inner join of rows with their public batch.\<close>

definition public_rows :: "('r \<Rightarrow> uint64) \<Rightarrow> 'r list \<Rightarrow> batch list \<Rightarrow> ('r \<times> batch) list" where
  "public_rows batch_of rows bs =
     concat (map (\<lambda>r. map (Pair r) (filter (\<lambda>b. b_id b = batch_of r \<and> public_batch b) bs)) rows)"

text \<open>\<^verbatim>\<open>ROW_NUMBER() OVER (PARTITION BY key ORDER BY ...) = 1\<close>.\<close>

definition latest_per_key :: "('r \<Rightarrow> 'k) \<Rightarrow> ('r \<times> batch) list \<Rightarrow> 'r list" where
  "latest_per_key key joined =
     map fst (filter (\<lambda>(r, b). list_all (\<lambda>(r', b'). key r' = key r \<longrightarrow> published_le b' b) joined)
       joined)"

definition latest_published_course_baselines ::
    "db_env \<Rightarrow> stats_db \<Rightarrow> err + course_statistic list" where
  "latest_published_course_baselines env db =
     (case env_fault env CourseBaselines of
        Some e \<Rightarrow> Inl (wrapf ''get latest published academic course baselines'' e)
      | None \<Rightarrow> Inr (latest_per_key course_partition_key
                   (public_rows cs_batch_id (db_courses db) (db_batches db))))"

definition latest_published_instructor_baselines ::
    "db_env \<Rightarrow> stats_db \<Rightarrow> err + instructor_statistic list" where
  "latest_published_instructor_baselines env db =
     (case env_fault env InstructorBaselines of
        Some e \<Rightarrow> Inl (wrapf ''get latest published academic instructor baselines'' e)
      | None \<Rightarrow> Inr (latest_per_key instructor_partition_key
                   (public_rows cs_batch_id (db_instructors db) (db_batches db))))"

definition earliest_published_cutoff ::
    "db_env \<Rightarrow> uint64 set \<Rightarrow> stats_db \<Rightarrow> err + gotime" where
  "earliest_published_cutoff env ids db =
     (case env_fault env BaselineCutoffs of
        Some e \<Rightarrow> Inl (wrapf ''get suppressed academic statistics baseline cutoffs'' e)
      | None \<Rightarrow>
          (let found = filter (\<lambda>b. b_id b \<in> ids \<and> b_status b = batch_status_published)
                         (db_batches db)
           in if length found \<noteq> card ids
              then Inl (Opaque ''one or more academic statistics privacy baselines are unavailable'')
              else Inr (foldl (\<lambda>cutoff b. if b_source_cutoff_at b < cutoff then b_source_cutoff_at b
                                        else cutoff)
                     (b_source_cutoff_at (hd found)) (tl found))))"

definition suppress_small_publication_deltas ::
    "db_env \<Rightarrow> int64 \<Rightarrow> course_statistic list \<Rightarrow> instructor_statistic list \<Rightarrow> stats_db \<Rightarrow>
     err + course_statistic list \<times> instructor_statistic list \<times> gotime option" where
  "suppress_small_publication_deltas env minimum courses instructors db =
     (case latest_published_course_baselines env db of
        Inl e \<Rightarrow> Inl e
      | Inr previous_courses \<Rightarrow>
          (case latest_published_instructor_baselines env db of
             Inl e \<Rightarrow> Inl e
           | Inr previous_instructors \<Rightarrow>
               (let (is', ids1, forced) =
                      suppress_instructor_deltas instructors previous_instructors minimum {};
                    (cs', ids) = suppress_course_deltas courses previous_courses forced minimum ids1
                in if ids = {} then Inr (cs', is', None)
                   else
                     (case earliest_published_cutoff env ids db of
                        Inl e \<Rightarrow> Inl e
                      | Inr cutoff \<Rightarrow> Inr (cs', is', Some cutoff)))))"

section \<open>PublishBatch\<close>

text \<open>
  \<^verbatim>\<open>CreateInBatches\<close>: the rows get consecutive keys. The server refuses a second row with the same
  unique key in a batch and a row whose batch does not exist.
\<close>

fun number_rows :: "('r \<Rightarrow> uint64 \<Rightarrow> 'r) \<Rightarrow> nat \<Rightarrow> 'r list \<Rightarrow> 'r list" where
  "number_rows set_id n [] = []"
| "number_rows set_id n (r # rs) = set_id r (of_nat n) # number_rows set_id (Suc n) rs"

definition insert_refused ::
    "('r \<Rightarrow> uint64) \<Rightarrow> ('r \<Rightarrow> 'k) \<Rightarrow> 'r list \<Rightarrow> 'r list \<Rightarrow> batch list \<Rightarrow> bool" where
  "insert_refused batch_of key rows stored bs \<longleftrightarrow>
     \<not> distinct (map (\<lambda>r. (batch_of r, key r)) (stored @ rows)) \<or>
     (\<exists>r\<in>set rows. batch_of r \<notin> b_id ` set bs)"

definition insert_courses ::
    "db_env \<Rightarrow> course_statistic list \<Rightarrow> stats_db \<Rightarrow> err + stats_db" where
  "insert_courses env rows db =
     (let text = ''insert academic course statistics'' in
      case env_fault env InsertCourses of
        Some e \<Rightarrow> Inl (wrapf text e)
      | None \<Rightarrow>
          if insert_refused cs_batch_id course_partition_key rows (db_courses db) (db_batches db)
          then Inl (wrapf text (Opaque ''constraint violation''))
          else Inr (db\<lparr>db_courses := db_courses db @
                         number_rows (\<lambda>r i. r\<lparr>cs_id := i\<rparr>) (db_next_course db) rows,
                       db_next_course := db_next_course db + length rows\<rparr>))"

definition insert_instructors ::
    "db_env \<Rightarrow> instructor_statistic list \<Rightarrow> stats_db \<Rightarrow> err + stats_db" where
  "insert_instructors env rows db =
     (let text = ''insert academic instructor statistics'' in
      if rows = [] then Inr db
      else case env_fault env InsertInstructors of
        Some e \<Rightarrow> Inl (wrapf text e)
      | None \<Rightarrow>
          if insert_refused cs_batch_id instructor_partition_key rows (db_instructors db)
               (db_batches db)
          then Inl (wrapf text (Opaque ''constraint violation''))
          else Inr (db\<lparr>db_instructors := db_instructors db @
                         number_rows (\<lambda>r i. r\<lparr>cs_id := i\<rparr>) (db_next_instructor db) rows,
                       db_next_instructor := db_next_instructor db + length rows\<rparr>))"

definition insert_projections ::
    "db_env \<Rightarrow> pass_rate_statistic list \<Rightarrow> stats_db \<Rightarrow> err + stats_db" where
  "insert_projections env rows db =
     (let text = ''insert academic course pass-rate projections'' in
      if rows = [] then Inr db
      else case env_fault env InsertProjections of
        Some e \<Rightarrow> Inl (wrapf text e)
      | None \<Rightarrow>
          if insert_refused pr_batch_id (\<lambda>r. (pr_education_level r, pr_course_code r)) rows
               (db_projections db) (db_batches db)
          then Inl (wrapf text (Opaque ''constraint violation''))
          else Inr (db\<lparr>db_projections := db_projections db @
                         number_rows (\<lambda>r i. r\<lparr>pr_id := i\<rparr>) (db_next_projection db) rows,
                       db_next_projection := db_next_projection db + length rows\<rparr>))"

definition mark_published ::
    "gotime \<Rightarrow> gotime \<Rightarrow> int64 \<Rightarrow> int64 \<Rightarrow> int64 \<Rightarrow> int64 \<Rightarrow> int64 \<Rightarrow> gotime \<Rightarrow> batch \<Rightarrow> batch" where
  "mark_published now cutoff source_rows courses pass_rates minimum instructors finished_at b =
     b\<lparr>b_status := batch_status_published, b_source_cutoff_at := cutoff,
       b_source_row_count := source_rows, b_course_stat_count := courses,
       b_course_pass_rate_count := pass_rates, b_minimum_sample_size := minimum,
       b_instructor_stat_count := instructors, b_error_summary := None,
       b_finished_at := Some finished_at, b_published_at := Some finished_at,
       b_updated_at := now\<rparr>"

definition effective_cutoff :: "gotime \<Rightarrow> gotime option \<Rightarrow> gotime" where
  "effective_cutoff cutoff carried =
     (case carried of None \<Rightarrow> cutoff | Some c \<Rightarrow> if c < cutoff then c else cutoff)"

text \<open>The body of the transaction; its result is the cutoff and the projection count.\<close>

definition publish_body ::
    "db_env \<Rightarrow> int64 \<Rightarrow> uint64 \<Rightarrow> snapshot \<Rightarrow> gotime \<Rightarrow> stats_db \<Rightarrow>
     err + stats_db \<times> (gotime \<times> int64)" where
  "publish_body env minimum batch_id s finished_at db =
     (case suppress_small_publication_deltas env minimum
             (course_entities batch_id (snapshot_courses s))
             (instructor_entities batch_id (snapshot_instructors s)) db of
        Inl e \<Rightarrow> Inl e
      | Inr (courses, instructors, carried) \<Rightarrow>
          (let cutoff = effective_cutoff (source_cutoff_at s) carried;
               rates = course_pass_rate_entities (env_iter env) batch_id courses;
               rate_count = count_course_pass_rates rates minimum
           in case insert_courses env courses db of
                Inl e \<Rightarrow> Inl e
              | Inr db1 \<Rightarrow>
                  (case insert_instructors env instructors db1 of
                     Inl e \<Rightarrow> Inl e
                   | Inr db2 \<Rightarrow>
                       (case insert_projections env rates db2 of
                          Inl e \<Rightarrow> Inl e
                        | Inr db3 \<Rightarrow>
                            (case env_fault env MarkPublished of
                               Some e \<Rightarrow> Inl (wrapf ''publish academic statistics batch'' e)
                             | None \<Rightarrow>
                                 (let (db4, affected) = update_running batch_id
                                    (mark_published (env_now env) cutoff (source_row_count s)
                                       (of_nat (length courses)) rate_count minimum
                                       (of_nat (length instructors)) finished_at) db3
                                  in if affected \<noteq> 1
                                     then Inl (Opaque ''academic statistics batch is not running'')
                                     else Inr (db4, (cutoff, rate_count))))))))"

text \<open>\<^verbatim>\<open>PublishBatch\<close> also updates the caller's batch value, after the transaction succeeded.\<close>

definition publish_batch ::
    "db_env \<Rightarrow> int64 \<Rightarrow> batch \<Rightarrow> snapshot \<Rightarrow> gotime \<Rightarrow> stats_db \<Rightarrow> stats_db \<times> batch \<times> err option"
where
  "publish_batch env minimum b s finished_at db =
     (case transaction env CommitPublish (publish_body env minimum (b_id b) s finished_at) db of
        (db', Inl e) \<Rightarrow> (db', b, Some e)
      | (db', Inr (cutoff, rate_count)) \<Rightarrow>
          (db', (mark_published (b_updated_at b) cutoff (source_row_count s)
                   (of_nat (length (snapshot_courses s))) rate_count minimum
                   (of_nat (length (snapshot_instructors s))) finished_at b), None))"

section \<open>The batch readers see\<close>

definition latest_of :: "batch list \<Rightarrow> batch option" where
  "latest_of bs = find (\<lambda>b. public_batch b \<and>
     list_all (\<lambda>c. public_batch c \<longrightarrow> published_le c b) bs) bs"

definition latest_published :: "db_env \<Rightarrow> stats_db \<Rightarrow> err + batch option" where
  "latest_published env db =
     (case env_fault env GetLatest of
        Some e \<Rightarrow> if errors_is e ErrRecordNotFound then Inr None
                  else Inl (wrapf ''get latest academic statistics batch'' e)
      | None \<Rightarrow> Inr (latest_of (db_batches db)))"

section \<open>The invariant of the tables\<close>

definition is_published :: "batch \<Rightarrow> bool" where
  "is_published b \<longleftrightarrow> b_status b = batch_status_published"

definition is_running :: "batch \<Rightarrow> bool" where
  "is_running b \<longleftrightarrow> b_status b = batch_status_running"

definition batch_ok :: "batch \<Rightarrow> bool" where
  "batch_ok b \<longleftrightarrow>
     b_status b \<in> {batch_status_running, batch_status_failed, batch_status_published} \<and>
     (is_published b \<longleftrightarrow> b_published_at b \<noteq> None)"

definition batches_ok :: "batch list \<Rightarrow> bool" where
  "batches_ok bs \<longleftrightarrow>
     distinct (map b_id bs) \<and>
     distinct (filter (\<lambda>t. t \<noteq> None) (map b_trigger_task_id bs)) \<and>
     length (filter is_running bs) \<le> 1 \<and> (\<forall>b\<in>set bs. batch_ok b)"

definition published_ids :: "batch list \<Rightarrow> uint64 set" where
  "published_ids bs = b_id ` set (filter is_published bs)"

definition rows_ok ::
    "('r \<Rightarrow> uint64) \<Rightarrow> ('r \<Rightarrow> 'k) \<Rightarrow> 'r list \<Rightarrow> batch list \<Rightarrow> bool" where
  "rows_ok batch_of key rows bs \<longleftrightarrow>
     distinct (map (\<lambda>r. (batch_of r, key r)) rows) \<and> batch_of ` set rows \<subseteq> published_ids bs"

definition rates_of :: "uint64 \<Rightarrow> stats_db \<Rightarrow> pass_rate_statistic list" where
  "rates_of i db = filter (\<lambda>r. pr_batch_id r = i) (db_projections db)"

definition courses_of :: "uint64 \<Rightarrow> stats_db \<Rightarrow> course_statistic list" where
  "courses_of i db = filter (\<lambda>r. cs_batch_id r = i) (db_courses db)"

definition instructors_of :: "uint64 \<Rightarrow> stats_db \<Rightarrow> instructor_statistic list" where
  "instructors_of i db = filter (\<lambda>r. cs_batch_id r = i) (db_instructors db)"

lemmas rows_of_defs = rates_of_def courses_of_def instructors_of_def

definition counts_ok :: "stats_db \<Rightarrow> bool" where
  "counts_ok db \<longleftrightarrow>
     (\<forall>b\<in>set (db_batches db). is_published b \<longrightarrow>
        b_course_pass_rate_count b =
          count_course_pass_rates (rates_of (b_id b) db) (b_minimum_sample_size b))"

definition db_ok :: "stats_db \<Rightarrow> bool" where
  "db_ok db \<longleftrightarrow>
     batches_ok (db_batches db) \<and>
     (\<forall>b\<in>set (db_batches db). unat (b_id b) < db_next_batch db) \<and> db_next_batch db \<le> 2 ^ 64 \<and>
     rows_ok cs_batch_id course_partition_key (db_courses db) (db_batches db) \<and>
     rows_ok cs_batch_id instructor_partition_key (db_instructors db) (db_batches db) \<and>
     rows_ok pr_batch_id (\<lambda>r. (pr_education_level r, pr_course_code r)) (db_projections db)
       (db_batches db) \<and>
     counts_ok db"

text \<open>What an operation leaves of the publications: the batches and all their rows.\<close>

definition keeps_published :: "stats_db \<Rightarrow> stats_db \<Rightarrow> bool" where
  "keeps_published db db' \<longleftrightarrow>
     (\<forall>b\<in>set (db_batches db). is_published b \<longrightarrow>
        b \<in> set (db_batches db') \<and> courses_of (b_id b) db' = courses_of (b_id b) db \<and>
        instructors_of (b_id b) db' = instructors_of (b_id b) db \<and>
        rates_of (b_id b) db' = rates_of (b_id b) db)"

lemma keeps_published_refl [simp]: "keeps_published db db"
  by (simp add: keeps_published_def)

lemma keeps_published_trans:
  "keeps_published a b \<Longrightarrow> keeps_published b c \<Longrightarrow> keeps_published a c"
  by (simp add: keeps_published_def)

lemma empty_db_ok: "db_ok empty_db"
  by (simp add: db_ok_def empty_db_def batches_ok_def rows_ok_def counts_ok_def)

text \<open>An update of the batch table that leaves published batches alone and publishes nothing.\<close>

definition neutral_update :: "(batch \<Rightarrow> batch) \<Rightarrow> batch list \<Rightarrow> bool" where
  "neutral_update f bs \<longleftrightarrow>
     (\<forall>b\<in>set bs. b_id (f b) = b_id b \<and> b_trigger_task_id (f b) = b_trigger_task_id b \<and>
        batch_ok (f b) \<and> is_published (f b) = is_published b \<and> (is_published b \<longrightarrow> f b = b)) \<and>
     length (filter is_running (map f bs)) \<le> 1"

lemma neutral_published:
  assumes "neutral_update f bs"
  shows "filter is_published (map f bs) = filter is_published bs"
proof -
  have "filter (\<lambda>b. is_published (f b)) bs = filter is_published bs"
    using assms by (intro filter_cong) (simp_all add: neutral_update_def)
  then have "filter is_published (map f bs) = map f (filter is_published bs)"
    by (simp add: filter_map o_def)
  also have "\<dots> = filter is_published bs"
    using assms by (intro map_idI) (simp add: neutral_update_def)
  finally show ?thesis .
qed

lemma neutral_published_ids:
  "neutral_update f bs \<Longrightarrow> published_ids (map f bs) = published_ids bs"
  by (simp add: published_ids_def neutral_published)

lemma batches_ok_map:
  assumes "batches_ok bs" and "neutral_update f bs"
  shows "batches_ok (map f bs)"
proof -
  have "map b_id (map f bs) = map b_id bs"
    "map b_trigger_task_id (map f bs) = map b_trigger_task_id bs"
    "\<forall>b\<in>set (map f bs). batch_ok b" "length (filter is_running (map f bs)) \<le> 1"
    using assms(2) by (simp_all add: neutral_update_def)
  with assms(1) show ?thesis
    unfolding batches_ok_def by (simp only:)
qed

lemma rows_of_batches [simp]:
  "rates_of i (db\<lparr>db_batches := bs\<rparr>) = rates_of i db"
  "courses_of i (db\<lparr>db_batches := bs\<rparr>) = courses_of i db"
  "instructors_of i (db\<lparr>db_batches := bs\<rparr>) = instructors_of i db"
  by (simp_all add: rows_of_defs)

lemma neutral_update_ok:
  assumes "db_ok db" and "neutral_update f (db_batches db)"
  shows "db_ok (db\<lparr>db_batches := map f (db_batches db)\<rparr>) \<and>
     keeps_published db (db\<lparr>db_batches := map f (db_batches db)\<rparr>)"
proof -
  have "counts_ok (db\<lparr>db_batches := map f (db_batches db)\<rparr>)"
    using assms by (auto simp: counts_ok_def db_ok_def neutral_update_def)
  moreover have "keeps_published db (db\<lparr>db_batches := map f (db_batches db)\<rparr>)"
    using assms(2) by (force simp: keeps_published_def neutral_update_def)
  ultimately show ?thesis
    using assms batches_ok_map [OF _ assms(2)] neutral_published_ids [OF assms(2)]
    by (auto simp: db_ok_def rows_ok_def neutral_update_def)
qed

lemma filter_running_none: "(\<forall>b\<in>set bs. \<not> is_running b) \<Longrightarrow> filter is_running bs = []"
  by (simp add: filter_empty_conv)

lemma status_flags [simp]:
  "is_published (b\<lparr>b_status := batch_status_failed, b_error_summary := e, b_finished_at := t,
     b_updated_at := n\<rparr>) = False"
  "is_running (b\<lparr>b_status := batch_status_failed, b_error_summary := e, b_finished_at := t,
     b_updated_at := n\<rparr>) = False"
  by (simp_all add: is_published_def is_running_def)

lemma failed_batch_ok:
  "batch_ok b \<Longrightarrow> \<not> is_published b \<Longrightarrow>
   batch_ok (b\<lparr>b_status := batch_status_failed, b_error_summary := e, b_finished_at := t,
     b_updated_at := n\<rparr>)"
  by (simp add: batch_ok_def)

lemma running_iff: "b_status b = batch_status_running \<longleftrightarrow> is_running b"
  by (simp add: is_running_def)

lemma running_not_published: "is_running b \<Longrightarrow> \<not> is_published b"
  by (simp add: is_published_def is_running_def)

lemma recover_abandoned_ok:
  assumes "db_ok db"
  shows "db_ok (recover_abandoned now t db) \<and> keeps_published db (recover_abandoned now t db) \<and>
     (\<forall>b\<in>set (db_batches (recover_abandoned now t db)). \<not> is_running b)"
proof -
  let ?f = "\<lambda>b. if b_status b = batch_status_running
     then b\<lparr>b_status := batch_status_failed, b_error_summary := Some abandoned_batch_summary,
            b_finished_at := Some t, b_updated_at := now\<rparr> else b"
  have nr: "\<not> is_running (?f b)" for b by (simp add: running_iff)
  have ok: "batch_ok b" if "b \<in> set (db_batches db)" for b
    using assms that by (simp add: db_ok_def batches_ok_def)
  have "neutral_update ?f (db_batches db)"
    using ok nr failed_batch_ok running_not_published
    by (auto simp: neutral_update_def running_iff)
  from neutral_update_ok [OF assms this] show ?thesis
    unfolding recover_abandoned_def by (auto simp: running_iff)
qed

lemma filter_filter_gone:
  "i \<notin> gone \<Longrightarrow> filter (\<lambda>r. g r = i) (filter (\<lambda>r. g r \<notin> gone) rs) = filter (\<lambda>r. g r = i) rs"
  by (induction rs) auto

lemma distinct_filter_map: "distinct (map g rs) \<Longrightarrow> distinct (map g (filter P rs))"
  by (induction rs) auto

lemma unpublished_not_kept:
  assumes "db_ok db" and "\<And>b. P b \<Longrightarrow> \<not> is_published b"
  shows "b_id ` set (filter P (db_batches db)) \<inter> published_ids (db_batches db) = {}"
proof -
  have "inj_on b_id (set (db_batches db))"
    using assms(1) by (simp add: db_ok_def batches_ok_def distinct_map)
  then show ?thesis
    using assms(2) by (fastforce simp: published_ids_def dest: inj_onD)
qed

lemma published_ids_filter:
  assumes "\<And>b. P b \<Longrightarrow> \<not> is_published b"
  shows "published_ids (filter (\<lambda>b. \<not> P b) bs) = published_ids bs"
  using assms by (auto simp: published_ids_def)

lemma rows_untouched:
  assumes "rows_ok f k rows bs" and "gone \<inter> published_ids bs = {}"
  shows "filter (\<lambda>r. f r \<notin> gone) rows = rows"
  using assms by (intro filter_True) (auto simp: rows_ok_def)

lemma distinct_filter_map_filter:
  "distinct (filter R (map g xs)) \<Longrightarrow> distinct (filter R (map g (filter Q xs)))"
  by (induction xs) auto

lemma length_filter_filter: "length (filter R (filter Q bs)) \<le> length (filter R bs)"
  by (induction bs) auto

text \<open>Pruning removes no published batch, and no row: only published batches have rows.\<close>

lemma delete_batches_eq:
  assumes "db_ok db" and "\<And>b. P b \<Longrightarrow> \<not> is_published b"
  shows "delete_batches P db = db\<lparr>db_batches := filter (\<lambda>b. \<not> P b) (db_batches db)\<rparr>"
proof -
  let ?gone = "b_id ` set (filter P (db_batches db))"
  have d: "?gone \<inter> published_ids (db_batches db) = {}"
    by (rule unpublished_not_kept [OF assms])
  note ok = assms(1) [unfolded db_ok_def]
  have "filter (\<lambda>r. cs_batch_id r \<notin> ?gone) (db_courses db) = db_courses db"
    by (rule rows_untouched [OF _ d]) (use ok in blast)
  moreover have "filter (\<lambda>r. cs_batch_id r \<notin> ?gone) (db_instructors db) = db_instructors db"
    by (rule rows_untouched [OF _ d]) (use ok in blast)
  moreover have "filter (\<lambda>r. pr_batch_id r \<notin> ?gone) (db_projections db) = db_projections db"
    by (rule rows_untouched [OF _ d]) (use ok in blast)
  ultimately show ?thesis unfolding delete_batches_def Let_def by simp
qed

lemma delete_batches_ok:
  assumes "db_ok db" and "\<And>b. P b \<Longrightarrow> \<not> is_published b"
  shows "db_ok (delete_batches P db) \<and> keeps_published db (delete_batches P db)"
proof -
  let ?bs = "filter (\<lambda>b. \<not> P b) (db_batches db)"
  have eq: "delete_batches P db = db\<lparr>db_batches := ?bs\<rparr>"
    by (rule delete_batches_eq) (use assms in simp_all)
  have ids: "published_ids ?bs = published_ids (db_batches db)"
    by (rule published_ids_filter) (use assms in simp_all)
  have ok: "batches_ok (db_batches db)" using assms(1) by (simp add: db_ok_def)
  have "distinct (filter (\<lambda>t. t \<noteq> None) (map b_trigger_task_id ?bs))"
    using ok by (intro distinct_filter_map_filter) (simp add: batches_ok_def)
  moreover have "length (filter is_running ?bs) \<le> 1"
    using ok length_filter_filter [of is_running "\<lambda>b. \<not> P b" "db_batches db"]
    by (simp add: batches_ok_def)
  ultimately have "batches_ok ?bs"
    using ok by (simp add: batches_ok_def distinct_filter_map)
  moreover have "counts_ok (db\<lparr>db_batches := ?bs\<rparr>)"
    using assms(1) by (simp add: db_ok_def counts_ok_def)
  moreover have "keeps_published db (db\<lparr>db_batches := ?bs\<rparr>)"
    using assms(2) by (auto simp: keeps_published_def)
  ultimately show ?thesis
    using assms(1) eq by (simp add: db_ok_def rows_ok_def ids)
qed

lemma expired_failed_unpublished: "expired_failed t b \<Longrightarrow> \<not> is_published b"
  by (auto simp: expired_failed_def is_published_def)

lemma delete_keeps_not_running:
  "\<forall>b\<in>set (db_batches db). \<not> is_running b \<Longrightarrow>
   \<forall>b\<in>set (db_batches (delete_batches P db)). \<not> is_running b"
  by (simp add: delete_batches_def Let_def)

lemma length_filter_unique:
  "distinct (map g xs) \<Longrightarrow> length (filter (\<lambda>x. g x = k) xs) \<le> 1"
proof (induction xs)
  case (Cons x xs)
  have "filter (\<lambda>y. g y = k) xs = []" if "g x = k"
  proof (rule ccontr)
    assume "filter (\<lambda>y. g y = k) xs \<noteq> []"
    then obtain y where "y \<in> set xs" "g y = k" by (auto simp: filter_empty_conv)
    with that have "g x \<in> g ` set xs" by (metis imageI)
    with Cons.prems show False by simp
  qed
  with Cons show ?case by simp
qed simp

lemma find_task_Some: "find_task t db = Some b \<Longrightarrow> b \<in> set (db_batches db)"
  by (auto simp: find_task_def find_Some_iff)

lemma save_batch_ok:
  assumes "db_ok db" and "\<forall>b\<in>set (db_batches db). \<not> is_running b"
    and "e \<in> set (db_batches db)" and "\<not> is_published e"
  shows "db_ok (fst (save_batch now (reset_batch e (new_batch m trigger c t)) db)) \<and>
     keeps_published db (fst (save_batch now (reset_batch e (new_batch m trigger c t)) db))"
proof -
  let ?e = "reset_batch e (new_batch m trigger c t)\<lparr>b_updated_at := now\<rparr>"
  let ?f = "\<lambda>x. if b_id x = b_id e then ?e else x"
  let ?bs = "db_batches db"
  have ids: "distinct (map b_id ?bs)" and ok: "\<forall>b\<in>set ?bs. batch_ok b"
    using assms(1) by (simp_all add: db_ok_def batches_ok_def)
  have same: "x = e" if "x \<in> set ?bs" "b_id x = b_id e" for x
    using that assms(3) ids by (simp add: distinct_map inj_on_def)
  have e: "b_id ?e = b_id e" "b_trigger_task_id ?e = b_trigger_task_id e" "batch_ok ?e"
    "\<not> is_published ?e" "is_running ?e"
    by (simp_all add: reset_batch_def new_batch_def batch_ok_def is_published_def is_running_def)
  have "filter is_running (map ?f ?bs) = map ?f (filter (\<lambda>x. b_id x = b_id e) ?bs)"
    using assms(2) e(5) by (simp add: filter_map o_def cong: filter_cong)
  then have "length (filter is_running (map ?f ?bs)) \<le> 1"
    using length_filter_unique [OF ids] by simp
  with same e ok assms(4) have "neutral_update ?f ?bs"
    unfolding neutral_update_def by (intro conjI ballI) (auto split: if_splits)
  moreover have "b_id (reset_batch e (new_batch m trigger c t)) = b_id e"
    by (simp add: reset_batch_def)
  ultimately show ?thesis
    using neutral_update_ok [OF assms(1)] by (simp add: save_batch_def Let_def)
qed

lemma create_batch_ok:
  assumes "db_ok db" and "\<forall>b\<in>set (db_batches db). \<not> is_running b"
    and "db_next_batch db < 2 ^ 64"
    and "b_trigger_task_id b \<noteq> None \<longrightarrow>
           b_trigger_task_id b \<notin> b_trigger_task_id ` set (db_batches db)"
    and "is_running b" and "b_published_at b = None"
  shows "db_ok (fst (create_batch now b db)) \<and> keeps_published db (fst (create_batch now b db))"
proof -
  let ?b = "b\<lparr>b_id := of_nat (db_next_batch db), b_created_at := now, b_updated_at := now\<rparr>"
  let ?bs = "db_batches db @ [?b]"
  note ok = assms(1) [unfolded db_ok_def batches_ok_def]
  have i: "unat (b_id ?b) = db_next_batch db"
    using assms(3) by (simp add: unat_of_nat take_bit_eq_mod)
  have fresh: "b_id ?b \<notin> b_id ` set (db_batches db)"
  proof
    assume "b_id ?b \<in> b_id ` set (db_batches db)"
    then obtain x where "x \<in> set (db_batches db)" "b_id x = b_id ?b" by fastforce
    with ok i show False by auto
  qed
  have p: "\<not> is_published ?b" "is_running ?b"
    using assms(5) by (simp_all add: is_published_def is_running_def)
  have ids: "published_ids ?bs = published_ids (db_batches db)"
    using p by (simp add: published_ids_def)
  have "filter is_running ?bs = [?b]"
    using p assms(2) by (simp add: filter_running_none)
  moreover have "batch_ok ?b"
    using p assms(6) by (simp add: batch_ok_def is_running_def)
  ultimately have "batches_ok ?bs"
    using ok fresh assms(4) by (auto simp: batches_ok_def)
  moreover have "counts_ok (db\<lparr>db_batches := ?bs, db_next_batch := db_next_batch db + 1\<rparr>)"
    using ok p by (auto simp: counts_ok_def rates_of_def)
  ultimately show ?thesis
    using ok i assms(3)
    by (auto simp: create_batch_def Let_def db_ok_def rows_ok_def ids keeps_published_def
        rows_of_defs less_Suc_eq)
qed

lemma new_batch_running [simp]:
  "is_running (new_batch m trigger c t)" "b_published_at (new_batch m trigger c t) = None"
  "b_trigger_task_id (new_batch m trigger c t) = bt_task_id trigger"
  by (simp_all add: new_batch_def is_running_def)

lemma create_or_fail_ok:
  assumes "db_ok db" and "\<forall>b\<in>set (db_batches db). \<not> is_running b"
    and "create_or_fail env (new_batch m trigger c t) db = Inr (db', r)"
  shows "db_ok db' \<and> keeps_published db db'"
  using assms create_batch_ok [OF assms(1,2), of "new_batch m trigger c t" "env_now env"]
  by (auto simp: create_or_fail_def split: option.splits if_splits)

text \<open>What \<^verbatim>\<open>StartBatch\<close> does once the abandoned and the expired batches are out of the way.\<close>

definition continue_start ::
    "db_env \<Rightarrow> batch \<Rightarrow> string option \<Rightarrow> stats_db \<Rightarrow> err + stats_db \<times> batch" where
  "continue_start env b wanted db =
     (case wanted of
        None \<Rightarrow> create_or_fail env b db
      | Some task \<Rightarrow>
          (case env_fault env FindTask of
             Some e \<Rightarrow>
               if errors_is e ErrRecordNotFound then create_or_fail env b db
               else Inl (wrapf ''find academic statistics batch task'' e)
           | None \<Rightarrow>
               (case find_task task db of
                  None \<Rightarrow> create_or_fail env b db
                | Some existing \<Rightarrow>
                    if b_status existing = batch_status_published then Inr (db, existing)
                    else
                      (case env_fault env SaveBatch of
                         Some e \<Rightarrow> Inl (wrapf ''restart academic statistics batch'' e)
                       | None \<Rightarrow> Inr (save_batch (env_now env) (reset_batch existing b) db)))))"

lemma start_body_continue:
  assumes "start_body env m trigger c t db = Inr q"
  shows "continue_start env (new_batch m trigger c t) (bt_task_id trigger)
     (delete_batches (expired_failed (t - failed_batch_retention))
        (recover_abandoned (env_now env) t db)) = Inr q"
  using assms
  by (cases "env_fault env RecoverAbandoned"; cases "env_fault env PruneFailed")
     (simp_all add: start_body_def continue_start_def Let_def prune_expired_failed_batches_def)

lemma continue_start_cases:
  assumes "continue_start env b wanted db = Inr (db', r)"
  obtains (create) "create_or_fail env b db = Inr (db', r)"
    | (found) task where "wanted = Some task" "find_task task db = Some r" "is_published r" "db' = db"
    | (save) task e where "wanted = Some task" "find_task task db = Some e" "\<not> is_published e"
        "save_batch (env_now env) (reset_batch e b) db = (db', r)"
proof (cases wanted)
  case None
  with assms create show thesis by (simp add: continue_start_def)
next
  case (Some task)
  show thesis
  proof (cases "env_fault env FindTask")
    case (Some f)
    with assms \<open>wanted = Some task\<close> create show thesis
      by (simp add: continue_start_def split: if_splits)
  next
    case None
    show thesis
    proof (cases "find_task task db")
      case None
      with assms \<open>wanted = Some task\<close> \<open>env_fault env FindTask = None\<close> create show thesis
        by (simp add: continue_start_def)
    next
      case e: (Some e)
      with assms \<open>wanted = Some task\<close> \<open>env_fault env FindTask = None\<close> found save show thesis
        by (cases "env_fault env SaveBatch")
           (auto simp: continue_start_def is_published_def split: if_splits)
    qed
  qed
qed

lemma start_body_ok:
  assumes "db_ok db" and "start_body env m trigger c t db = Inr (db', r)"
  shows "db_ok db' \<and> keeps_published db db'"
proof -
  let ?cutoff = "t - failed_batch_retention"
  let ?db0 = "recover_abandoned (env_now env) t db"
  let ?db1 = "delete_batches (expired_failed ?cutoff) ?db0"
  have db0: "db_ok ?db0" "keeps_published db ?db0"
    and nr0: "\<forall>b\<in>set (db_batches ?db0). \<not> is_running b"
    using recover_abandoned_ok [OF assms(1)] by blast+
  have db1: "db_ok ?db1" "keeps_published ?db0 ?db1"
    using delete_batches_ok [of ?db0 "expired_failed ?cutoff"] db0(1) expired_failed_unpublished
    by simp_all
  note nr1 = delete_keeps_not_running [OF nr0]
  from start_body_continue [OF assms(2)] have "db_ok db' \<and> keeps_published ?db1 db'"
  proof (cases rule: continue_start_cases)
    case create
    then show ?thesis using create_or_fail_ok [OF db1(1) nr1] by blast
  next
    case found
    with db1 show ?thesis by simp
  next
    case (save task e)
    with save_batch_ok [OF db1(1) nr1 find_task_Some save(3)] show ?thesis by (metis fst_conv)
  qed
  with db0 db1 keeps_published_trans show ?thesis by blast
qed

lemma transaction_preserves:
  assumes "Q db" and "\<And>db' r. body db = Inr (db', r) \<Longrightarrow> Q db'"
  shows "Q (fst (transaction env commit body db))"
  using assms by (auto simp: transaction_def split: sum.splits option.splits prod.splits)

lemma start_batch_ok:
  assumes "db_ok db"
  shows "db_ok (fst (start_batch env m trigger c t db)) \<and>
     keeps_published db (fst (start_batch env m trigger c t db))"
  unfolding start_batch_def
  by (rule transaction_preserves) (use assms start_body_ok in auto)

lemma fail_batch_ok:
  assumes "db_ok db"
  shows "db_ok (fst (fail_batch env i t text db)) \<and>
     keeps_published db (fst (fail_batch env i t text db))"
proof -
  let ?f = "\<lambda>b. if b_id b = i \<and> b_status b = batch_status_running
     then b\<lparr>b_status := batch_status_failed, b_error_summary := Some (truncate_bytes text 1000),
            b_finished_at := Some t, b_updated_at := env_now env\<rparr> else b"
  have ok: "batch_ok b" if "b \<in> set (db_batches db)" for b
    using assms that by (simp add: db_ok_def batches_ok_def)
  have "length (filter is_running (map ?f bs)) \<le> length (filter is_running bs)" for bs
    by (induction bs) auto
  then have "length (filter is_running (map ?f (db_batches db))) \<le> 1"
    using assms by (auto simp: db_ok_def batches_ok_def intro: order_trans)
  then have "neutral_update ?f (db_batches db)"
    using ok failed_batch_ok running_not_published
    unfolding neutral_update_def by (auto simp: running_iff)
  from neutral_update_ok [OF assms this] show ?thesis
    using assms by (auto simp: fail_batch_def update_running_def Let_def split: option.splits)
qed

section \<open>What one publication does to the tables\<close>

lemma map_number_rows:
  "(\<And>r i. g (f r i) = g r) \<Longrightarrow> map g (number_rows f n rs) = map g rs"
  by (induction f n rs rule: number_rows.induct) simp_all

lemma set_number_rows:
  "r \<in> set (number_rows f n rs) \<Longrightarrow> \<exists>q\<in>set rs. \<exists>i. r = f q i"
  by (induction f n rs rule: number_rows.induct) auto

definition hits :: "uint64 \<Rightarrow> batch \<Rightarrow> bool" where
  "hits i b \<longleftrightarrow> b_id b = i \<and> b_status b = batch_status_running"

definition published_db ::
    "uint64 \<Rightarrow> (batch \<Rightarrow> batch) \<Rightarrow> course_statistic list \<Rightarrow> instructor_statistic list \<Rightarrow>
     pass_rate_statistic list \<Rightarrow> stats_db \<Rightarrow> stats_db" where
  "published_db i f cs iss rs db =
     db\<lparr>db_batches := map (\<lambda>b. if hits i b then f b else b) (db_batches db),
        db_courses := db_courses db @
          number_rows (\<lambda>r i. r\<lparr>cs_id := i\<rparr>) (db_next_course db) cs,
        db_next_course := db_next_course db + length cs,
        db_instructors := db_instructors db @
          number_rows (\<lambda>r i. r\<lparr>cs_id := i\<rparr>) (db_next_instructor db) iss,
        db_next_instructor := db_next_instructor db + length iss,
        db_projections := db_projections db @
          number_rows (\<lambda>r i. r\<lparr>pr_id := i\<rparr>) (db_next_projection db) rs,
        db_next_projection := db_next_projection db + length rs\<rparr>"

lemma insert_courses_Inr:
  "insert_courses env rows db = Inr db' \<Longrightarrow>
   \<not> insert_refused cs_batch_id course_partition_key rows (db_courses db) (db_batches db) \<and>
   db' = db\<lparr>db_courses := db_courses db @
             number_rows (\<lambda>r i. r\<lparr>cs_id := i\<rparr>) (db_next_course db) rows,
            db_next_course := db_next_course db + length rows\<rparr>"
  by (auto simp: insert_courses_def Let_def split: option.splits if_splits)

lemma insert_instructors_Inr:
  "insert_instructors env rows db = Inr db' \<Longrightarrow>
   (rows = [] \<or> \<not> insert_refused cs_batch_id instructor_partition_key rows (db_instructors db)
      (db_batches db)) \<and>
   db' = db\<lparr>db_instructors := db_instructors db @
             number_rows (\<lambda>r i. r\<lparr>cs_id := i\<rparr>) (db_next_instructor db) rows,
            db_next_instructor := db_next_instructor db + length rows\<rparr>"
  by (auto simp: insert_instructors_def Let_def split: option.splits if_splits)

lemma insert_projections_Inr:
  "insert_projections env rows db = Inr db' \<Longrightarrow>
   (rows = [] \<or> \<not> insert_refused pr_batch_id (\<lambda>r. (pr_education_level r, pr_course_code r)) rows
      (db_projections db) (db_batches db)) \<and>
   db' = db\<lparr>db_projections := db_projections db @
             number_rows (\<lambda>r i. r\<lparr>pr_id := i\<rparr>) (db_next_projection db) rows,
            db_next_projection := db_next_projection db + length rows\<rparr>"
  by (auto simp: insert_projections_def Let_def split: option.splits if_splits)

lemma publish_body_Inr:
  assumes "publish_body env m i s t db = Inr (db', res)"
  obtains cs iss carried cutoff rates
  where "suppress_small_publication_deltas env m (course_entities i (snapshot_courses s))
           (instructor_entities i (snapshot_instructors s)) db = Inr (cs, iss, carried)"
    and "cutoff = effective_cutoff (source_cutoff_at s) carried"
    and "rates = course_pass_rate_entities (env_iter env) i cs"
    and "res = (cutoff, count_course_pass_rates rates m)"
    and "\<not> insert_refused cs_batch_id course_partition_key cs (db_courses db) (db_batches db)"
    and "iss = [] \<or> \<not> insert_refused cs_batch_id instructor_partition_key iss (db_instructors db)
           (db_batches db)"
    and "rates = [] \<or> \<not> insert_refused pr_batch_id
           (\<lambda>r. (pr_education_level r, pr_course_code r)) rates (db_projections db) (db_batches db)"
    and "length (filter (hits i) (db_batches db)) = 1"
    and "db' = published_db i (mark_published (env_now env) cutoff (source_row_count s)
           (of_nat (length cs)) (count_course_pass_rates rates m) m (of_nat (length iss)) t)
           cs iss rates db"
proof -
  obtain cs iss carried where sup:
    "suppress_small_publication_deltas env m (course_entities i (snapshot_courses s))
       (instructor_entities i (snapshot_instructors s)) db = Inr (cs, iss, carried)"
    using assms by (auto simp: publish_body_def split: sum.splits)
  let ?cutoff = "effective_cutoff (source_cutoff_at s) carried"
  let ?rates = "course_pass_rate_entities (env_iter env) i cs"
  let ?f = "mark_published (env_now env) ?cutoff (source_row_count s) (of_nat (length cs))
     (count_course_pass_rates ?rates m) m (of_nat (length iss)) t"
  obtain db1 where db1: "insert_courses env cs db = Inr db1"
    using assms sup by (cases "insert_courses env cs db") (simp_all add: publish_body_def Let_def)
  obtain db2 where db2: "insert_instructors env iss db1 = Inr db2"
    using assms sup db1
    by (cases "insert_instructors env iss db1") (simp_all add: publish_body_def Let_def)
  obtain db3 where db3: "insert_projections env ?rates db2 = Inr db3"
    using assms sup db1 db2
    by (cases "insert_projections env ?rates db2") (simp_all add: publish_body_def Let_def)
  have up: "snd (update_running i ?f db3) = 1" "db' = fst (update_running i ?f db3)"
    "res = (?cutoff, count_course_pass_rates ?rates m)"
    using assms sup db1 db2 db3
    by (cases "env_fault env MarkPublished";
        force simp: publish_body_def Let_def split: prod.splits if_splits)+
  note eqs = insert_courses_Inr [OF db1] insert_instructors_Inr [OF db2]
    insert_projections_Inr [OF db3]
  show thesis
    by (rule that [OF sup refl refl])
       (use up eqs in \<open>simp_all add: update_running_def Let_def published_db_def hits_def [abs_def]\<close>)
qed

lemma suppress_small_Inr:
  assumes "suppress_small_publication_deltas env m courses instructors db = Inr (cs, iss, carried)"
  obtains bc bi forced ids
  where "bc = previous_by_key course_partition_key
           (latest_per_key course_partition_key
              (public_rows cs_batch_id (db_courses db) (db_batches db)))"
    and "bi = previous_by_key instructor_partition_key
           (latest_per_key instructor_partition_key
              (public_rows cs_batch_id (db_instructors db) (db_batches db)))"
    and "forced = snd (snd (suppress_instructor_rows bi m instructors {} {}))"
    and "cs = map (decided_course_row bc forced m) courses"
    and "iss = map (decided_instructor_row bi m) instructors"
    and "ids = snd (suppress_course_rows bc forced m courses
           (fst (snd (suppress_instructor_rows bi m instructors {} {}))))"
    and "if ids = {} then carried = None
         else \<exists>c. earliest_published_cutoff env ids db = Inr c \<and> carried = Some c"
proof -
  let ?pc = "latest_per_key course_partition_key
     (public_rows cs_batch_id (db_courses db) (db_batches db))"
  let ?pi = "latest_per_key instructor_partition_key
     (public_rows cs_batch_id (db_instructors db) (db_batches db))"
  have none: "env_fault env CourseBaselines = None" "env_fault env InstructorBaselines = None"
    using assms
    by (auto simp: suppress_small_publication_deltas_def latest_published_course_baselines_def
        latest_published_instructor_baselines_def split: option.splits sum.splits)
  obtain is' ids1 forced where i:
    "suppress_instructor_deltas instructors ?pi m {} = (is', ids1, forced)"
    by (metis prod_cases3)
  obtain cs' ids where c: "suppress_course_deltas courses ?pc forced m ids1 = (cs', ids)"
    by (metis surj_pair)
  have r: "(if ids = {} then Inr (cs', is', None)
      else case earliest_published_cutoff env ids db of Inl e \<Rightarrow> Inl e
        | Inr cutoff \<Rightarrow> Inr (cs', is', Some cutoff)) = Inr (cs, iss, carried)"
    using assms none i c
    by (simp add: suppress_small_publication_deltas_def latest_published_course_baselines_def
        latest_published_instructor_baselines_def)
  then have "cs' = cs" "is' = iss" by (auto split: if_splits sum.splits)
  moreover have "if ids = {} then carried = None
      else \<exists>c. earliest_published_cutoff env ids db = Inr c \<and> carried = Some c"
    using r by (auto split: if_splits sum.splits)
  ultimately show thesis
    using that [OF refl refl refl] i c suppress_course_rows_map suppress_instructor_rows_map
    unfolding suppress_instructor_deltas_def suppress_course_deltas_def
    by (metis fst_conv snd_conv)
qed

lemma rows_of_published_db:
  "courses_of j (published_db i f cs iss rs db) = courses_of j db @
     filter (\<lambda>r. cs_batch_id r = j) (number_rows (\<lambda>r i. r\<lparr>cs_id := i\<rparr>) (db_next_course db) cs)"
  "instructors_of j (published_db i f cs iss rs db) = instructors_of j db @
     filter (\<lambda>r. cs_batch_id r = j)
       (number_rows (\<lambda>r i. r\<lparr>cs_id := i\<rparr>) (db_next_instructor db) iss)"
  "rates_of j (published_db i f cs iss rs db) = rates_of j db @
     filter (\<lambda>r. pr_batch_id r = j) (number_rows (\<lambda>r i. r\<lparr>pr_id := i\<rparr>) (db_next_projection db) rs)"
  by (simp_all add: rows_of_defs published_db_def)

lemma rows_ok_extend:
  assumes "rows_ok f k rows bs"
    and "new = [] \<or> \<not> insert_refused f k new rows bs"
    and "\<And>r i. f (g r i) = f r" and "\<And>r i. k (g r i) = k r"
    and "\<And>r. r \<in> set new \<Longrightarrow> f r = i"
    and "published_ids bs' = insert i (published_ids bs)"
  shows "rows_ok f k (rows @ number_rows g n new) bs'"
proof -
  have m: "map (\<lambda>r. (f r, k r)) (number_rows g n new) = map (\<lambda>r. (f r, k r)) new"
    by (rule map_number_rows) (simp add: assms)
  have "map f (number_rows g n new) = map f new"
    by (rule map_number_rows) (simp add: assms)
  then have "f ` set (number_rows g n new) \<subseteq> {i}"
    using assms(5) by (metis (no_types, lifting) image_subset_iff list.set_map singletonI)
  moreover have "distinct (map (\<lambda>r. (f r, k r)) (rows @ number_rows g n new))"
    using assms(1,2) m by (auto simp: rows_ok_def insert_refused_def)
  ultimately show ?thesis
    using assms(1,6) by (auto simp: rows_ok_def)
qed

lemma filter_hits:
  assumes "batches_ok bs" and "length (filter (hits i) bs) = 1"
  obtains b where "b \<in> set bs" "b_id b = i" "is_running b"
    and "\<And>x. x \<in> set bs \<Longrightarrow> b_id x = i \<Longrightarrow> x = b"
proof -
  obtain b where "filter (hits i) bs = [b]"
    using assms(2) by (auto simp: length_Suc_conv)
  then have b: "b \<in> set bs" "b_id b = i" "is_running b"
    by (auto simp: hits_def is_running_def dest!: arg_cong [where f = set])
  moreover have "x = b" if "x \<in> set bs" "b_id x = i" for x
    using that b assms(1) by (simp add: batches_ok_def distinct_map inj_on_def)
  ultimately show thesis using that by blast
qed

lemma hits_running: "hits i b \<longleftrightarrow> b_id b = i \<and> is_running b"
  by (simp add: hits_def is_running_def)

lemma mark_published_simps [simp]:
  "b_id (mark_published n c sr x y mn z t b) = b_id b"
  "b_trigger_task_id (mark_published n c sr x y mn z t b) = b_trigger_task_id b"
  "b_course_pass_rate_count (mark_published n c sr x y mn z t b) = y"
  "b_minimum_sample_size (mark_published n c sr x y mn z t b) = mn"
  "b_source_cutoff_at (mark_published n c sr x y mn z t b) = c"
  "b_published_at (mark_published n c sr x y mn z t b) = Some t"
  "b_rule_version (mark_published n c sr x y mn z t b) = b_rule_version b"
  "is_published (mark_published n c sr x y mn z t b)"
  "\<not> is_running (mark_published n c sr x y mn z t b)"
  "batch_ok (mark_published n c sr x y mn z t b)"
  by (simp_all add: mark_published_def is_published_def is_running_def batch_ok_def)

lemma batches_ok_publish:
  assumes "batches_ok bs"
  shows "batches_ok (map (\<lambda>b. if hits i b then mark_published n c sr x y mn z t b else b) bs)"
proof -
  let ?f = "\<lambda>b. if hits i b then mark_published n c sr x y mn z t b else b"
  have "map b_id (map ?f bs) = map b_id bs"
    "map b_trigger_task_id (map ?f bs) = map b_trigger_task_id bs"
    by simp_all
  moreover have "length (filter is_running (map ?f bs)) \<le> length (filter is_running bs)"
    by (induction bs) auto
  ultimately show ?thesis
    using assms unfolding batches_ok_def by (auto simp del: map_map)
qed

lemma published_ids_publish:
  assumes "length (filter (hits i) bs) = 1"
  shows "published_ids (map (\<lambda>b. if hits i b then mark_published n c sr x y mn z t b else b) bs)
       = insert i (published_ids bs)"
proof -
  obtain b where b: "filter (hits i) bs = [b]"
    using assms by (auto simp: length_Suc_conv)
  then have h: "b \<in> set bs" "hits i b" by (auto dest!: arg_cong [where f = set])
  let ?f = "\<lambda>b. if hits i b then mark_published n c sr x y mn z t b else b"
  have "is_published (?f b')" "?f b' \<in> set (map ?f bs)" "b_id (?f b') = b_id b'"
    if "b' = b \<or> b' \<in> set bs \<and> is_published b'" for b'
    using that h running_not_published by (auto simp: hits_running)
  note f = this
  have "insert i (published_ids bs) \<subseteq> published_ids (map ?f bs)"
  proof
    fix j assume "j \<in> insert i (published_ids bs)"
    then obtain b' where b': "b' = b \<or> b' \<in> set bs \<and> is_published b'" and j: "j = b_id b'"
      using h by (auto simp: published_ids_def hits_running)
    have "?f b' \<in> set (filter is_published (map ?f bs))"
      unfolding set_filter using f(1,2) [OF b'] by blast
    then have "b_id (?f b') \<in> published_ids (map ?f bs)"
      unfolding published_ids_def by (rule imageI)
    then show "j \<in> published_ids (map ?f bs)"
      unfolding j f(3) [OF b'] .
  qed
  moreover have "published_ids (map ?f bs) \<subseteq> insert i (published_ids bs)"
    by (auto simp: published_ids_def hits_running)
  ultimately show ?thesis by blast
qed

lemma published_db_ok:
  assumes db: "db_ok db" and hit: "length (filter (hits i) (db_batches db)) = 1"
    and cs: "\<And>r. r \<in> set cs \<Longrightarrow> cs_batch_id r = i"
    and iss: "\<And>r. r \<in> set iss \<Longrightarrow> cs_batch_id r = i"
    and rs: "\<And>r. r \<in> set rs \<Longrightarrow> pr_batch_id r = i"
    and ins: "\<not> insert_refused cs_batch_id course_partition_key cs (db_courses db) (db_batches db)"
      "iss = [] \<or> \<not> insert_refused cs_batch_id instructor_partition_key iss (db_instructors db)
         (db_batches db)"
      "rs = [] \<or> \<not> insert_refused pr_batch_id (\<lambda>r. (pr_education_level r, pr_course_code r)) rs
         (db_projections db) (db_batches db)"
    and f: "f = mark_published n c sr x (count_course_pass_rates rs m) m z t"
  shows "db_ok (published_db i f cs iss rs db) \<and> keeps_published db (published_db i f cs iss rs db)"
proof -
  let ?db = "published_db i f cs iss rs db"
  let ?bs = "db_batches db"
  note ok = db [unfolded db_ok_def]
  have b_ok: "batches_ok ?bs" using ok by blast
  have bs: "db_batches ?db = map (\<lambda>b. if hits i b then f b else b) ?bs"
    by (simp add: published_db_def)
  have ids: "published_ids (db_batches ?db) = insert i (published_ids ?bs)"
    unfolding bs unfolding f by (rule published_ids_publish [OF hit])
  obtain b where b: "b \<in> set ?bs" "b_id b = i" "is_running b"
    and uniq: "\<And>y. y \<in> set ?bs \<Longrightarrow> b_id y = i \<Longrightarrow> y = b"
    using filter_hits [OF b_ok hit] by blast
  have new: "i \<notin> published_ids ?bs"
  proof
    assume "i \<in> published_ids ?bs"
    then obtain y where "y \<in> set ?bs" "is_published y" "b_id y = i"
      by (auto simp: published_ids_def)
    with uniq b running_not_published show False by blast
  qed
  have other: "filter (\<lambda>r. cs_batch_id r = j) (number_rows (\<lambda>r i. r\<lparr>cs_id := i\<rparr>) k cs) = []"
    "filter (\<lambda>r. cs_batch_id r = j) (number_rows (\<lambda>r i. r\<lparr>cs_id := i\<rparr>) k iss) = []"
    "filter (\<lambda>r. pr_batch_id r = j) (number_rows (\<lambda>r i. r\<lparr>pr_id := i\<rparr>) k rs) = []"
    if "j \<noteq> i" for j k
    using that cs iss rs by (auto simp: filter_empty_conv dest!: set_number_rows)
  have keep: "courses_of j ?db = courses_of j db" "instructors_of j ?db = instructors_of j db"
    "rates_of j ?db = rates_of j db" if "j \<noteq> i" for j
    using other that by (simp_all add: rows_of_published_db)
  have rates: "rates_of i ?db = number_rows (\<lambda>r i. r\<lparr>pr_id := i\<rparr>) (db_next_projection db) rs"
  proof -
    have "rates_of i db = []"
      using ok new by (force simp: rates_of_def rows_ok_def filter_empty_conv)
    moreover have "filter (\<lambda>r. pr_batch_id r = i)
        (number_rows (\<lambda>r i. r\<lparr>pr_id := i\<rparr>) (db_next_projection db) rs)
      = number_rows (\<lambda>r i. r\<lparr>pr_id := i\<rparr>) (db_next_projection db) rs"
      using rs by (intro filter_True) (auto dest!: set_number_rows)
    ultimately show ?thesis by (simp add: rows_of_published_db)
  qed
  have count: "count_course_pass_rates (rates_of i ?db) m = count_course_pass_rates rs m"
    unfolding rates by (rule count_course_pass_rates_map) (simp add: map_number_rows)
  have "counts_ok ?db"
    unfolding counts_ok_def bs set_map
  proof (intro ballI impI)
    fix y' assume "y' \<in> (\<lambda>b. if hits i b then f b else b) ` set ?bs" and p: "is_published y'"
    then obtain y where y: "y \<in> set ?bs" "y' = (if hits i y then f y else y)" by blast
    show "b_course_pass_rate_count y' =
        count_course_pass_rates (rates_of (b_id y') ?db) (b_minimum_sample_size y')"
    proof (cases "hits i y")
      case True
      then show ?thesis using y(2) count by (simp add: f hits_def)
    next
      case False
      with y p b uniq have "b_id y \<noteq> i" by (metis hits_running)
      with False y p ok keep show ?thesis by (simp add: counts_ok_def)
    qed
  qed
  moreover have "batches_ok (db_batches ?db)"
    unfolding bs unfolding f by (rule batches_ok_publish [OF b_ok])
  moreover have "\<forall>b\<in>set (db_batches ?db). unat (b_id b) < db_next_batch ?db"
    "db_next_batch ?db \<le> 2 ^ 64"
  proof -
    have nb: "db_next_batch ?db = db_next_batch db" by (simp add: published_db_def)
    show "\<forall>b\<in>set (db_batches ?db). unat (b_id b) < db_next_batch ?db"
      unfolding bs set_map nb ball_simps using ok by (simp add: f)
    show "db_next_batch ?db \<le> 2 ^ 64" unfolding nb using ok by blast
  qed
  moreover have "rows_ok cs_batch_id course_partition_key (db_courses ?db) (db_batches ?db)"
    using ok ins(1) cs ids unfolding published_db_def
    by (auto intro!: rows_ok_extend simp: course_partition_key_def)
  moreover have "rows_ok cs_batch_id instructor_partition_key (db_instructors ?db) (db_batches ?db)"
    using ok ins(2) iss ids unfolding published_db_def
    by (auto intro!: rows_ok_extend simp: instructor_partition_key_def)
  moreover have "rows_ok pr_batch_id (\<lambda>r. (pr_education_level r, pr_course_code r))
      (db_projections ?db) (db_batches ?db)"
    using ok ins(3) rs ids unfolding published_db_def
    by (auto intro!: rows_ok_extend)
  moreover have "keeps_published db ?db"
    unfolding keeps_published_def bs
  proof (intro ballI impI)
    fix y assume y: "y \<in> set ?bs" "is_published y"
    with uniq b running_not_published have "b_id y \<noteq> i" by blast
    with y keep show "y \<in> set (map (\<lambda>b. if hits i b then f b else b) ?bs) \<and>
        courses_of (b_id y) ?db = courses_of (b_id y) db \<and>
        instructors_of (b_id y) ?db = instructors_of (b_id y) db \<and>
        rates_of (b_id y) ?db = rates_of (b_id y) db"
      by (auto simp: hits_def image_iff intro!: bexI [of _ y])
  qed
  ultimately show ?thesis unfolding db_ok_def by blast
qed

definition fair_iter :: "('k list \<Rightarrow> 'k list) \<Rightarrow> bool" where
  "fair_iter iter \<longleftrightarrow> (\<forall>ks. mset (iter ks) = mset ks)"

lemma suppress_small_batch:
  assumes "suppress_small_publication_deltas env m (course_entities i cv) (instructor_entities i iv)
     db = Inr (cs, iss, carried)"
  shows "\<forall>r\<in>set cs. cs_batch_id r = i" and "\<forall>r\<in>set iss. cs_batch_id r = i"
  by (rule suppress_small_Inr [OF assms],
      simp add: course_entities_def course_entity_def,
      rule suppress_small_Inr [OF assms],
      simp add: instructor_entities_def instructor_entity_def)

lemma publish_body_shape:
  assumes "db_ok db" and "fair_iter (env_iter env)"
    and "publish_body env m i s t db = Inr (db', (cutoff, n))"
  obtains cs iss carried rates x z
  where "suppress_small_publication_deltas env m (course_entities i (snapshot_courses s))
           (instructor_entities i (snapshot_instructors s)) db = Inr (cs, iss, carried)"
    and "cutoff = effective_cutoff (source_cutoff_at s) carried"
    and "rates = course_pass_rate_entities (env_iter env) i cs"
    and "n = count_course_pass_rates rates m"
    and "length (filter (hits i) (db_batches db)) = 1"
    and "db' = published_db i (mark_published (env_now env) cutoff (source_row_count s)
           x (count_course_pass_rates rates m) m z t) cs iss rates db"
    and "db_ok db'" and "keeps_published db db'"
    and "\<And>r. r \<in> set cs \<Longrightarrow> cs_batch_id r = i" and "\<And>r. r \<in> set iss \<Longrightarrow> cs_batch_id r = i"
proof (rule publish_body_Inr [OF assms(3)])
  fix cs iss carried cutoff' rates
  assume sup: "suppress_small_publication_deltas env m (course_entities i (snapshot_courses s))
      (instructor_entities i (snapshot_instructors s)) db = Inr (cs, iss, carried)"
    and c0: "cutoff' = effective_cutoff (source_cutoff_at s) carried"
    and c2: "rates = course_pass_rate_entities (env_iter env) i cs"
    and res: "(cutoff, n) = (cutoff', count_course_pass_rates rates m)"
    and ins: "\<not> insert_refused cs_batch_id course_partition_key cs (db_courses db) (db_batches db)"
      "iss = [] \<or> \<not> insert_refused cs_batch_id instructor_partition_key iss (db_instructors db)
         (db_batches db)"
      "rates = [] \<or> \<not> insert_refused pr_batch_id
         (\<lambda>r. (pr_education_level r, pr_course_code r)) rates (db_projections db) (db_batches db)"
    and hit: "length (filter (hits i) (db_batches db)) = 1"
    and db0: "db' = published_db i (mark_published (env_now env) cutoff' (source_row_count s)
         (of_nat (length cs)) (count_course_pass_rates rates m) m (of_nat (length iss)) t)
         cs iss rates db"
  have c: "cutoff = effective_cutoff (source_cutoff_at s) carried"
      "rates = course_pass_rate_entities (env_iter env) i cs"
      "n = count_course_pass_rates rates m"
    and db': "db' = published_db i (mark_published (env_now env) cutoff (source_row_count s)
         (of_nat (length cs)) (count_course_pass_rates rates m) m (of_nat (length iss)) t)
         cs iss rates db"
    using c0 c2 res db0 by simp_all
  have cb: "cs_batch_id r = i" if "r \<in> set cs" for r
    using suppress_small_batch(1) [OF sup] that by blast
  have ib: "cs_batch_id r = i" if "r \<in> set iss" for r
    using suppress_small_batch(2) [OF sup] that by blast
  have rb: "pr_batch_id r = i" if "r \<in> set rates" for r
    using that course_pass_rate_entities_batch [of "env_iter env"] assms(2)
    unfolding c(2) fair_iter_def by simp
  have "db_ok db' \<and> keeps_published db db'"
    unfolding db' by (rule published_db_ok [OF assms(1) hit cb ib rb ins refl])
  then show thesis
    using that [OF sup c hit db'] cb ib by blast
qed

lemma publish_body_ok:
  assumes "db_ok db" and "fair_iter (env_iter env)"
    and "publish_body env m i s t db = Inr (db', r)"
  shows "db_ok db' \<and> keeps_published db db'"
  using assms by (cases r) (metis publish_body_shape)

lemma fst_publish_batch:
  "fst (publish_batch env m b s t db) =
     fst (transaction env CommitPublish (publish_body env m (b_id b) s t) db)"
  by (cases "transaction env CommitPublish (publish_body env m (b_id b) s t) db")
     (simp add: publish_batch_def split: sum.splits prod.splits)

lemma publish_batch_ok:
  assumes "db_ok db" and "fair_iter (env_iter env)"
  shows "db_ok (fst (publish_batch env m b s t db)) \<and>
     keeps_published db (fst (publish_batch env m b s t db))"
  unfolding fst_publish_batch
  by (rule transaction_preserves) (use assms publish_body_ok in auto)

section \<open>Reachable databases\<close>

inductive db_step :: "stats_db \<Rightarrow> stats_db \<Rightarrow> bool" where
  start: "db_step db (fst (start_batch env m trigger c t db))"
| fail: "db_step db (fst (fail_batch env i t text db))"
| publish: "fair_iter (env_iter env) \<Longrightarrow> db_step db (fst (publish_batch env m b s t db))"

lemma db_step_ok: "db_step db db' \<Longrightarrow> db_ok db \<Longrightarrow> db_ok db' \<and> keeps_published db db'"
  by (induction rule: db_step.induct) (simp_all add: start_batch_ok fail_batch_ok publish_batch_ok)

lemma db_steps_ok: "db_step\<^sup>*\<^sup>* db db' \<Longrightarrow> db_ok db \<Longrightarrow> db_ok db' \<and> keeps_published db db'"
  by (induction rule: rtranclp_induct) (auto dest: db_step_ok intro: keeps_published_trans)

definition reachable_db :: "stats_db \<Rightarrow> bool" where
  "reachable_db db \<longleftrightarrow> db_step\<^sup>*\<^sup>* empty_db db"

lemma reachable_db_ok: "reachable_db db \<Longrightarrow> db_ok db"
  using db_steps_ok empty_db_ok by (auto simp: reachable_db_def)

section \<open>The latest public row of a cohort\<close>

lemma public_rows_iff:
  "(r, b) \<in> set (public_rows f rows bs) \<longleftrightarrow>
     r \<in> set rows \<and> b \<in> set bs \<and> b_id b = f r \<and> public_batch b"
  by (auto simp: public_rows_def)



text \<open>The row readers saw last for a key: it belongs to a public batch no other one supersedes.\<close>

definition latest_row ::
    "('r \<Rightarrow> uint64) \<Rightarrow> ('r \<Rightarrow> 'k) \<Rightarrow> 'r list \<Rightarrow> batch list \<Rightarrow> 'r \<Rightarrow> bool" where
  "latest_row batch_of key rows bs r \<longleftrightarrow>
     r \<in> set (latest_per_key key (public_rows batch_of rows bs))"

lemma latest_row_iff:
  "latest_row f key rows bs r \<longleftrightarrow>
     r \<in> set rows \<and> (\<exists>b\<in>set bs. b_id b = f r \<and> public_batch b \<and>
       (\<forall>r'\<in>set rows. \<forall>b'\<in>set bs. b_id b' = f r' \<longrightarrow> public_batch b' \<longrightarrow> key r' = key r \<longrightarrow>
          published_le b' b))"
  unfolding latest_row_def latest_per_key_def list_all_iff
  by (force simp: public_rows_iff image_iff)



section \<open>Privacy of a publication\<close>

lemma new_rows_of_batch:
  assumes "db_ok db" and "length (filter (hits i) (db_batches db)) = 1"
    and "\<And>r. r \<in> set cs \<Longrightarrow> cs_batch_id r = i" and "\<And>r. r \<in> set iss \<Longrightarrow> cs_batch_id r = i"
  shows "courses_of i (published_db i f cs iss rs db) =
       number_rows (\<lambda>r i. r\<lparr>cs_id := i\<rparr>) (db_next_course db) cs"
    and "instructors_of i (published_db i f cs iss rs db) =
       number_rows (\<lambda>r i. r\<lparr>cs_id := i\<rparr>) (db_next_instructor db) iss"
proof -
  have ok: "batches_ok (db_batches db)" using assms(1) by (simp add: db_ok_def)
  obtain b where b: "b \<in> set (db_batches db)" "b_id b = i" "is_running b"
    and uniq: "\<And>y. y \<in> set (db_batches db) \<Longrightarrow> b_id y = i \<Longrightarrow> y = b"
    using filter_hits [OF ok assms(2)] by blast
  have "i \<notin> published_ids (db_batches db)"
  proof
    assume "i \<in> published_ids (db_batches db)"
    then obtain y where "y \<in> set (db_batches db)" "is_published y" "b_id y = i"
      by (auto simp: published_ids_def)
    with uniq b running_not_published show False by blast
  qed
  then have "courses_of i db = []" "instructors_of i db = []"
    using assms(1) by (auto simp: courses_of_def instructors_of_def db_ok_def rows_ok_def
        filter_empty_conv)
  moreover have "filter (\<lambda>r. cs_batch_id r = i) (number_rows (\<lambda>r i. r\<lparr>cs_id := i\<rparr>) k cs) =
      number_rows (\<lambda>r i. r\<lparr>cs_id := i\<rparr>) k cs" for k
    using assms(3) by (intro filter_True) (auto dest!: set_number_rows)
  moreover have "filter (\<lambda>r. cs_batch_id r = i) (number_rows (\<lambda>r i. r\<lparr>cs_id := i\<rparr>) k iss) =
      number_rows (\<lambda>r i. r\<lparr>cs_id := i\<rparr>) k iss" for k
    using assms(4) by (intro filter_True) (auto dest!: set_number_rows)
  ultimately show "courses_of i (published_db i f cs iss rs db) =
       number_rows (\<lambda>r i. r\<lparr>cs_id := i\<rparr>) (db_next_course db) cs"
    "instructors_of i (published_db i f cs iss rs db) =
       number_rows (\<lambda>r i. r\<lparr>cs_id := i\<rparr>) (db_next_instructor db) iss"
    by (simp_all add: rows_of_published_db)
qed

lemma publish_batch_success:
  assumes "publish_batch env m b s t db = (db', b', None)"
  obtains cutoff n where "publish_body env m (b_id b) s t db = Inr (db', (cutoff, n))"
    and "env_fault env CommitPublish = None"
    and "b' = mark_published (b_updated_at b) cutoff (source_row_count s)
           (of_nat (length (snapshot_courses s))) n m
           (of_nat (length (snapshot_instructors s))) t b"
  using assms
  by (auto simp: publish_batch_def transaction_def split: sum.splits prod.splits option.splits
      if_splits)


lemma length_publication_counts [simp]:
  "length (course_publication_counts r) = 15" "length (instructor_publication_counts q) = 15"
  by (simp_all add: course_publication_counts_def instructor_publication_counts_def)





section \<open>Cutoffs, atomicity and visibility\<close>

lemma foldl_cutoff_le:
  "foldl (\<lambda>c b. if b_source_cutoff_at b < c then b_source_cutoff_at b else c) c0 bs \<le> c0 \<and>
   (\<forall>b\<in>set bs. foldl (\<lambda>c b. if b_source_cutoff_at b < c then b_source_cutoff_at b else c) c0 bs
      \<le> b_source_cutoff_at b)"
proof (induction bs arbitrary: c0)
  case (Cons b bs)
  from Cons.IH [of "if b_source_cutoff_at b < c0 then b_source_cutoff_at b else c0"]
  show ?case by (auto split: if_splits)
qed simp

lemma earliest_published_cutoff_le:
  assumes "earliest_published_cutoff env ids db = Inr c"
    and "b \<in> set (db_batches db)" and "b_id b \<in> ids" and "is_published b"
  shows "c \<le> b_source_cutoff_at b"
proof -
  let ?found = "filter (\<lambda>b. b_id b \<in> ids \<and> b_status b = batch_status_published) (db_batches db)"
  have b: "b \<in> set ?found" using assms(2-4) by (simp add: is_published_def)
  have "c = foldl (\<lambda>c b. if b_source_cutoff_at b < c then b_source_cutoff_at b else c)
      (b_source_cutoff_at (hd ?found)) (tl ?found)"
    using assms(1) by (auto simp: earliest_published_cutoff_def Let_def split: option.splits if_splits)
  moreover have "b = hd ?found \<or> b \<in> set (tl ?found)"
    using b by (cases ?found) auto
  ultimately show ?thesis
    using foldl_cutoff_le [of "b_source_cutoff_at (hd ?found)" "tl ?found"] by auto
qed

lemma effective_cutoff_le:
  "effective_cutoff c carried \<le> c" "effective_cutoff c (Some d) \<le> d"
  by (simp_all add: effective_cutoff_def split: option.splits)


lemma carried_row_source:
  assumes "db_ok db" and "fair_iter (env_iter env)"
    and "publish_body env m i s t db = Inr (db', (cutoff, n))" and "new \<in> set (courses_of i db')"
  shows "(\<exists>q\<in>set (snapshot_courses s).
       course_partition_key new = course_partition_key (course_entity i q) \<and>
       course_publication_counts new = course_publication_counts (course_entity i q)) \<or>
     (\<exists>ob\<in>set (db_batches db). \<exists>old\<in>set (courses_of (b_id ob) db).
       is_published ob \<and> cutoff \<le> b_source_cutoff_at ob \<and>
       course_partition_key new = course_partition_key old \<and>
       course_publication_counts new = course_publication_counts old)"
proof (rule publish_body_shape [OF assms(1-3)])
  fix cs iss carried rates x z
  assume sup: "suppress_small_publication_deltas env m (course_entities i (snapshot_courses s))
      (instructor_entities i (snapshot_instructors s)) db = Inr (cs, iss, carried)"
    and cutoff: "cutoff = effective_cutoff (source_cutoff_at s) carried"
    and hit: "length (filter (hits i) (db_batches db)) = 1"
    and db': "db' = published_db i (mark_published (env_now env) cutoff (source_row_count s) x
        (count_course_pass_rates rates m) m z t) cs iss rates db"
    and ids: "\<And>r. r \<in> set cs \<Longrightarrow> cs_batch_id r = i" "\<And>r. r \<in> set iss \<Longrightarrow> cs_batch_id r = i"
  have "courses_of i db' = number_rows (\<lambda>r i. r\<lparr>cs_id := i\<rparr>) (db_next_course db) cs"
    unfolding db' by (rule new_rows_of_batch(1)) (use assms(1) hit ids in auto)
  then obtain r k where r: "r \<in> set cs" "new = r\<lparr>cs_id := k\<rparr>"
    using assms(4) by (auto dest!: set_number_rows)
  have same: "course_partition_key new = course_partition_key r"
    "course_publication_counts new = course_publication_counts r"
    by (simp_all add: r(2) course_partition_key_def course_publication_counts_def)
  show ?thesis
  proof (rule suppress_small_Inr [OF sup])
    fix bc bi forced carried_ids
    let ?ents = "course_entities i (snapshot_courses s)"
    let ?idi = "fst (snd (suppress_instructor_rows bi m
      (instructor_entities i (snapshot_instructors s)) {} {}))"
    assume bc: "bc = previous_by_key course_partition_key
        (latest_per_key course_partition_key
           (public_rows cs_batch_id (db_courses db) (db_batches db)))"
      and cs: "cs = map (decided_course_row bc forced m) ?ents"
      and cid: "carried_ids = snd (suppress_course_rows bc forced m ?ents ?idi)"
      and c: "if carried_ids = {} then carried = None
         else \<exists>c. earliest_published_cutoff env carried_ids db = Inr c \<and> carried = Some c"
    obtain q where q: "q \<in> set (snapshot_courses s)"
      "r = decided_course_row bc forced m (course_entity i q)"
      using r(1) cs by (auto simp: course_entities_def)
    show ?thesis
    proof (cases "r = course_entity i q")
      case True
      then show ?thesis using same q(1) by auto
    next
      case False
      let ?e = "course_entity i q"
      from False q(2) obtain old where old: "bc (course_partition_key ?e) = Some old"
        "\<not> cs_valid_count old <s m"
        "course_partition_key ?e \<in> forced \<or> unsafe_course_publication_delta old ?e m"
        "r = copy_course_statistics ?e old"
        by (auto simp: decided_course_row_def split: option.splits if_splits)
      have "?e \<in> set ?ents" using q(1) by (simp add: course_entities_def)
      with old have in_ids: "cs_batch_id old \<in> carried_ids"
        unfolding cid suppress_course_rows_ids by blast
      from old(1) have "old \<in> set (latest_per_key course_partition_key
          (public_rows cs_batch_id (db_courses db) (db_batches db)))"
        and key: "course_partition_key old = course_partition_key ?e"
        unfolding bc by (auto dest: previous_by_key_Some)
      then have "latest_row cs_batch_id course_partition_key (db_courses db) (db_batches db) old"
        by (simp add: latest_row_def)
      then obtain ob where ob: "old \<in> set (db_courses db)" "ob \<in> set (db_batches db)"
        "b_id ob = cs_batch_id old" "public_batch ob"
        unfolding latest_row_iff by blast
      then have pub: "is_published ob" by (simp add: public_batch_def is_published_def)
      obtain c' where "earliest_published_cutoff env carried_ids db = Inr c'" "carried = Some c'"
        using c in_ids by (auto split: if_splits)
      with ob(2,3) in_ids pub have "cutoff \<le> b_source_cutoff_at ob"
        using earliest_published_cutoff_le [of env carried_ids db c' ob]
          effective_cutoff_le(2) [of "source_cutoff_at s" c'] by (simp add: cutoff)
      moreover have "course_partition_key new = course_partition_key old"
        "course_publication_counts new = course_publication_counts old"
        using same key old(4) course_row.partition_replace course_row.counts_replace by simp_all
      moreover have "old \<in> set (courses_of (b_id ob) db)"
        using ob by (simp add: courses_of_def)
      ultimately show ?thesis
        using ob(2) pub by (intro disjI2 bexI [of _ ob] bexI [of _ old]) simp_all
    qed
  qed
qed

section \<open>A concrete history\<close>

definition sample_env :: db_env where
  "sample_env = \<lparr>env_now = 100, env_fault = no_fault, env_applied = False, env_iter = rev\<rparr>"

definition sample_batch :: "uint64 \<Rightarrow> gotime \<Rightarrow> batch" where
  "sample_batch i t = new_batch 5 scheduled_batch_trigger 10 t
     \<lparr>b_id := i, b_created_at := 100, b_updated_at := 100\<rparr>"

definition grown_course :: course_term_aggregate where
  "grown_course = sample_course\<lparr>ct_valid_count := 12, ct_pass_count := 10\<rparr>"

definition sample_db1 :: stats_db where
  "sample_db1 = fst (start_batch sample_env 5 scheduled_batch_trigger 10 20 empty_db)"

definition sample_db2 :: stats_db where
  "sample_db2 = fst (publish_batch sample_env 5 (sample_batch 1 20)
     (sample_snapshot [sample_course]) 30 sample_db1)"

definition sample_db3 :: stats_db where
  "sample_db3 = fst (start_batch sample_env 5 scheduled_batch_trigger 10 40 sample_db2)"

definition sample_db4 :: stats_db where
  "sample_db4 = fst (publish_batch sample_env 5 (sample_batch 2 40)
     (sample_snapshot [grown_course]) 50 sample_db3)"

lemma sample_fair: "fair_iter (env_iter sample_env)"
  by (simp add: fair_iter_def sample_env_def)

lemma sample_steps:
  "db_step empty_db sample_db1" "db_step sample_db1 sample_db2" "db_step sample_db2 sample_db3"
  "db_step sample_db3 sample_db4"
  using sample_fair
  by (auto simp: sample_db1_def sample_db2_def sample_db3_def sample_db4_def
      intro: db_step.start db_step.publish)

lemma sample_reachable: "reachable_db sample_db2" "reachable_db sample_db3"
  using sample_steps by (auto simp: reachable_db_def intro: rtranclp.rtrancl_into_rtrancl)

lemma sample_success:
  "publish_batch sample_env 5 (sample_batch 2 40) (sample_snapshot [grown_course]) 50 sample_db3 =
     (sample_db4, fst (snd (publish_batch sample_env 5 (sample_batch 2 40)
        (sample_snapshot [grown_course]) 50 sample_db3)), None)"
proof -
  have "snd (snd (publish_batch sample_env 5 (sample_batch 2 40)
      (sample_snapshot [grown_course]) 50 sample_db3)) = None"
    by code_simp
  then show ?thesis
    unfolding sample_db4_def by (metis prod.collapse)
qed

section \<open>Properties of the store\<close>

text \<open>
  C21: whatever batches are started, failed and published, with any statement failing at any time,
  no published batch ever disappears or changes, and none of its course, instructor or projection
  rows does: readers of a publication always see what was published.
\<close>

theorem published_batches_are_immutable:
  assumes "reachable_db db" and "db_step\<^sup>*\<^sup>* db db'" and "b \<in> set (db_batches db)"
    and "is_published b"
  shows "b \<in> set (db_batches db') \<and> courses_of (b_id b) db' = courses_of (b_id b) db \<and>
     instructors_of (b_id b) db' = instructors_of (b_id b) db \<and>
     rates_of (b_id b) db' = rates_of (b_id b) db"
  using db_steps_ok [OF assms(2) reachable_db_ok [OF assms(1)]] assms(3,4)
  by (simp add: keeps_published_def)

theorem published_batches_are_immutable_witness:
  "map cs_valid_count (courses_of 1 sample_db4) = [10] \<and> courses_of 1 sample_db4 \<noteq> []"
proof -
  have "is_published (hd (db_batches sample_db2))" "b_id (hd (db_batches sample_db2)) = 1"
    "db_batches sample_db2 \<noteq> []" "map cs_valid_count (courses_of 1 sample_db2) = [10]"
    by code_simp+
  moreover have "db_step\<^sup>*\<^sup>* sample_db2 sample_db4"
    using sample_steps by (auto intro: rtranclp.rtrancl_into_rtrancl)
  ultimately show ?thesis
    using published_batches_are_immutable
      [OF sample_reachable(1), of sample_db4 "hd (db_batches sample_db2)"]
    by (cases "courses_of 1 sample_db4") auto
qed

text \<open>
  C24: in every reachable database at most one batch is running, only published batches have rows,
  a batch carries a publication time exactly when it is published, no cohort occurs twice in a
  publication, and the projection count cached in a published batch is the number of its
  projection rows that reach its own sample minimum.
\<close>

theorem reachable_tables_are_consistent:
  assumes "reachable_db db"
  shows "length (filter is_running (db_batches db)) \<le> 1 \<and>
     cs_batch_id ` set (db_courses db) \<subseteq> published_ids (db_batches db) \<and>
     cs_batch_id ` set (db_instructors db) \<subseteq> published_ids (db_batches db) \<and>
     pr_batch_id ` set (db_projections db) \<subseteq> published_ids (db_batches db) \<and>
     distinct (map (\<lambda>r. (cs_batch_id r, course_partition_key r)) (db_courses db)) \<and>
     (\<forall>b\<in>set (db_batches db). (is_published b \<longleftrightarrow> b_published_at b \<noteq> None) \<and>
        (is_published b \<longrightarrow> b_course_pass_rate_count b =
           of_nat (length (filter (\<lambda>r. b_minimum_sample_size b \<le>s pr_valid_count r)
             (rates_of (b_id b) db)))))"
  using reachable_db_ok [OF assms]
  by (auto simp: db_ok_def batches_ok_def rows_ok_def counts_ok_def batch_ok_def
      count_course_pass_rates_eq)

theorem reachable_tables_are_consistent_witness:
  "length (filter is_running (db_batches sample_db3)) = 1 \<and>
   cs_batch_id ` set (db_courses sample_db3) \<subseteq> published_ids (db_batches sample_db3)"
proof -
  have "length (filter is_running (db_batches sample_db3)) = 1" by code_simp
  then show ?thesis
    using reachable_tables_are_consistent [OF sample_reachable(2)] by blast
qed



text \<open>
  C23: every course row of a successful publication is either computed from the snapshot or repeats
  the counts an earlier publication showed for the same cohort, and then the cutoff the new batch
  announces is no later than that publication's cutoff; it is never later than the snapshot's.
\<close>

theorem carried_rows_bound_the_cutoff:
  assumes "reachable_db db" and "fair_iter (env_iter env)"
    and "publish_batch env m b s t db = (db', b', None)"
  shows "b_source_cutoff_at b' \<le> source_cutoff_at s \<and>
     (\<forall>new\<in>set (courses_of (b_id b) db').
        (\<exists>q\<in>set (snapshot_courses s).
           course_partition_key new = course_partition_key (course_entity (b_id b) q) \<and>
           course_publication_counts new = course_publication_counts (course_entity (b_id b) q)) \<or>
        (\<exists>ob\<in>set (db_batches db). \<exists>old\<in>set (courses_of (b_id ob) db).
           is_published ob \<and> b_source_cutoff_at b' \<le> b_source_cutoff_at ob \<and>
           course_partition_key new = course_partition_key old \<and>
           course_publication_counts new = course_publication_counts old))"
proof -
  note ok = reachable_db_ok [OF assms(1)]
  obtain cutoff n where body: "publish_body env m (b_id b) s t db = Inr (db', (cutoff, n))"
    and c: "b_source_cutoff_at b' = cutoff"
    using publish_batch_success [OF assms(3)] by (metis mark_published_simps(5))
  have "cutoff \<le> source_cutoff_at s"
    by (rule publish_body_shape [OF ok assms(2) body]) (simp add: effective_cutoff_le)
  then show ?thesis
    unfolding c using carried_row_source [OF ok assms(2) body] by blast
qed

theorem carried_rows_bound_the_cutoff_witness:
  "b_source_cutoff_at (fst (snd (publish_batch sample_env 5 (sample_batch 2 40)
      (sample_snapshot [grown_course]) 50 sample_db3))) \<le> source_cutoff_at (sample_snapshot [])"
  using carried_rows_bound_the_cutoff [OF sample_reachable(2) sample_fair sample_success]
  by (simp add: sample_snapshot_def)




end
