(* ===== verification/StatsManager.thy ===== *)
theory StatsManager
  imports StatsStore GoContext Runes
begin

text \<open>
  \<^verbatim>\<open>academic_statistics/application/manager.go\<close> over the store of \<open>StatsStore\<close>, with the run lock of
  \<^verbatim>\<open>store.go\<close> (\<^verbatim>\<open>MySQLRunLocker\<close>): one aggregation run from the lock to its release.

  The world is the database, the session that holds the named lock, the step number and the events
  of the run. What other workers do between two steps, the clock, the answers of the server, of the
  aggregate source and of the context are functions of the step in \<open>manager_env\<close>. A statement sent
  with a context that is done fails with the error of the context.
\<close>

section \<open>The world of a run\<close>

datatype manager_event =
    LockTaken
  | LockReleased "err option"
  | BatchStarted uint64 bool
    \<comment> \<open>the batch, and whether it was published before\<close>
  | AggregateRead bool
    \<comment> \<open>whether the source gave a snapshot that validates\<close>
  | PublishTried uint64 "err option"
  | FailureNoted uint64 "err option"

text \<open>The session of this run is number 0; other sessions have other numbers.\<close>

definition our_session :: nat where "our_session = 0"

record mworld =
  m_step :: nat
  m_db :: stats_db
  m_lock :: "nat option"
  m_events :: "manager_event list"

text \<open>The answer to \<^verbatim>\<open>GET_LOCK\<close> and \<^verbatim>\<open>RELEASE_LOCK\<close>: the number, SQL NULL, or an error.\<close>

datatype lock_answer = LockAnswer | LockNull | LockFault err

record manager_env =
  me_db :: "nat \<Rightarrow> db_env"
  me_now :: "nat \<Rightarrow> gotime"
  me_timer :: "nat \<Rightarrow> bool"
  me_open :: "nat \<Rightarrow> err option"
  me_lock :: "nat \<Rightarrow> lock_answer"
  me_close :: "nat \<Rightarrow> err option"
  me_aggregate :: "nat \<Rightarrow> err + snapshot"
  me_others :: "nat \<Rightarrow> nat option \<times> stats_db \<Rightarrow> nat option \<times> stats_db"
  me_minimum :: int64
  me_configured :: bool
    \<comment> \<open>whether \<^verbatim>\<open>WithRunner\<close> attached a source and a locker\<close>

definition manager_clock :: "manager_env \<Rightarrow> mworld clock" where
  "manager_clock env =
     \<lparr>ck_now = (\<lambda>w. me_now env (m_step w)), ck_timer = (\<lambda>w. me_timer env (m_step w)),
      ck_step = m_step\<rparr>"

definition log_event :: "manager_event \<Rightarrow> mworld \<Rightarrow> mworld" where
  "log_event e w = w\<lparr>m_events := m_events w @ [e]\<rparr>"

text \<open>Others act, then the next call of this run reaches the server.\<close>

definition others_act :: "manager_env \<Rightarrow> mworld \<Rightarrow> mworld" where
  "others_act env w =
     (let (holder, db) = me_others env (m_step w) (m_lock w, m_db w)
      in w\<lparr>m_step := m_step w + 1, m_lock := holder, m_db := db\<rparr>)"

definition statement_env :: "manager_env \<Rightarrow> go_ctx \<Rightarrow> mworld \<Rightarrow> db_env" where
  "statement_env env cx w =
     (case context_err (manager_clock env) cx w of
        None \<Rightarrow> me_db env (m_step w)
      | Some c \<Rightarrow> (me_db env (m_step w))\<lparr>env_fault := (\<lambda>_. Some c)\<rparr>)"

section \<open>The run lock\<close>

text \<open>A session that ends gives its lock back.\<close>

definition end_session :: "mworld \<Rightarrow> mworld" where
  "end_session w = (if m_lock w = Some our_session then w\<lparr>m_lock := None\<rparr> else w)"

definition try_lock :: "manager_env \<Rightarrow> mworld \<Rightarrow> mworld \<times> (err + bool)" where
  "try_lock env w =
     (let w1 = others_act env w
      in case me_open env (m_step w1) of
           Some e \<Rightarrow> (w1, Inl (wrapf ''open lock connection'' e))
         | None \<Rightarrow>
             (let w2 = others_act env w1
              in case me_lock env (m_step w2) of
                   LockFault e \<Rightarrow> (end_session w2, Inl (wrapf ''acquire named lock'' e))
                 | answer \<Rightarrow>
                     if answer = LockAnswer \<and> m_lock w2 = None
                     then (log_event LockTaken (w2\<lparr>m_lock := Some our_session\<rparr>), Inr True)
                     else (w2, case me_close env (m_step w2) of
                                 Some e \<Rightarrow> Inl e | None \<Rightarrow> Inr False)))"

text \<open>The closure \<^verbatim>\<open>TryLock\<close> returns; the manager calls it once.\<close>

definition release_lock :: "manager_env \<Rightarrow> mworld \<Rightarrow> mworld \<times> err option" where
  "release_lock env w =
     (let w1 = others_act env w;
          (w2, e) =
            (case me_lock env (m_step w1) of
               LockFault f \<Rightarrow> (end_session w1, Some (wrapf ''release named lock'' f))
             | LockNull \<Rightarrow> (end_session w1, Some (Opaque ''release named lock returned''))
             | LockAnswer \<Rightarrow>
                 if m_lock w1 = Some our_session
                 then (w1\<lparr>m_lock := None\<rparr>, errors_join [None, me_close env (m_step w1)])
                 else (end_session w1, Some (Opaque ''release named lock returned'')))
      in (log_event (LockReleased e) w2, e))"

section \<open>One run\<close>

record run_result =
  rr_batch_id :: uint64
  rr_source_cutoff_at :: gotime
  rr_source_row_count :: int64
  rr_course_stat_count :: int64
  rr_instructor_stat_count :: int64

definition no_result :: run_result where
  "no_result = \<lparr>rr_batch_id = 0, rr_source_cutoff_at = 0, rr_source_row_count = 0,
     rr_course_stat_count = 0, rr_instructor_stat_count = 0\<rparr>"

definition result_from_batch :: "batch \<Rightarrow> run_result" where
  "result_from_batch b =
     \<lparr>rr_batch_id = b_id b, rr_source_cutoff_at = b_source_cutoff_at b,
      rr_source_row_count = b_source_row_count b, rr_course_stat_count = b_course_stat_count b,
      rr_instructor_stat_count = b_instructor_stat_count b\<rparr>"

text \<open>\<^verbatim>\<open>context.WithoutCancel\<close> keeps only the values of a context, so the budget starts anew.\<close>

definition manager_fail_batch ::
    "manager_env \<Rightarrow> uint64 \<Rightarrow> string \<Rightarrow> mworld \<Rightarrow> mworld \<times> err option" where
  "manager_fail_batch env batch_id summary w =
     (let failure_cx = context_with_timeout (manager_clock env) background (10 * second) w;
          w1 = others_act env w;
          (db', e) = fail_batch (statement_env env failure_cx w1) batch_id
            (me_now env (m_step w1)) summary (m_db w1)
      in (log_event (FailureNoted batch_id e) (w1\<lparr>m_db := db'\<rparr>),
          map_option (wrapf ''record failed academic statistics batch'') e))"

text \<open>The three error exits of a run: the batch is marked failed and both errors are joined.\<close>

definition abandon_run ::
    "manager_env \<Rightarrow> uint64 \<Rightarrow> string \<Rightarrow> err \<Rightarrow> mworld \<Rightarrow> mworld \<times> run_result \<times> err option" where
  "abandon_run env batch_id summary e w =
     (let (w1, failure) = manager_fail_batch env batch_id summary w
      in (w1, no_result\<lparr>rr_batch_id := batch_id\<rparr>, errors_join [Some e, failure]))"

definition publish_run ::
    "manager_env \<Rightarrow> go_ctx \<Rightarrow> batch \<Rightarrow> snapshot \<Rightarrow> mworld \<Rightarrow> mworld \<times> run_result \<times> err option"
where
  "publish_run env cx b s w =
     (let w1 = others_act env w;
          (db', b', e) = publish_batch (statement_env env cx w1) (me_minimum env) b s
            (me_now env (m_step w1)) (m_db w1);
          w2 = log_event (PublishTried (b_id b) e) (w1\<lparr>m_db := db'\<rparr>)
      in case e of
           Some f \<Rightarrow> abandon_run env (b_id b) ''statistics publication failed''
                       (wrapf ''publish academic statistics batch'' f) w2
         | None \<Rightarrow> (w2, result_from_batch b', None))"

definition aggregate_run ::
    "manager_env \<Rightarrow> go_ctx \<Rightarrow> batch \<Rightarrow> mworld \<Rightarrow> mworld \<times> run_result \<times> err option" where
  "aggregate_run env cx b w =
     (let w1 = others_act env w
      in case me_aggregate env (m_step w1) of
           Inl e \<Rightarrow>
             abandon_run env (b_id b) ''source aggregation failed''
               (wrapf ''aggregate source grades'' e) (log_event (AggregateRead False) w1)
         | Inr s \<Rightarrow>
             (case snapshot_validate s of
                Some e \<Rightarrow>
                  abandon_run env (b_id b) ''source aggregate validation failed''
                    (wrapf ''validate source aggregate'' e) (log_event (AggregateRead False) w1)
              | None \<Rightarrow> publish_run env cx b s (log_event (AggregateRead True) w1)))"

definition run_locked ::
    "manager_env \<Rightarrow> go_ctx \<Rightarrow> batch_trigger \<Rightarrow> mworld \<Rightarrow> mworld \<times> run_result \<times> err option" where
  "run_locked env cx trigger w =
     (let started_at = me_now env (m_step w);
          w1 = others_act env w;
          (db', r) = start_batch (statement_env env cx w1) (me_minimum env) trigger started_at
            started_at (m_db w1);
          w2 = w1\<lparr>m_db := db'\<rparr>
      in case r of
           Inl e \<Rightarrow> (w2, no_result, Some (wrapf ''start academic statistics batch'' e))
         | Inr b \<Rightarrow>
             (let published = (b_status b = batch_status_published);
                  w3 = log_event (BatchStarted (b_id b) published) w2
              in if published then (w3, result_from_batch b, None)
                 else aggregate_run env cx b w3))"

definition with_run_lock ::
    "manager_env \<Rightarrow> 'r \<Rightarrow> (mworld \<Rightarrow> mworld \<times> 'r \<times> err option) \<Rightarrow> mworld \<Rightarrow>
     mworld \<times> 'r \<times> err option" where
  "with_run_lock env zero run w =
     (if \<not> me_configured env
      then (w, zero, Some (Opaque ''academic statistics runner is not configured''))
      else case try_lock env w of
             (w1, Inl e) \<Rightarrow> (w1, zero, Some (wrapf ''lock academic statistics aggregation'' e))
           | (w1, Inr False) \<Rightarrow> (w1, zero, Some (Sentinel ErrRunAlreadyLocked))
           | (w1, Inr True) \<Rightarrow>
               (let (w2, r, run_err) = run w1; (w3, release_err) = release_lock env w2
                in (w3, r, errors_join [run_err,
                      map_option (wrapf ''release academic statistics aggregation lock'')
                        release_err])))"

definition manager_run_trigger ::
    "manager_env \<Rightarrow> go_ctx \<Rightarrow> batch_trigger \<Rightarrow> mworld \<Rightarrow> mworld \<times> run_result \<times> err option" where
  "manager_run_trigger env cx trigger w =
     with_run_lock env no_result (run_locked env cx trigger) w"

definition manager_run :: "manager_env \<Rightarrow> go_ctx \<Rightarrow> mworld \<Rightarrow> mworld \<times> err option" where
  "manager_run env cx w =
     (let (w', _, e) = manager_run_trigger env cx scheduled_batch_trigger w in (w', e))"

definition run_manual ::
    "manager_env \<Rightarrow> go_ctx \<Rightarrow> uint64 \<Rightarrow> string \<Rightarrow> string \<Rightarrow> mworld \<Rightarrow> mworld \<times> err option" where
  "run_manual env cx actor_id text task_id w =
     (let (w', _, e) = manager_run_trigger env cx (manual_batch_trigger actor_id text task_id) w
      in (w', e))"

definition run_operational ::
    "manager_env \<Rightarrow> go_ctx \<Rightarrow> string \<Rightarrow> string \<Rightarrow> mworld \<Rightarrow> mworld \<times> run_result \<times> err option" where
  "run_operational env cx text task_id w =
     (let text = trim_space text; task_id = trim_space task_id
      in if text = '''' \<or> 200 < rune_count text
         then (w, no_result,
               Some (Opaque ''academic statistics operation note must contain 1 to 200 characters''))
         else if task_id = '''' \<or> 96 < length task_id
         then (w, no_result,
               Some (Opaque ''academic statistics operation task ID must contain 1 to 96 bytes''))
         else manager_run_trigger env cx (operational_batch_trigger text task_id) w)"

section \<open>The protocol of a run\<close>


text \<open>
  What the other workers may do: a living session keeps its lock, nobody acts in the name of our
  session, the database changes only through the store, and not at all while we hold the lock.
\<close>

definition polite :: "manager_env \<Rightarrow> bool" where
  "polite env \<longleftrightarrow>
     (\<forall>n. fair_iter (env_iter (me_db env n))) \<and>
     (\<forall>n holder db. case me_others env n (holder, db) of (holder', db') \<Rightarrow>
        (holder = Some our_session \<longrightarrow> holder' = Some our_session \<and> db' = db) \<and>
        (holder \<noteq> Some our_session \<longrightarrow> holder' \<noteq> Some our_session) \<and> db_step\<^sup>*\<^sup>* db db')"

section \<open>Facts\<close>

lemma log_event_simps [simp]:
  "m_events (log_event e w) = m_events w @ [e]" "m_db (log_event e w) = m_db w"
  "m_lock (log_event e w) = m_lock w" "m_step (log_event e w) = m_step w"
  by (simp_all add: log_event_def)

lemma end_session_simps [simp]:
  "m_events (end_session w) = m_events w" "m_db (end_session w) = m_db w"
  "m_lock (end_session w) = (if m_lock w = Some our_session then None else m_lock w)"
  by (simp_all add: end_session_def)

lemma others_act_events [simp]: "m_events (others_act env w) = m_events w"
  by (simp add: others_act_def split: prod.splits)

lemma others_act_polite:
  assumes "polite env"
  shows "(m_lock (others_act env w) = Some our_session) = (m_lock w = Some our_session)"
    and "m_lock w = Some our_session \<Longrightarrow> m_db (others_act env w) = m_db w"
    and "db_step\<^sup>*\<^sup>* (m_db w) (m_db (others_act env w))"
proof -
  obtain h d where o: "me_others env (m_step w) (m_lock w, m_db w) = (h, d)"
    by (cases "me_others env (m_step w) (m_lock w, m_db w)")
  have "(m_lock w = Some our_session \<longrightarrow> h = Some our_session \<and> d = m_db w) \<and>
      (m_lock w \<noteq> Some our_session \<longrightarrow> h \<noteq> Some our_session) \<and> db_step\<^sup>*\<^sup>* (m_db w) d"
    using assms o unfolding polite_def by (metis (mono_tags, lifting) case_prod_conv)
  with o show "(m_lock (others_act env w) = Some our_session) = (m_lock w = Some our_session)"
    and "m_lock w = Some our_session \<Longrightarrow> m_db (others_act env w) = m_db w"
    and "db_step\<^sup>*\<^sup>* (m_db w) (m_db (others_act env w))"
    by (auto simp: others_act_def)
qed

lemma statement_env_iter [simp]:
  "env_iter (statement_env env cx w) = env_iter (me_db env (m_step w))"
  by (simp add: statement_env_def split: option.splits)

lemma statement_env_fair: "polite env \<Longrightarrow> fair_iter (env_iter (statement_env env cx w))"
  by (simp add: polite_def)

text \<open>The part of a run between two worlds: its events and what it left in the database.\<close>

lemma manager_fail_batch_run:
  assumes "manager_fail_batch env i msg w = (w', e)"
  shows "\<exists>x. m_events w' = m_events w @ [FailureNoted i x] \<and> (x = None) = (e = None)"
  using assms by (auto simp: manager_fail_batch_def Let_def split: prod.splits)

lemma manager_fail_batch_lock:
  assumes "manager_fail_batch env i msg w = (w', e)" and "polite env"
  shows "(m_lock w' = Some our_session) = (m_lock w = Some our_session)"
  using assms by (auto simp: manager_fail_batch_def Let_def others_act_polite split: prod.splits)

lemma errors_join_Some [simp]: "\<exists>y. errors_join (Some e # es) = Some y"
  using errors_join_None [of "Some e # es"] by (cases "errors_join (Some e # es)") simp_all

lemma abandon_run_events:
  assumes "abandon_run env i msg e w = (w', r, e')"
  shows "\<exists>x. m_events w' = m_events w @ [FailureNoted i x] \<and> e' \<noteq> None"
  using assms manager_fail_batch_run [of env i msg w]
  by (auto simp: abandon_run_def split: prod.splits)




section \<open>What the run leaves in the database\<close>

definition recorded_failure :: "uint64 \<Rightarrow> stats_db \<Rightarrow> bool" where
  "recorded_failure i db \<longleftrightarrow>
     (\<exists>b\<in>set (db_batches db). b_id b = i \<and> b_status b = batch_status_failed \<and>
        b_error_summary b \<noteq> None \<and> b_finished_at b \<noteq> None) \<and>
     (\<forall>b\<in>set (db_batches db). \<not> is_running b)"

definition published_since :: "uint64 \<Rightarrow> gotime \<Rightarrow> stats_db \<Rightarrow> bool" where
  "published_since i t db \<longleftrightarrow>
     (\<exists>b\<in>set (db_batches db). b_id b = i \<and> public_batch b \<and> b_published_at b = Some t)"

definition started_batch :: "batch \<Rightarrow> stats_db \<Rightarrow> bool" where
  "started_batch b db \<longleftrightarrow> b \<in> set (db_batches db) \<and> is_running b \<and> b_rule_version b = rule_version"

lemma only_one_running:
  assumes "batches_ok bs" and "x \<in> set bs" and "y \<in> set bs" and "is_running x" and "is_running y"
  shows "x = y"
proof -
  have "length (filter is_running bs) \<le> 1" using assms(1) by (simp add: batches_ok_def)
  then obtain z where "set (filter is_running bs) \<subseteq> {z}"
    by (cases "filter is_running bs") auto
  with assms(2-5) show ?thesis by auto
qed

lemma fail_batch_records:
  assumes "db_ok db" and "fail_batch env i t summary db = (db', None)"
  shows "recorded_failure i db'"
proof -
  let ?f = "\<lambda>b. b\<lparr>b_status := batch_status_failed,
      b_error_summary := Some (truncate_bytes summary 1000), b_finished_at := Some t,
      b_updated_at := env_now env\<rparr>"
  have ok: "batches_ok (db_batches db)" using assms(1) by (simp add: db_ok_def)
  have h: "(\<lambda>b. b_id b = i \<and> b_status b = batch_status_running) = hits i"
    by (simp add: fun_eq_iff hits_def)
  from assms(2) have one: "length (filter (hits i) (db_batches db)) = 1"
    and db': "db_batches db' = map (\<lambda>b. if hits i b then ?f b else b) (db_batches db)"
    by (auto simp: fail_batch_def update_running_def h Let_def hits_def
        split: option.splits if_splits)
  obtain b where b: "b \<in> set (db_batches db)" "b_id b = i" "is_running b"
    using filter_hits [OF ok one] by blast
  have failed: "\<not> is_running (?f x)" for x by (simp add: is_running_def)
  have "\<not> is_running x" if "x \<in> set (db_batches db')" for x
  proof -
    from that obtain y where y: "y \<in> set (db_batches db)" "x = (if hits i y then ?f y else y)"
      unfolding db' by auto
    show ?thesis
    proof (cases "hits i y")
      case False
      with only_one_running [OF ok y(1) b(1) _ b(3)] b(2) y(2) show ?thesis
        by (auto simp: hits_running)
    qed (use y failed in simp)
  qed
  moreover have "?f b \<in> set (db_batches db')"
    unfolding db' using b by (auto simp: hits_running image_iff intro!: bexI [of _ b])
  ultimately show ?thesis
    using b(2) unfolding recorded_failure_def by (intro conjI bexI [of _ "?f b"]) simp_all
qed

lemma publish_makes_public:
  assumes "db_ok db" and "fair_iter (env_iter env)" and "started_batch b db"
    and "publish_batch env m b s t db = (db', b', None)"
  shows "published_since (b_id b) t db'"
proof -
  obtain cutoff n where body: "publish_body env m (b_id b) s t db = Inr (db', (cutoff, n))"
    using publish_batch_success [OF assms(4)] by metis
  show ?thesis
  proof (rule publish_body_shape [OF assms(1,2) body])
    fix cs iss rates x z
    let ?mark = "mark_published (env_now env) cutoff (source_row_count s) x
        (count_course_pass_rates rates m) m z t"
    assume db': "db' = published_db (b_id b) ?mark cs iss rates db"
    have "?mark b \<in> set (db_batches db')"
      using assms(3) by (auto simp: db' published_db_def started_batch_def hits_running image_iff
          intro!: bexI [of _ b])
    moreover have "public_batch (?mark b)"
      using assms(3) by (simp add: public_batch_def started_batch_def flip: is_published_def)
    ultimately show ?thesis
      unfolding published_since_def by (intro bexI [of _ "?mark b"]) simp_all
  qed
qed

text \<open>What \<^verbatim>\<open>StartBatch\<close> returns is in the database, and belongs to the task asked for.\<close>

lemma create_or_fail_result:
  assumes "create_or_fail env (new_batch m trigger c t) db = Inr (db', r)"
  shows "started_batch r db' \<and> b_trigger_task_id r = bt_task_id trigger \<and>
     (bt_task_id trigger \<noteq> None \<longrightarrow>
        bt_task_id trigger \<notin> b_trigger_task_id ` set (db_batches db))"
  using assms
  by (auto simp: create_or_fail_def create_batch_def Let_def started_batch_def new_batch_def
      is_running_def split: option.splits if_splits)

lemma save_batch_result:
  assumes "e \<in> set (db_batches db)" and "b_trigger_task_id e = Some task"
    and "save_batch now (reset_batch e (new_batch m trigger c t)) db = (db', r)"
  shows "started_batch r db' \<and> b_trigger_task_id r = Some task"
proof -
  have "b_id (reset_batch e (new_batch m trigger c t)) = b_id e" by (simp add: reset_batch_def)
  with assms show ?thesis
    by (auto simp: save_batch_def Let_def started_batch_def reset_batch_def new_batch_def
        is_running_def image_iff intro!: bexI [of _ e])
qed

lemma find_task_batch:
  "find_task t db = Some b \<Longrightarrow> b \<in> set (db_batches db) \<and> b_trigger_task_id b = Some t"
  by (auto simp: find_task_def find_Some_iff)

lemma start_body_result:
  assumes "start_body env m trigger c t db = Inr (db', r)"
  shows "(started_batch r db' \<and> b_trigger_task_id r = bt_task_id trigger \<or>
      r \<in> set (db_batches db') \<and> is_published r \<and> bt_task_id trigger \<noteq> None \<and>
      b_trigger_task_id r = bt_task_id trigger)"
  using start_body_continue [OF assms]
proof (cases rule: continue_start_cases)
  case create
  from create_or_fail_result [OF this] show ?thesis by blast
next
  case found
  then show ?thesis by (auto dest: find_task_batch)
next
  case (save task e)
  from find_task_batch [OF save(2)] save_batch_result [OF _ _ save(4)] save(1) show ?thesis
    by simp
qed

lemma start_batch_result:
  assumes "start_batch env m trigger c t db = (db', Inr r)"
  shows "(started_batch r db' \<and> b_trigger_task_id r = bt_task_id trigger \<or>
      r \<in> set (db_batches db') \<and> is_published r \<and> bt_task_id trigger \<noteq> None \<and>
      b_trigger_task_id r = bt_task_id trigger)"
  using assms start_body_result
  by (fastforce simp: start_batch_def transaction_def split: sum.splits prod.splits option.splits)

text \<open>A task belongs to one batch, so the batch of a published task is the one returned.\<close>

lemma task_unique:
  assumes "batches_ok bs" and "x \<in> set bs" and "y \<in> set bs"
    and "b_trigger_task_id x = Some t" and "b_trigger_task_id y = Some t"
  shows "x = y"
proof -
  have "distinct (filter (\<lambda>t. t \<noteq> None) (map b_trigger_task_id bs))"
    using assms(1) by (simp add: batches_ok_def)
  then have "inj_on b_trigger_task_id (set (filter (\<lambda>b. b_trigger_task_id b \<noteq> None) bs))"
    by (simp add: filter_map o_def distinct_map)
  with assms(2-) show ?thesis unfolding inj_on_def by auto
qed

lemma start_batch_of_published_task:
  assumes ok: "db_ok db" and b: "b \<in> set (db_batches db)" "is_published b"
    and task: "b_trigger_task_id b = Some task" "bt_task_id trigger = Some task"
    and start: "start_batch env m trigger c t db = (db', Inr r)"
  shows "r = b"
proof -
  have db': "db_ok db'" "keeps_published db db'"
    using start_batch_ok [OF ok, of env m trigger c t] start by simp_all
  with b have "b \<in> set (db_batches db')" by (simp add: keeps_published_def)
  moreover have "r \<in> set (db_batches db')" "b_trigger_task_id r = Some task"
    using start_batch_result [OF start] task by (auto simp: started_batch_def)
  ultimately show ?thesis
    using db'(1) task task_unique unfolding db_ok_def by blast
qed

section \<open>A run that holds the lock\<close>

text \<open>
  \<open>run_leaves env w w' body\<close>: from \<open>w\<close> to \<open>w'\<close> the run made the events \<open>body\<close>, kept the lock,
  changed the database only by operations of the store, and every failure it noted without an
  error is recorded.
\<close>

definition run_leaves :: "mworld \<Rightarrow> mworld \<Rightarrow> manager_event list \<Rightarrow> bool" where
  "run_leaves w w' body \<longleftrightarrow>
     m_events w' = m_events w @ body \<and> m_lock w' = Some our_session \<and> m_step w \<le> m_step w' \<and>
     db_step\<^sup>*\<^sup>* (m_db w) (m_db w') \<and>
     (\<forall>i. FailureNoted i None \<in> set body \<longrightarrow> recorded_failure i (m_db w'))"

lemma others_act_step [simp]: "m_step (others_act env w) = m_step w + 1"
  by (simp add: others_act_def split: prod.splits)

text \<open>Only the last event of a run notes a failure, so what follows keeps it recorded.\<close>

lemma run_leaves_then:
  assumes "run_leaves w w' body" and "m_events w1 @ extra = m_events w"
    and "m_step w1 \<le> m_step w" and "db_step\<^sup>*\<^sup>* (m_db w1) (m_db w)"
    and "\<forall>i. FailureNoted i None \<notin> set extra"
  shows "run_leaves w1 w' (extra @ body)"
  using assms unfolding run_leaves_def by (auto intro: rtranclp_trans)

lemma abandon_run_leaves:
  assumes "polite env" and "m_lock w = Some our_session" and "db_ok (m_db w)"
    and "abandon_run env i msg e w = (w', r, e')"
  shows "\<exists>x. run_leaves w w' [FailureNoted i x]"
proof -
  let ?w1 = "others_act env w"
  note o = others_act_polite [OF assms(1)]
  obtain x db' where f: "fail_batch (statement_env env (context_with_timeout (manager_clock env)
        background (10 * second) w) ?w1) i (me_now env (m_step ?w1)) msg (m_db ?w1) = (db', x)"
    by fastforce
  with assms(4) have w': "w' = log_event (FailureNoted i x) (?w1\<lparr>m_db := db'\<rparr>)"
    by (auto simp: abandon_run_def manager_fail_batch_def Let_def split: prod.splits)
  have "db_step (m_db w) db'"
    using db_step.fail f o(2) [OF assms(2)] by (metis fst_conv)
  moreover have "recorded_failure i db'" if "x = None"
    using fail_batch_records [of "m_db ?w1"] f that o(2) [OF assms(2)] assms(3) by simp
  ultimately have "run_leaves w w' [FailureNoted i x]"
    using assms(2) o(1) by (simp add: run_leaves_def w')
  then show ?thesis by blast
qed

lemma publish_run_leaves:
  assumes "polite env" and "m_lock w = Some our_session" and "db_ok (m_db w)"
    and "started_batch b (m_db w)" and "publish_run env cx b s w = (w', r, e)"
  shows "\<exists>body. run_leaves w w' body \<and>
     (e = None \<longrightarrow> (\<exists>n\<ge>m_step w. published_since (rr_batch_id r) (me_now env n) (m_db w')))"
proof -
  let ?w1 = "others_act env w"
  note o = others_act_polite [OF assms(1)]
  have same: "m_db ?w1 = m_db w" using o(2) assms(2) by blast
  obtain db' b' x where p: "publish_batch (statement_env env cx ?w1) (me_minimum env) b s
        (me_now env (m_step ?w1)) (m_db ?w1) = (db', b', x)"
    by (metis prod_cases3)
  let ?w2 = "log_event (PublishTried (b_id b) x) (?w1\<lparr>m_db := db'\<rparr>)"
  have step: "db_step (m_db w) db'"
    using db_step.publish [OF statement_env_fair [OF assms(1)]] p same by (metis fst_conv)
  have w2: "m_lock ?w2 = Some our_session" "db_ok (m_db ?w2)"
    using o(1) assms(2) db_step_ok [OF step assms(3)] by simp_all
  show ?thesis
  proof (cases x)
    case (Some f)
    let ?f = "wrapf ''publish academic statistics batch'' f"
    have run: "abandon_run env (b_id b) ''statistics publication failed'' ?f ?w2 = (w', r, e)"
      using assms(5) p Some by (simp add: publish_run_def Let_def)
    from abandon_run_leaves [OF assms(1) w2 run] obtain y where
      "run_leaves ?w2 w' [FailureNoted (b_id b) y]" by blast
    then have "run_leaves w w' ([PublishTried (b_id b) x] @ [FailureNoted (b_id b) y])"
      by (rule run_leaves_then) (use step in simp_all)
    moreover have "e \<noteq> None"
      using abandon_run_events [OF run] by blast
    ultimately show ?thesis by blast
  next
    case None
    have "publish_run env cx b s w = (?w2, result_from_batch b', None)"
      unfolding publish_run_def Let_def p by (simp add: None)
    from trans [OF sym [OF assms(5)] this] have w': "w' = ?w2" "r = result_from_batch b'"
      unfolding prod.inject by blast+
    have "b_id b' = b_id b" using publish_batch_success [OF p [unfolded None]] by (metis mark_published_simps(1))
    moreover have "published_since (b_id b) (me_now env (m_step ?w1)) db'"
      by (rule publish_makes_public [OF _ statement_env_fair [OF assms(1)]])
         (use p None same assms(3,4) in simp_all)
    moreover have "run_leaves w w' [PublishTried (b_id b) x]"
      using w2 step by (simp add: run_leaves_def w')
    ultimately show ?thesis
      by (intro exI conjI impI) (auto simp: w' result_from_batch_def intro!: exI [of _ "m_step ?w1"])
  qed
qed

lemma aggregate_run_leaves:
  assumes "polite env" and "m_lock w = Some our_session" and "db_ok (m_db w)"
    and "started_batch b (m_db w)" and "aggregate_run env cx b w = (w', r, e)"
  shows "\<exists>body. run_leaves w w' body \<and>
     (e = None \<longrightarrow> (\<exists>n\<ge>m_step w. published_since (rr_batch_id r) (me_now env n) (m_db w')))"
proof -
  let ?w1 = "\<lambda>ok. log_event (AggregateRead ok) (others_act env w)"
  note o = others_act_polite [OF assms(1)]
  have w1: "m_lock (?w1 ok) = Some our_session" "m_db (?w1 ok) = m_db w" for ok
    using o(1,2) assms(2) by simp_all
  have then_leaves: "run_leaves w w' ([AggregateRead ok] @ body)"
    if "run_leaves (?w1 ok) w' body" for ok body
    using that by (rule run_leaves_then) (use w1(2) in simp_all)
  consider (no) msg f where "abandon_run env (b_id b) msg f (?w1 False) = (w', r, e)"
    | (yes) s where "publish_run env cx b s (?w1 True) = (w', r, e)"
    using assms(5) by (auto simp: aggregate_run_def Let_def split: sum.splits option.splits)
  then show ?thesis
  proof cases
    case no
    with abandon_run_leaves [OF assms(1) w1(1)] w1(2) assms(3) then_leaves abandon_run_events [OF no]
    show ?thesis by metis
  next
    case yes
    from publish_run_leaves [OF assms(1) w1(1) _ _ yes] w1(2) assms(3,4) obtain body where
      body: "run_leaves (?w1 True) w' body" and
      pub: "e = None \<longrightarrow> (\<exists>n\<ge>m_step (?w1 True).
        published_since (rr_batch_id r) (me_now env n) (m_db w'))"
      by auto
    have "\<exists>n\<ge>m_step w. published_since (rr_batch_id r) (me_now env n) (m_db w')" if "e = None"
      using pub that by (auto intro: Suc_leD)
    with then_leaves [OF body] show ?thesis by blast
  qed
qed

lemma run_locked_leaves:
  assumes "polite env" and "m_lock w = Some our_session" and "db_ok (m_db w)"
    and "run_locked env cx trigger w = (w', r, e)"
  shows "\<exists>body. run_leaves w w' body \<and>
     (e = None \<and> bt_task_id trigger = None \<longrightarrow>
        (\<exists>n\<ge>m_step w. published_since (rr_batch_id r) (me_now env n) (m_db w')))"
proof -
  let ?w1 = "others_act env w" and ?t = "me_now env (m_step w)"
  note o = others_act_polite [OF assms(1)]
  have same: "m_db ?w1 = m_db w" using o(2) assms(2) by blast
  obtain db' q where s: "start_batch (statement_env env cx ?w1) (me_minimum env) trigger ?t ?t
      (m_db ?w1) = (db', q)"
    by fastforce
  let ?w2 = "?w1\<lparr>m_db := db'\<rparr>"
  have step: "db_step (m_db w) db'" using db_step.start s same by (metis fst_conv)
  have w2: "m_lock ?w2 = Some our_session" "db_ok (m_db ?w2)"
    using o(1) assms(2) db_step_ok [OF step assms(3)] by simp_all
  show ?thesis
  proof (cases q)
    case (Inl f)
    with assms(4) s have "w' = ?w2" "e \<noteq> None" by (auto simp: run_locked_def Let_def)
    with w2 step show ?thesis by (auto simp: run_leaves_def intro!: exI [of _ "[]"])
  next
    case (Inr b)
    note b = start_batch_result [OF s [unfolded Inr]]
    show ?thesis
    proof (cases "is_published b")
      case True
      with b have "bt_task_id trigger \<noteq> None"
        by (auto simp: started_batch_def dest: running_not_published)
      moreover from True assms(4) s Inr have "w' = log_event (BatchStarted (b_id b) True) ?w2"
        by (simp add: run_locked_def is_published_def Let_def)
      ultimately show ?thesis
        using w2 step by (auto simp: run_leaves_def intro!: exI [of _ "[BatchStarted (b_id b) True]"])
    next
      case False
      let ?w3 = "log_event (BatchStarted (b_id b) False) ?w2"
      from False b have sb: "started_batch b (m_db ?w3)" by auto
      from False assms(4) s Inr have run: "aggregate_run env cx b ?w3 = (w', r, e)"
        by (simp add: run_locked_def is_published_def Let_def)
      obtain body where body: "run_leaves ?w3 w' body" and
        pub: "e = None \<longrightarrow> (\<exists>n\<ge>m_step ?w3. published_since (rr_batch_id r) (me_now env n) (m_db w'))"
        using aggregate_run_leaves [OF assms(1) _ _ sb run] w2 by auto
      from body have "run_leaves w w' ([BatchStarted (b_id b) False] @ body)"
        by (rule run_leaves_then) (use step in simp_all)
      moreover have "\<exists>n\<ge>m_step w. published_since (rr_batch_id r) (me_now env n) (m_db w')"
        if "e = None"
        using pub that by (auto intro: Suc_leD)
      ultimately show ?thesis by blast
    qed
  qed
qed

section \<open>Around the lock\<close>

lemma try_lock_events:
  assumes "try_lock env w = (w', q)"
  shows "m_events w' = m_events w @ (if q = Inr True then [LockTaken] else [])"
    and "q = Inr True \<Longrightarrow> m_lock w' = Some our_session"
  using assms
  by (auto simp: try_lock_def Let_def split: option.splits lock_answer.splits if_splits)

lemma try_lock_world:
  assumes "try_lock env w = (w', q)" and "w1 = others_act env w" and "w2 = others_act env w1"
  shows "(m_db w' = m_db w1 \<or> m_db w' = m_db w2) \<and> (m_step w' = m_step w1 \<or> m_step w' = m_step w2) \<and>
     (q \<noteq> Inr True \<longrightarrow> m_lock w' = m_lock w1 \<or> m_lock w' = m_lock w2 \<or> m_lock w' = None)"
proof -
  have "try_lock env w =
     (case me_open env (m_step w1) of
        Some e \<Rightarrow> (w1, Inl (wrapf ''open lock connection'' e))
      | None \<Rightarrow>
          (case me_lock env (m_step w2) of
             LockFault e \<Rightarrow> (end_session w2, Inl (wrapf ''acquire named lock'' e))
           | answer \<Rightarrow>
               if answer = LockAnswer \<and> m_lock w2 = None
               then (log_event LockTaken (w2\<lparr>m_lock := Some our_session\<rparr>), Inr True)
               else (w2, case me_close env (m_step w2) of Some e \<Rightarrow> Inl e | None \<Rightarrow> Inr False)))"
    unfolding try_lock_def Let_def assms(2,3) by (cases "me_lock env (m_step w2)") simp_all
  with assms(1) show ?thesis
    by (auto simp: end_session_def split: option.splits lock_answer.splits if_splits)
qed

lemma try_lock_polite:
  assumes "polite env" and "try_lock env w = (w', q)"
  shows "db_step\<^sup>*\<^sup>* (m_db w) (m_db w')" and "m_step w \<le> m_step w'"
    and "m_lock w \<noteq> Some our_session \<Longrightarrow> q \<noteq> Inr True \<Longrightarrow> m_lock w' \<noteq> Some our_session"
proof -
  let ?w1 = "others_act env w" and ?w2 = "others_act env (others_act env w)"
  note o = others_act_polite [OF assms(1)] and world = try_lock_world [OF assms(2) refl refl]
  have steps: "db_step\<^sup>*\<^sup>* (m_db w) (m_db ?w2)" "db_step\<^sup>*\<^sup>* (m_db w) (m_db ?w1)"
    using o(3) by (blast intro: rtranclp_trans)+
  with world show "db_step\<^sup>*\<^sup>* (m_db w) (m_db w')" by metis
  show "m_step w \<le> m_step w'" using world by auto
  show "m_lock w' \<noteq> Some our_session" if "m_lock w \<noteq> Some our_session" "q \<noteq> Inr True"
    using world o(1) that by (metis option.distinct(1))
qed

lemma release_lock_events:
  assumes "release_lock env w = (w', x)"
  shows "m_events w' = m_events w @ [LockReleased x]" and "m_lock w' \<noteq> Some our_session"
  using assms by (auto simp: release_lock_def Let_def split: lock_answer.splits if_splits)

lemma release_lock_db:
  assumes "release_lock env w = (w', x)" and "polite env" and "m_lock w = Some our_session"
  shows "m_db w' = m_db w"
  using assms others_act_polite(2) [OF assms(2,3)]
  by (auto simp: release_lock_def Let_def split: lock_answer.splits if_splits)

text \<open>A run either does not get the lock, or runs between taking and releasing it.\<close>

lemma with_run_lock_cases:
  assumes "with_run_lock env zero run w = (w', r, e)"
  obtains (refused) q where "w' = w \<or> try_lock env w = (w', q) \<and> q \<noteq> Inr True" "e \<noteq> None"
      "r = zero"
    | (ran) w1 w2 run_err x where "try_lock env w = (w1, Inr True)" "run w1 = (w2, r, run_err)"
        "release_lock env w2 = (w', x)" "(e = None) = (run_err = None \<and> x = None)"
proof (cases "me_configured env")
  case False
  with assms refused show thesis by (auto simp: with_run_lock_def)
next
  case True
  obtain w1 q where t: "try_lock env w = (w1, q)" by fastforce
  show thesis
  proof (cases "q = Inr True")
    case False
    with assms t True refused show thesis
      by (cases q) (auto simp: with_run_lock_def)
  next
    case q: True
    obtain w2 r2 run_err where run: "run w1 = (w2, r2, run_err)" by (metis prod_cases3)
    obtain w3 x where rel: "release_lock env w2 = (w3, x)" by fastforce
    have "with_run_lock env zero run w = (w3, r2, errors_join [run_err,
        map_option (wrapf ''release academic statistics aggregation lock'') x])"
      using True t q run rel by (simp add: with_run_lock_def)
    with assms have "w3 = w'" "r2 = r" "(e = None) = (run_err = None \<and> x = None)" by auto
    with t q run rel ran show thesis by simp
  qed
qed

text \<open>The new events of a run.\<close>

definition new_events :: "mworld \<Rightarrow> mworld \<Rightarrow> manager_event list" where
  "new_events w w' = drop (length (m_events w)) (m_events w')"

lemma new_events_append: "m_events w' = m_events w @ events \<Longrightarrow> new_events w w' = events"
  by (simp add: new_events_def)

lemma locked_run_leaves:
  assumes "polite env" and "db_ok (m_db w)" and "try_lock env w = (w1, Inr True)"
    and "run_leaves w1 w2 body" and "release_lock env w2 = (w', x)"
  shows "new_events w w' = LockTaken # body @ [LockReleased x]" and "m_db w' = m_db w2"
    and "db_step\<^sup>*\<^sup>* (m_db w) (m_db w')"
    and "FailureNoted i None \<in> set (new_events w w') \<Longrightarrow> recorded_failure i (m_db w')"
proof -
  show events: "new_events w w' = LockTaken # body @ [LockReleased x]"
    using try_lock_events(1) [OF assms(3)] assms(4) release_lock_events(1) [OF assms(5)]
    by (simp add: new_events_append run_leaves_def)
  show db: "m_db w' = m_db w2"
    using release_lock_db [OF assms(5,1)] assms(4) by (simp add: run_leaves_def)
  show "db_step\<^sup>*\<^sup>* (m_db w) (m_db w')"
    using try_lock_polite(1) [OF assms(1,3)] assms(4) db
    by (auto simp: run_leaves_def intro: rtranclp_trans)
  show "recorded_failure i (m_db w')" if "FailureNoted i None \<in> set (new_events w w')"
    using that events assms(4) db by (auto simp: run_leaves_def)
qed

lemma db_steps_ok': "db_step\<^sup>*\<^sup>* db db' \<Longrightarrow> db_ok db \<Longrightarrow> db_ok db'"
  using db_steps_ok by blast

section \<open>Properties of the runs\<close>


text \<open>
  C28: a failure that a run notes without an error is in the database when the run returns: its batch
  is stored as failed, with a summary and an end, and no batch is left running. A scheduled run that
  reports success has published its batch under the current rules, not before the run started.
\<close>

theorem runs_are_recorded:
  assumes "polite env" and "reachable_db (m_db w)"
    and "manager_run_trigger env cx trigger w = (w', r, e)"
  shows "(FailureNoted i None \<in> set (new_events w w') \<longrightarrow> recorded_failure i (m_db w')) \<and>
     (e = None \<and> bt_task_id trigger = None \<longrightarrow>
        (\<exists>n\<ge>m_step w. published_since (rr_batch_id r) (me_now env n) (m_db w')))"
  using assms(3) unfolding manager_run_trigger_def
proof (cases rule: with_run_lock_cases)
  case (refused q)
  then have "new_events w w' = []"
    using try_lock_events(1) [of env w w' q] by (auto intro!: new_events_append)
  with refused show ?thesis by auto
next
  case (ran w1 w2 run_err x)
  note ok = reachable_db_ok [OF assms(2)]
  have ok1: "db_ok (m_db w1)"
    using db_steps_ok' [OF try_lock_polite(1) [OF assms(1) ran(1)] ok] .
  obtain body where body: "run_leaves w1 w2 body" and
    pub: "run_err = None \<and> bt_task_id trigger = None \<longrightarrow>
      (\<exists>n\<ge>m_step w1. published_since (rr_batch_id r) (me_now env n) (m_db w2))"
    using run_locked_leaves [OF assms(1) try_lock_events(2) [OF ran(1) refl] ok1 ran(2)] by blast
  note leaves = locked_run_leaves [OF assms(1) ok ran(1) body ran(3)]
  have "\<exists>n\<ge>m_step w. published_since (rr_batch_id r) (me_now env n) (m_db w')"
    if "e = None" "bt_task_id trigger = None"
  proof -
    from pub that ran(4) obtain n where
      "m_step w1 \<le> n" "published_since (rr_batch_id r) (me_now env n) (m_db w2)" by auto
    with leaves(2) try_lock_polite(2) [OF assms(1) ran(1)] show ?thesis
      by (intro exI [of _ n]) simp
  qed
  with leaves(4) show ?thesis by blast
qed

text \<open>
  C29: a manual run is done at most once. When the batch of its task is already published, running
  the task again (a redelivery, or the same idempotency key) neither reads the source nor publishes
  anything, whatever fails on the way, and if it reports success the batch is still there unchanged.
\<close>

theorem manual_runs_are_idempotent:
  assumes "polite env" and "reachable_db (m_db w)" and "m_lock w \<noteq> Some our_session"
    and "b \<in> set (db_batches (m_db w))" and "is_published b" and "b_trigger_task_id b = Some task"
    and "run_manual env cx actor_id msg task w = (w', e)"
  shows "b \<in> set (db_batches (m_db w')) \<and> courses_of (b_id b) (m_db w') = courses_of (b_id b) (m_db w) \<and>
     new_events w w' \<in> {[]} \<union> {[LockTaken, LockReleased x] |x. True} \<union>
       {[LockTaken, BatchStarted (b_id b) True, LockReleased x] |x. True}"
proof -
  let ?trigger = "manual_batch_trigger actor_id msg task"
  note ok = reachable_db_ok [OF assms(2)]
  have task: "bt_task_id ?trigger = Some task" by (simp add: manual_batch_trigger_def)
  obtain r where run: "manager_run_trigger env cx ?trigger w = (w', r, e)"
    using assms(7) by (auto simp: run_manual_def split: prod.splits)
  then show ?thesis unfolding manager_run_trigger_def
  proof (cases rule: with_run_lock_cases)
    case (refused q)
    then have "new_events w w' = []" "db_step\<^sup>*\<^sup>* (m_db w) (m_db w')"
      using try_lock_events(1) [of env w w' q] try_lock_polite(1) [OF assms(1), of w w' q]
      by (auto intro!: new_events_append)
    with db_steps_ok [OF this(2) ok] assms(4,5) show ?thesis by (simp add: keeps_published_def)
  next
    case (ran w1 w2 run_err x)
    have steps1: "db_step\<^sup>*\<^sup>* (m_db w) (m_db w1)"
      by (rule try_lock_polite(1) [OF assms(1) ran(1)])
    note lock = try_lock_events(2) [OF ran(1) refl]
    obtain db' q where s: "start_batch (statement_env env cx (others_act env w1)) (me_minimum env)
        ?trigger (me_now env (m_step w1)) (me_now env (m_step w1)) (m_db (others_act env w1)) =
        (db', q)" by fastforce
    have same: "m_db (others_act env w1) = m_db w1"
      using others_act_polite(2) [OF assms(1) lock] .
    have b1: "b \<in> set (db_batches (m_db w1))" and ok1: "db_ok (m_db w1)"
      using db_steps_ok [OF steps1 ok] assms(4,5) by (auto simp: keeps_published_def)
    have "run_leaves w1 w2 [] \<or> run_leaves w1 w2 [BatchStarted (b_id b) True]"
    proof -
      have step: "db_step (m_db w1) db'" using db_step.start s same by (metis fst_conv)
      have lock2: "m_lock (others_act env w1) = Some our_session"
        using others_act_polite(1) [OF assms(1)] lock by simp
      show ?thesis
      proof (cases q)
        case (Inl f)
        with ran(2) s have "w2 = (others_act env w1)\<lparr>m_db := db'\<rparr>"
          by (auto simp: run_locked_def Let_def)
        with step lock2 show ?thesis by (simp add: run_leaves_def)
      next
        case (Inr b')
        have "b' = b"
          using start_batch_of_published_task [OF _ _ assms(5,6) task s [unfolded Inr]] b1 ok1 same
          by simp
        with ran(2) s Inr assms(5)
        have "w2 = log_event (BatchStarted (b_id b) True) ((others_act env w1)\<lparr>m_db := db'\<rparr>)"
          by (auto simp: run_locked_def is_published_def Let_def)
        with step lock2 show ?thesis by (simp add: run_leaves_def)
      qed
    qed
    then obtain body where body: "run_leaves w1 w2 body"
      and shape: "body = [] \<or> body = [BatchStarted (b_id b) True]" by blast
    note leaves = locked_run_leaves [OF assms(1) ok ran(1) body ran(3)]
    show ?thesis
      using db_steps_ok [OF leaves(3) ok] assms(4,5) leaves(1) shape
      by (auto simp: keeps_published_def)
  qed
qed

section \<open>Concrete runs\<close>

text \<open>A server where nothing fails and nobody else works, and a source that cannot be read.\<close>

definition quiet_env :: "(nat \<Rightarrow> err + snapshot) \<Rightarrow> manager_env" where
  "quiet_env source =
     \<lparr>me_db = (\<lambda>_. sample_env), me_now = (\<lambda>n. 20 + int n), me_timer = (\<lambda>_. True),
      me_open = (\<lambda>_. None), me_lock = (\<lambda>_. LockAnswer), me_close = (\<lambda>_. None),
      me_aggregate = source, me_others = (\<lambda>_ x. x), me_minimum = 5, me_configured = True\<rparr>"

definition broken_source :: "nat \<Rightarrow> err + snapshot" where
  "broken_source n = Inl (Opaque ''source is down'')"

definition idle_world :: "stats_db \<Rightarrow> mworld" where
  "idle_world db = \<lparr>m_step = 0, m_db = db, m_lock = None, m_events = []\<rparr>"

lemma quiet_env_polite: "polite (quiet_env source)"
  using sample_fair by (simp add: polite_def quiet_env_def)

definition broken_run :: "mworld \<times> run_result \<times> err option" where
  "broken_run =
     manager_run_trigger (quiet_env broken_source) background scheduled_batch_trigger
       (idle_world empty_db)"

lemma broken_run_events:
  "m_events (fst broken_run) =
     [LockTaken, BatchStarted 1 False, AggregateRead False, FailureNoted 1 None, LockReleased None]"
  by code_simp

lemma broken_run_eq:
  "manager_run_trigger (quiet_env broken_source) background scheduled_batch_trigger
     (idle_world empty_db) =
   (fst broken_run, fst (snd broken_run), snd (snd broken_run))"
  by (simp add: broken_run_def)


lemma reachable_empty: "reachable_db empty_db"
  by (simp add: reachable_db_def)

theorem runs_are_recorded_witness: "recorded_failure 1 (m_db (fst broken_run))"
  using runs_are_recorded [OF quiet_env_polite _ broken_run_eq, of 1] reachable_empty
    broken_run_events
  by (simp add: idle_world_def new_events_def)

text \<open>A database in which the task of a manual run is published already.\<close>

definition task_db1 :: stats_db where
  "task_db1 = fst (start_batch sample_env 5 (manual_batch_trigger 9 ''again'' ''t-1'') 10 20 empty_db)"

definition task_batch :: batch where
  "task_batch = hd (db_batches task_db1)"

definition task_db2 :: stats_db where
  "task_db2 = fst (publish_batch sample_env 5 task_batch (sample_snapshot [sample_course]) 30 task_db1)"

definition published_task :: batch where "published_task = hd (db_batches task_db2)"

lemma task_db_reachable: "reachable_db task_db2"
proof -
  have "db_step empty_db task_db1" "db_step task_db1 task_db2"
    unfolding task_db1_def task_db2_def
    by (rule db_step.start, rule db_step.publish [OF sample_fair])
  then show ?thesis unfolding reachable_db_def by (blast intro: rtranclp.rtrancl_into_rtrancl)
qed

theorem manual_runs_are_idempotent_witness:
  "published_task \<in> set (db_batches (m_db (fst (run_manual (quiet_env broken_source) background 9
      ''again'' ''t-1'' (idle_world task_db2)))))"
proof -
  let ?run = "run_manual (quiet_env broken_source) background 9 ''again'' ''t-1'' (idle_world task_db2)"
  have "published_task \<in> set (db_batches task_db2)" "is_published published_task"
    "b_trigger_task_id published_task = Some ''t-1''"
    by code_simp+
  moreover have "?run = (fst ?run, snd ?run)" by simp
  ultimately show ?thesis
    using manual_runs_are_idempotent [OF quiet_env_polite, of "idle_world task_db2" published_task
        "''t-1''" broken_source background 9 "''again''" "fst ?run" "snd ?run"] task_db_reachable
    by (simp add: idle_world_def)
qed

end
