(* ===== verification/StatsScheduler.thy ===== *)
theory StatsScheduler
  imports StatsManager
begin

text \<open>
  The daily schedule: \<^verbatim>\<open>Manager.RunIfDue\<close> of \<^verbatim>\<open>manager.go\<close> and \<^verbatim>\<open>worker/scheduler.go\<close>.

  A location is a function from instants to offsets east of UTC with the validity of each offset,
  as \<^verbatim>\<open>time.Location\<close> has it. \<open>go_date\<close> is \<^verbatim>\<open>time.Date\<close> for a local day and a second of that day: a
  date is the number of its day, so \<^verbatim>\<open>AddDate(0, 0, 1)\<close> is the next number.
\<close>

section \<open>Local time\<close>

record zone =
  z_start :: int
  z_end :: int
  z_offset :: int

text \<open>\<^verbatim>\<open>Location.lookup\<close> of a Unix time; the zones of a location are seconds.\<close>

type_synonym location = "int \<Rightarrow> zone"

definition fixed_zone :: "int \<Rightarrow> location" where
  "fixed_zone offset t =
     \<lparr>z_start = - (2 ^ 63), z_end = 2 ^ 63 - 1, z_offset = offset\<rparr>"

definition unix_seconds :: "gotime \<Rightarrow> int" where
  "unix_seconds t = (t - unix_epoch) div second"

definition local_seconds :: "location \<Rightarrow> gotime \<Rightarrow> int" where
  "local_seconds loc t = unix_seconds t + z_offset (loc (unix_seconds t))"

definition local_day :: "location \<Rightarrow> gotime \<Rightarrow> int" where
  "local_day loc t = local_seconds loc t div 86400"

definition local_second_of_day :: "location \<Rightarrow> gotime \<Rightarrow> int" where
  "local_second_of_day loc t = local_seconds loc t mod 86400"

definition local_nanosecond :: "gotime \<Rightarrow> int" where
  "local_nanosecond t = (t - unix_epoch) mod second"

text \<open>
  \<^verbatim>\<open>time.Date\<close>: the local seconds are first read as UTC, and the offset found there is replaced by
  the one in force at the time it leads to.
\<close>

definition go_date :: "location \<Rightarrow> int \<Rightarrow> int \<Rightarrow> int \<Rightarrow> gotime" where
  "go_date loc day seconds nanoseconds =
     (let naive = day * 86400 + seconds;
          z = loc naive;
          utc = naive - z_offset z;
          offset = (if z_offset z \<noteq> 0 \<and> (utc < z_start z \<or> z_end z \<le> utc)
                    then z_offset (loc utc) else z_offset z)
      in unix_epoch + (naive - offset) * second + nanoseconds)"

definition scheduled_at :: "location \<Rightarrow> int \<Rightarrow> gotime \<Rightarrow> gotime" where
  "scheduled_at loc at t = go_date loc (local_day loc t) (at * 3600) 0"

definition next_day :: "location \<Rightarrow> gotime \<Rightarrow> gotime" where
  "next_day loc t =
     go_date loc (local_day loc t + 1) (local_second_of_day loc t) (local_nanosecond t)"

section \<open>RunIfDue\<close>

definition published_after_schedule :: "batch option \<Rightarrow> gotime \<Rightarrow> bool" where
  "published_after_schedule b scheduled =
     (case b of
        None \<Rightarrow> False
      | Some x \<Rightarrow> (case b_published_at x of None \<Rightarrow> False | Some p \<Rightarrow> \<not> p < scheduled))"

definition run_due ::
    "manager_env \<Rightarrow> go_ctx \<Rightarrow> gotime \<Rightarrow> mworld \<Rightarrow> mworld \<times> bool \<times> err option" where
  "run_due env cx scheduled w =
     (let w1 = others_act env w
      in case latest_published (statement_env env cx w1) (m_db w1) of
           Inl e \<Rightarrow> (w1, False, Some (wrapf ''load latest academic statistics batch'' e))
         | Inr latest \<Rightarrow>
             if published_after_schedule latest scheduled then (w1, False, None)
             else
               (case run_locked env cx scheduled_batch_trigger w1 of
                  (w2, _, Some e) \<Rightarrow> (w2, False, Some e)
                | (w2, _, None) \<Rightarrow> (w2, True, None)))"

definition run_if_due ::
    "manager_env \<Rightarrow> go_ctx \<Rightarrow> gotime \<Rightarrow> location \<Rightarrow> int \<Rightarrow> mworld \<Rightarrow> mworld \<times> bool \<times> err option"
where
  "run_if_due env cx now loc schedule_hour w =
     (if now < scheduled_at loc schedule_hour now then (w, False, None)
      else case with_run_lock env False
                  (run_due env cx (scheduled_at loc schedule_hour now)) w of
             (w', _, Some e) \<Rightarrow> (w', False, Some e)
           | (w', did, None) \<Rightarrow> (w', did, None))"

section \<open>The scheduler\<close>

definition until_next_schedule :: "gotime \<Rightarrow> location \<Rightarrow> int \<Rightarrow> duration" where
  "until_next_schedule now loc schedule_hour =
     (let today = scheduled_at loc schedule_hour now;
          next_run = (if \<not> now < today then next_day loc today else today)
      in next_run - now)"

definition delay_after_run ::
    "gotime \<Rightarrow> location \<Rightarrow> int \<Rightarrow> duration \<Rightarrow> err option \<Rightarrow> duration" where
  "delay_after_run now loc schedule_hour retry_delay e =
     (if e \<noteq> None \<and> \<not> is_err e ErrEmptySnapshot then retry_delay
      else until_next_schedule now loc schedule_hour)"

text \<open>
  \<^verbatim>\<open>worker.Run\<close>: it returns with the error of its context, or goes on after a delay. One unit of fuel
  is one check; \<open>sleep\<close> is the world after the timer, or \<open>None\<close> when the context was done first.
\<close>

datatype schedule_turn = Stop "err option" | Sleep duration

definition after_check ::
    "manager_env \<Rightarrow> go_ctx \<Rightarrow> location \<Rightarrow> int \<Rightarrow> duration \<Rightarrow> err option \<Rightarrow> mworld \<Rightarrow> schedule_turn"
where
  "after_check env cx loc schedule_hour retry_delay e w =
     (let delay = delay_after_run (me_now env (m_step w)) loc schedule_hour retry_delay e
      in if is_err e Canceled then Stop (context_err (manager_clock env) cx w)
         else if is_err e ErrRunAlreadyLocked then Sleep delay
         else if is_err e ErrEmptySnapshot then Sleep delay
         else if e \<noteq> None then Sleep retry_delay
         else Sleep delay)"

fun schedule ::
    "nat \<Rightarrow> manager_env \<Rightarrow> (duration \<Rightarrow> mworld \<Rightarrow> mworld option) \<Rightarrow> go_ctx \<Rightarrow> location \<Rightarrow> int \<Rightarrow>
     duration \<Rightarrow> mworld \<Rightarrow> (mworld \<times> err option) option" where
  "schedule 0 env sleep cx loc schedule_hour retry_delay w = None"
| "schedule (Suc n) env sleep cx loc schedule_hour retry_delay w =
     (case run_if_due env cx (me_now env (m_step w)) loc schedule_hour w of
        (w1, _, e) \<Rightarrow>
          (case after_check env cx loc schedule_hour retry_delay e w1 of
             Stop r \<Rightarrow> Some (w1, r)
           | Sleep d \<Rightarrow>
               (case sleep d w1 of
                  None \<Rightarrow> Some (w1, context_err (manager_clock env) cx w1)
                | Some w2 \<Rightarrow> schedule n env sleep cx loc schedule_hour retry_delay w2)))"

section \<open>The latest publication\<close>

lemma published_le_total: "published_le a b \<or> published_le b a"
  by (auto simp: published_le_def split: option.splits)

lemma published_le_trans: "published_le a b \<Longrightarrow> published_le b c \<Longrightarrow> published_le a c"
  by (auto simp: published_le_def split: option.splits)

lemma greatest_public:
  assumes "x \<in> set bs" and "public_batch x"
  shows "\<exists>y\<in>set bs. public_batch y \<and> (\<forall>c\<in>set bs. public_batch c \<longrightarrow> published_le c y)"
  using assms
proof (induction bs arbitrary: x)
  case (Cons b bs)
  show ?case
  proof (cases "\<exists>z\<in>set bs. public_batch z")
    case False
    with Cons.prems have "public_batch b" by auto
    with False show ?thesis using published_le_total [of b b] by auto
  next
    case True
    with Cons.IH obtain y where
      y: "y \<in> set bs" "public_batch y" "\<forall>c\<in>set bs. public_batch c \<longrightarrow> published_le c y" by blast
    show ?thesis
    proof (cases "public_batch b \<and> \<not> published_le b y")
      case True
      with published_le_total have "published_le y b" by blast
      moreover have "published_le b b" using published_le_total [of b b] by blast
      ultimately have "\<forall>c\<in>set (b # bs). public_batch c \<longrightarrow> published_le c b"
        using y(3) published_le_trans [of _ y b] by (metis set_ConsD)
      with True show ?thesis by (intro bexI [of _ b]) simp_all
    qed (use y in auto)
  qed
qed simp

lemma latest_of_after:
  assumes "x \<in> set bs" and "public_batch x" and "b_published_at x = Some t"
  obtains y p where "latest_of bs = Some y" "b_published_at y = Some p" "t \<le> p"
proof -
  define P where "P b \<longleftrightarrow> public_batch b \<and> list_all (\<lambda>c. public_batch c \<longrightarrow> published_le c b) bs" for b
  have "\<exists>z\<in>set bs. P z"
    using greatest_public [OF assms(1,2)] by (simp add: P_def list_all_iff)
  then obtain y where y: "find P bs = Some y"
    by (cases "find P bs") (auto simp: find_None_iff)
  then have "P y" by (auto simp: find_Some_iff)
  with assms(1,2) have "published_le x y" by (simp add: P_def list_all_iff)
  with assms(3) obtain p where "b_published_at y = Some p" "t \<le> p"
    by (auto simp: published_le_def split: option.splits)
  moreover have "latest_of bs = Some y"
    using y by (simp add: latest_of_def P_def [abs_def])
  ultimately show thesis using that by blast
qed

section \<open>One publication a day\<close>

text \<open>What \<open>run_due\<close> does between taking and releasing the lock.\<close>

lemma run_due_ran:
  assumes "run_due env cx t w = (w', True, e)"
  obtains r where "run_locked env cx scheduled_batch_trigger (others_act env w) = (w', r, None)"
    "e = None"
  using assms
  by (auto simp: run_due_def Let_def split: sum.splits if_splits option.splits prod.splits)

lemma run_if_due_ran:
  assumes "polite env" and "db_ok (m_db w)"
    and "run_if_due env cx now loc at w = (w', True, e)"
  shows "scheduled_at loc at now \<le> now \<and> db_step\<^sup>*\<^sup>* (m_db w) (m_db w') \<and>
     (\<exists>i. \<exists>n\<ge>m_step w. published_since i (me_now env n) (m_db w'))"
proof -
  let ?t = "scheduled_at loc at now"
  from assms(3) obtain e' where due: "\<not> now < ?t"
    and run: "with_run_lock env False (run_due env cx ?t) w = (w', True, e')"
    by (auto simp: run_if_due_def split: if_splits prod.splits option.splits)
  from run show ?thesis
  proof (cases rule: with_run_lock_cases)
    case (ran w1 w2 run_err x)
    note lock = try_lock_events(2) [OF ran(1) refl]
    note steps1 = try_lock_polite(1,2) [OF assms(1) ran(1)]
    obtain r where r: "run_locked env cx scheduled_batch_trigger (others_act env w1) = (w2, r, None)"
      using run_due_ran [OF ran(2)] .
    have w1: "m_lock (others_act env w1) = Some our_session" "m_db (others_act env w1) = m_db w1"
      using others_act_polite(1,2) [OF assms(1)] lock by auto
    have ok1: "db_ok (m_db w1)" using db_steps_ok' [OF steps1(1) assms(2)] .
    have task: "bt_task_id scheduled_batch_trigger = None"
      by (simp add: scheduled_batch_trigger_def)
    obtain body n where body: "run_leaves (others_act env w1) w2 body"
      and pub: "m_step (others_act env w1) \<le> n"
        "published_since (rr_batch_id r) (me_now env n) (m_db w2)"
      using run_locked_leaves [OF assms(1) w1(1) _ r] ok1 w1(2) task by auto
    have "run_leaves w1 w2 ([] @ body)"
      by (rule run_leaves_then [OF body]) (use w1(2) in simp_all)
    note leaves = locked_run_leaves [OF assms(1,2) ran(1) this ran(3)]
    have "m_step w \<le> n" using pub(1) steps1(2) by simp
    with leaves(2,3) pub(2) due show ?thesis by auto
  qed simp
qed

text \<open>The driver reports a missing row only when there is none.\<close>

definition finds_rows :: "manager_env \<Rightarrow> bool" where
  "finds_rows env \<longleftrightarrow>
     (\<forall>n f. env_fault (me_db env n) GetLatest = Some f \<longrightarrow> \<not> errors_is f ErrRecordNotFound)"

lemma latest_published_found:
  assumes "finds_rows env"
    and "latest_published (statement_env env cx w) db = Inr latest"
  shows "latest = latest_of (db_batches db)"
  using assms
  by (auto simp: latest_published_def statement_env_def finds_rows_def
      dest!: context_err_cases split: option.splits if_splits)

lemma published_since_steps:
  assumes "db_step\<^sup>*\<^sup>* db db'" and "db_ok db" and "published_since i t db"
  shows "published_since i t db'"
  using db_steps_ok [OF assms(1,2)] assms(3)
  by (auto simp: published_since_def keeps_published_def public_batch_def is_published_def)

lemma run_if_due_published:
  assumes env: "polite env" "finds_rows env" and ok: "db_ok (m_db v)"
    and pub: "published_since i t (m_db v)" and due: "scheduled_at loc at now \<le> t"
    and run: "run_if_due env cx now loc at v = (v', did, e)"
  shows "\<not> did \<and> (\<forall>i p. BatchStarted i p \<notin> set (new_events v v'))"
proof (cases "now < scheduled_at loc at now")
  case True
  with run show ?thesis by (auto simp: run_if_due_def new_events_def)
next
  case False
  let ?t = "scheduled_at loc at now"
  obtain v1 did' e' where locked: "with_run_lock env False (run_due env cx ?t) v = (v1, did', e')"
    by (metis prod_cases3)
  with run False have lock: "with_run_lock env False (run_due env cx ?t) v = (v', did', e')"
    and did: "did \<longrightarrow> did'"
    by (cases e'; auto simp: run_if_due_def)+
  from lock show ?thesis
  proof (cases rule: with_run_lock_cases)
    case (refused q)
    then have "new_events v v' = []"
      using try_lock_events(1) [of env v v' q] by (auto intro!: new_events_append)
    with refused did show ?thesis by simp
  next
    case ran1: (ran w1 w2 run_err x)
    let ?w1 = "others_act env w1"
    have steps: "db_step\<^sup>*\<^sup>* (m_db v) (m_db ?w1)"
      using try_lock_polite(1) [OF env(1) ran1(1)] others_act_polite(3) [OF env(1)]
      by (blast intro: rtranclp_trans)
    obtain b where b: "b \<in> set (db_batches (m_db ?w1))" "public_batch b" "b_published_at b = Some t"
      using published_since_steps [OF steps ok pub] by (auto simp: published_since_def)
    obtain y p where "latest_of (db_batches (m_db ?w1)) = Some y" "b_published_at y = Some p" "t \<le> p"
      using latest_of_after [OF b] .
    with due have "published_after_schedule (latest_of (db_batches (m_db ?w1))) ?t"
      by (simp add: published_after_schedule_def)
    with ran1(2) have "w2 = ?w1 \<and> \<not> did'"
      by (auto simp: run_due_def Let_def dest!: latest_published_found [OF env(2)]
          split: sum.splits)
    then have "m_events v' = m_events v @ [LockTaken, LockReleased x]" and "\<not> did'"
      using try_lock_events(1) [OF ran1(1)] release_lock_events(1) [OF ran1(3)] by simp_all
    with did show ?thesis by (auto dest: new_events_append)
  qed
qed

text \<open>
  C30: the daily aggregation is published once. When a check of the scheduler has run it, no later
  check of any worker for the same scheduled time starts another batch, whatever happened to the
  database in between: it reports that nothing ran, or an error.
\<close>

theorem daily_run_happens_once:
  assumes "polite env" and "reachable_db (m_db w)"
    and "\<forall>n\<ge>m_step w. now \<le> me_now env n"
    and "run_if_due env cx now loc at w = (w', True, e)"
    and "polite env2" and "finds_rows env2" and "db_step\<^sup>*\<^sup>* (m_db w') (m_db v)"
    and "scheduled_at loc at now2 = scheduled_at loc at now"
    and "run_if_due env2 cx2 now2 loc at v = (v', did, e2)"
  shows "\<not> did \<and> (\<forall>i p. BatchStarted i p \<notin> set (new_events v v'))"
proof -
  note ok = reachable_db_ok [OF assms(2)]
  obtain i n where due: "scheduled_at loc at now \<le> now"
    and n: "m_step w \<le> n" "published_since i (me_now env n) (m_db w')"
    using run_if_due_ran [OF assms(1) ok assms(4)] by blast
  have ok': "db_ok (m_db w')"
    using run_if_due_ran [OF assms(1) ok assms(4)] db_steps_ok' ok by blast
  show ?thesis
    by (rule run_if_due_published [OF assms(5,6) _ published_since_steps [OF assms(7) ok' n(2)] _ assms(9)])
       (use db_steps_ok' [OF assms(7) ok'] assms(3,8) due n(1) in auto)
qed

section \<open>Fixed zones\<close>

lemma go_date_fixed:
  "go_date (fixed_zone offset) day s ns = unix_epoch + (day * 86400 + s - offset) * second + ns"
  by (simp add: go_date_def fixed_zone_def Let_def)

lemma local_fixed:
  "local_seconds (fixed_zone offset) (unix_epoch + x * second) = x + offset"
  "local_nanosecond (unix_epoch + x * second) = 0"
  by (simp_all add: local_seconds_def unix_seconds_def local_nanosecond_def fixed_zone_def
      second_def)

lemma scheduled_fixed:
  "scheduled_at (fixed_zone offset) at t =
     unix_epoch + (local_day (fixed_zone offset) t * 86400 + at * 3600 - offset) * second"
  by (simp add: scheduled_at_def go_date_fixed)

text \<open>The instants of a local day.\<close>

lemma local_day_bounds:
  "unix_epoch + (local_day (fixed_zone offset) t * 86400 - offset) * second \<le> t"
  "t < unix_epoch + ((local_day (fixed_zone offset) t + 1) * 86400 - offset) * second"
proof -
  define u where "u = (t - unix_epoch) div second"
  have "u * second \<le> t - unix_epoch" "t - unix_epoch < (u + 1) * second"
    by (simp_all add: u_def second_def)
  moreover have "local_day (fixed_zone offset) t * 86400 - offset \<le> u"
    "u + 1 \<le> (local_day (fixed_zone offset) t + 1) * 86400 - offset"
    by (simp_all add: local_day_def local_seconds_def unix_seconds_def fixed_zone_def u_def)
  ultimately show
    "unix_epoch + (local_day (fixed_zone offset) t * 86400 - offset) * second \<le> t"
    "t < unix_epoch + ((local_day (fixed_zone offset) t + 1) * 86400 - offset) * second"
    by (simp_all add: second_def)
qed

lemma local_day_scheduled:
  assumes "0 \<le> at" and "at < 24"
  shows "local_day (fixed_zone offset)
     (unix_epoch + (day * 86400 + at * 3600 - offset) * second) = day"
  using assms by (simp add: local_day_def local_fixed)

lemma next_day_fixed:
  assumes "0 \<le> at" and "at < 24"
  shows "next_day (fixed_zone offset) (unix_epoch + (day * 86400 + at * 3600 - offset) * second) =
     unix_epoch + ((day + 1) * 86400 + at * 3600 - offset) * second"
  using assms
  by (simp add: next_day_def go_date_fixed local_day_scheduled local_second_of_day_def local_fixed)

text \<open>
  In a zone without transitions and with an hour of the day, the scheduler waits more than zero
  and at most 24 hours, and wakes at a scheduled time, when the run is due.
\<close>

theorem schedule_delay_bounds:
  assumes "0 \<le> at" and "at < 24"
  shows "let delay = until_next_schedule now (fixed_zone offset) at
     in 0 < delay \<and> delay \<le> 24 * hour \<and>
        scheduled_at (fixed_zone offset) at (now + delay) = now + delay"
proof -
  define delay where "delay = until_next_schedule now (fixed_zone offset) at"
  define day where "day = local_day (fixed_zone offset) now"
  define due where "due d = unix_epoch + (d * 86400 + at * 3600 - offset) * second" for d
  have day: "unix_epoch + (day * 86400 - offset) * second \<le> now"
    "now < unix_epoch + ((day + 1) * 86400 - offset) * second"
    using local_day_bounds(1) [of offset now] local_day_bounds(2) [of now offset] by (simp_all add: day_def)
  have step: "due (day + 1) = due day + 86400 * second"
    by (simp add: due_def algebra_simps)
  have today: "scheduled_at (fixed_zone offset) at now = due day"
    by (simp add: scheduled_fixed due_def day_def)
  have "next_day (fixed_zone offset) (due day) = due (day + 1)"
    using next_day_fixed [OF assms(1,2)] by (simp add: due_def)
  with today have delay: "now + delay = (if now < due day then due day else due (day + 1))"
    by (simp add: delay_def until_next_schedule_def Let_def)
  have "scheduled_at (fixed_zone offset) at (due d) = due d" for d
    using local_day_scheduled [OF assms(1,2)] by (simp add: scheduled_fixed due_def)
  with delay have fixed: "scheduled_at (fixed_zone offset) at (now + delay) = now + delay" by simp
  have "due day \<le> now + 23 * 3600 * second" "now < due (day + 1)"
    using day assms(1,2) by (simp_all add: due_def second_def)
  with delay step have "0 < delay" "delay \<le> 86400 * second"
    by (auto simp: second_def split: if_splits)
  with fixed show ?thesis by (simp add: Let_def hour_def minute_def flip: delay_def)
qed

theorem schedule_delay_bounds_witness:
  "0 < until_next_schedule (unix_epoch + 3600 * second) (fixed_zone 28800) 4 \<and>
   until_next_schedule (unix_epoch + 3600 * second) (fixed_zone 28800) 4 \<le> 24 * hour"
  using schedule_delay_bounds [of 4 "unix_epoch + 3600 * second" 28800] by (simp add: Let_def)

text \<open>
  With a configured hour of 24 or more (the configuration does not check it) no run is ever due
  in such a zone: every check says that nothing is to do, without an error, at any time.
\<close>

theorem late_hours_are_never_due:
  assumes "24 \<le> at"
  shows "run_if_due env cx now (fixed_zone offset) at w = (w, False, None)"
proof -
  have "now < scheduled_at (fixed_zone offset) at now"
    using local_day_bounds(2) [of now offset] assms by (simp add: scheduled_fixed second_def)
  then show ?thesis by (simp add: run_if_due_def)
qed

theorem late_hours_are_never_due_witness:
  "run_if_due (quiet_env broken_source) background unix_epoch (fixed_zone 28800) 24
     (idle_world empty_db) = (idle_world empty_db, False, None)"
  by (rule late_hours_are_never_due) simp

section \<open>Two checks of one day\<close>

text \<open>A published database on the first day of the Unix epoch, eight hours east of UTC.\<close>

definition morning :: gotime where "morning = unix_epoch + 5 * 3600 * second"

definition good_source :: "nat \<Rightarrow> err + snapshot" where
  "good_source n = Inr (sample_snapshot [sample_course])"

definition morning_env :: manager_env where
  "morning_env = (quiet_env good_source)\<lparr>me_now := (\<lambda>n. morning + int n)\<rparr>"

lemma morning_env_polite: "polite morning_env"
  using quiet_env_polite by (simp add: morning_env_def polite_def)

lemma morning_finds_rows: "finds_rows morning_env"
  by (simp add: finds_rows_def morning_env_def quiet_env_def sample_env_def no_fault_def)

text \<open>
  The first check, evaluated in parts: the snapshot is known to validate, and everything else
  computes.
\<close>

definition morning_start :: mworld where
  "morning_start = others_act morning_env (fst (try_lock morning_env (idle_world empty_db)))"

definition morning_batch :: "stats_db \<times> (err + batch)" where
  "morning_batch =
     start_batch (statement_env morning_env background (others_act morning_env morning_start)) 5
       scheduled_batch_trigger (morning + 3) (morning + 3) (m_db (others_act morning_env morning_start))"

definition morning_published :: "mworld \<times> run_result \<times> err option" where
  "morning_published =
     publish_run morning_env background (projr (snd morning_batch)) (sample_snapshot [sample_course])
       (log_event (AggregateRead True)
          (others_act morning_env (log_event (BatchStarted 1 False)
             ((others_act morning_env morning_start)\<lparr>m_db := fst morning_batch\<rparr>))))"

lemma morning_parts:
  "snd (try_lock morning_env (idle_world empty_db)) = Inr True"
  "latest_published (statement_env morning_env background morning_start) (m_db morning_start) =
     Inr None"
  "\<exists>b. snd morning_batch = Inr b \<and> b_id b = 1 \<and> \<not> b_status b = batch_status_published"
  "snd (snd morning_published) = None"
  "snd (release_lock morning_env (fst morning_published)) = None"
  "me_now morning_env (m_step morning_start) = morning + 3"
proof -
  have "(case snd morning_batch of Inl e \<Rightarrow> False
         | Inr b \<Rightarrow> b_id b = 1 \<and> b_status b \<noteq> batch_status_published)"
    by code_simp
  then show "\<exists>b. snd morning_batch = Inr b \<and> b_id b = 1 \<and> \<not> b_status b = batch_status_published"
    by (simp split: sum.splits)
qed code_simp+

lemma sample_validates: "snapshot_validate (sample_snapshot [sample_course]) = None"
  using sample_snapshot_valid [of 8 2] by (simp add: sample_course_def)

lemma morning_locked:
  "run_locked morning_env background scheduled_batch_trigger morning_start = morning_published"
proof -
  obtain b where b: "snd morning_batch = Inr b" "b_id b = 1" "b_status b \<noteq> batch_status_published"
    using morning_parts(3) by blast
  have start: "start_batch (statement_env morning_env background (others_act morning_env morning_start))
      (me_minimum morning_env) scheduled_batch_trigger (me_now morning_env (m_step morning_start))
      (me_now morning_env (m_step morning_start)) (m_db (others_act morning_env morning_start)) =
      (fst morning_batch, Inr b)"
    using b(1) by (simp add: morning_parts(6) morning_batch_def [symmetric] prod_eq_iff)
      (simp add: morning_batch_def morning_env_def quiet_env_def prod_eq_iff)
  have source: "me_aggregate morning_env n = Inr (sample_snapshot [sample_course])" for n
    by (simp add: morning_env_def quiet_env_def good_source_def)
  show ?thesis
    using b
    by (simp add: run_locked_def start Let_def aggregate_run_def source sample_validates
        morning_published_def)
qed

definition morning_end :: mworld where
  "morning_end = fst (release_lock morning_env (fst morning_published))"

lemma morning_run:
  "run_if_due morning_env background morning (fixed_zone 28800) 4 (idle_world empty_db) =
     (morning_end, True, None)"
proof -
  let ?t = "scheduled_at (fixed_zone 28800) 4 morning"
  obtain w1 where w1: "try_lock morning_env (idle_world empty_db) = (w1, Inr True)"
    using morning_parts(1) by (metis prod.collapse)
  then have start: "others_act morning_env w1 = morning_start" by (simp add: morning_start_def)
  have due: "\<not> morning < ?t" by code_simp
  obtain wp r where p: "morning_published = (wp, r, None)"
    using morning_parts(4) by (metis prod.collapse)
  have "run_due morning_env background ?t w1 = (fst morning_published, True, None)"
    by (simp add: p run_due_def start morning_parts(2)
        published_after_schedule_def morning_locked Let_def)
  moreover note w1
  moreover have "release_lock morning_env (fst morning_published) = (morning_end, None)"
    using morning_parts(5) by (simp add: morning_end_def prod_eq_iff)
  moreover have "me_configured morning_env" by (simp add: morning_env_def quiet_env_def)
  ultimately have "with_run_lock morning_env False (run_due morning_env background ?t)
      (idle_world empty_db) = (morning_end, True, None)"
    by (simp add: with_run_lock_def errors_join_def map_filter_def)
  with due show ?thesis by (simp add: run_if_due_def)
qed

theorem daily_run_happens_once_witness:
  "\<not> fst (snd (run_if_due morning_env background (morning + 60 * second) (fixed_zone 28800) 4
      morning_end))"
proof -
  let ?again = "run_if_due morning_env background (morning + 60 * second) (fixed_zone 28800) 4
      morning_end"
  have mono: "\<forall>n\<ge>m_step (idle_world empty_db). morning \<le> me_now morning_env n"
    by (simp add: morning_env_def)
  have day: "scheduled_at (fixed_zone 28800) 4 (morning + 60 * second) =
      scheduled_at (fixed_zone 28800) 4 morning"
    by code_simp
  have reach: "reachable_db (m_db (idle_world empty_db))"
    using reachable_empty by (simp add: idle_world_def)
  have again: "?again = (fst ?again, fst (snd ?again), snd (snd ?again))" by simp
  show ?thesis
    using daily_run_happens_once [OF morning_env_polite reach mono morning_run morning_env_polite
        morning_finds_rows rtranclp.rtrancl_refl day again]
    by blast
qed

end
