(* ===== verification/StatsTrigger.thy ===== *)
theory StatsTrigger
  imports StatsManager GoStrings
begin

text \<open>
  Manual runs on their way to the worker: \<^verbatim>\<open>application/trigger.go\<close> checks an administrator's
  request, \<^verbatim>\<open>infrastructure/run_publisher.go\<close> puts it into the task queue under a key derived from
  the request, and \<^verbatim>\<open>worker/processor.go\<close> takes it out and runs it. JSON, SHA-256 and the queue are
  parameters.
\<close>

section \<open>The request\<close>












section \<open>The queue\<close>











section \<open>The worker\<close>




definition task_retry_delay :: "(int \<Rightarrow> err \<Rightarrow> duration) \<Rightarrow> int \<Rightarrow> err \<Rightarrow> duration" where
  "task_retry_delay default_delay retry_count e =
     (if errors_is e ErrRunAlreadyLocked then 15 * minute else default_delay retry_count e)"

section \<open>From the request to the run\<close>














end
