(* ===== verification/StatsSource.thy ===== *)
theory StatsSource
  imports Complex_Main StatsDomain GoStrings
begin

text \<open>
  \<^verbatim>\<open>academic_statistics/infrastructure/source.go\<close>: the aggregation of the table \<^verbatim>\<open>grade_details\<close>, as the
  SQL text of the file states it, and the Go code around it: the checks of the source account, the
  conversion of the result rows and the transaction of \<^verbatim>\<open>Aggregate\<close>.

  Comparison, \<^verbatim>\<open>GROUP BY\<close>, \<^verbatim>\<open>DISTINCT\<close> and \<^verbatim>\<open>MAX\<close> of texts go by the collation of the database:
  the parameter \<open>k\<close> gives a text its weight (MySQL's \<^verbatim>\<open>WEIGHT_STRING\<close>), and two texts are equal
  for MySQL when their weights are. The order in which the server reads the table and returns the
  groups is not fixed by the query: both are functions of the environment. The column \<^verbatim>\<open>score\<close> is
  an exact decimal, a rational number here.
\<close>

section \<open>SQL texts\<close>

type_synonym collation = "string \<Rightarrow> string"

definition sql_trim :: "string \<Rightarrow> string" where
  "sql_trim s = rev (dropWhile (\<lambda>c. c = CHR '' '') (rev (dropWhile (\<lambda>c. c = CHR '' '') s)))"

text \<open>\<^verbatim>\<open>COALESCE(x, '')\<close>.\<close>

definition sql_text :: "string option \<Rightarrow> string" where
  "sql_text x = (case x of None \<Rightarrow> '''' | Some s \<Rightarrow> s)"

definition sql_blank :: "collation \<Rightarrow> string \<Rightarrow> bool" where
  "sql_blank k s \<longleftrightarrow> k s = k ''''"

text \<open>\<^verbatim>\<open>LOCATE(part, s) > 0\<close>: some part of the text compares equal.\<close>

definition sql_locate :: "collation \<Rightarrow> string \<Rightarrow> string \<Rightarrow> bool" where
  "sql_locate k part s \<longleftrightarrow> list_ex (\<lambda>t. k t = k part) (sublists s)"

definition sql_in :: "collation \<Rightarrow> string list \<Rightarrow> string \<Rightarrow> bool" where
  "sql_in k ws s \<longleftrightarrow> list_ex (\<lambda>w. k s = k w) ws"

text \<open>\<^verbatim>\<open>SUBSTRING_INDEX(s, '|', -1)\<close>: what follows the last bar.\<close>

definition after_last_bar :: "string \<Rightarrow> string" where
  "after_last_bar s = rev (takeWhile (\<lambda>c. c \<noteq> CHR ''|'') (rev s))"

section \<open>The source rows\<close>

record grade_detail =
  gd_student_id :: "string option"
  gd_grade_id :: "string option"
  gd_deleted_at :: "gotime option"
  gd_term_id :: "string option"
  gd_term_code :: "string option"
  gd_course_code :: "string option"
  gd_course_name :: "string option"
  gd_teacher_name :: "string option"
  gd_selection_id :: "string option"
  gd_score_str :: "string option"
  gd_score :: "rat option"

record source_row =
  gr_term_id :: string
  gr_term_code :: string
  gr_course_code :: string
  gr_course_name :: string
  gr_teacher_name :: string
  gr_selection_id :: string
  gr_score_str :: string
  gr_score :: "rat option"

definition sql_present :: "collation \<Rightarrow> string option \<Rightarrow> bool" where
  "sql_present k x \<longleftrightarrow> (case x of None \<Rightarrow> False | Some s \<Rightarrow> \<not> sql_blank k (sql_trim s))"

definition sql_trimmed :: "string option \<Rightarrow> bool" where
  "sql_trimmed x \<longleftrightarrow> (case x of None \<Rightarrow> False | Some s \<Rightarrow> length s = length (sql_trim s))"

text \<open>The \<^verbatim>\<open>WHERE\<close> clause and the columns of \<^verbatim>\<open>source_rows\<close>.\<close>

definition counts_as_source_row :: "collation \<Rightarrow> grade_detail \<Rightarrow> bool" where
  "counts_as_source_row k d \<longleftrightarrow>
     sql_present k (gd_student_id d) \<and> sql_trimmed (gd_student_id d) \<and>
     sql_present k (gd_grade_id d) \<and> sql_trimmed (gd_grade_id d) \<and>
     gd_deleted_at d = None \<and> sql_present k (gd_course_code d) \<and> sql_present k (gd_term_code d)"

definition source_row_of :: "collation \<Rightarrow> grade_detail \<Rightarrow> source_row" where
  "source_row_of k d =
     (let code = sql_trim (sql_text (gd_course_code d));
          name = sql_trim (sql_text (gd_course_name d));
          score_str = sql_text (gd_score_str d)
      in \<lparr>gr_term_id = sql_trim (sql_text (gd_term_id d)),
          gr_term_code = sql_trim (sql_text (gd_term_code d)),
          gr_course_code = code,
          gr_course_name = (if sql_blank k name then code else name),
          gr_teacher_name = strip_spaces (sql_trim (sql_text (gd_teacher_name d))),
          gr_selection_id = sql_trim (sql_text (gd_selection_id d)),
          gr_score_str = sql_trim (if sql_locate k ''|'' score_str then after_last_bar score_str
                                   else score_str),
          gr_score = gd_score d\<rparr>)"

section \<open>The numeric score\<close>

text \<open>
  \<^verbatim>\<open>REGEXP '^[0-9]+([.][0-9]+)?$'\<close>. In MySQL's regular expressions \<^verbatim>\<open>$\<close> also matches before a line
  terminator that ends the text.
\<close>

definition plain_number :: "string \<Rightarrow> bool" where
  "plain_number s \<longleftrightarrow>
     (let rest = dropWhile is_digit s
      in takeWhile is_digit s \<noteq> [] \<and>
         (rest = [] \<or>
          hd rest = CHR ''.'' \<and> tl rest \<noteq> [] \<and> list_all is_digit (tl rest)))"

definition line_terminators :: "string list" where
  "line_terminators =
     map utf8 [[10], [11], [12], [13], [13, 10], [0xC2, 0x85], [0xE2, 0x80, 0xA8],
       [0xE2, 0x80, 0xA9]]"

definition score_pattern :: "string \<Rightarrow> bool" where
  "score_pattern s \<longleftrightarrow>
     plain_number s \<or>
     list_ex (\<lambda>t. suffix t s \<and> plain_number (take (length s - length t) s)) line_terminators"

text \<open>Rounding to hundredths, half away from zero, of a non-negative number.\<close>

definition hundredths :: "rat \<Rightarrow> int" where
  "hundredths x = \<lfloor>x * 100 + 1 / 2\<rfloor>"

text \<open>\<^verbatim>\<open>CAST(s AS DECIMAL(5, 2))\<close> of a matching text: the leading number, rounded and saturated.\<close>

definition cast_decimal :: "string \<Rightarrow> rat" where
  "cast_decimal s =
     (let whole = takeWhile is_digit s;
          rest = dropWhile is_digit s;
          fraction = (if rest \<noteq> [] \<and> hd rest = CHR ''.'' then takeWhile is_digit (tl rest) else []);
          x = of_int (digits_value whole) + of_int (digits_value fraction) / 10 ^ length fraction
      in of_int (min 99999 (hundredths x)) / 100)"

definition numeric_score :: "collation \<Rightarrow> source_row \<Rightarrow> rat option" where
  "numeric_score k r =
     (let s = gr_score_str r
      in if score_pattern s \<and> 0 \<le> cast_decimal s \<and> cast_decimal s \<le> 100
         then Some (cast_decimal s)
         else if sql_blank k s then
           (case gr_score r of
              None \<Rightarrow> None
            | Some x \<Rightarrow> if 0 \<le> x \<and> x \<le> 100 then Some x else None)
         else None)"

section \<open>Passing\<close>

text \<open>
  The level words: excellent; good; medium; pass, qualified, passed, exempt, approved exempt; fail,
  not qualified, not passed.
\<close>

definition excellent_words :: "string list" where
  "excellent_words = map utf8 [[0xE4, 0xBC, 0x98, 0xE7, 0xA7, 0x80], [0xE4, 0xBC, 0x98]]"

definition good_words :: "string list" where
  "good_words = map utf8 [[0xE8, 0x89, 0xAF, 0xE5, 0xA5, 0xBD], [0xE8, 0x89, 0xAF]]"

definition medium_words :: "string list" where
  "medium_words = map utf8 [[0xE4, 0xB8, 0xAD, 0xE7, 0xAD, 0x89], [0xE4, 0xB8, 0xAD]]"

definition pass_words :: "string list" where
  "pass_words = map utf8
     [[0xE5, 0x8F, 0x8A, 0xE6, 0xA0, 0xBC], [0xE5, 0x90, 0x88, 0xE6, 0xA0, 0xBC], [0xE9, 0x80, 0x9A, 0xE8, 0xBF, 0x87],
      [0xE5, 0x85, 0x8D, 0xE4, 0xBF, 0xAE],
      [0xE5, 0xB7, 0xB2, 0xE6, 0x89, 0xB9, 0xE5, 0x87, 0x86, 0xE5, 0x85, 0x8D, 0xE4, 0xBF, 0xAE]]"

definition fail_words :: "string list" where
  "fail_words = map utf8
     [[0xE4, 0xB8, 0x8D, 0xE5, 0x8F, 0x8A, 0xE6, 0xA0, 0xBC],
      [0xE4, 0xB8, 0x8D, 0xE5, 0x90, 0x88, 0xE6, 0xA0, 0xBC],
      [0xE6, 0x9C, 0xAA, 0xE9, 0x80, 0x9A, 0xE8, 0xBF, 0x87]]"

definition passed_row :: "collation \<Rightarrow> source_row \<Rightarrow> bool option" where
  "passed_row k r =
     (case numeric_score k r of
        Some x \<Rightarrow> Some (60 \<le> x)
      | None \<Rightarrow>
          if sql_in k (excellent_words @ good_words @ medium_words @ pass_words) (gr_score_str r)
          then Some True
          else if sql_in k fail_words (gr_score_str r) then Some False
          else None)"

text \<open>The rows of the common table expression \<^verbatim>\<open>valid\<close>, in the order the table is read.\<close>

definition valid_rows :: "collation \<Rightarrow> grade_detail list \<Rightarrow> source_row list" where
  "valid_rows k details =
     filter (\<lambda>r. passed_row k r \<noteq> None) (map (source_row_of k) (filter (counts_as_source_row k) details))"

section \<open>Grouping\<close>

text \<open>Groups in the order of their first rows; inside a group the rows keep their order.\<close>

function group_on :: "('a \<Rightarrow> 'k) \<Rightarrow> 'a list \<Rightarrow> 'a list list" where
  "group_on f xs =
     (case xs of
        [] \<Rightarrow> []
      | x # rest \<Rightarrow>
          (x # filter (\<lambda>y. f y = f x) rest) # group_on f (filter (\<lambda>y. f y \<noteq> f x) rest))"
  by pat_completeness auto
termination
  by (relation "measure (length \<circ> snd)") (auto simp: le_imp_less_Suc)

declare group_on.simps [simp del]

definition course_group_key :: "collation \<Rightarrow> source_row \<Rightarrow> string \<times> string \<times> string" where
  "course_group_key k r = (k (gr_term_id r), k (gr_term_code r), k (gr_course_code r))"

definition instructor_group_key ::
    "collation \<Rightarrow> source_row \<Rightarrow> (string \<times> string \<times> string) \<times> string" where
  "instructor_group_key k r = (course_group_key k r, k (gr_teacher_name r))"

definition teacher_separators :: "string list" where
  "teacher_separators =
     ['','', utf8 [0xEF, 0xBC, 0x8C], utf8 [0xE3, 0x80, 0x81], '';'', utf8 [0xEF, 0xBC, 0x9B], ''/'']"

text \<open>The \<^verbatim>\<open>WHERE\<close> clause of the instructor half: one named teacher of a named class.\<close>

definition one_teacher :: "collation \<Rightarrow> source_row \<Rightarrow> bool" where
  "one_teacher k r \<longleftrightarrow>
     \<not> sql_blank k (gr_teacher_name r) \<and> \<not> sql_blank k (gr_selection_id r) \<and>
     list_all (\<lambda>sep. \<not> sql_locate k sep (gr_teacher_name r)) teacher_separators"

section \<open>The result rows\<close>

record source_aggregate_row =
  sa_dimension_type :: string
  sa_term_id :: string
  sa_term_code :: string
  sa_course_code :: string
  sa_course_name :: string
  sa_teacher_name :: string
  sa_class_count :: int64
  sa_valid_count :: int64
  sa_pass_count :: int64
  sa_fail_count :: int64
  sa_numeric_score_count :: int64
  sa_numeric_score_sum_x100 :: int64
  sa_distribution :: distribution

definition sql_count :: "('a \<Rightarrow> bool) \<Rightarrow> 'a list \<Rightarrow> int64" where
  "sql_count P rows = word_of_int (int (length (filter P rows)))"

text \<open>\<^verbatim>\<open>MAX\<close>: the first of the texts whose weight no other exceeds.\<close>

definition sql_max :: "collation \<Rightarrow> string list \<Rightarrow> string" where
  "sql_max k names = foldl (\<lambda>m x. if k m < k x then x else m) (hd names) (tl names)"

definition score_in :: "collation \<Rightarrow> (rat \<Rightarrow> bool) \<Rightarrow> source_row \<Rightarrow> bool" where
  "score_in k P r = (case numeric_score k r of None \<Rightarrow> False | Some x \<Rightarrow> P x)"

definition level_in :: "collation \<Rightarrow> string list \<Rightarrow> source_row \<Rightarrow> bool" where
  "level_in k ws r \<longleftrightarrow> numeric_score k r = None \<and> sql_in k ws (gr_score_str r)"

definition sum_x100 :: "collation \<Rightarrow> source_row list \<Rightarrow> int" where
  "sum_x100 k rows =
     sum_list (map (\<lambda>r. case numeric_score k r of None \<Rightarrow> 0 | Some x \<Rightarrow> hundredths x) rows)"

definition source_distribution :: "collation \<Rightarrow> source_row list \<Rightarrow> distribution" where
  "source_distribution k rows =
     \<lparr>numeric_fail = sql_count (score_in k (\<lambda>x. x < 60)) rows,
      score_60_69 = sql_count (score_in k (\<lambda>x. 60 \<le> x \<and> x < 70)) rows,
      score_70_79 = sql_count (score_in k (\<lambda>x. 70 \<le> x \<and> x < 80)) rows,
      score_80_89 = sql_count (score_in k (\<lambda>x. 80 \<le> x \<and> x < 90)) rows,
      score_90_100 = sql_count (score_in k (\<lambda>x. 90 \<le> x \<and> x \<le> 100)) rows,
      level_excellent = sql_count (level_in k excellent_words) rows,
      level_good = sql_count (level_in k good_words) rows,
      level_medium = sql_count (level_in k medium_words) rows,
      level_pass = sql_count (level_in k pass_words) rows,
      level_fail = sql_count (level_in k fail_words) rows\<rparr>"

text \<open>
  One result row: the columns of \<^verbatim>\<open>GROUP BY\<close> are those of the first row of the group. A sum above
  the range of \<^verbatim>\<open>SIGNED\<close> saturates.
\<close>

definition aggregate_group ::
    "collation \<Rightarrow> string \<Rightarrow> (source_row list \<Rightarrow> string \<times> int64) \<Rightarrow> source_row list \<Rightarrow>
     source_aggregate_row" where
  "aggregate_group k dimension teacher rows =
     \<lparr>sa_dimension_type = dimension,
      sa_term_id = gr_term_id (hd rows),
      sa_term_code = gr_term_code (hd rows),
      sa_course_code = gr_course_code (hd rows),
      sa_course_name = sql_max k (map gr_course_name rows),
      sa_teacher_name = fst (teacher rows),
      sa_class_count = snd (teacher rows),
      sa_valid_count = sql_count (\<lambda>_. True) rows,
      sa_pass_count = sql_count (\<lambda>r. passed_row k r = Some True) rows,
      sa_fail_count = sql_count (\<lambda>r. passed_row k r = Some False) rows,
      sa_numeric_score_count = sql_count (score_in k (\<lambda>_. True)) rows,
      sa_numeric_score_sum_x100 = word_of_int (min (2 ^ 63 - 1) (sum_x100 k rows)),
      sa_distribution = source_distribution k rows\<rparr>"

definition dimension_course :: string where "dimension_course = ''course''"
definition dimension_instructor :: string where "dimension_instructor = ''instructor''"

definition course_group :: "collation \<Rightarrow> source_row list \<Rightarrow> source_aggregate_row" where
  "course_group k = aggregate_group k dimension_course (\<lambda>_. ('''', 0))"

definition instructor_group :: "collation \<Rightarrow> source_row list \<Rightarrow> source_aggregate_row" where
  "instructor_group k = aggregate_group k dimension_instructor
     (\<lambda>rows. (gr_teacher_name (hd rows),
              word_of_int (int (length (remdups (map (k \<circ> gr_selection_id) rows))))))"

text \<open>The whole query over the rows of the table in the order they are read.\<close>

definition source_aggregate_query :: "collation \<Rightarrow> grade_detail list \<Rightarrow> source_aggregate_row list"
where
  "source_aggregate_query k details =
     (let valid = valid_rows k details
      in map (course_group k) (group_on (course_group_key k) valid) @
         map (instructor_group k)
           (group_on (instructor_group_key k) (filter (one_teacher k) valid)))"

section \<open>Terms and teachers\<close>

record source_term_identity =
  ti_education_level :: string
  ti_period_id :: string
  ti_term_label :: string

text \<open>The seasons summer, autumn, spring, summer-autumn, and the words for term and school year.\<close>

definition season_summer :: string where
  "season_summer = utf8 [0xE5, 0xA4, 0x8F, 0xE5, 0xAD, 0xA3]"
definition season_autumn :: string where
  "season_autumn = utf8 [0xE7, 0xA7, 0x8B, 0xE5, 0xAD, 0xA3]"
definition season_spring :: string where
  "season_spring = utf8 [0xE6, 0x98, 0xA5, 0xE5, 0xAD, 0xA3]"
definition season_summer_autumn :: string where
  "season_summer_autumn = utf8 [0xE5, 0xA4, 0x8F, 0xE7, 0xA7, 0x8B]"
definition term_word :: string where
  "term_word = utf8 [0xE5, 0xAD, 0xA6, 0xE6, 0x9C, 0x9F]"
definition year_word :: string where
  "year_word = utf8 [0xE5, 0xAD, 0xA6, 0xE5, 0xB9, 0xB4]"

text \<open>Four digits, then a season and the word for term.\<close>

definition undergraduate_term :: "string \<Rightarrow> (string \<times> string) option" where
  "undergraduate_term s =
     (let year = take 4 s
      in if length year = 4 \<and> list_all is_digit year then
           map_option (Pair year)
             (find (\<lambda>season. drop 4 s = season @ term_word)
                [season_summer, season_autumn, season_spring])
         else None)"

text \<open>Two years of four digits with a dash between them, then a season.\<close>

definition graduate_term :: "string \<Rightarrow> (string \<times> string \<times> string) option" where
  "graduate_term s =
     (let start_year = take 4 s; rest = drop 4 s; end_year = take 4 (tl rest)
      in if length start_year = 4 \<and> list_all is_digit start_year \<and>
            rest \<noteq> [] \<and> hd rest = CHR ''-'' \<and>
            length end_year = 4 \<and> list_all is_digit end_year then
           map_option (\<lambda>season. (start_year, end_year, season))
             (find (\<lambda>season. drop 4 (tl rest) = season) [season_summer_autumn, season_spring])
         else None)"

definition undergraduate_identity ::
    "string \<Rightarrow> string \<Rightarrow> string \<Rightarrow> source_term_identity option" where
  "undergraduate_identity year season term_code =
     (let ordinal = (if season = season_summer then ''1''
                     else if season = season_autumn then ''2'' else ''3'');
          start_year = (if season = season_spring then digits_value year - 1
                        else digits_value year);
          period_id = int_text start_year @ ''-'' @ int_text (start_year + 1) @ ''-'' @ ordinal;
          label_year = (if ordinal = ''3'' then start_year + 1 else start_year)
      in if term_code \<noteq> period_id then None
         else Some \<lparr>ti_education_level = level_undergraduate, ti_period_id = period_id,
                    ti_term_label = int_text label_year @ '' '' @ season @ term_word\<rparr>)"

definition graduate_identity ::
    "string \<Rightarrow> string \<Rightarrow> string \<Rightarrow> string \<Rightarrow> source_term_identity option" where
  "graduate_identity start_text end_text season term_code =
     (let start_year = digits_value start_text; end_year = digits_value end_text;
          (ordinal, legacy_ordinal) =
            (if season = season_spring then (''12'', ''3'') else (''11'', ''2''));
          expected_term_code =
            int_text start_year @ ''-'' @ int_text end_year @ ''-'' @ legacy_ordinal
      in if end_year \<noteq> start_year + 1 \<or> term_code \<noteq> expected_term_code then None
         else Some \<lparr>ti_education_level = level_graduate,
                    ti_period_id = int_text start_year @ '':'' @ ordinal,
                    ti_term_label = int_text start_year @ ''-'' @ int_text end_year @ '' '' @
                      year_word @ season @ term_word\<rparr>)"

definition normalize_source_term :: "string \<Rightarrow> string \<Rightarrow> source_term_identity option" where
  "normalize_source_term term_id term_code =
     (case undergraduate_term (trim_space term_id) of
        Some (year, season) \<Rightarrow> undergraduate_identity year season (trim_space term_code)
      | None \<Rightarrow>
          (case graduate_term (trim_space term_id) of
             Some (start_text, end_text, season) \<Rightarrow>
               graduate_identity start_text end_text season (trim_space term_code)
           | None \<Rightarrow> None))"

definition normalize_teacher_name :: "string \<Rightarrow> string" where
  "normalize_teacher_name s =
     (let name = join '''' (go_fields (trim_space s))
      in if contains_any name teacher_separators then '''' else name)"

section \<open>The snapshot\<close>

definition course_of_row :: "source_aggregate_row \<Rightarrow> source_term_identity \<Rightarrow> course_term_aggregate"
where
  "course_of_row row identity =
     \<lparr>ct_education_level = ti_education_level identity,
      ct_period_id = ti_period_id identity,
      ct_term_label = ti_term_label identity,
      ct_term_code = trim_space (sa_term_code row),
      ct_course_code = trim_space (sa_course_code row),
      ct_course_name = trim_space (sa_course_name row),
      ct_valid_count = sa_valid_count row,
      ct_pass_count = sa_pass_count row,
      ct_fail_count = sa_fail_count row,
      ct_numeric_score_count = sa_numeric_score_count row,
      ct_numeric_score_sum_x100 = sa_numeric_score_sum_x100 row,
      ct_distribution = sa_distribution row\<rparr>"

text \<open>The parameter \<open>sha\<close> is the hexadecimal SHA-256 of the name.\<close>

definition instructor_of_row ::
    "(string \<Rightarrow> string) \<Rightarrow> source_aggregate_row \<Rightarrow> source_term_identity \<Rightarrow>
     instructor_term_aggregate option" where
  "instructor_of_row sha row identity =
     (let name = normalize_teacher_name (sa_teacher_name row)
      in if name = '''' then None
         else Some
           \<lparr>it_education_level = ti_education_level identity,
            it_period_id = ti_period_id identity,
            it_term_label = ti_term_label identity,
            it_term_code = trim_space (sa_term_code row),
            it_course_code = trim_space (sa_course_code row),
            it_course_name = trim_space (sa_course_name row),
            it_teacher_key = sha name,
            it_teacher_name = name,
            it_class_count = sa_class_count row,
            it_valid_count = sa_valid_count row,
            it_pass_count = sa_pass_count row,
            it_fail_count = sa_fail_count row,
            it_numeric_score_count = sa_numeric_score_count row,
            it_numeric_score_sum_x100 = sa_numeric_score_sum_x100 row,
            it_distribution = sa_distribution row\<rparr>)"

text \<open>
  The source database as one call sees it: which statement fails (its context has ended, the
  connection broke, the statement was killed), the database time in milliseconds, the number of
  unique indexes on (student_id, grade_id), the table in the order it is read, and the order in
  which the groups come back.
\<close>

datatype source_statement =
    BeginSnapshot | ReadCutoff | CheckUniqueness | QueryAggregate | ScanRow nat | ReadRows
  | CloseRows | CommitSnapshot | OpenConnection | PingSource | CheckTable | ListGrants
  | ScanGrant nat | ReadGrants

record source_env =
  so_fault :: "source_statement \<Rightarrow> err option"
  so_cutoff_millis :: int
  so_unique_indexes :: nat
  so_tables :: nat
  so_collation :: collation
  so_details :: "grade_detail list"
  so_order :: "source_aggregate_row list \<Rightarrow> source_aggregate_row list"
  so_grants :: "string list"
  so_sha256_hex :: "string \<Rightarrow> string"
  so_unicode_upper :: "string \<Rightarrow> string"

record grade_source =
  gs_connected :: bool
  gs_timeout :: duration
  gs_allow_writes :: bool

definition empty_source_snapshot :: snapshot where
  "empty_source_snapshot =
     \<lparr>source_cutoff_at = 0, source_row_count = 0, snapshot_courses = [],
      snapshot_instructors = []\<rparr>"

text \<open>One result row: unknown terms and unusable teacher names are skipped.\<close>

definition add_source_row ::
    "(string \<Rightarrow> string) \<Rightarrow> source_aggregate_row \<Rightarrow> snapshot \<Rightarrow> err + snapshot" where
  "add_source_row sha row s =
     (case normalize_source_term (sa_term_id row) (sa_term_code row) of
        None \<Rightarrow> Inr s
      | Some identity \<Rightarrow>
          if sa_dimension_type row = dimension_course then
            (let course = course_of_row row identity
             in Inr (s\<lparr>source_row_count := source_row_count s + ct_valid_count course,
                       snapshot_courses := snapshot_courses s @ [course]\<rparr>))
          else if sa_dimension_type row = dimension_instructor then
            (case instructor_of_row sha row identity of
               None \<Rightarrow> Inr s
             | Some instructor \<Rightarrow>
                 Inr (s\<lparr>snapshot_instructors := snapshot_instructors s @ [instructor]\<rparr>))
          else Inl (Opaque ''unexpected source aggregate dimension''))"

fun read_source_rows ::
    "source_env \<Rightarrow> nat \<Rightarrow> source_aggregate_row list \<Rightarrow> snapshot \<Rightarrow> err + snapshot" where
  "read_source_rows env i [] s = Inr s"
| "read_source_rows env i (row # rows) s =
     (case so_fault env (ScanRow i) of
        Some e \<Rightarrow> Inl (wrapf ''scan source aggregate'' e)
      | None \<Rightarrow>
          (case add_source_row (so_sha256_hex env) row s of
             Inl e \<Rightarrow> Inl e
           | Inr s' \<Rightarrow> read_source_rows env (Suc i) rows s'))"

definition result_rows :: "source_env \<Rightarrow> source_aggregate_row list" where
  "result_rows env = so_order env (source_aggregate_query (so_collation env) (so_details env))"

definition source_aggregate :: "source_env \<Rightarrow> grade_source option \<Rightarrow> err + snapshot" where
  "source_aggregate env source =
     (case source of
        None \<Rightarrow> Inl (Opaque ''grade aggregate source is unavailable'')
      | Some src \<Rightarrow>
          if \<not> gs_connected src then Inl (Opaque ''grade aggregate source is unavailable'')
          else case so_fault env BeginSnapshot of
            Some e \<Rightarrow> Inl (wrapf ''begin source snapshot'' e)
          | None \<Rightarrow>
            (case so_fault env ReadCutoff of
               Some e \<Rightarrow> Inl (wrapf ''read source snapshot cutoff'' e)
             | None \<Rightarrow>
               (case so_fault env CheckUniqueness of
                  Some e \<Rightarrow> Inl (wrapf ''validate grade source uniqueness'' e)
                | None \<Rightarrow>
                  if so_unique_indexes env < 1
                  then Inl (Opaque ''grade source must enforce UNIQUE(student_id, grade_id)'')
                  else
                    (case so_fault env QueryAggregate of
                       Some e \<Rightarrow> Inl (wrapf ''query source aggregate'' e)
                     | None \<Rightarrow>
                       (case read_source_rows env 0 (result_rows env) empty_source_snapshot of
                          Inl e \<Rightarrow> Inl e
                        | Inr s \<Rightarrow>
                          (case so_fault env ReadRows of
                             Some e \<Rightarrow> Inl (wrapf ''read source aggregate'' e)
                           | None \<Rightarrow>
                             (case so_fault env CloseRows of
                                Some e \<Rightarrow> Inl (wrapf ''close source aggregate rows'' e)
                              | None \<Rightarrow>
                                (case so_fault env CommitSnapshot of
                                   Some e \<Rightarrow> Inl (wrapf ''commit source snapshot'' e)
                                 | None \<Rightarrow>
                                   Inr (s\<lparr>source_cutoff_at :=
                                            of_unix_milli (so_cutoff_millis env)\<rparr>)))))))))"

section \<open>The source account\<close>

definition normalized_grant :: "(string \<Rightarrow> string) \<Rightarrow> string \<Rightarrow> string" where
  "normalized_grant unicode grant = to_upper unicode (join '' '' (go_fields grant))"

definition grant_option :: string where "grant_option = '' WITH GRANT OPTION''"

definition usage_grant :: "string \<Rightarrow> bool" where
  "usage_grant g \<longleftrightarrow> has_prefix g ''GRANT USAGE ON *.* TO ''"

definition select_grant :: "string \<Rightarrow> bool" where
  "select_grant g \<longleftrightarrow> has_prefix g ''GRANT SELECT ON '' \<and> contains g '' TO ''"

definition write_grant :: "string \<Rightarrow> bool" where
  "write_grant g \<longleftrightarrow> has_prefix g ''GRANT SELECT, INSERT, UPDATE ON '' \<and> contains g '' TO ''"

text \<open>The loop of \<^verbatim>\<open>validateSourceGrants\<close> with its two flags.\<close>

fun check_grants ::
    "(string \<Rightarrow> string) \<Rightarrow> bool \<Rightarrow> string list \<Rightarrow> bool \<Rightarrow> bool \<Rightarrow> err + bool \<times> bool" where
  "check_grants unicode allow_writes [] has_select has_writes = Inr (has_select, has_writes)"
| "check_grants unicode allow_writes (grant # grants) has_select has_writes =
     (let g = normalized_grant unicode grant;
          not_read_only = Inl (Opaque ''grade source account has a non-read-only grant'');
          may_grant = Inl (Opaque ''grade source account must not grant privileges'')
      in if usage_grant g then
           (if contains g grant_option then may_grant
            else check_grants unicode allow_writes grants has_select has_writes)
         else if select_grant g then
           (if contains g grant_option then may_grant
            else check_grants unicode allow_writes grants True has_writes)
         else if write_grant g then
           (if \<not> allow_writes then not_read_only
            else if contains g grant_option then may_grant
            else check_grants unicode allow_writes grants True True)
         else not_read_only)"

definition validate_source_grants ::
    "(string \<Rightarrow> string) \<Rightarrow> string list \<Rightarrow> bool \<Rightarrow> err option" where
  "validate_source_grants unicode grants allow_writes =
     (case check_grants unicode allow_writes grants False False of
        Inl e \<Rightarrow> Some e
      | Inr (has_select, has_required_writes) \<Rightarrow>
          if \<not> has_select then Some (Opaque ''grade source account has no SELECT grant'')
          else if allow_writes \<and> \<not> has_required_writes
          then Some (Opaque ''managed grade source account requires SELECT, INSERT, UPDATE grant'')
          else None)"

fun scan_grants :: "source_env \<Rightarrow> nat \<Rightarrow> string list \<Rightarrow> err option" where
  "scan_grants env i [] = None"
| "scan_grants env i (g # gs) =
     (case so_fault env (ScanGrant i) of
        Some e \<Rightarrow> Some (wrapf ''scan grade source grant'' e)
      | None \<Rightarrow> scan_grants env (Suc i) gs)"

text \<open>\<^verbatim>\<open>Preflight\<close>: the first of the checks that fails.\<close>

definition preflight :: "source_env \<Rightarrow> grade_source option \<Rightarrow> err option" where
  "preflight env source =
     (case source of
        None \<Rightarrow> Some (Opaque ''grade aggregate source is unavailable'')
      | Some src \<Rightarrow>
          if \<not> gs_connected src then Some (Opaque ''grade aggregate source is unavailable'')
          else first_some
            [map_option (wrapf ''connect to grade source'') (so_fault env OpenConnection),
             map_option (wrapf ''ping grade source'') (so_fault env PingSource),
             map_option (wrapf ''validate grade source table'') (so_fault env CheckTable),
             if so_tables env = 1 then None
             else Some (Opaque ''grade source table grade_details is unavailable''),
             map_option (wrapf ''validate grade source uniqueness'')
               (so_fault env CheckUniqueness),
             if so_unique_indexes env < 1
             then Some (Opaque ''grade source must enforce UNIQUE(student_id, grade_id)'')
             else None,
             map_option (wrapf ''inspect grade source grants'') (so_fault env ListGrants),
             scan_grants env 0 (so_grants env),
             map_option (wrapf ''read grade source grants'') (so_fault env ReadGrants),
             validate_source_grants (so_unicode_upper env) (so_grants env)
               (gs_allow_writes src)])"

section \<open>The certificate pin\<close>

definition hex_digit :: "char \<Rightarrow> nat option" where
  "hex_digit c =
     (if byte_in 48 57 c then Some (of_char c - 48)
      else if byte_in 97 102 c then Some (of_char c - 87)
      else if byte_in 65 70 c then Some (of_char c - 55)
      else None)"

fun hex_decode :: "string \<Rightarrow> string option" where
  "hex_decode [] = Some []"
| "hex_decode [c] = None"
| "hex_decode (c # d # s) =
     (case (hex_digit c, hex_digit d, hex_decode s) of
        (Some x, Some y, Some t) \<Rightarrow> Some (char_of (16 * x + y) # t)
      | _ \<Rightarrow> None)"

definition fingerprint_prefix :: string where "fingerprint_prefix = ''SHA256:''"

definition parse_sha256_fingerprint :: "string \<Rightarrow> err + string" where
  "parse_sha256_fingerprint text =
     (let v = trim_space text;
          n = length fingerprint_prefix;
          v' = (if n \<le> length v \<and> map ascii_upper (take n v) = fingerprint_prefix
                then drop n v else v)
      in case hex_decode (filter (\<lambda>c. c \<noteq> CHR '':'') v') of
           Some decoded \<Rightarrow>
             if length decoded = 32 then Inr decoded
             else Inl (Opaque ''grade source certificate SHA-256 fingerprint must contain 32 bytes'')
         | None \<Rightarrow>
             Inl (Opaque ''grade source certificate SHA-256 fingerprint must contain 32 bytes''))"

text \<open>
  \<^verbatim>\<open>VerifyConnection\<close>: the leaf's chain is verified by the library (the parameter), then the hash of
  the leaf is compared with the pin.
\<close>

definition verify_source_connection ::
    "(string \<Rightarrow> string list \<Rightarrow> err option) \<Rightarrow> (string \<Rightarrow> string) \<Rightarrow> string \<Rightarrow> string list \<Rightarrow> err option"
where
  "verify_source_connection verify sha256 pin certificates =
     (case certificates of
        [] \<Rightarrow> Some (Opaque ''grade source did not present a certificate'')
      | leaf # intermediates \<Rightarrow>
          (case verify leaf intermediates of
             Some e \<Rightarrow> Some (wrapf ''verify grade source certificate chain'' e)
           | None \<Rightarrow>
               if sha256 leaf \<noteq> pin
               then Some (Opaque ''grade source certificate fingerprint mismatch'')
               else None))"


end
