(* ===== verification/StatsSnapshot.thy ===== *)
theory StatsSnapshot
  imports StatsSource
begin

section \<open>Groups\<close>

lemma group_on_Nil [simp]: "group_on f [] = []"
  by (simp add: group_on.simps)

lemma group_on_Cons:
  "group_on f (x # xs) =
     (x # filter (\<lambda>y. f y = f x) xs) # group_on f (filter (\<lambda>y. f y \<noteq> f x) xs)"
  by (simp add: group_on.simps)

lemma mset_groups: "mset (concat (group_on f xs)) = mset xs"
proof (induction f xs rule: group_on.induct)
  case (1 f xs)
  show ?case
  proof (cases xs)
    case (Cons x rest)
    have "mset rest = filter_mset (\<lambda>y. f y = f x) (mset rest) +
        filter_mset (\<lambda>y. f y \<noteq> f x) (mset rest)"
      by (rule multiset_partition)
    with 1 [OF Cons] show ?thesis by (simp add: Cons group_on_Cons)
  qed simp
qed

lemma group_of_key:
  "\<forall>g\<in>set (group_on f xs). g \<noteq> [] \<and> (\<forall>y\<in>set g. f y = f (hd g)) \<and> set g \<subseteq> set xs"
proof (induction f xs rule: group_on.induct)
  case (1 f xs)
  show ?case
  proof (cases xs)
    case (Cons x rest)
    let ?others = "filter (\<lambda>y. f y \<noteq> f x) rest"
    show ?thesis
    proof
      fix g assume "g \<in> set (group_on f xs)"
      then consider "g = x # filter (\<lambda>y. f y = f x) rest" | "g \<in> set (group_on f ?others)"
        by (auto simp: Cons group_on_Cons)
      then show "g \<noteq> [] \<and> (\<forall>y\<in>set g. f y = f (hd g)) \<and> set g \<subseteq> set xs"
      proof cases
        case 1
        then show ?thesis by (auto simp: Cons)
      next
        case 2
        with 1 [OF Cons] have "g \<noteq> []" "\<forall>y\<in>set g. f y = f (hd g)" "set g \<subseteq> set ?others"
          by blast+
        moreover have "set ?others \<subseteq> set xs" by (auto simp: Cons)
        ultimately show ?thesis by blast
      qed
    qed
  qed simp
qed

lemmas group_nonempty = group_of_key [rule_format, THEN conjunct1]
lemmas group_same_key = group_of_key [rule_format, THEN conjunct2, THEN conjunct1, rule_format]
lemmas group_members = group_of_key [rule_format, THEN conjunct2, THEN conjunct2, THEN subsetD]

lemma distinct_group_keys: "distinct (map (\<lambda>g. f (hd g)) (group_on f xs))"
proof (induction f xs rule: group_on.induct)
  case (1 f xs)
  show ?case
  proof (cases xs)
    case (Cons x rest)
    let ?gs = "group_on f (filter (\<lambda>y. f y \<noteq> f x) rest)"
    have "f (hd g) \<noteq> f x" if "g \<in> set ?gs" for g
      using group_members [OF that] group_nonempty [OF that] 
      by (metis (mono_tags, lifting) hd_in_set mem_Collect_eq set_filter)
    then have "f x \<notin> set (map (\<lambda>g. f (hd g)) ?gs)" by (metis (mono_tags, lifting) image_iff set_map)
    with 1 [OF Cons] show ?thesis by (simp add: Cons group_on_Cons)
  qed simp
qed

lemma distinct_map_weaken:
  assumes "distinct (map f xs)"
    and "\<And>x y. \<lbrakk>x \<in> set xs; y \<in> set xs; h x = h y\<rbrakk> \<Longrightarrow> f x = f y"
  shows "distinct (map h xs)"
  using assms unfolding distinct_map inj_on_def by metis

lemma length_kept_groups:
  assumes "\<And>x y. \<lbrakk>x \<in> set xs; y \<in> set xs; f x = f y\<rbrakk> \<Longrightarrow> P x = P y"
  shows "length (concat (filter (\<lambda>g. P (hd g)) (group_on f xs))) = length (filter P xs)"
proof -
  have "filter P g = (if P (hd g) then g else [])" if "g \<in> set (group_on f xs)" for g
  proof -
    have "P y = P (hd g)" if "y \<in> set g" for y
      using assms group_members [OF \<open>g \<in> _\<close>] group_same_key [OF \<open>g \<in> _\<close>]
        group_nonempty [OF \<open>g \<in> _\<close>] that by (metis list.set_sel(1))
    then show ?thesis by (cases "P (hd g)") (simp_all add: filter_id_conv filter_empty_conv)
  qed
  then have "concat (filter (\<lambda>g. P (hd g)) gs) = filter P (concat gs)"
    if "set gs \<subseteq> set (group_on f xs)" for gs
    using that by (induction gs) auto
  then have "length (concat (filter (\<lambda>g. P (hd g)) (group_on f xs))) =
      length (filter P (concat (group_on f xs)))" by simp
  also have "\<dots> = size (filter_mset P (mset (concat (group_on f xs))))"
    by (metis mset_filter size_mset)
  also have "\<dots> = length (filter P xs)"
    unfolding mset_groups by (metis mset_filter size_mset)
  finally show ?thesis .
qed

section \<open>Counts and scores\<close>

lemma sql_count_partition:
  assumes "\<And>r. r \<in> set rows \<Longrightarrow> (\<Sum>P\<leftarrow>Ps. of_bool (P r)) = (1 :: int)"
  shows "(\<Sum>P\<leftarrow>Ps. sql_count P rows) = sql_count (\<lambda>_. True) rows"
proof -
  have "(\<Sum>P\<leftarrow>Ps. int (length (filter P rows))) = int (length rows)"
    using assms
  proof (induction rows)
    case (Cons r rows)
    have "int (length (filter P (r # rows))) = of_bool (P r) + int (length (filter P rows))" for P
      by simp
    then have "(\<Sum>P\<leftarrow>Ps. int (length (filter P (r # rows)))) =
        (\<Sum>P\<leftarrow>Ps. of_bool (P r)) + (\<Sum>P\<leftarrow>Ps. int (length (filter P rows)))"
      by (simp only: sum_list_addf)
    with Cons show ?case by simp
  qed simp
  moreover have "(\<Sum>P\<leftarrow>Ps. sql_count P rows) = word_of_int (\<Sum>P\<leftarrow>Ps. int (length (filter P rows)))"
    by (induction Ps) (simp_all add: sql_count_def)
  ultimately show ?thesis by (simp add: sql_count_def)
qed

lemma numeric_score_range: "numeric_score k r = Some x \<Longrightarrow> 0 \<le> x \<and> x \<le> 100"
  by (auto simp: numeric_score_def Let_def split: if_splits option.splits)

lemma hundredths_range: "0 \<le> x \<Longrightarrow> x \<le> 100 \<Longrightarrow> 0 \<le> hundredths x \<and> hundredths x \<le> 10000"
  by (simp add: hundredths_def floor_le_iff le_floor_iff)

lemma sum_x100_range:
  "0 \<le> sum_x100 k rows \<and>
   sum_x100 k rows \<le> 10000 * int (length (filter (score_in k (\<lambda>_. True)) rows))"
proof (induction rows)
  case (Cons r rows)
  then show ?case
    using hundredths_range [of "the (numeric_score k r)"] numeric_score_range [of k r]
    by (cases "numeric_score k r") (auto simp: sum_x100_def score_in_def)
qed (simp add: sum_x100_def)

text \<open>The collation tells the level words apart.\<close>

definition level_words :: "string list" where
  "level_words = excellent_words @ good_words @ medium_words @ pass_words @ fail_words"

definition separates_levels :: "collation \<Rightarrow> bool" where
  "separates_levels k \<longleftrightarrow> distinct (map k level_words)"

lemma sql_in_iff: "sql_in k ws s \<longleftrightarrow> k s \<in> set (map k ws)"
  by (auto simp: sql_in_def list_ex_iff)

lemma one_bucket:
  assumes "separates_levels k" and "passed_row k r \<noteq> None"
  shows "(\<Sum>P\<leftarrow>[score_in k (\<lambda>x. x < 60), score_in k (\<lambda>x. 60 \<le> x \<and> x < 70),
      score_in k (\<lambda>x. 70 \<le> x \<and> x < 80), score_in k (\<lambda>x. 80 \<le> x \<and> x < 90),
      score_in k (\<lambda>x. 90 \<le> x \<and> x \<le> 100), level_in k excellent_words, level_in k good_words,
      level_in k medium_words, level_in k pass_words, level_in k fail_words]. of_bool (P r)) =
      (1 :: int)"
proof (cases "numeric_score k r")
  case None
  let ?w = "k (gr_score_str r)"
  let ?S = "\<lambda>ws. set (map k ws)"
  from assms(1) have "distinct (map k excellent_words @ map k good_words @ map k medium_words @
      map k pass_words @ map k fail_words)"
    by (simp add: separates_levels_def level_words_def)
  then have "?S excellent_words \<inter> (?S good_words \<union> ?S medium_words \<union> ?S pass_words \<union> ?S fail_words) = {}"
    "?S good_words \<inter> (?S medium_words \<union> ?S pass_words \<union> ?S fail_words) = {}"
    "?S medium_words \<inter> (?S pass_words \<union> ?S fail_words) = {}"
    "?S pass_words \<inter> ?S fail_words = {}"
    unfolding distinct_append set_append by (simp_all only: Un_assoc)
  moreover from assms(2) None have "?w \<in> ?S excellent_words \<union> ?S good_words \<union> ?S medium_words \<union>
      ?S pass_words \<union> ?S fail_words"
    by (auto simp: passed_row_def sql_in_iff split: if_splits)
  ultimately have "(\<Sum>ws\<leftarrow>[excellent_words, good_words, medium_words, pass_words, fail_words].
      of_bool (?w \<in> ?S ws)) = (1 :: int)"
    unfolding list.map sum_list.Cons sum_list.Nil 
    by (auto simp del: set_map simp add: disjoint_iff)
  then show ?thesis
    using None by (simp add: score_in_def level_in_def sql_in_iff del: set_map)
next
  case (Some x)
  then show ?thesis
    using numeric_score_range [OF Some] by (auto simp: score_in_def level_in_def)
qed

section \<open>Terms\<close>

lemmas season_defs = season_summer_def season_autumn_def season_spring_def
  season_summer_autumn_def

lemma season_distinct [simp]:
  "season_summer \<noteq> season_autumn" "season_autumn \<noteq> season_summer"
  "season_summer \<noteq> season_spring" "season_spring \<noteq> season_summer"
  "season_autumn \<noteq> season_spring" "season_spring \<noteq> season_autumn"
  "season_summer_autumn \<noteq> season_spring" "season_spring \<noteq> season_summer_autumn"
  by (simp_all add: season_defs utf8_def)

lemma int_text_nonneg: "0 \<le> n \<Longrightarrow> int_text n = digits n"
  by (simp add: int_text_def)

lemma undergraduate_term_shape:
  assumes "undergraduate_term s = Some (year, season)"
  shows "s = year @ season @ term_word \<and> length year = 4 \<and> list_all is_digit year \<and>
     season \<in> {season_summer, season_autumn, season_spring}"
proof -
  from assms have y: "year = take 4 s" "length year = 4" "list_all is_digit year"
    and f: "find (\<lambda>season. drop 4 s = season @ term_word)
      [season_summer, season_autumn, season_spring] = Some season"
    by (auto simp: undergraduate_term_def Let_def split: if_splits)
  from f have "drop 4 s = season @ term_word"
    "season \<in> {season_summer, season_autumn, season_spring}"
    by (auto split: if_splits)
  with y append_take_drop_id [of 4 s] show ?thesis by auto
qed

lemma graduate_term_shape:
  assumes "graduate_term s = Some (start, stop, season)"
  shows "s = start @ ''-'' @ stop @ season \<and> length start = 4 \<and> list_all is_digit start \<and>
     length stop = 4 \<and> list_all is_digit stop \<and> season \<in> {season_summer_autumn, season_spring}"
proof -
  from assms have y: "start = take 4 s" "stop = take 4 (tl (drop 4 s))" "length start = 4"
    "list_all is_digit start" "length stop = 4" "list_all is_digit stop"
    "drop 4 s \<noteq> []" "hd (drop 4 s) = CHR ''-''"
    and f: "find (\<lambda>season. drop 4 (tl (drop 4 s)) = season)
      [season_summer_autumn, season_spring] = Some season"
    by (auto simp: graduate_term_def Let_def split: if_splits)
  from f have season: "drop 4 (tl (drop 4 s)) = season"
    "season \<in> {season_summer_autumn, season_spring}"
    by (auto split: if_splits)
  have "s = take 4 s @ hd (drop 4 s) # take 4 (tl (drop 4 s)) @ drop 4 (tl (drop 4 s))"
    using y(7) by (metis append_take_drop_id list.collapse)
  with y season show ?thesis by simp
qed

text \<open>What an accepted pair of a term name and a term code says.\<close>

definition undergraduate_ordinal :: "string \<Rightarrow> string" where
  "undergraduate_ordinal season =
     (if season = season_summer then ''1'' else if season = season_autumn then ''2'' else ''3'')"

definition start_year_of :: "string \<Rightarrow> string \<Rightarrow> int" where
  "start_year_of year season =
     (if season = season_spring then digits_value year - 1 else digits_value year)"

definition undergraduate_period :: "int \<Rightarrow> string \<Rightarrow> string" where
  "undergraduate_period start ordinal =
     int_text start @ ''-'' @ int_text (start + 1) @ ''-'' @ ordinal"

definition graduate_period :: "int \<Rightarrow> string \<Rightarrow> string" where
  "graduate_period start season =
     int_text start @ '':'' @ (if season = season_spring then ''12'' else ''11'')"

definition undergraduate_label :: "string \<Rightarrow> string \<Rightarrow> string" where
  "undergraduate_label year season = int_text (digits_value year) @ '' '' @ season @ term_word"

lemma normalized_term_cases:
  assumes "normalize_source_term term_id term_code = Some i"
  obtains
    (undergraduate) year season where
      "trim_space term_id = year @ season @ term_word" "length year = 4" "list_all is_digit year"
      "season \<in> {season_summer, season_autumn, season_spring}"
      "trim_space term_code =
         undergraduate_period (start_year_of year season) (undergraduate_ordinal season)"
      "i = \<lparr>ti_education_level = level_undergraduate, ti_period_id = trim_space term_code,
            ti_term_label = undergraduate_label year season\<rparr>"
  | (graduate) start stop season where
      "trim_space term_id = start @ ''-'' @ stop @ season" "length start = 4"
      "list_all is_digit start" "length stop = 4" "list_all is_digit stop"
      "season \<in> {season_summer_autumn, season_spring}"
      "digits_value stop = digits_value start + 1"
      "trim_space term_code = int_text (digits_value start) @ ''-'' @
         int_text (digits_value stop) @ ''-'' @ (if season = season_spring then ''3'' else ''2'')"
      "i = \<lparr>ti_education_level = level_graduate,
            ti_period_id = graduate_period (digits_value start) season,
            ti_term_label = int_text (digits_value start) @ ''-'' @
              int_text (digits_value stop) @ '' '' @ year_word @ season @ term_word\<rparr>"
proof (cases "undergraduate_term (trim_space term_id)")
  case (Some ys)
  then obtain year season where ys: "undergraduate_term (trim_space term_id) = Some (year, season)"
    by (cases ys) simp
  note shape = undergraduate_term_shape [OF ys]
  have id: "undergraduate_identity year season (trim_space term_code) = Some i"
    using assms ys by (simp add: normalize_source_term_def)
  then have "trim_space term_code =
      undergraduate_period (start_year_of year season) (undergraduate_ordinal season)"
    by (simp add: undergraduate_identity_def Let_def undergraduate_period_def
        undergraduate_ordinal_def start_year_of_def split: if_splits)
  moreover have "i = \<lparr>ti_education_level = level_undergraduate, ti_period_id = trim_space term_code,
      ti_term_label = undergraduate_label year season\<rparr>"
    using id shape by (auto simp: undergraduate_identity_def Let_def undergraduate_label_def
        split: if_splits)
  ultimately show thesis using undergraduate shape by blast
next
  case None
  with assms obtain start stop season where
    gs: "graduate_term (trim_space term_id) = Some (start, stop, season)"
    and id: "graduate_identity start stop season (trim_space term_code) = Some i"
    by (auto simp: normalize_source_term_def split: option.splits)
  note shape = graduate_term_shape [OF gs]
  have "digits_value stop = digits_value start + 1 \<and>
    trim_space term_code = int_text (digits_value start) @ ''-'' @
      int_text (digits_value stop) @ ''-'' @ (if season = season_spring then ''3'' else ''2'') \<and>
    i = \<lparr>ti_education_level = level_graduate,
          ti_period_id = graduate_period (digits_value start) season,
          ti_term_label = int_text (digits_value start) @ ''-'' @
            int_text (digits_value stop) @ '' '' @ year_word @ season @ term_word\<rparr>"
    using id by (auto simp: graduate_identity_def Let_def graduate_period_def split: if_splits)
  with graduate shape show thesis by blast
qed

lemma undergraduate_period_inject:
  assumes "- 1 \<le> a" and "- 1 \<le> b"
    and "undergraduate_period a (undergraduate_ordinal x) =
      undergraduate_period b (undergraduate_ordinal y)"
  shows "a = b \<and> undergraduate_ordinal x = undergraduate_ordinal y"
proof -
  have split: "undergraduate_period n (undergraduate_ordinal z) =
      (int_text n @ ''-'' @ digits (n + 1)) @ ''-'' @ undergraduate_ordinal z" if "- 1 \<le> n" for n z
    using that by (simp add: undergraduate_period_def int_text_nonneg)
  have all: "((int_text a @ ''-'' @ digits (a + 1)) @ ''-'') @ undergraduate_ordinal x =
      ((int_text b @ ''-'' @ digits (b + 1)) @ ''-'') @ undergraduate_ordinal y"
    using assms(3) unfolding split [OF assms(1)] split [OF assms(2)] by simp
  have "length (undergraduate_ordinal x) = length (undergraduate_ordinal y)"
    by (simp add: undergraduate_ordinal_def)
  from append_eq_append_conv [THEN iffD1, OF disjI2, OF this all] have
    eq: "(int_text a @ ''-'' @ digits (a + 1)) @ ''-'' = (int_text b @ ''-'' @ digits (b + 1)) @ ''-''"
    and o: "undergraduate_ordinal x = undergraduate_ordinal y"
    by (rule conjunct1, rule conjunct2)
  have "a + 1 = b + 1"
    by (rule digits_back_inject [of _ _ "CHR ''-''" "int_text a" "int_text b"])
      (use assms eq in \<open>simp_all add: is_digit_def\<close>)
  with o show ?thesis by simp
qed

lemma undergraduate_ordinal_inject:
  "\<lbrakk>x \<in> {season_summer, season_autumn, season_spring};
    y \<in> {season_summer, season_autumn, season_spring};
    undergraduate_ordinal x = undergraduate_ordinal y\<rbrakk> \<Longrightarrow> x = y"
  by (auto simp: undergraduate_ordinal_def)

lemma graduate_period_inject:
  assumes "0 \<le> a" and "0 \<le> b" and "graduate_period a x = graduate_period b y"
    and "x \<in> {season_summer_autumn, season_spring}" "y \<in> {season_summer_autumn, season_spring}"
  shows "a = b \<and> x = y"
proof -
  have colon: "\<not> is_digit (CHR '':'')" by (simp add: is_digit_def)
  have "digits a @ CHR '':'' # (if x = season_spring then ''12'' else ''11'') =
      digits b @ CHR '':'' # (if y = season_spring then ''12'' else ''11'')"
    using assms(1-3) by (simp add: graduate_period_def int_text_nonneg)
  from digits_front_inject [OF assms(1,2) colon this]
  have "a = b" "x = season_spring \<longleftrightarrow> y = season_spring" by (simp_all split: if_splits)
  with assms(4,5) show ?thesis by auto
qed

text \<open>The level and the period determine the texts they were read from.\<close>

lemma normalized_term_inject:
  assumes "normalize_source_term t c = Some i" and "normalize_source_term t' c' = Some i'"
    and "ti_education_level i = ti_education_level i'" and "ti_period_id i = ti_period_id i'"
  shows "trim_space t = trim_space t' \<and> trim_space c = trim_space c'"
  using assms(1)
proof (cases rule: normalized_term_cases)
  case u: (undergraduate year season)
  from assms(2) show ?thesis
  proof (cases rule: normalized_term_cases)
    case v: (undergraduate year' season')
    have "- 1 \<le> start_year_of year season" "- 1 \<le> start_year_of year' season'"
      using digits_value_nonneg [OF u(3)] digits_value_nonneg [OF v(3)]
      by (auto simp: start_year_of_def)
    moreover have "undergraduate_period (start_year_of year season) (undergraduate_ordinal season) =
        undergraduate_period (start_year_of year' season') (undergraduate_ordinal season')"
      using u(5,6) v(5,6) assms(4) by simp
    ultimately have o: "start_year_of year season = start_year_of year' season'"
      "undergraduate_ordinal season = undergraduate_ordinal season'"
      using undergraduate_period_inject by blast+
    have season: "season = season'" by (rule undergraduate_ordinal_inject [OF u(4) v(4) o(2)])
    with o(1) have "digits_value year = digits_value year'"
      by (simp add: start_year_of_def split: if_splits)
    with u(2) v(2) have "year = year'" by (intro digits_value_same_length [OF _ u(3) v(3)]) simp
    with season u(1,5) v(1,5) show ?thesis by simp
  next
    case (graduate start stop season')
    with u assms(3) show ?thesis by (simp add: level_undergraduate_def level_graduate_def)
  qed
next
  case u: (graduate start stop season)
  from assms(2) show ?thesis
  proof (cases rule: normalized_term_cases)
    case (undergraduate year season')
    with u assms(3) show ?thesis by (simp add: level_undergraduate_def level_graduate_def)
  next
    case v: (graduate start' stop' season')
    have "0 \<le> digits_value start" "0 \<le> digits_value start'"
      using digits_value_nonneg [OF u(3)] digits_value_nonneg [OF v(3)] by auto
    from graduate_period_inject [OF this _ u(6) v(6)] u(9) v(9) assms(4)
    have "digits_value start = digits_value start'" "season = season'" by simp_all
    moreover from this have "start = start'" "stop = stop'"
      using u(2,4,7) v(2,4,7) digits_value_same_length [OF _ u(3) v(3)]
        digits_value_same_length [OF _ u(5) v(5)] by simp_all
    ultimately show ?thesis using u v by simp
  qed
qed

section \<open>Texts that are not blank\<close>

lemma trim_by_all:
  "\<lbrakk>trim_by n rs t = []; t \<noteq> []\<rbrakk> \<Longrightarrow> \<exists>r\<in>set rs. last t = last r"
proof (induction n arbitrary: t)
  case (Suc n)
  from Suc.prems obtain m where m: "space_at rs t = Some m"
    by (cases "space_at rs t") auto
  then obtain r where r: "r \<in> set rs" "has_prefix t r" "m = length r"
    using space_at_Some by blast
  show ?case
  proof (cases "drop m t = []")
    case True
    with r have "t = r" by (simp add: has_prefix_def)
    with r show ?thesis by blast
  next
    case False
    moreover from Suc.prems(1) m have "trim_by n rs (drop m t) = []" by simp
    ultimately have "\<exists>r\<in>set rs. last (drop m t) = last r" by (intro Suc.IH)
    with False show ?thesis by (simp add: last_drop)
  qed
qed simp

text \<open>A text that starts with a visible ASCII character does not trim to nothing.\<close>

lemma trim_space_not_blank:
  assumes "visible (hd s)" and "s \<noteq> []"
  shows "trim_space s \<noteq> []"
proof
  assume blank: "trim_space s = []"
  have "trim_left s = s"
    using assms space_runes_ends space_runes_nonempty
    by (auto simp: trim_left_def space_at_None intro!: trim_by_id dest!: has_prefix_hd)
  with blank have "trim_by (length s) (map rev space_runes) (rev s) = []"
    by (simp add: trim_space_def trim_right_def)
  from trim_by_all [OF this] assms(2) obtain r where "r \<in> set space_runes" "hd s = hd r"
    by (auto simp: last_rev)
  with assms(1) space_runes_ends show False by metis
qed

lemma visible_digit: "is_digit c \<Longrightarrow> visible c"
  by (simp add: is_digit_def visible_def)

lemma digits_start: "0 \<le> n \<Longrightarrow> visible (hd (digits n @ s)) \<and> digits n @ s \<noteq> []"
  using digits_are_digits(1,2) [of n]
  by (cases "digits n") (simp_all add: visible_digit)

lemma int_text_start: "visible (hd (int_text n @ s)) \<and> int_text n @ s \<noteq> []"
  using digits_start [of n s] by (auto simp: int_text_def visible_def)

lemma normalized_term_identity:
  assumes "normalize_source_term term_id term_code = Some i"
  shows "valid_term_identity (ti_education_level i) (ti_period_id i) (ti_term_label i)
    (trim_space term_code)"
  using assms
proof (cases rule: normalized_term_cases)
  case (undergraduate year season)
  then show ?thesis
    using trim_space_not_blank int_text_start
    by (simp add: valid_term_identity_def undergraduate_label_def undergraduate_period_def)
next
  case (graduate start stop season)
  then show ?thesis
    using trim_space_not_blank int_text_start
    by (simp add: valid_term_identity_def graduate_period_def)
qed

section \<open>Teachers\<close>

lemma contains_sublist: "contains s p \<Longrightarrow> sublist p s"
  by (induction s p rule: contains.induct)
    (auto simp: has_prefix_def sublist_Cons_right prefix_def, metis append_take_drop_id)

lemma no_space_trim_space:
  assumes "no_space s"
  shows "trim_space s = s"
proof -
  have "\<not> has_prefix (rev s) (rev r)" if r: "r \<in> set space_runes" for r
  proof
    assume pre: "has_prefix (rev s) (rev r)"
    let ?i = "length s - length r"
    from pre have "drop ?i s = r"
      by (simp add: has_prefix_def take_rev)
    then have "has_prefix (drop ?i s) r" by (simp add: has_prefix_def)
    moreover have "space_at space_runes (drop ?i s) = None"
      using assms by (simp add: no_space_def)
    ultimately show False using r by (simp add: space_at_None)
  qed
  then have "space_at (map rev space_runes) (rev s) = None" by (auto simp: space_at_None)
  then have "trim_right s = s" by (simp add: trim_right_def trim_by_id)
  with no_space_trim [OF assms] show ?thesis by (simp add: trim_space_def)
qed

text \<open>
  The name of a group is the normalised name already: the SQL text removed its white space and
  refused the separators the Go code looks for.
\<close>

lemma teacher_name_normalized:
  assumes "one_teacher k (source_row_of k d)"
    and "valid_utf8 (sql_trim (sql_text (gd_teacher_name d)))"
  shows "normalize_teacher_name (gr_teacher_name (source_row_of k d)) = gr_teacher_name (source_row_of k d)"
    and "gr_teacher_name (source_row_of k d) \<noteq> ''''"
proof -
  let ?name = "gr_teacher_name (source_row_of k d)"
  have "no_space ?name"
    using strip_spaces_no_space [OF assms(2)] by (simp add: source_row_of_def Let_def)
  then have "join '''' (go_fields (trim_space ?name)) = ?name"
    by (simp add: no_space_trim_space no_space_fields)
  moreover have "\<not> contains_any ?name teacher_separators"
    using assms(1) contains_sublist
    by (fastforce simp: one_teacher_def contains_any_def list_all_iff list_ex_iff sql_locate_def
        set_sublists_eq)
  ultimately show "normalize_teacher_name ?name = ?name"
    by (simp add: normalize_teacher_name_def)
  show "?name \<noteq> ''''" using assms(1) by (auto simp: one_teacher_def sql_blank_def)
qed

section \<open>Reading the result\<close>

definition kept_term :: "source_aggregate_row \<Rightarrow> source_term_identity option" where
  "kept_term row = normalize_source_term (sa_term_id row) (sa_term_code row)"

definition course_rows :: "source_aggregate_row \<Rightarrow> course_term_aggregate list" where
  "course_rows row =
     (case kept_term row of
        None \<Rightarrow> []
      | Some i \<Rightarrow> if sa_dimension_type row = dimension_course then [course_of_row row i] else [])"

definition instructor_rows ::
    "(string \<Rightarrow> string) \<Rightarrow> source_aggregate_row \<Rightarrow> instructor_term_aggregate list" where
  "instructor_rows sha row =
     (case kept_term row of
        None \<Rightarrow> []
      | Some i \<Rightarrow>
          if sa_dimension_type row = dimension_course then []
          else (case instructor_of_row sha row i of None \<Rightarrow> [] | Some x \<Rightarrow> [x]))"

lemma add_source_row_result:
  assumes "add_source_row sha row s = Inr s'"
  shows "snapshot_courses s' = snapshot_courses s @ course_rows row \<and>
     snapshot_instructors s' = snapshot_instructors s @ instructor_rows sha row \<and>
     source_row_count s' =
       source_row_count s + sum_list (map ct_valid_count (course_rows row))"
  using assms
  by (auto simp: add_source_row_def course_rows_def instructor_rows_def kept_term_def Let_def
      split: option.splits if_splits)

lemma read_source_rows_result:
  "read_source_rows env i rows s = Inr s' \<Longrightarrow>
   snapshot_courses s' = snapshot_courses s @ concat (map course_rows rows) \<and>
   snapshot_instructors s' =
     snapshot_instructors s @ concat (map (instructor_rows (so_sha256_hex env)) rows) \<and>
   source_row_count s' = source_row_count s +
     sum_list (map ct_valid_count (concat (map course_rows rows)))"
proof (induction env i rows s rule: read_source_rows.induct)
  case (2 env i row rows s)
  then show ?case
    by (auto simp: add.assoc dest!: add_source_row_result split: option.splits sum.splits)
qed simp

lemma source_aggregate_result:
  assumes "source_aggregate env source = Inr s"
  shows "snapshot_courses s = concat (map course_rows (result_rows env)) \<and>
     snapshot_instructors s =
       concat (map (instructor_rows (so_sha256_hex env)) (result_rows env)) \<and>
     source_row_count s = sum_list (map ct_valid_count (snapshot_courses s)) \<and>
     source_cutoff_at s = of_unix_milli (so_cutoff_millis env)"
  using assms
  by (auto simp: source_aggregate_def empty_source_snapshot_def
      dest!: read_source_rows_result split: option.splits if_splits sum.splits)

lemma mset_concat_map:
  "mset xs = mset ys \<Longrightarrow> mset (concat (map f xs)) = mset (concat (map f ys))"
proof -
  have "mset (concat (map f xs)) = \<Sum>\<^sub># (image_mset (\<lambda>x. mset (f x)) (mset xs))" for xs
    by (induction xs) simp_all
  then show "mset xs = mset ys \<Longrightarrow> ?thesis" by simp
qed

section \<open>The snapshot is valid\<close>

text \<open>
  What the snapshot rests on: the collation tells the level words apart and takes different term
  texts of the table for different; the texts the groups are built from have no white space around
  them that Go would trim and MySQL would not; teacher names are UTF-8; the hash of a name is a
  hexadecimal text and tells the teachers of this table apart; the server returns every group once.
\<close>

definition clean_row :: "collation \<Rightarrow> grade_detail \<Rightarrow> bool" where
  "clean_row k d \<longleftrightarrow>
     (let r = source_row_of k d
      in trim_space (gr_term_id r) = gr_term_id r \<and>
         trim_space (gr_term_code r) = gr_term_code r \<and>
         trim_space (gr_course_code r) = gr_course_code r \<and>
         valid_utf8 (sql_trim (sql_text (gd_teacher_name d))))"

definition same_term :: "source_row \<Rightarrow> source_row \<Rightarrow> bool" where
  "same_term r r' \<longleftrightarrow> gr_term_id r = gr_term_id r' \<and> gr_term_code r = gr_term_code r'"

definition clean_table :: "source_env \<Rightarrow> bool" where
  "clean_table env \<longleftrightarrow>
     (let k = so_collation env; valid = valid_rows k (so_details env);
          answer = source_aggregate_query k (so_details env)
      in separates_levels k \<and>
         list_all (clean_row k) (filter (counts_as_source_row k) (so_details env)) \<and>
         list_all (\<lambda>r. list_all (\<lambda>r'. course_group_key k r = course_group_key k r' \<longrightarrow> same_term r r')
           valid) valid \<and>
         inj_on (so_sha256_hex env) (gr_teacher_name ` set valid) \<and>
         (\<forall>name. so_sha256_hex env name \<noteq> '''' \<and> list_all visible (so_sha256_hex env name)) \<and>
         length (so_details env) \<le> 922337203685477 \<and>
         mset (so_order env answer) = mset answer)"

lemma sint_sql_count:
  "length rows \<le> 922337203685477 \<Longrightarrow> sint (sql_count P rows) = int (length (filter P rows))"
proof -
  assume "length rows \<le> 922337203685477"
  then have "length (filter P rows) \<le> 922337203685477" by (rule le_trans [OF length_filter_le])
  then show ?thesis unfolding sql_count_def by (intro sint64_of_int) simp_all
qed

lemma valid_row_from:
  assumes "r \<in> set (valid_rows k details)"
  obtains d where "d \<in> set details" "counts_as_source_row k d" "r = source_row_of k d"
    "passed_row k r \<noteq> None"
  using assms by (auto simp: valid_rows_def)

lemma length_valid_rows: "length (valid_rows k details) \<le> length details"
  unfolding valid_rows_def by (rule le_trans [OF length_filter_le]) (simp add: le_trans)

lemma length_group:
  assumes "g \<in> set (group_on f xs)"
  shows "length g \<le> length xs"
proof -
  have "length g \<le> length (concat (group_on f xs))"
    using assms by (simp add: length_concat member_le_sum_list)
  then show ?thesis using mset_groups [of f xs] by (metis mset_eq_length)
qed

lemma aggregate_group_counts:
  assumes "rows \<noteq> []" and "length rows \<le> 922337203685477"
    and "\<And>r. r \<in> set rows \<Longrightarrow> passed_row k r \<noteq> None" and "separates_levels k"
    and "row = aggregate_group k dimension teacher rows"
  shows "\<not> sa_valid_count row \<le>s 0"
    and "sa_pass_count row + sa_fail_count row = sa_valid_count row"
    and "valid_numeric_score_aggregate (sa_valid_count row) (sa_numeric_score_count row)
      (sa_numeric_score_sum_x100 row)"
    and "distribution_total (sa_distribution row) = sa_valid_count row"
proof -
  note count = sint_sql_count [OF assms(2)]
  show "\<not> sa_valid_count row \<le>s 0"
    using assms(1) by (simp add: assms(5) aggregate_group_def word_sle_eq count)
  have "(\<Sum>P\<leftarrow>[\<lambda>r. passed_row k r = Some True, \<lambda>r. passed_row k r = Some False].
      sql_count P rows) = sql_count (\<lambda>_. True) rows"
    by (rule sql_count_partition) (use assms(3) in force)
  then show "sa_pass_count row + sa_fail_count row = sa_valid_count row"
    by (simp add: assms(5) aggregate_group_def)
  let ?n = "length (filter (score_in k (\<lambda>_. True)) rows)"
  have n: "?n \<le> length rows" by simp
  have "0 \<le> sum_x100 k rows" "sum_x100 k rows \<le> 10000 * int ?n"
    using sum_x100_range by blast+
  moreover have "10000 * int ?n \<le> 9223372036854770000" using n assms(2) by linarith
  ultimately have "sint (word_of_int (min (2 ^ 63 - 1) (sum_x100 k rows)) :: int64) =
      sum_x100 k rows" "0 \<le> sum_x100 k rows" "sum_x100 k rows \<le> 10000 * int ?n"
    by (auto intro: trans [OF sint64_of_int])
  moreover have "sint (sql_count (score_in k (\<lambda>_. True)) rows * 10000) = int ?n * 10000"
    using sint64_mult [of "sql_count (score_in k (\<lambda>_. True)) rows" 10000] n assms(2)
    by (simp add: count)
  ultimately show "valid_numeric_score_aggregate (sa_valid_count row)
      (sa_numeric_score_count row) (sa_numeric_score_sum_x100 row)"
    using n by (simp add: assms(5) aggregate_group_def valid_numeric_score_aggregate_def
        word_sle_eq count)
  show "distribution_total (sa_distribution row) = sa_valid_count row"
    using sql_count_partition [OF one_bucket [OF assms(4) assms(3)]]
    by (simp add: assms(5) aggregate_group_def source_distribution_def distribution_total_def
        add.assoc)
qed

text \<open>The courses come from the course groups, the instructors from the instructor groups.\<close>

definition group_term :: "source_row list \<Rightarrow> source_term_identity option" where
  "group_term g = normalize_source_term (gr_term_id (hd g)) (gr_term_code (hd g))"

definition course_groups :: "source_env \<Rightarrow> source_row list list" where
  "course_groups env = filter (\<lambda>g. group_term g \<noteq> None)
     (group_on (course_group_key (so_collation env)) (valid_rows (so_collation env) (so_details env)))"

definition instructor_groups :: "source_env \<Rightarrow> source_row list list" where
  "instructor_groups env = filter (\<lambda>g. group_term g \<noteq> None)
     (group_on (instructor_group_key (so_collation env))
        (filter (one_teacher (so_collation env))
           (valid_rows (so_collation env) (so_details env))))"

definition course_of_group :: "collation \<Rightarrow> source_row list \<Rightarrow> course_term_aggregate" where
  "course_of_group k g = course_of_row (course_group k g) (the (group_term g))"

definition instructor_of_group ::
    "collation \<Rightarrow> (string \<Rightarrow> string) \<Rightarrow> source_row list \<Rightarrow> instructor_term_aggregate" where
  "instructor_of_group k sha g =
     the (instructor_of_row sha (instructor_group k g) (the (group_term g)))"

lemma kept_term_group [simp]:
  "kept_term (course_group k g) = group_term g"
  "kept_term (instructor_group k g) = group_term g"
  by (simp_all add: kept_term_def group_term_def course_group_def instructor_group_def
      aggregate_group_def)

lemma dimension_group [simp]:
  "sa_dimension_type (course_group k g) = dimension_course"
  "sa_dimension_type (instructor_group k g) = dimension_instructor"
  "dimension_instructor \<noteq> dimension_course"
  by (simp_all add: course_group_def instructor_group_def aggregate_group_def
      dimension_course_def dimension_instructor_def)

lemma concat_course_rows:
  "concat (map course_rows (map (course_group k) gs)) =
     map (course_of_group k) (filter (\<lambda>g. group_term g \<noteq> None) gs)"
  "concat (map course_rows (map (instructor_group k) gs)) = []"
  by (induction gs) (auto simp: course_rows_def course_of_group_def split: option.splits)

lemma mset_courses:
  assumes "source_aggregate env source = Inr s" and "clean_table env"
  shows "mset (snapshot_courses s) =
    mset (map (course_of_group (so_collation env)) (course_groups env))"
proof -
  have "mset (result_rows env) =
      mset (source_aggregate_query (so_collation env) (so_details env))"
    using assms(2) by (simp add: clean_table_def result_rows_def Let_def)
  from mset_concat_map [OF this, of course_rows] source_aggregate_result [OF assms(1)]
  show ?thesis
    by (simp add: source_aggregate_query_def Let_def concat_course_rows course_groups_def
        del: map_map)
qed

lemma instructor_group_row:
  assumes "clean_table env" and "g \<in> set (instructor_groups env)"
  shows "\<exists>d i. d \<in> set (so_details env) \<and> counts_as_source_row (so_collation env) d \<and>
     hd g = source_row_of (so_collation env) d \<and> clean_row (so_collation env) d \<and>
     hd g \<in> set (valid_rows (so_collation env) (so_details env)) \<and>
     group_term g = Some i \<and>
     normalize_teacher_name (gr_teacher_name (hd g)) = gr_teacher_name (hd g) \<and>
     gr_teacher_name (hd g) \<noteq> ''''"
proof -
  let ?k = "so_collation env"
  from assms(2) have g: "g \<in> set (group_on (instructor_group_key ?k)
      (filter (one_teacher ?k) (valid_rows ?k (so_details env))))" "group_term g \<noteq> None"
    by (simp_all add: instructor_groups_def)
  then have "hd g \<in> set (filter (one_teacher ?k) (valid_rows ?k (so_details env)))"
    using group_members group_nonempty hd_in_set by metis
  then have h: "one_teacher ?k (hd g)" "hd g \<in> set (valid_rows ?k (so_details env))" by simp_all
  from h(2) obtain d where d: "d \<in> set (so_details env)" "counts_as_source_row ?k d"
    "hd g = source_row_of ?k d" by (rule valid_row_from)
  with assms(1) have "clean_row ?k d"
    by (auto simp: clean_table_def Let_def list_all_iff)
  moreover from this have "valid_utf8 (sql_trim (sql_text (gd_teacher_name d)))"
    by (simp add: clean_row_def Let_def)
  ultimately show ?thesis
    using h d g(2) teacher_name_normalized [of ?k d] by auto
qed

lemma instructor_of_group_eq:
  assumes "clean_table env" and "g \<in> set (instructor_groups env)"
  shows "instructor_of_row sha (instructor_group (so_collation env) g) i =
     Some \<lparr>it_education_level = ti_education_level i, it_period_id = ti_period_id i,
       it_term_label = ti_term_label i,
       it_term_code = trim_space (gr_term_code (hd g)),
       it_course_code = trim_space (gr_course_code (hd g)),
       it_course_name = trim_space (sql_max (so_collation env) (map gr_course_name g)),
       it_teacher_key = sha (gr_teacher_name (hd g)),
       it_teacher_name = gr_teacher_name (hd g),
       it_class_count = sa_class_count (instructor_group (so_collation env) g),
       it_valid_count = sa_valid_count (instructor_group (so_collation env) g),
       it_pass_count = sa_pass_count (instructor_group (so_collation env) g),
       it_fail_count = sa_fail_count (instructor_group (so_collation env) g),
       it_numeric_score_count = sa_numeric_score_count (instructor_group (so_collation env) g),
       it_numeric_score_sum_x100 =
         sa_numeric_score_sum_x100 (instructor_group (so_collation env) g),
       it_distribution = sa_distribution (instructor_group (so_collation env) g)\<rparr>"
  using instructor_group_row [OF assms]
  by (auto simp: instructor_of_row_def instructor_group_def aggregate_group_def Let_def)

lemma mset_instructors:
  assumes "source_aggregate env source = Inr s" and "clean_table env"
  shows "mset (snapshot_instructors s) =
    mset (map (instructor_of_group (so_collation env) (so_sha256_hex env))
      (instructor_groups env))"
proof -
  let ?k = "so_collation env" and ?sha = "so_sha256_hex env"
  have "instructor_rows ?sha (course_group ?k g) = []" for g
    by (simp add: instructor_rows_def split: option.splits)
  then have c: "concat (map (instructor_rows ?sha) (map (course_group ?k) gs)) = []" for gs
    by (induction gs) simp_all
  have i: "concat (map (instructor_rows ?sha) (map (instructor_group ?k) gs)) =
      map (instructor_of_group ?k ?sha) (filter (\<lambda>g. group_term g \<noteq> None) gs)"
    if "set (filter (\<lambda>g. group_term g \<noteq> None) gs) \<subseteq> set (instructor_groups env)" for gs
    using that
  proof (induction gs)
    case (Cons g gs)
    then show ?case
      using instructor_of_group_eq [OF assms(2), of g ?sha]
      by (cases "group_term g") (simp_all add: instructor_rows_def instructor_of_group_def)
  qed simp
  have "mset (result_rows env) =
      mset (source_aggregate_query ?k (so_details env))"
    using assms(2) by (simp add: clean_table_def result_rows_def Let_def)
  from mset_concat_map [OF this, of "instructor_rows ?sha"] source_aggregate_result [OF assms(1)]
  show ?thesis
    by (simp add: source_aggregate_query_def Let_def c i instructor_groups_def del: map_map)
qed

lemma group_rows_counted:
  assumes "clean_table env" and "g \<in> set (group_on f rows)"
    and "mset rows \<subseteq># mset (valid_rows (so_collation env) (so_details env))"
  shows "g \<noteq> []" and "length g \<le> 922337203685477"
    and "\<And>r. r \<in> set g \<Longrightarrow> passed_row (so_collation env) r \<noteq> None"
    and "separates_levels (so_collation env)"
proof -
  let ?k = "so_collation env"
  show "g \<noteq> []" by (rule group_nonempty [OF assms(2)])
  have "length g \<le> length rows" by (rule length_group [OF assms(2)])
  also have "\<dots> \<le> length (valid_rows ?k (so_details env))"
    using size_mset_mono [OF assms(3)] by simp
  also have "\<dots> \<le> length (so_details env)" by (rule length_valid_rows)
  also have "\<dots> \<le> 922337203685477" using assms(1) by (simp add: clean_table_def Let_def)
  finally show "length g \<le> 922337203685477" .
  show "passed_row ?k r \<noteq> None" if "r \<in> set g" for r
    using group_members [OF assms(2) that] set_mset_mono [OF assms(3)]
    by (auto simp: valid_rows_def)
  show "separates_levels ?k" using assms(1) by (simp add: clean_table_def Let_def)
qed

lemma hd_of_course_group:
  assumes "clean_table env" and "g \<in> set (course_groups env)"
  shows "\<exists>d. hd g = source_row_of (so_collation env) d \<and> clean_row (so_collation env) d \<and>
     counts_as_source_row (so_collation env) d \<and>
     hd g \<in> set (valid_rows (so_collation env) (so_details env))"
proof -
  let ?k = "so_collation env"
  from assms(2) have g: "g \<in> set (group_on (course_group_key ?k) (valid_rows ?k (so_details env)))"
    by (simp add: course_groups_def)
  then have h: "hd g \<in> set (valid_rows ?k (so_details env))"
    using group_members group_nonempty hd_in_set by metis
  then obtain d where "d \<in> set (so_details env)" "counts_as_source_row ?k d" "hd g = source_row_of ?k d"
    by (rule valid_row_from)
  with h assms(1) show ?thesis by (auto simp: clean_table_def Let_def list_all_iff)
qed

text \<open>The trimmed course code of a counted row is not blank for Go either.\<close>

lemma course_code_present:
  assumes "clean_row k d" and "counts_as_source_row k d"
  shows "trim_space (gr_course_code (source_row_of k d)) = gr_course_code (source_row_of k d)"
    and "gr_course_code (source_row_of k d) \<noteq> ''''"
  using assms
  by (auto simp: clean_row_def Let_def source_row_of_def counts_as_source_row_def sql_present_def
      sql_blank_def sql_text_def split: option.splits)

lemma course_of_group_valid:
  assumes "clean_table env" and "g \<in> set (course_groups env)"
  shows "\<not> invalid_course (course_of_group (so_collation env) g)"
    and "distribution_total (ct_distribution (course_of_group (so_collation env) g)) =
      ct_valid_count (course_of_group (so_collation env) g)"
proof -
  let ?k = "so_collation env"
  from assms(2) obtain i where g: "g \<in> set (group_on (course_group_key ?k) (valid_rows ?k (so_details env)))"
    and i: "group_term g = Some i"
    by (auto simp: course_groups_def)
  note rows = group_rows_counted [OF assms(1) g subset_mset.order_refl]
  note counts = aggregate_group_counts [OF rows course_group_def [THEN fun_cong]]
  obtain d where "hd g = source_row_of ?k d" "clean_row ?k d" "counts_as_source_row ?k d"
    using hd_of_course_group [OF assms] by blast
  with course_code_present have "trim_space (trim_space (gr_course_code (hd g))) \<noteq> ''''" by metis
  with counts normalized_term_identity [OF i [unfolded group_term_def]]
  show "\<not> invalid_course (course_of_group ?k g)"
    by (simp add: invalid_course_def course_of_group_def course_of_row_def i)
      (simp add: course_group_def aggregate_group_def)
  show "distribution_total (ct_distribution (course_of_group ?k g)) =
      ct_valid_count (course_of_group ?k g)"
    using counts by (simp add: course_of_group_def course_of_row_def)
qed

lemma instructor_of_group_valid:
  assumes "clean_table env" and "g \<in> set (instructor_groups env)"
  shows "\<not> invalid_instructor (instructor_of_group (so_collation env) (so_sha256_hex env) g)"
    and "distribution_total (it_distribution
        (instructor_of_group (so_collation env) (so_sha256_hex env) g)) =
      it_valid_count (instructor_of_group (so_collation env) (so_sha256_hex env) g)"
proof -
  let ?k = "so_collation env" and ?sha = "so_sha256_hex env"
  let ?rows = "filter (one_teacher ?k) (valid_rows ?k (so_details env))"
  from assms(2) have g: "g \<in> set (group_on (instructor_group_key ?k) ?rows)"
    by (simp add: instructor_groups_def)
  have "mset ?rows \<subseteq># mset (valid_rows ?k (so_details env))" by simp
  note rows = group_rows_counted [OF assms(1) g this]
  note counts = aggregate_group_counts [OF rows instructor_group_def [THEN fun_cong]]
  obtain d i where d: "hd g = source_row_of ?k d" "clean_row ?k d" "counts_as_source_row ?k d"
    and i: "group_term g = Some i"
    using instructor_group_row [OF assms] by blast
  with course_code_present have "trim_space (trim_space (gr_course_code (hd g))) \<noteq> ''''" by metis
  moreover have "trim_space (?sha n) \<noteq> ''''" for n
  proof -
    have "?sha n \<noteq> []" "list_all visible (?sha n)"
      using assms(1) by (simp_all add: clean_table_def Let_def)
    then show ?thesis by (intro trim_space_not_blank) (simp_all add: list_all_iff)
  qed
  ultimately show "\<not> invalid_instructor (instructor_of_group ?k ?sha g)"
    using counts normalized_term_identity [OF i [unfolded group_term_def]]
    by (simp add: invalid_instructor_def instructor_of_group_def instructor_of_group_eq [OF assms] i)
  show "distribution_total (it_distribution (instructor_of_group ?k ?sha g)) =
      it_valid_count (instructor_of_group ?k ?sha g)"
    using counts by (simp add: instructor_of_group_def instructor_of_group_eq [OF assms])
qed

text \<open>Two groups in the same privacy partition have the same key.\<close>

lemma same_partition_key:
  assumes "trim_space (gr_term_id (hd g)) = gr_term_id (hd g)"
    and "trim_space (gr_term_code (hd g)) = gr_term_code (hd g)"
    and "trim_space (gr_term_id (hd h)) = gr_term_id (hd h)"
    and "trim_space (gr_term_code (hd h)) = gr_term_code (hd h)"
    and "group_term g = Some i" and "group_term h = Some j"
    and "ti_education_level i = ti_education_level j" and "ti_period_id i = ti_period_id j"
    and "gr_course_code (hd g) = gr_course_code (hd h)"
  shows "course_group_key k (hd g) = course_group_key k (hd h)"
  using normalized_term_inject [OF assms(5,6) [unfolded group_term_def] assms(7,8)] assms(1-4,9)
  by (simp add: course_group_key_def)

lemma distinct_courses:
  assumes "clean_table env"
  shows "distinct (map course_partition (map (course_of_group (so_collation env)) (course_groups env)))"
  unfolding map_map
proof (rule distinct_map_weaken)
  let ?k = "so_collation env"
  show "distinct (map (\<lambda>g. course_group_key ?k (hd g)) (course_groups env))"
    unfolding course_groups_def by (rule distinct_map_filter) (rule distinct_group_keys)
  fix g h assume g: "g \<in> set (course_groups env)" and h: "h \<in> set (course_groups env)"
    and eq: "(course_partition \<circ> course_of_group ?k) g = (course_partition \<circ> course_of_group ?k) h"
  obtain i j where "group_term g = Some i" "group_term h = Some j"
    using g h by (auto simp: course_groups_def)
  moreover obtain d where "hd g = source_row_of ?k d" "clean_row ?k d"
    using hd_of_course_group [OF assms g] by blast
  moreover obtain d' where "hd h = source_row_of ?k d'" "clean_row ?k d'"
    using hd_of_course_group [OF assms h] by blast
  ultimately show "course_group_key ?k (hd g) = course_group_key ?k (hd h)"
    using eq
    by (intro same_partition_key [of g h i j])
      (simp_all add: clean_row_def Let_def course_partition_def course_of_group_def
        course_of_row_def course_group_def aggregate_group_def)
qed

lemma distinct_instructors:
  assumes "clean_table env"
  shows "distinct (map instructor_partition
    (map (instructor_of_group (so_collation env) (so_sha256_hex env)) (instructor_groups env)))"
  unfolding map_map
proof (rule distinct_map_weaken)
  let ?k = "so_collation env" and ?sha = "so_sha256_hex env"
  show "distinct (map (\<lambda>g. instructor_group_key ?k (hd g)) (instructor_groups env))"
    unfolding instructor_groups_def by (rule distinct_map_filter) (rule distinct_group_keys)
  fix g h assume g: "g \<in> set (instructor_groups env)" and h: "h \<in> set (instructor_groups env)"
    and eq: "(instructor_partition \<circ> instructor_of_group ?k ?sha) g =
      (instructor_partition \<circ> instructor_of_group ?k ?sha) h"
  obtain d i where d: "hd g = source_row_of ?k d" "clean_row ?k d" "group_term g = Some i"
    "hd g \<in> set (valid_rows ?k (so_details env))"
    using instructor_group_row [OF assms g] by blast
  obtain d' j where d': "hd h = source_row_of ?k d'" "clean_row ?k d'" "group_term h = Some j"
    "hd h \<in> set (valid_rows ?k (so_details env))"
    using instructor_group_row [OF assms h] by blast
  have p: "ti_education_level i = ti_education_level j" "ti_period_id i = ti_period_id j"
    "trim_space (gr_course_code (hd g)) = trim_space (gr_course_code (hd h))"
    "?sha (gr_teacher_name (hd g)) = ?sha (gr_teacher_name (hd h))"
    using eq d(3) d'(3)
    by (simp_all add: instructor_partition_def instructor_of_group_def
        instructor_of_group_eq [OF assms g] instructor_of_group_eq [OF assms h])
  have "course_group_key ?k (hd g) = course_group_key ?k (hd h)"
    by (rule same_partition_key [OF _ _ _ _ d(3) d'(3) p(1,2)])
      (use d(1,2) d'(1,2) p(3) in \<open>simp_all add: clean_row_def Let_def\<close>)
  moreover have "gr_teacher_name (hd g) = gr_teacher_name (hd h)"
    using assms p(4) d(4) d'(4) by (auto simp: clean_table_def Let_def dest: inj_onD)
  ultimately show "instructor_group_key ?k (hd g) = instructor_group_key ?k (hd h)"
    by (simp add: instructor_group_key_def)
qed

text \<open>The rows a snapshot counts: recognised grades of a recognised term.\<close>

definition countable_rows :: "source_env \<Rightarrow> source_row list" where
  "countable_rows env = filter
     (\<lambda>r. normalize_source_term (gr_term_id r) (gr_term_code r) \<noteq> None)
     (valid_rows (so_collation env) (so_details env))"

lemma counted_rows:
  assumes "clean_table env"
  shows "(\<Sum>c\<leftarrow>map (course_of_group (so_collation env)) (course_groups env). ct_valid_count c) =
     word_of_int (int (length (countable_rows env)))"
proof -
  let ?k = "so_collation env"
  have "ct_valid_count (course_of_group ?k g) = word_of_int (int (length g))" for g
    by (simp add: course_of_group_def course_of_row_def course_group_def aggregate_group_def
        sql_count_def)
  then have "(\<Sum>c\<leftarrow>map (course_of_group ?k) gs. ct_valid_count c) =
      word_of_int (int (length (concat gs)))" for gs
    by (induction gs) simp_all
  moreover have "length (concat (course_groups env)) = length (countable_rows env)"
    unfolding course_groups_def countable_rows_def group_term_def
  proof (rule length_kept_groups)
    fix x y assume "x \<in> set (valid_rows ?k (so_details env))"
      "y \<in> set (valid_rows ?k (so_details env))" "course_group_key ?k x = course_group_key ?k y"
    with assms have "same_term x y"
      by (auto simp: clean_table_def Let_def list_all_iff)
    then show "(normalize_source_term (gr_term_id x) (gr_term_code x) \<noteq> None) =
        (normalize_source_term (gr_term_id y) (gr_term_code y) \<noteq> None)"
      by (simp add: same_term_def)
  qed
  ultimately show ?thesis by simp
qed

text \<open>
  C32: the snapshot that the aggregation of a clean table returns is consistent. \<^verbatim>\<open>Validate\<close> accepts it
  as soon as it has a course; in every row the ten score buckets add up to the number of students;
  and the row count says how many grades were counted: every recognised grade of a recognised term
  exactly once.
\<close>

theorem aggregate_snapshots_are_consistent:
  assumes "source_aggregate env source = Inr s" and "clean_table env"
  shows "(snapshot_courses s \<noteq> [] \<and> of_unix_milli (so_cutoff_millis env) \<noteq> 0 \<longrightarrow>
       snapshot_validate s = None) \<and>
     (\<forall>c\<in>set (snapshot_courses s). distribution_total (ct_distribution c) = ct_valid_count c) \<and>
     (\<forall>i\<in>set (snapshot_instructors s). distribution_total (it_distribution i) = it_valid_count i) \<and>
     source_row_count s = word_of_int (int (length (countable_rows env)))"
proof -
  let ?k = "so_collation env" and ?sha = "so_sha256_hex env"
  note courses = mset_courses [OF assms] and instructors = mset_instructors [OF assms]
  note result = source_aggregate_result [OF assms(1)]
  have c: "set (snapshot_courses s) = course_of_group ?k ` set (course_groups env)"
    using mset_eq_setD [OF courses] by simp
  have i: "set (snapshot_instructors s) = instructor_of_group ?k ?sha ` set (instructor_groups env)"
    using mset_eq_setD [OF instructors] by simp
  have dc: "distinct (map course_partition (snapshot_courses s))"
    using distinct_courses [OF assms(2)] courses mset_eq_imp_distinct_iff mset_map by metis
  have di: "distinct (map instructor_partition (snapshot_instructors s))"
    using distinct_instructors [OF assms(2)] instructors mset_eq_imp_distinct_iff mset_map by metis
  have "source_row_count s = \<Sum>\<^sub># (image_mset ct_valid_count (mset (snapshot_courses s)))"
    using result by (simp add: sum_mset_sum_list flip: mset_map)
  then have "source_row_count s = word_of_int (int (length (countable_rows env)))"
    using counted_rows [OF assms(2)] unfolding courses by (simp add: sum_mset_sum_list flip: mset_map)
  then show ?thesis
    using c i dc di result course_of_group_valid [OF assms(2)] instructor_of_group_valid [OF assms(2)]
    by (auto simp: snapshot_validate_eq acceptable_snapshot_def)
qed

section \<open>An example\<close>

lemma byte_eq: "c = char_of n \<longleftrightarrow> of_char c = (n mod 256 :: nat)"
  by (metis of_char_of of_char_eq_iff)

definition sample_term_id :: string where
  "sample_term_id = ''2024-2025'' @ season_summer_autumn"

definition sample_grade_detail :: "string \<Rightarrow> string \<Rightarrow> rat option \<Rightarrow> grade_detail" where
  "sample_grade_detail student score_str score =
     \<lparr>gd_student_id = Some student, gd_grade_id = Some ''g1'', gd_deleted_at = None,
      gd_term_id = Some sample_term_id,
      gd_term_code = Some ''2024-2025-2'', gd_course_code = Some ''C1'',
      gd_course_name = Some ''Logic'', gd_teacher_name = Some ''Li'',
      gd_selection_id = Some ''k1'', gd_score_str = Some score_str, gd_score = score\<rparr>"

definition sample_source_row :: "string \<Rightarrow> rat option \<Rightarrow> source_row" where
  "sample_source_row score_str score =
     \<lparr>gr_term_id = sample_term_id, gr_term_code = ''2024-2025-2'',
      gr_course_code = ''C1'', gr_course_name = ''Logic'', gr_teacher_name = ''Li'',
      gr_selection_id = ''k1'', gr_score_str = score_str, gr_score = score\<rparr>"

definition sample_source_env :: source_env where
  "sample_source_env =
     \<lparr>so_fault = (\<lambda>_. None), so_cutoff_millis = 1750000000000, so_unique_indexes = 1,
      so_tables = 1, so_collation = (\<lambda>s. s),
      so_details = [sample_grade_detail ''s1'' ''85.5'' None,
                    sample_grade_detail ''s2'' '''' (Some 59),
                    sample_grade_detail ''s3'' ''absent'' (Some 70)],
      so_order = (\<lambda>rows. rows), so_grants = [''GRANT SELECT ON `grades`.* TO `stats`''],
      so_sha256_hex = (\<lambda>_. ''a''), so_unicode_upper = (\<lambda>s. s)\<rparr>"

lemma strip_spaces_visible: "list_all visible s \<Longrightarrow> strip_spaces s = s"
proof (induction s)
  case (Cons c s)
  then have c: "visible c" by simp
  then have "rune_width (c # s) = 1" by (intro rune_width_ascii) (simp add: visible_def byte_in_def)
  moreover have "[c] \<notin> set space_runes" using c space_runes_ends by fastforce
  ultimately show ?case using Cons by (simp add: strip_spaces.simps [of "c # s"])
qed (simp add: strip_spaces.simps)

lemma sql_trim_ends:
  "s = [] \<or> hd s \<noteq> CHR '' '' \<and> last s \<noteq> CHR '' '' \<Longrightarrow> sql_trim s = s"
  using dropWhile_eq_self_iff [of "\<lambda>c. c = CHR '' ''" s]
    dropWhile_eq_self_iff [of "\<lambda>c. c = CHR '' ''" "rev s"]
  by (auto simp: sql_trim_def hd_rev)

lemma sample_term_bytes:
  "sample_term_id \<noteq> []" "hd sample_term_id = CHR ''2''"
  "(of_char (last sample_term_id) :: nat) = 0x8B"
  by (simp_all add: sample_term_id_def season_defs utf8_def take_bit_eq_mod)

lemma sample_term_trims: "trim_space sample_term_id = sample_term_id"
  by (rule trim_space_ends) (simp_all add: sample_term_bytes visible_def)

lemma sample_term_sql_trims: "sql_trim sample_term_id = sample_term_id"
  using sample_term_bytes by (intro sql_trim_ends) auto

lemma sample_source_row_eq:
  assumes "score_str \<in> {''85.5'', '''', ''absent''}"
  shows "source_row_of (\<lambda>s. s) (sample_grade_detail student score_str score) =
    sample_source_row score_str score"
proof -
  have "sql_trim score_str = score_str" using assms by (intro sql_trim_ends) auto
  moreover have "\<not> sql_locate (\<lambda>s. s) ''|'' score_str" using assms by (auto simp: sql_locate_def)
  moreover note sample_term_sql_trims
  moreover have "sql_trim ''2024-2025-2'' = ''2024-2025-2''" "sql_trim ''C1'' = ''C1''"
    "sql_trim ''Logic'' = ''Logic''" "sql_trim ''Li'' = ''Li''" "sql_trim ''k1'' = ''k1''"
    by (simp_all add: sql_trim_ends)
  moreover have "strip_spaces ''Li'' = ''Li''"
    by (rule strip_spaces_visible) (simp add: visible_def)
  ultimately show ?thesis
    by (simp add: source_row_of_def sample_grade_detail_def sample_source_row_def sql_text_def
        sql_blank_def)
qed

lemma sample_countable:
  assumes "student \<in> {''s1'', ''s2'', ''s3''}"
  shows "counts_as_source_row (\<lambda>s. s) (sample_grade_detail student score_str score)"
  using assms
  by (auto simp: counts_as_source_row_def sample_grade_detail_def sql_present_def sql_trimmed_def
      sql_blank_def sql_trim_ends)

lemma sample_numeric:
  "numeric_score (\<lambda>s. s) (sample_source_row ''85.5'' None) = Some (171 / 2)"
  "numeric_score (\<lambda>s. s) (sample_source_row '''' (Some 59)) = Some 59"
  "numeric_score (\<lambda>s. s) (sample_source_row ''absent'' (Some 70)) = None"
proof -
  have "plain_number ''85.5''" "cast_decimal ''85.5'' = 171 / 2"
    by code_simp+
  then show "numeric_score (\<lambda>s. s) (sample_source_row ''85.5'' None) = Some (171 / 2)"
    by (simp add: numeric_score_def sample_source_row_def score_pattern_def)
  have "\<not> score_pattern ''''" "\<not> score_pattern ''absent''" by code_simp+
  then show "numeric_score (\<lambda>s. s) (sample_source_row '''' (Some 59)) = Some 59"
    "numeric_score (\<lambda>s. s) (sample_source_row ''absent'' (Some 70)) = None"
    by (simp_all add: numeric_score_def sample_source_row_def sql_blank_def)
qed

lemma sample_valid_rows:
  "valid_rows (so_collation sample_source_env) (so_details sample_source_env) =
     [sample_source_row ''85.5'' None, sample_source_row '''' (Some 59)]"
proof -
  have "gr_score_str (sample_source_row ''absent'' (Some 70)) = ''absent''"
    by (simp add: sample_source_row_def)
  moreover have "\<not> sql_in (\<lambda>s. s) (excellent_words @ good_words @ medium_words @ pass_words) ''absent''"
    "\<not> sql_in (\<lambda>s. s) fail_words ''absent''"
    by (simp_all add: sql_in_def excellent_words_def good_words_def medium_words_def
        pass_words_def fail_words_def utf8_def byte_eq)
  ultimately have "passed_row (\<lambda>s. s) (sample_source_row ''absent'' (Some 70)) = None"
    by (simp add: passed_row_def sample_numeric)
  moreover have "passed_row (\<lambda>s. s) (sample_source_row ''85.5'' None) \<noteq> None"
    "passed_row (\<lambda>s. s) (sample_source_row '''' (Some 59)) \<noteq> None"
    by (simp_all add: passed_row_def sample_numeric)
  ultimately show ?thesis
    by (simp add: valid_rows_def sample_source_env_def sample_countable sample_source_row_eq)
qed

lemma sample_code_trims: "trim_space ''2024-2025-2'' = ''2024-2025-2''"
  by (rule trim_space_visible) (simp_all add: visible_def)

lemma sample_normalized: "normalize_source_term sample_term_id ''2024-2025-2'' \<noteq> None"
proof -
  have "undergraduate_term sample_term_id = None"
    "graduate_term sample_term_id = Some (''2024'', ''2025'', season_summer_autumn)"
    by (simp_all add: undergraduate_term_def graduate_term_def sample_term_id_def is_digit_def
        season_defs utf8_def byte_eq)
  moreover have
    "graduate_identity ''2024'' ''2025'' season_summer_autumn ''2024-2025-2'' \<noteq> None"
    by code_simp
  ultimately show ?thesis
    by (simp add: normalize_source_term_def sample_term_trims sample_code_trims)
qed

lemma sample_table_clean: "clean_table sample_source_env"
proof -
  have "separates_levels (\<lambda>s. s)"
    by (simp add: separates_levels_def level_words_def excellent_words_def good_words_def
        medium_words_def pass_words_def fail_words_def utf8_def)
  moreover have "clean_row (\<lambda>s. s) (sample_grade_detail student score_str score)"
    if "score_str \<in> {''85.5'', '''', ''absent''}" for student score_str score
  proof -
    have "trim_space ''C1'' = ''C1''" by (rule trim_space_visible) (simp_all add: visible_def)
    moreover have "valid_utf8 (sql_trim (sql_text (gd_teacher_name
        (sample_grade_detail student score_str score))))"
      by (rule valid_utf8_ascii)
        (simp add: sample_grade_detail_def sql_text_def sql_trim_ends byte_in_def)
    ultimately show ?thesis
      using that sample_term_trims sample_code_trims
      by (simp add: clean_row_def Let_def sample_source_row_eq) (simp add: sample_source_row_def)
  qed
  ultimately show ?thesis
    unfolding clean_table_def Let_def sample_valid_rows
    by (simp add: sample_source_env_def)
      (simp add: same_term_def sample_source_row_def visible_def)
qed

lemma sample_counted: "length (countable_rows sample_source_env) = 2"
  unfolding countable_rows_def sample_valid_rows
  using sample_normalized by (simp add: sample_source_row_def)

text \<open>Without faults the whole answer is read.\<close>

lemma read_source_rows_quiet:
  assumes "\<And>q. so_fault env q = None"
    and "\<And>row. row \<in> set rows \<Longrightarrow>
      sa_dimension_type row \<in> {dimension_course, dimension_instructor}"
  shows "\<exists>s'. read_source_rows env i rows s = Inr s'"
  using assms(2)
proof (induction rows arbitrary: i s)
  case (Cons row rows)
  then have "\<exists>s'. add_source_row (so_sha256_hex env) row s = Inr s'"
    by (auto simp: add_source_row_def Let_def split: option.splits)
  with Cons assms(1) show ?case by auto
qed simp

lemma sample_aggregate:
  "\<exists>s. source_aggregate sample_source_env
     (Some \<lparr>gs_connected = True, gs_timeout = minute, gs_allow_writes = False\<rparr>) = Inr s"
proof -
  have quiet: "so_fault sample_source_env q = None" for q
    by (simp add: sample_source_env_def)
  have "sa_dimension_type row \<in> {dimension_course, dimension_instructor}"
    if "row \<in> set (result_rows sample_source_env)" for row
    using that by (auto simp: result_rows_def sample_source_env_def source_aggregate_query_def Let_def)
  from read_source_rows_quiet [OF quiet this] obtain s where
    "read_source_rows sample_source_env 0 (result_rows sample_source_env)
       empty_source_snapshot = Inr s" by blast
  then show ?thesis
    by (simp add: source_aggregate_def quiet) (simp add: sample_source_env_def)
qed

text \<open>Two of three grades are counted: the third has a text that is no grade, whatever its score.\<close>

theorem aggregate_snapshots_are_consistent_witness:
  "\<exists>s. source_aggregate sample_source_env
      (Some \<lparr>gs_connected = True, gs_timeout = minute, gs_allow_writes = False\<rparr>) = Inr s \<and>
    source_row_count s = 2 \<and> snapshot_validate s = None"
proof -
  obtain s where s: "source_aggregate sample_source_env
      (Some \<lparr>gs_connected = True, gs_timeout = minute, gs_allow_writes = False\<rparr>) = Inr s"
    using sample_aggregate by blast
  note consistent = aggregate_snapshots_are_consistent [OF s sample_table_clean]
  then have count: "source_row_count s = 2" by (simp add: sample_counted)
  have "source_row_count s = sum_list (map ct_valid_count (snapshot_courses s))"
    using source_aggregate_result [OF s] by blast
  with count have "snapshot_courses s \<noteq> []" by auto
  moreover have "of_unix_milli (so_cutoff_millis sample_source_env) \<noteq> 0"
    by (simp add: sample_source_env_def of_unix_milli_def unix_epoch_def duration_defs)
  ultimately have "snapshot_validate s = None" using consistent by blast
  with s count show ?thesis by blast
qed

end
