(* ===== verification/Providers.thy ===== *)
theory Providers
  imports AcademicDomain GoContext
begin

text \<open>
  The boundary to the school systems: the two provider interfaces of \<^verbatim>\<open>academic/application\<close>, the
  verification boundary of \<^verbatim>\<open>academic_verification/application\<close>, and \<^verbatim>\<open>providerrouter/router.go\<close>, which
  sends every call to the provider the current configuration selects.

  A provider is a record of functions over a world \<open>'w\<close>. The value \<open>None\<close> of a call is a call that
  does not return within the fuel of the provider's model. Go returns a value beside the error; no
  caller looks at it when the error is not nil, so a call gives an error or a value.
\<close>

section \<open>Interfaces\<close>

type_synonym ('w, 'v) reply = "('w \<times> (err + 'v)) option"
type_synonym ('w, 'v) lookup =
  "go_ctx \<Rightarrow> student_reference \<Rightarrow> credential \<Rightarrow> string \<Rightarrow> 'w \<Rightarrow> ('w, 'v) reply"

record 'w cache_aware_provider =
  wc_courses :: "('w, course_schedule query_result) lookup"
  wc_grades :: "('w, grade list query_result) lookup"
  wc_exams :: "('w, exam list query_result) lookup"
  wc_selections :: "('w, course_selection list query_result) lookup"

text \<open>
  What a type assertion finds on the provider is an optional field: the cache-aware operations, and
  \<^verbatim>\<open>GetCourseSelectionSchedule\<close>.
\<close>

record 'w provider =
  pv_courses :: "('w, course_schedule) lookup"
  pv_grades :: "('w, grade list) lookup"
  pv_exams :: "('w, exam list) lookup"
  pv_selections :: "('w, course_selection list) lookup"
  pv_cache_aware :: "'w cache_aware_provider option"
  pv_selection_schedule :: "('w, course_schedule) lookup option"

record verification_command =
  vc_student_no :: string
  vc_password :: string
  vc_education_level :: string

record verification_result =
  vr_real_name :: string
  vr_provider :: string
  vr_education_level :: string

type_synonym 'w verifier =
  "go_ctx \<Rightarrow> verification_command \<Rightarrow> 'w \<Rightarrow> ('w, verification_result) reply"

section \<open>Calls with cache provenance\<close>

definition map_reply :: "('a \<Rightarrow> 'b) \<Rightarrow> ('w, 'a) reply \<Rightarrow> ('w, 'b) reply" where
  "map_reply f r =
     map_option (\<lambda>(w, x). (w, case x of Inl e \<Rightarrow> Inl e | Inr v \<Rightarrow> Inr (f v))) r"

definition direct_result :: "'v \<Rightarrow> 'v query_result" where
  "direct_result rows = \<lparr>qr_records = rows, qr_cache = None\<rparr>"

text \<open>
  The step the service, the router and the RPC server share: a cache-aware provider is asked for
  its provenance, the answer of any other one is a direct result.
\<close>

definition with_cache ::
    "('w cache_aware_provider \<Rightarrow> ('w, 'v query_result) lookup) \<Rightarrow>
     ('w provider \<Rightarrow> ('w, 'v) lookup) \<Rightarrow> 'w provider \<Rightarrow> ('w, 'v query_result) lookup" where
  "with_cache cached plain p cx student cred period w =
     (case pv_cache_aware p of
        Some c \<Rightarrow> cached c cx student cred period w
      | None \<Rightarrow> map_reply direct_result (plain p cx student cred period w))"

section \<open>The router\<close>

definition provider_mock :: string where "provider_mock = ''mock''"
definition provider_ouc :: string where "provider_ouc = ''ouc''"

text \<open>\<open>rt_active\<close> is \<^verbatim>\<open>config.Resolve().ActiveProvider\<close>: it is read anew for every call.\<close>

record 'w router =
  rt_active :: "('w \<Rightarrow> string) option"
  rt_mock_queries :: "'w provider option"
  rt_mock_verification :: "'w verifier option"
  rt_ouc_queries :: "'w provider option"
  rt_ouc_verification :: "'w verifier option"

definition selected :: "'w router \<Rightarrow> 'a option \<Rightarrow> 'a option \<Rightarrow> 'w \<Rightarrow> 'a option" where
  "selected rt ouc mock w =
     (case rt_active rt of
        None \<Rightarrow> None
      | Some active \<Rightarrow>
          if active w = provider_ouc then ouc
          else if active w = provider_mock then mock
          else None)"

definition query_provider :: "'w router \<Rightarrow> 'w \<Rightarrow> 'w provider option" where
  "query_provider rt w = selected rt (rt_ouc_queries rt) (rt_mock_queries rt) w"

definition verification_provider :: "'w router \<Rightarrow> 'w \<Rightarrow> 'w verifier option" where
  "verification_provider rt w =
     selected rt (rt_ouc_verification rt) (rt_mock_verification rt) w"

definition unavailable :: "'w \<Rightarrow> ('w, 'v) reply" where
  "unavailable w = Some (w, Inl (Sentinel ErrProviderUnavailable))"

definition router_verify :: "'w router \<Rightarrow> 'w verifier" where
  "router_verify rt cx command w =
     (case verification_provider rt w of
        None \<Rightarrow> Some (w, Inl (Sentinel VErrProviderUnavailable))
      | Some verify \<Rightarrow> verify cx command w)"

definition router_list_courses :: "'w router \<Rightarrow> ('w, course_schedule) lookup" where
  "router_list_courses rt cx student cred period w =
     (case query_provider rt w of
        None \<Rightarrow> unavailable w
      | Some p \<Rightarrow> pv_courses p cx student cred period w)"

definition router_selection_schedule :: "'w router \<Rightarrow> ('w, course_schedule) lookup" where
  "router_selection_schedule rt cx student cred period w =
     (case query_provider rt w of
        None \<Rightarrow> unavailable w
      | Some p \<Rightarrow>
          (case pv_selection_schedule p of
             None \<Rightarrow> unavailable w
           | Some f \<Rightarrow> f cx student cred period w))"

definition router_list_courses_with_cache ::
    "'w router \<Rightarrow> ('w, course_schedule query_result) lookup" where
  "router_list_courses_with_cache rt cx student cred period w =
     (case query_provider rt w of
        None \<Rightarrow> unavailable w
      | Some p \<Rightarrow> with_cache wc_courses pv_courses p cx student cred period w)"

definition router_list_grades :: "'w router \<Rightarrow> ('w, grade list) lookup" where
  "router_list_grades rt cx student cred period w =
     (case query_provider rt w of
        None \<Rightarrow> unavailable w
      | Some p \<Rightarrow> pv_grades p cx student cred period w)"

definition router_list_grades_with_cache ::
    "'w router \<Rightarrow> ('w, grade list query_result) lookup" where
  "router_list_grades_with_cache rt cx student cred period w =
     (case query_provider rt w of
        None \<Rightarrow> unavailable w
      | Some p \<Rightarrow> with_cache wc_grades pv_grades p cx student cred period w)"

definition router_list_exams :: "'w router \<Rightarrow> ('w, exam list) lookup" where
  "router_list_exams rt cx student cred period w =
     (case query_provider rt w of
        None \<Rightarrow> unavailable w
      | Some p \<Rightarrow> pv_exams p cx student cred period w)"

definition router_list_exams_with_cache ::
    "'w router \<Rightarrow> ('w, exam list query_result) lookup" where
  "router_list_exams_with_cache rt cx student cred period w =
     (case query_provider rt w of
        None \<Rightarrow> unavailable w
      | Some p \<Rightarrow> with_cache wc_exams pv_exams p cx student cred period w)"

definition router_list_course_selections :: "'w router \<Rightarrow> ('w, course_selection list) lookup" where
  "router_list_course_selections rt cx student cred period w =
     (case query_provider rt w of
        None \<Rightarrow> unavailable w
      | Some p \<Rightarrow> pv_selections p cx student cred period w)"

definition router_list_course_selections_with_cache ::
    "'w router \<Rightarrow> ('w, course_selection list query_result) lookup" where
  "router_list_course_selections_with_cache rt cx student cred period w =
     (case query_provider rt w of
        None \<Rightarrow> unavailable w
      | Some p \<Rightarrow> with_cache wc_selections pv_selections p cx student cred period w)"

text \<open>The router as a provider: what its clients' type assertions find on it.\<close>

definition router_cache_aware :: "'w router \<Rightarrow> 'w cache_aware_provider" where
  "router_cache_aware rt =
     \<lparr>wc_courses = router_list_courses_with_cache rt,
      wc_grades = router_list_grades_with_cache rt,
      wc_exams = router_list_exams_with_cache rt,
      wc_selections = router_list_course_selections_with_cache rt\<rparr>"

definition router_provider :: "'w router \<Rightarrow> 'w provider" where
  "router_provider rt =
     \<lparr>pv_courses = router_list_courses rt, pv_grades = router_list_grades rt,
      pv_exams = router_list_exams rt, pv_selections = router_list_course_selections rt,
      pv_cache_aware = Some (router_cache_aware rt),
      pv_selection_schedule = Some (router_selection_schedule rt)\<rparr>"

section \<open>Facts\<close>

lemma map_reply_simps [simp]:
  "map_reply f None = None"
  "map_reply f (Some (w, Inl e)) = Some (w, Inl e)"
  "map_reply f (Some (w, Inr v)) = Some (w, Inr (f v))"
  by (simp_all add: map_reply_def)

lemma map_reply_Inl [simp]: "map_reply f r = Some (w, Inl e) \<longleftrightarrow> r = Some (w, Inl e)"
  by (auto simp: map_reply_def split: sum.splits) (metis not_Some_eq sum.exhaust)+

lemma map_reply_Inr: "map_reply f r = Some (w, Inr v) \<longleftrightarrow> (\<exists>u. r = Some (w, Inr u) \<and> v = f u)"
  by (cases r) (auto simp: map_reply_def split: sum.splits)

text \<open>An operation that forwards to whatever the router has selected.\<close>

definition routed ::
    "'w router \<Rightarrow> ('w provider \<Rightarrow> ('w, 'v) lookup) \<Rightarrow> ('w, 'v) lookup" where
  "routed rt f cx student cred period w =
     (case query_provider rt w of None \<Rightarrow> unavailable w | Some p \<Rightarrow> f p cx student cred period w)"

lemmas router_operation_defs =
  router_list_courses_def router_list_courses_with_cache_def router_list_grades_def
  router_list_grades_with_cache_def router_list_exams_def router_list_exams_with_cache_def
  router_list_course_selections_def router_list_course_selections_with_cache_def

lemma router_operations:
  "router_list_courses rt = routed rt pv_courses"
  "router_list_courses_with_cache rt = routed rt (with_cache wc_courses pv_courses)"
  "router_list_grades rt = routed rt pv_grades"
  "router_list_grades_with_cache rt = routed rt (with_cache wc_grades pv_grades)"
  "router_list_exams rt = routed rt pv_exams"
  "router_list_exams_with_cache rt = routed rt (with_cache wc_exams pv_exams)"
  "router_list_course_selections rt = routed rt pv_selections"
  "router_list_course_selections_with_cache rt = routed rt (with_cache wc_selections pv_selections)"
  by (intro ext; simp add: router_operation_defs routed_def)+

end
