(* ===== verification/AcademicService.thy ===== *)
theory AcademicService
  imports Providers "HOL-Library.List_Lexorder"
begin

text \<open>
  \<^verbatim>\<open>academic/application/service.go\<close>: the authenticated queries. The collaborators (identity
  resolver, provider, period and calendar catalogs, failure limiter) are records of functions over
  the world; a nil collaborator is \<open>None\<close>. The world carries the list of calls made so far, so that
  the order of the calls is part of what the model says.
\<close>

section \<open>Texts\<close>

definition msg_calendar_unavailable :: string where
  "msg_calendar_unavailable = utf8
     [0xE6, 0xA0, 0xA1, 0xE5, 0x8E, 0x86, 0xE6, 0x9A, 0x82, 0xE6, 0x97, 0xB6, 0xE4, 0xB8,
      0x8D, 0xE5, 0x8F, 0xAF, 0xE7, 0x94, 0xA8]"

definition msg_provider_unavailable :: string where
  "msg_provider_unavailable = utf8
     [0xE6, 0x95, 0x99, 0xE5, 0x8A, 0xA1, 0xE6, 0x9C, 0x8D, 0xE5, 0x8A, 0xA1, 0xE6, 0x9A,
      0x82, 0xE6, 0x97, 0xB6, 0xE4, 0xB8, 0x8D, 0xE5, 0x8F, 0xAF, 0xE7, 0x94, 0xA8]"

definition msg_credentials_limited :: string where
  "msg_credentials_limited = utf8
     [0xE5, 0xB0, 0x9D, 0xE8, 0xAF, 0x95, 0xE6, 0xAC, 0xA1, 0xE6, 0x95, 0xB0, 0xE8, 0xBF,
      0x87, 0xE5, 0xA4, 0x9A, 0xEF, 0xBC, 0x8C, 0xE8, 0xAF, 0xB7, 0xE7, 0xA8, 0x8D, 0xE5,
      0x90, 0x8E, 0xE5, 0x86, 0x8D, 0xE8, 0xAF, 0x95]"

definition msg_invalid_period :: string where
  "msg_invalid_period = utf8
     [0xE5, 0xAD, 0xA6, 0xE6, 0x9C, 0x9F, 0xE6, 0xA0, 0x87, 0xE8, 0xAF, 0x86, 0xE6, 0x97,
      0xA0, 0xE6, 0x95, 0x88]"

definition msg_login_first :: string where
  "msg_login_first = utf8
     [0xE8, 0xAF, 0xB7, 0xE5, 0x85, 0x88, 0xE7, 0x99, 0xBB, 0xE5, 0xBD, 0x95]"

definition msg_invalid_credentials :: string where
  "msg_invalid_credentials = utf8
     [0xE6, 0x95, 0x99, 0xE5, 0x8A, 0xA1, 0xE5, 0x87, 0xAD, 0xE6, 0x8D, 0xAE, 0xE6, 0x97,
      0xA0, 0xE6, 0x95, 0x88]"

definition msg_identity_mismatch :: string where
  "msg_identity_mismatch = utf8
     [0xE6, 0x95, 0x99, 0xE5, 0x8A, 0xA1, 0xE8, 0xB4, 0xA6, 0xE5, 0x8F, 0xB7, 0xE4, 0xB8,
      0x8E, 0xE5, 0xBD, 0x93, 0xE5, 0x89, 0x8D, 0xE5, 0xB7, 0xB2, 0xE7, 0xBB, 0x91, 0xE5,
      0xAE, 0x9A, 0xE8, 0xBA, 0xAB, 0xE4, 0xBB, 0xBD, 0xE4, 0xB8, 0x8D, 0xE4, 0xB8, 0x80,
      0xE8, 0x87, 0xB4]"

definition msg_verification_required :: string where
  "msg_verification_required = utf8
     [0xE5, 0xAE, 0x8C, 0xE6, 0x88, 0x90, 0xE6, 0x95, 0x99, 0xE5, 0x8A, 0xA1, 0xE8, 0xAE,
      0xA4, 0xE8, 0xAF, 0x81, 0xE5, 0x90, 0x8E, 0xE6, 0x89, 0x8D, 0xE8, 0x83, 0xBD, 0xE6,
      0x9F, 0xA5, 0xE8, 0xAF, 0xA2, 0xE6, 0x95, 0x99, 0xE5, 0x8A, 0xA1, 0xE4, 0xBF, 0xA1,
      0xE6, 0x81, 0xAF]"

definition msg_retryable :: string where
  "msg_retryable = utf8
     [0xE6, 0x95, 0x99, 0xE5, 0x8A, 0xA1, 0xE6, 0x9C, 0x8D, 0xE5, 0x8A, 0xA1, 0xE6, 0x9A,
      0x82, 0xE6, 0x97, 0xB6, 0xE7, 0xB9, 0x81, 0xE5, 0xBF, 0x99, 0xEF, 0xBC, 0x8C, 0xE8,
      0xAF, 0xB7, 0xE7, 0x82, 0xB9, 0xE5, 0x87, 0xBB, 0xE9, 0x87, 0x8D, 0xE8, 0xAF, 0x95]"

definition msg_busy :: string where
  "msg_busy = utf8
     [0xE5, 0xBD, 0x93, 0xE5, 0x89, 0x8D, 0xE6, 0x9F, 0xA5, 0xE8, 0xAF, 0xA2, 0xE4, 0xBA,
      0xBA, 0xE6, 0x95, 0xB0, 0xE8, 0xBE, 0x83, 0xE5, 0xA4, 0x9A, 0xEF, 0xBC, 0x8C, 0xE8,
      0xAF, 0xB7, 0xE7, 0xA8, 0x8D, 0xE5, 0x90, 0x8E, 0xE9, 0x87, 0x8D, 0xE8, 0xAF, 0x95]"

definition msg_period_not_found :: string where
  "msg_period_not_found = utf8
     [0xE6, 0x9C, 0xAA, 0xE6, 0x89, 0xBE, 0xE5, 0x88, 0xB0, 0xE8, 0xAF, 0xA5, 0xE5, 0xAD,
      0xA6, 0xE6, 0x9C, 0x9F, 0xE7, 0x9A, 0x84, 0xE6, 0x95, 0x99, 0xE5, 0x8A, 0xA1, 0xE4,
      0xBF, 0xA1, 0xE6, 0x81, 0xAF]"

definition msg_password_expired :: string where
  "msg_password_expired = utf8
     [0xE7, 0xBB, 0x9F, 0xE4, 0xB8, 0x80, 0xE8, 0xBA, 0xAB, 0xE4, 0xBB, 0xBD, 0xE8, 0xAE,
      0xA4, 0xE8, 0xAF, 0x81, 0xE5, 0xAF, 0x86, 0xE7, 0xA0, 0x81, 0xE5, 0xB7, 0xB2, 0xE8,
      0xBF, 0x87, 0xE6, 0x9C, 0x9F, 0xEF, 0xBC, 0x8C, 0xE8, 0xAF, 0xB7, 0xE5, 0x85, 0x88,
      0xE4, 0xBF, 0xAE, 0xE6, 0x94, 0xB9, 0xE5, 0xAF, 0x86, 0xE7, 0xA0, 0x81, 0xE5, 0x90,
      0x8E, 0xE9, 0x87, 0x8D, 0xE8, 0xAF, 0x95]"

definition msg_challenge_required :: string where
  "msg_challenge_required = utf8
     [0xE6, 0xA0, 0xA1, 0xE6, 0x96, 0xB9, 0xE8, 0xA6, 0x81, 0xE6, 0xB1, 0x82, 0xE5, 0xAE,
      0x8C, 0xE6, 0x88, 0x90, 0xE9, 0xAA, 0x8C, 0xE8, 0xAF, 0x81, 0xE7, 0xA0, 0x81, 0xE6,
      0x88, 0x96, 0xE8, 0xAE, 0xBE, 0xE5, 0xA4, 0x87, 0xE7, 0xA1, 0xAE, 0xE8, 0xAE, 0xA4,
      0xEF, 0xBC, 0x8C, 0xE8, 0xAF, 0xB7, 0xE9, 0x87, 0x8D, 0xE6, 0x96, 0xB0, 0xE7, 0xBB,
      0x91, 0xE5, 0xAE, 0x9A, 0xE5, 0x90, 0x8E, 0xE5, 0x86, 0x8D, 0xE8, 0xAF, 0x95]"

definition msg_account_restricted :: string where
  "msg_account_restricted = utf8
     [0xE6, 0x95, 0x99, 0xE5, 0x8A, 0xA1, 0xE8, 0xB4, 0xA6, 0xE5, 0x8F, 0xB7, 0xE5, 0xB7,
      0xB2, 0xE8, 0xA2, 0xAB, 0xE9, 0x94, 0x81, 0xE5, 0xAE, 0x9A, 0xE6, 0x88, 0x96, 0xE5,
      0x86, 0xBB, 0xE7, 0xBB, 0x93, 0xEF, 0xBC, 0x8C, 0xE8, 0xAF, 0xB7, 0xE8, 0x81, 0x94,
      0xE7, 0xB3, 0xBB, 0xE6, 0xA0, 0xA1, 0xE6, 0x96, 0xB9, 0xE5, 0xA4, 0x84, 0xE7, 0x90,
      0x86, 0xE5, 0x90, 0x8E, 0xE9, 0x87, 0x8D, 0xE8, 0xAF, 0x95]"

section \<open>The service and its collaborators\<close>

record 'w failure_limiter =
  fl_allow :: "go_ctx \<Rightarrow> uint64 \<Rightarrow> string \<Rightarrow> string \<Rightarrow> 'w \<Rightarrow> 'w \<times> (err + bool)"
  fl_record_failure :: "go_ctx \<Rightarrow> uint64 \<Rightarrow> string \<Rightarrow> string \<Rightarrow> 'w \<Rightarrow> 'w \<times> err option"
  fl_clear :: "go_ctx \<Rightarrow> uint64 \<Rightarrow> string \<Rightarrow> string \<Rightarrow> 'w \<Rightarrow> 'w \<times> err option"

record 'w service =
  sv_identities :: "(go_ctx \<Rightarrow> uint64 \<Rightarrow> 'w \<Rightarrow> 'w \<times> (err + student_reference)) option"
  sv_provider :: "'w provider option"
  sv_periods :: "(go_ctx \<Rightarrow> student_reference \<Rightarrow> 'w \<Rightarrow> 'w \<times> (err + period list)) option"
  sv_calendar :: "(go_ctx \<Rightarrow> string \<Rightarrow> 'w \<Rightarrow> 'w \<times> (err + calendar)) option"
  sv_limiter :: "'w failure_limiter option"
  sv_courses_timeout :: duration
  sv_grades_timeout :: duration
  sv_exams_timeout :: duration
  sv_selections_timeout :: duration

datatype 'w service_option =
    WithPeriodCatalog "go_ctx \<Rightarrow> student_reference \<Rightarrow> 'w \<Rightarrow> 'w \<times> (err + period list)"
  | WithCalendarCatalog "go_ctx \<Rightarrow> string \<Rightarrow> 'w \<Rightarrow> 'w \<times> (err + calendar)"
  | WithProviderTimeout duration
  | WithOperationTimeouts duration duration duration duration
  | WithCredentialFailureLimiter "'w failure_limiter"

definition positive_or :: "duration \<Rightarrow> duration \<Rightarrow> duration" where
  "positive_or d old = (if 0 < d then d else old)"

fun apply_option :: "'w service_option \<Rightarrow> 'w service \<Rightarrow> 'w service" where
  "apply_option (WithPeriodCatalog c) s = s\<lparr>sv_periods := Some c\<rparr>"
| "apply_option (WithCalendarCatalog c) s = s\<lparr>sv_calendar := Some c\<rparr>"
| "apply_option (WithProviderTimeout d) s =
     (if 0 < d
      then s\<lparr>sv_courses_timeout := d, sv_grades_timeout := d, sv_exams_timeout := d,
             sv_selections_timeout := d\<rparr>
      else s)"
| "apply_option (WithOperationTimeouts c g e l) s =
     s\<lparr>sv_courses_timeout := positive_or c (sv_courses_timeout s),
       sv_grades_timeout := positive_or g (sv_grades_timeout s),
       sv_exams_timeout := positive_or e (sv_exams_timeout s),
       sv_selections_timeout := positive_or l (sv_selections_timeout s)\<rparr>"
| "apply_option (WithCredentialFailureLimiter l) s = s\<lparr>sv_limiter := Some l\<rparr>"

definition new_service ::
    "(go_ctx \<Rightarrow> uint64 \<Rightarrow> 'w \<Rightarrow> 'w \<times> (err + student_reference)) option \<Rightarrow> 'w provider option \<Rightarrow>
     'w service_option list \<Rightarrow> 'w service" where
  "new_service identities prov options =
     foldl (\<lambda>s opt. apply_option opt s)
       \<lparr>sv_identities = identities, sv_provider = prov, sv_periods = None, sv_calendar = None,
        sv_limiter = None, sv_courses_timeout = 10 * second, sv_grades_timeout = 10 * second,
        sv_exams_timeout = 12 * second, sv_selections_timeout = 12 * second\<rparr> options"

text \<open>The world of the collaborators, with the calls the service has made.\<close>

datatype service_call =
    StudentResolved uint64 "err + student_reference"
  | LimitChecked uint64 string string "err + bool"
  | ProviderQueried student_reference credential string "err option"
  | FailureRecorded uint64 string string "err option"
  | FailuresCleared uint64 string string "err option"

record 'w sworld =
  s_world :: 'w
  s_calls :: "service_call list"

definition ask :: "('r \<Rightarrow> service_call) \<Rightarrow> ('w \<Rightarrow> 'w \<times> 'r) \<Rightarrow> 'w sworld \<Rightarrow> 'w sworld \<times> 'r" where
  "ask call f w =
     (let (x, r) = f (s_world w) in (\<lparr>s_world = x, s_calls = s_calls w @ [call r]\<rparr>, r))"

definition service_ctx_err :: "'w clock \<Rightarrow> go_ctx \<Rightarrow> 'w sworld \<Rightarrow> err option" where
  "service_ctx_err ck cx w = context_err ck cx (s_world w)"

section \<open>Errors\<close>

definition err_of :: "err + 'a \<Rightarrow> err option" where
  "err_of r = (case r of Inl e \<Rightarrow> Some e | Inr _ \<Rightarrow> None)"

definition credential_limiter_error :: "'w clock \<Rightarrow> go_ctx \<Rightarrow> 'w sworld \<Rightarrow> err \<Rightarrow> err" where
  "credential_limiter_error ck cx w e =
     (case service_ctx_err ck cx w of
        Some c \<Rightarrow> c
      | None \<Rightarrow> app_wrap 503 ''academic_provider_unavailable'' msg_provider_unavailable e)"

definition public_error :: "err \<Rightarrow> err" where
  "public_error e =
     (if errors_is e ErrProviderRetryable then
        app_wrap 503 ''academic_retryable'' msg_retryable e
      else if errors_is e ErrProviderBusy then
        app_wrap 429 ''academic_provider_busy'' msg_busy e
      else if errors_is e ErrPeriodNotFound then
        app_wrap 404 ''academic_period_not_found'' msg_period_not_found e
      else if errors_is e ErrInvalidCredentials then
        app_wrap 401 ''invalid_academic_credentials'' msg_invalid_credentials e
      else if errors_is e ErrPasswordExpired then
        app_wrap 409 ''academic_password_expired'' msg_password_expired e
      else if errors_is e ErrChallengeRequired then
        app_wrap 409 ''academic_challenge_required'' msg_challenge_required e
      else if errors_is e ErrAccountRestricted then
        app_wrap 423 ''academic_account_restricted'' msg_account_restricted e
      else app_wrap 503 ''academic_provider_unavailable'' msg_provider_unavailable e)"

definition provider_error :: "'w clock \<Rightarrow> go_ctx \<Rightarrow> 'w sworld \<Rightarrow> err \<Rightarrow> err" where
  "provider_error ck parent w e =
     (case service_ctx_err ck parent w of Some c \<Rightarrow> c | None \<Rightarrow> public_error e)"

definition error_unauthorized :: err where
  "error_unauthorized = app_new 401 ''unauthorized'' msg_login_first"

definition error_unavailable :: err where
  "error_unavailable = app_new 503 ''academic_provider_unavailable'' msg_provider_unavailable"

section \<open>Identities\<close>

definition resolve_verified_student ::
    "'w service \<Rightarrow> go_ctx \<Rightarrow> uint64 \<Rightarrow> 'w sworld \<Rightarrow> 'w sworld \<times> (err + student_reference)" where
  "resolve_verified_student s cx user w =
     (if user = 0 then (w, Inl error_unauthorized)
      else case sv_identities s of
             None \<Rightarrow> (w, Inl error_unavailable)
           | Some resolve_student \<Rightarrow>
               (case ask (StudentResolved user) (resolve_student cx user) w of
                  (w', Inl e) \<Rightarrow> (w', Inl e)
                | (w', Inr found) \<Rightarrow>
                    let student = found\<lparr>sr_student_no := trim_space (sr_student_no found)\<rparr>
                    in if sr_user_id student \<noteq> user \<or> sr_student_no student = ''''
                       then (w', Inl (app_new 403 ''academic_verification_required''
                                        msg_verification_required))
                       else (w', Inr student)))"

definition resolve_period_student ::
    "'w service \<Rightarrow> go_ctx \<Rightarrow> uint64 \<Rightarrow> 'w sworld \<Rightarrow> 'w sworld \<times> (err + student_reference)" where
  "resolve_period_student s cx user w =
     (case resolve_verified_student s cx user w of
        (w', Inr student) \<Rightarrow>
          (w', Inr (if sr_education_level student = unknown_education_level
                    then student\<lparr>sr_education_level := education_level_undergraduate\<rparr>
                    else student))
      | (w', Inl e) \<Rightarrow>
          (case as_app_error e of
             Some (_, code, _) \<Rightarrow>
               if code = ''academic_verification_required''
               then (w', Inr (no_student\<lparr>sr_user_id := user,
                                sr_education_level := education_level_undergraduate\<rparr>))
               else (w', Inl e)
           | None \<Rightarrow> (w', Inl e)))"

definition resolve_student ::
    "'w service \<Rightarrow> go_ctx \<Rightarrow> uint64 \<Rightarrow> credential \<Rightarrow> 'w sworld \<Rightarrow>
     'w sworld \<times> (err + student_reference \<times> credential)" where
  "resolve_student s cx user cred w =
     (if user = 0 then (w, Inl error_unauthorized)
      else if sv_provider s = None then (w, Inl error_unavailable)
      else case resolve_verified_student s cx user w of
             (w', Inl e) \<Rightarrow> (w', Inl e)
           | (w', Inr student) \<Rightarrow>
               let no = trim_space (cr_student_no cred)
               in if no = '''' \<or> cr_password cred = '''' \<or> 64 < length no \<or>
                     256 < length (cr_password cred)
                  then (w', Inl (app_new 401 ''invalid_academic_credentials''
                                   msg_invalid_credentials))
                  else if no \<noteq> sr_student_no student
                  then (w', Inl (app_new 403 ''academic_identity_mismatch''
                                   msg_identity_mismatch))
                  else (w', Inr (student, cred\<lparr>cr_student_no := no\<rparr>)))"

text \<open>\<open>^[A-Za-z0-9][A-Za-z0-9._:-]{0,63}$\<close>\<close>

definition alphanumeric :: "char \<Rightarrow> bool" where
  "alphanumeric c \<longleftrightarrow>
     (CHR ''A'' \<le> c \<and> c \<le> CHR ''Z'') \<or> (CHR ''a'' \<le> c \<and> c \<le> CHR ''z'') \<or>
     (CHR ''0'' \<le> c \<and> c \<le> CHR ''9'')"

definition period_id_pattern :: "string \<Rightarrow> bool" where
  "period_id_pattern s =
     (case s of
        [] \<Rightarrow> False
      | c # rest \<Rightarrow>
          alphanumeric c \<and> length rest \<le> 63 \<and>
          (\<forall>d\<in>set rest. alphanumeric d \<or> d \<in> set ''._:-''))"

definition resolve_period_query ::
    "'w service \<Rightarrow> go_ctx \<Rightarrow> uint64 \<Rightarrow> credential \<Rightarrow> string \<Rightarrow> bool \<Rightarrow> 'w sworld \<Rightarrow>
     'w sworld \<times> (err + student_reference \<times> credential \<times> string)" where
  "resolve_period_query s cx user cred period allow_empty w =
     (let p = trim_space period
      in if (\<not> allow_empty \<or> p \<noteq> '''') \<and> \<not> period_id_pattern p
         then (w, Inl (app_new 400 ''invalid_academic_period'' msg_invalid_period))
         else case resolve_student s cx user cred w of
                (w', Inl e) \<Rightarrow> (w', Inl e)
              | (w', Inr (student, cred')) \<Rightarrow> (w', Inr (student, cred', p)))"

definition resolve_query where
  "resolve_query s cx user cred period w = resolve_period_query s cx user cred period False w"

definition resolve_optional_period_query where
  "resolve_optional_period_query s cx user cred period w =
     resolve_period_query s cx user cred period True w"

section \<open>Queries\<close>

text \<open>The limiter around one provider call. The \<^verbatim>\<open>query\<close> closure gets the bounded context.\<close>

definition check_limit ::
    "'w service \<Rightarrow> 'w clock \<Rightarrow> go_ctx \<Rightarrow> uint64 \<Rightarrow> string \<Rightarrow> string \<Rightarrow> 'w sworld \<Rightarrow>
     'w sworld \<times> err option" where
  "check_limit s ck cx user no ip w =
     (case sv_limiter s of
        None \<Rightarrow> (w, None)
      | Some l \<Rightarrow>
          (case ask (LimitChecked user no ip) (fl_allow l cx user no ip) w of
             (w', Inl e) \<Rightarrow> (w', Some (credential_limiter_error ck cx w' e))
           | (w', Inr allowed) \<Rightarrow>
               (w', if allowed then None
                    else Some (app_new 429 ''academic_credentials_limited''
                                 msg_credentials_limited))))"

definition after_failed_query ::
    "'w service \<Rightarrow> 'w clock \<Rightarrow> go_ctx \<Rightarrow> uint64 \<Rightarrow> string \<Rightarrow> string \<Rightarrow> err \<Rightarrow> 'w sworld \<Rightarrow>
     'w sworld \<times> err" where
  "after_failed_query s ck cx user no ip e w =
     (case sv_limiter s of
        Some l \<Rightarrow>
          if errors_is e ErrInvalidCredentials then
            (case ask (FailureRecorded user no ip) (fl_record_failure l cx user no ip) w of
               (w', Some re) \<Rightarrow> (w', credential_limiter_error ck cx w' re)
             | (w', None) \<Rightarrow> (w', provider_error ck cx w' e))
          else (w, provider_error ck cx w e)
      | None \<Rightarrow> (w, provider_error ck cx w e))"

definition after_answered_query ::
    "'w service \<Rightarrow> 'w clock \<Rightarrow> go_ctx \<Rightarrow> uint64 \<Rightarrow> string \<Rightarrow> string \<Rightarrow> 'v \<Rightarrow> 'w sworld \<Rightarrow>
     'w sworld \<times> (err + 'v)" where
  "after_answered_query s ck cx user no ip rows w =
     (case sv_limiter s of
        None \<Rightarrow> (w, Inr rows)
      | Some l \<Rightarrow>
          (case ask (FailuresCleared user no ip) (fl_clear l cx user no ip) w of
             (w', Some e) \<Rightarrow> (w', Inl (credential_limiter_error ck cx w' e))
           | (w', None) \<Rightarrow> (w', Inr rows)))"

text \<open>The provider call, noted with its outcome.\<close>

definition call_service_provider ::
    "student_reference \<Rightarrow> credential \<Rightarrow> string \<Rightarrow> ('w, 'v) lookup \<Rightarrow> go_ctx \<Rightarrow> 'w sworld \<Rightarrow>
     ('w sworld, 'v) reply" where
  "call_service_provider student cred period query cx w =
     map_option
       (\<lambda>(x, r). (\<lparr>s_world = x,
                   s_calls = s_calls w @ [ProviderQueried student cred period (err_of r)]\<rparr>, r))
       (query cx student cred period (s_world w))"

definition query_with_credential_limit ::
    "'w service \<Rightarrow> 'w clock \<Rightarrow> go_ctx \<Rightarrow> uint64 \<Rightarrow> student_reference \<Rightarrow> string \<Rightarrow> duration \<Rightarrow>
     (go_ctx \<Rightarrow> 'w sworld \<Rightarrow> ('w sworld, 'v) reply) \<Rightarrow> 'w sworld \<Rightarrow> ('w sworld, 'v) reply" where
  "query_with_credential_limit s ck cx user student client_ip timeout query w =
     (let ip = trim_space client_ip; no = sr_student_no student
      in case check_limit s ck cx user no ip w of
           (w1, Some e) \<Rightarrow> Some (w1, Inl e)
         | (w1, None) \<Rightarrow>
             (case query (context_with_timeout ck cx timeout (s_world w1)) w1 of
                None \<Rightarrow> None
              | Some (w2, Inl e) \<Rightarrow>
                  (case after_failed_query s ck cx user no ip e w2 of
                     (w3, e') \<Rightarrow> Some (w3, Inl e'))
              | Some (w2, Inr rows) \<Rightarrow>
                  Some (after_answered_query s ck cx user no ip rows w2)))"

text \<open>
  What the four operations share: the request is resolved, then the provider is asked within the
  operation's budget. (\<^verbatim>\<open>resolveStudent\<close> has refused a missing provider by then.)
\<close>

definition service_query ::
    "'w service \<Rightarrow> 'w clock \<Rightarrow> go_ctx \<Rightarrow> uint64 \<Rightarrow> string \<Rightarrow> duration \<Rightarrow>
     ('w provider \<Rightarrow> ('w, 'v) lookup) \<Rightarrow>
     'w sworld \<times> (err + student_reference \<times> credential \<times> string) \<Rightarrow> ('w sworld, 'v) reply" where
  "service_query s ck cx user client_ip timeout operation resolved =
     (case resolved of
        (w, Inl e) \<Rightarrow> Some (w, Inl e)
      | (w, Inr (student, cred, period)) \<Rightarrow>
          (case sv_provider s of
             None \<Rightarrow> Some (w, Inl error_unavailable)
           | Some p \<Rightarrow>
               query_with_credential_limit s ck cx user student client_ip timeout
                 (call_service_provider student cred period (operation p)) w))"

definition service_list_courses ::
    "'w service \<Rightarrow> 'w clock \<Rightarrow> go_ctx \<Rightarrow> uint64 \<Rightarrow> credential \<Rightarrow> string \<Rightarrow> string \<Rightarrow> 'w sworld \<Rightarrow>
     ('w sworld, course_schedule query_result) reply" where
  "service_list_courses s ck cx user cred period client_ip w =
     service_query s ck cx user client_ip (sv_courses_timeout s) (with_cache wc_courses pv_courses)
       (resolve_query s cx user cred period w)"

text \<open>\<^verbatim>\<open>sort.SliceStable\<close> with a descending key: sorted, and equal keys in their old order.\<close>

definition stable_sort_desc :: "('a \<Rightarrow> 'b::linorder) \<Rightarrow> 'a list \<Rightarrow> 'a list" where
  "stable_sort_desc key xs = rev (sort_key key (rev xs))"

definition service_list_grades ::
    "'w service \<Rightarrow> 'w clock \<Rightarrow> go_ctx \<Rightarrow> uint64 \<Rightarrow> credential \<Rightarrow> string \<Rightarrow> string \<Rightarrow> 'w sworld \<Rightarrow>
     ('w sworld, grade list query_result) reply" where
  "service_list_grades s ck cx user cred period client_ip w =
     map_reply
       (\<lambda>grades. grades\<lparr>qr_records := stable_sort_desc gr_period_id (qr_records grades)\<rparr>)
       (service_query s ck cx user client_ip (sv_grades_timeout s) (with_cache wc_grades pv_grades)
          (resolve_optional_period_query s cx user cred period w))"

definition service_list_exams ::
    "'w service \<Rightarrow> 'w clock \<Rightarrow> go_ctx \<Rightarrow> uint64 \<Rightarrow> credential \<Rightarrow> string \<Rightarrow> string \<Rightarrow> 'w sworld \<Rightarrow>
     ('w sworld, exam list query_result) reply" where
  "service_list_exams s ck cx user cred period client_ip w =
     service_query s ck cx user client_ip (sv_exams_timeout s) (with_cache wc_exams pv_exams)
       (resolve_query s cx user cred period w)"

definition service_list_course_selections ::
    "'w service \<Rightarrow> 'w clock \<Rightarrow> go_ctx \<Rightarrow> uint64 \<Rightarrow> credential \<Rightarrow> string \<Rightarrow> string \<Rightarrow> 'w sworld \<Rightarrow>
     ('w sworld, course_selection list query_result) reply" where
  "service_list_course_selections s ck cx user cred period client_ip w =
     service_query s ck cx user client_ip (sv_selections_timeout s)
       (with_cache wc_selections pv_selections) (resolve_query s cx user cred period w)"

section \<open>Calendar and periods\<close>

definition service_get_calendar ::
    "'w service \<Rightarrow> 'w clock \<Rightarrow> go_ctx \<Rightarrow> string \<Rightarrow> 'w sworld \<Rightarrow> 'w sworld \<times> (err + calendar)" where
  "service_get_calendar s ck cx level w =
     (case sv_calendar s of
        None \<Rightarrow>
          (w, Inl (app_new 503 ''academic_calendar_unavailable'' msg_calendar_unavailable))
      | Some get_calendar \<Rightarrow>
          (let (x, r) = get_calendar cx level (s_world w); w' = w\<lparr>s_world := x\<rparr>
           in case r of
                Inr v \<Rightarrow> (w', Inr v)
              | Inl e \<Rightarrow>
                  (case service_ctx_err ck cx w' of
                     Some c \<Rightarrow> (w', Inl c)
                   | None \<Rightarrow>
                       (w', Inl (app_wrap 503 ''academic_calendar_unavailable''
                                   msg_calendar_unavailable e)))))"

definition service_list_periods ::
    "'w service \<Rightarrow> 'w clock \<Rightarrow> go_ctx \<Rightarrow> uint64 \<Rightarrow> 'w sworld \<Rightarrow> 'w sworld \<times> (err + period list)"
where
  "service_list_periods s ck cx user w =
     (case resolve_period_student s cx user w of
        (w', Inl e) \<Rightarrow> (w', Inl e)
      | (w', Inr student) \<Rightarrow>
          (case sv_periods s of
             None \<Rightarrow> (w', Inl error_unavailable)
           | Some list_periods \<Rightarrow>
               (let (x, r) = list_periods cx student (s_world w'); w2 = w'\<lparr>s_world := x\<rparr>
                in case r of
                     Inr rows \<Rightarrow> (w2, Inr rows)
                   | Inl e \<Rightarrow> (w2, Inl (provider_error ck cx w2 e)))))"

section \<open>The protocol of a query\<close>

text \<open>
  What must hold of a request before the provider is asked, and the calls a query may make, in
  order. \<open>query_calls\<close> is a specification: it does not mention the operations.
\<close>

definition authorised ::
    "bool \<Rightarrow> uint64 \<Rightarrow> student_reference \<Rightarrow> student_reference \<Rightarrow> credential \<Rightarrow> string \<Rightarrow> bool" where
  "authorised allow_empty user found student cred period \<longleftrightarrow>
     user \<noteq> 0 \<and> sr_user_id found = user \<and>
     student = found\<lparr>sr_student_no := trim_space (sr_student_no found)\<rparr> \<and>
     sr_student_no student \<noteq> '''' \<and> cr_student_no cred = sr_student_no student \<and>
     length (cr_student_no cred) \<le> 64 \<and> cr_password cred \<noteq> '''' \<and>
     length (cr_password cred) \<le> 256 \<and>
     (period_id_pattern period \<or> allow_empty \<and> period = '''')"

definition permission :: "bool \<Rightarrow> uint64 \<Rightarrow> string \<Rightarrow> string \<Rightarrow> service_call list" where
  "permission limited user no ip = (if limited then [LimitChecked user no ip (Inr True)] else [])"

inductive query_calls ::
    "bool \<Rightarrow> bool \<Rightarrow> uint64 \<Rightarrow> string \<Rightarrow> service_call list \<Rightarrow> bool \<Rightarrow> bool"
  for limited allow_empty user ip
where
  refused: "query_calls limited allow_empty user ip [] False"
| unresolved: "query_calls limited allow_empty user ip [StudentResolved user r] False"
| limit_reached:
    "limited \<Longrightarrow> authorised allow_empty user found student cred period \<Longrightarrow> r \<noteq> Inr True \<Longrightarrow>
     query_calls limited allow_empty user ip
       [StudentResolved user (Inr found), LimitChecked user (sr_student_no student) ip r] False"
| query_failed:
    "authorised allow_empty user found student cred period \<Longrightarrow>
     recorded = (if limited \<and> errors_is e ErrInvalidCredentials
                 then [FailureRecorded user (sr_student_no student) ip x] else []) \<Longrightarrow>
     query_calls limited allow_empty user ip
       (StudentResolved user (Inr found) # permission limited user (sr_student_no student) ip @
        ProviderQueried student cred period (Some e) # recorded) False"
| query_answered:
    "authorised allow_empty user found student cred period \<Longrightarrow>
     cleared = (if limited then [FailuresCleared user (sr_student_no student) ip x] else []) \<Longrightarrow>
     query_calls limited allow_empty user ip
       (StudentResolved user (Inr found) # permission limited user (sr_student_no student) ip @
        ProviderQueried student cred period None # cleared) (limited \<longrightarrow> x = None)"

inductive_cases query_calls_success: "query_calls limited allow_empty user ip calls True"

section \<open>Facts\<close>

lemma ask_simps [simp]:
  "s_calls (fst (ask call f w)) = s_calls w @ [call (snd (f (s_world w)))]"
  "s_world (fst (ask call f w)) = fst (f (s_world w))"
  "snd (ask call f w) = snd (f (s_world w))"
  by (simp_all add: ask_def split: prod.splits)

lemma ask_eq:
  "ask call f w = (w', r) \<longleftrightarrow>
     (\<exists>x. f (s_world w) = (x, r) \<and> w' = \<lparr>s_world = x, s_calls = s_calls w @ [call r]\<rparr>)"
  by (auto simp: ask_def split: prod.splits)

lemma err_of_simps [simp]: "err_of (Inl e) = Some e" "err_of (Inr v) = None"
  by (simp_all add: err_of_def)

lemma map_reply_outcome:
  "map_reply f r = Some (w, q) \<Longrightarrow> \<exists>q'. r = Some (w, q') \<and> err_of q = err_of q'"
  by (cases q) (auto simp: map_reply_Inr)

text \<open>A resolved request is authorised, and the resolver is the only collaborator asked for it.\<close>

lemma resolve_verified_student_calls:
  assumes "resolve_verified_student s cx user w = (w', r)"
  shows "(s_calls w' = s_calls w \<or> (\<exists>x. s_calls w' = s_calls w @ [StudentResolved user x])) \<and>
     (\<forall>student. r = Inr student \<longrightarrow>
        (\<exists>found. s_calls w' = s_calls w @ [StudentResolved user (Inr found)] \<and> user \<noteq> 0 \<and>
           sr_user_id found = user \<and>
           student = found\<lparr>sr_student_no := trim_space (sr_student_no found)\<rparr> \<and>
           sr_student_no student \<noteq> ''''))"
  using assms
  by (auto simp: resolve_verified_student_def ask_eq Let_def
      split: if_splits option.splits prod.splits sum.splits)

lemma resolve_student_calls:
  assumes "resolve_student s cx user cred w = (w', r)"
  shows "(s_calls w' = s_calls w \<or> (\<exists>x. s_calls w' = s_calls w @ [StudentResolved user x])) \<and>
     (\<forall>student cred'. r = Inr (student, cred') \<longrightarrow>
        sv_provider s \<noteq> None \<and>
        (\<exists>found. s_calls w' = s_calls w @ [StudentResolved user (Inr found)] \<and> user \<noteq> 0 \<and>
           sr_user_id found = user \<and>
           student = found\<lparr>sr_student_no := trim_space (sr_student_no found)\<rparr> \<and>
           sr_student_no student \<noteq> '''' \<and> cr_student_no cred' = sr_student_no student \<and>
           length (cr_student_no cred') \<le> 64 \<and> cr_password cred' \<noteq> '''' \<and>
           length (cr_password cred') \<le> 256))"
proof -
  obtain w1 q where "resolve_verified_student s cx user w = (w1, q)"
    by (cases "resolve_verified_student s cx user w")
  with assms resolve_verified_student_calls [OF this] show ?thesis
    by (auto simp: resolve_student_def Let_def split: if_splits sum.splits)
qed

lemma resolve_period_query_calls:
  assumes "resolve_period_query s cx user cred period allow_empty w = (w', r)"
  shows "(s_calls w' = s_calls w \<or> (\<exists>x. s_calls w' = s_calls w @ [StudentResolved user x])) \<and>
     (\<forall>student cred' p. r = Inr (student, cred', p) \<longrightarrow>
        sv_provider s \<noteq> None \<and>
        (\<exists>found. s_calls w' = s_calls w @ [StudentResolved user (Inr found)] \<and>
           authorised allow_empty user found student cred' p))"
proof -
  obtain w1 q where q: "resolve_student s cx user cred w = (w1, q)"
    by (cases "resolve_student s cx user cred w")
  from resolve_student_calls [OF q] assms q show ?thesis
    by (fastforce simp: resolve_period_query_def authorised_def Let_def
        split: if_splits sum.splits prod.splits)
qed

lemma check_limit_calls:
  assumes "check_limit s ck cx user no ip w = (w', r)"
  shows "(r = None \<longrightarrow> s_calls w' = s_calls w @ permission (sv_limiter s \<noteq> None) user no ip) \<and>
     (r \<noteq> None \<longrightarrow> sv_limiter s \<noteq> None \<and>
        (\<exists>x. x \<noteq> Inr True \<and> s_calls w' = s_calls w @ [LimitChecked user no ip x]))"
  using assms
  by (auto simp: check_limit_def permission_def ask_eq
      split: option.splits prod.splits sum.splits if_splits)

lemma after_failed_query_calls:
  assumes "after_failed_query s ck cx user no ip e w = (w', e')"
  shows "\<exists>x. s_calls w' = s_calls w @
     (if sv_limiter s \<noteq> None \<and> errors_is e ErrInvalidCredentials
      then [FailureRecorded user no ip x] else [])"
  using assms
  by (auto simp: after_failed_query_def ask_eq split: option.splits prod.splits if_splits)

lemma after_answered_query_calls:
  assumes "after_answered_query s ck cx user no ip rows w = (w', r)"
  shows "\<exists>x. s_calls w' = s_calls w @
       (if sv_limiter s \<noteq> None then [FailuresCleared user no ip x] else []) \<and>
     (err_of r = None) = (sv_limiter s \<noteq> None \<longrightarrow> x = None)"
  using assms
  by (auto simp: after_answered_query_def ask_eq split: option.splits prod.splits)

lemma call_service_provider_calls:
  assumes "call_service_provider student cred period query cx w = Some (w', r)"
  shows "s_calls w' = s_calls w @ [ProviderQueried student cred period (err_of r)]"
  using assms by (auto simp: call_service_provider_def)

lemma query_with_credential_limit_calls:
  assumes run: "query_with_credential_limit s ck cx user student ip timeout
      (call_service_provider student cred period query) w = Some (w', r)"
    and before: "s_calls w = calls @ [StudentResolved user (Inr found)]"
    and ok: "authorised allow_empty user found student cred period"
  shows "\<exists>cs. s_calls w' = calls @ cs \<and>
     query_calls (sv_limiter s \<noteq> None) allow_empty user (trim_space ip) cs (err_of r = None)"
proof -
  let ?no = "sr_student_no student" and ?ip = "trim_space ip" and ?l = "sv_limiter s \<noteq> None"
  obtain w1 e1 where c1: "check_limit s ck cx user ?no ?ip w = (w1, e1)"
    by (cases "check_limit s ck cx user ?no ?ip w")
  show ?thesis
  proof (cases e1)
    case (Some e)
    with check_limit_calls [OF c1] obtain x where
      "sv_limiter s \<noteq> None" "x \<noteq> Inr True" "s_calls w1 = s_calls w @ [LimitChecked user ?no ?ip x]"
      by auto
    with run c1 Some before limit_reached [OF _ ok] show ?thesis
      by (auto simp: query_with_credential_limit_def Let_def)
  next
    case None
    let ?cx = "context_with_timeout ck cx timeout (s_world w1)"
    from run c1 None obtain w2 q where
      q: "call_service_provider student cred period query ?cx w1 = Some (w2, q)"
      by (auto simp: query_with_credential_limit_def Let_def split: option.splits)
    have calls2: "s_calls w2 = calls @ StudentResolved user (Inr found) #
        permission ?l user ?no ?ip @ [ProviderQueried student cred period (err_of q)]"
      using call_service_provider_calls [OF q] check_limit_calls [OF c1] None before by simp
    show ?thesis
    proof (cases q)
      case (Inl e)
      obtain w3 e' where f: "after_failed_query s ck cx user ?no ?ip e w2 = (w3, e')"
        by (cases "after_failed_query s ck cx user ?no ?ip e w2")
      with run c1 None q Inl have "w' = w3" "r = Inl e'"
        by (simp_all add: query_with_credential_limit_def Let_def)
      with after_failed_query_calls [OF f] calls2 Inl query_failed [OF ok refl] show ?thesis
        by fastforce
    next
      case (Inr rows)
      obtain w3 r3 where f: "after_answered_query s ck cx user ?no ?ip rows w2 = (w3, r3)"
        by (cases "after_answered_query s ck cx user ?no ?ip rows w2")
      with run c1 None q Inr have [simp]: "w' = w3" "r = r3"
        by (simp_all add: query_with_credential_limit_def Let_def)
      from after_answered_query_calls [OF f] obtain x where
        x: "s_calls w3 = s_calls w2 @ (if ?l then [FailuresCleared user ?no ?ip x] else [])"
          "(err_of r3 = None) = (?l \<longrightarrow> x = None)" by (elim exE conjE) (rule that)
      from x(1) calls2 Inr have "s_calls w3 = calls @ StudentResolved user (Inr found) #
          permission ?l user ?no ?ip @ ProviderQueried student cred period None #
          (if ?l then [FailuresCleared user ?no ?ip x] else [])"
        by simp
      moreover note query_answered [OF ok refl, of ?l ?ip x]
      ultimately show ?thesis
        unfolding \<open>w' = w3\<close> \<open>r = r3\<close> x(2) by (intro exI conjI)
    qed
  qed
qed

lemma service_query_calls:
  assumes "service_query s ck cx user ip timeout operation
      (resolve_period_query s cx user cred period allow_empty w) = Some (w', r)"
  shows "\<exists>cs. s_calls w' = s_calls w @ cs \<and>
     query_calls (sv_limiter s \<noteq> None) allow_empty user (trim_space ip) cs (err_of r = None)"
proof -
  obtain w1 q where q: "resolve_period_query s cx user cred period allow_empty w = (w1, q)"
    by (cases "resolve_period_query s cx user cred period allow_empty w")
  note calls = resolve_period_query_calls [OF q]
  show ?thesis
  proof (cases q)
    case (Inl e)
    with assms q calls refused unresolved show ?thesis
      by (fastforce simp: service_query_def)
  next
    case (Inr v)
    obtain student cred' p where "v = (student, cred', p)" by (cases v)
    with calls Inr obtain found pv where
      "s_calls w1 = s_calls w @ [StudentResolved user (Inr found)]"
      "authorised allow_empty user found student cred' p" "sv_provider s = Some pv"
      by auto
    with query_with_credential_limit_calls assms q Inr \<open>v = _\<close> show ?thesis
      by (fastforce simp: service_query_def)
  qed
qed

section \<open>Public errors\<close>

text \<open>Every status and code the service answers with itself.\<close>

definition public_codes :: "(int \<times> string) list" where
  "public_codes =
     [(400, ''invalid_academic_period''), (401, ''unauthorized''),
      (401, ''invalid_academic_credentials''), (403, ''academic_verification_required''),
      (403, ''academic_identity_mismatch''), (404, ''academic_period_not_found''),
      (409, ''academic_password_expired''), (409, ''academic_challenge_required''),
      (423, ''academic_account_restricted''), (429, ''academic_credentials_limited''),
      (429, ''academic_provider_busy''), (503, ''academic_retryable''),
      (503, ''academic_provider_unavailable'')]"

definition public_failure :: "err \<Rightarrow> bool" where
  "public_failure e \<longleftrightarrow>
     e = Sentinel Canceled \<or> e = Sentinel DeadlineExceeded \<or>
     (\<exists>status code message. as_app_error e = Some (status, code, message) \<and>
        (status, code) \<in> set public_codes)"

lemma context_error_public: "service_ctx_err ck cx w = Some e \<Longrightarrow> public_failure e"
  unfolding service_ctx_err_def public_failure_def by (drule context_err_cases) blast

lemma app_error_public [simp]:
  "public_failure (app_new status code message) \<longleftrightarrow> (status, code) \<in> set public_codes"
  "public_failure (app_wrap status code message cause) \<longleftrightarrow> (status, code) \<in> set public_codes"
  by (auto simp: public_failure_def) (simp_all add: app_new_def app_wrap_def)

lemma own_error_public [simp]:
  "public_failure error_unauthorized" "public_failure error_unavailable"
  by (simp_all add: error_unauthorized_def error_unavailable_def public_codes_def)

lemma credential_limiter_error_public [simp]:
  "public_failure (credential_limiter_error ck cx w e)"
  by (auto simp: credential_limiter_error_def public_codes_def context_error_public
      split: option.splits)

lemma public_error_public [simp]: "public_failure (public_error e)"
  by (simp add: public_error_def public_codes_def)

lemma provider_error_public [simp]: "public_failure (provider_error ck cx w e)"
  by (auto simp: provider_error_def context_error_public split: option.splits)

text \<open>The public error keeps what the cause was.\<close>

lemma public_error_keeps_cause: "errors_is (public_error e) t = errors_is e t"
  by (simp add: public_error_def)

lemma public_error_is_app_error:
  "as_app_error (public_error e) \<noteq> None"
  by (simp add: public_error_def)

lemma resolve_verified_student_error:
  assumes "resolve_verified_student s cx user w = (w', Inl e)"
  shows "public_failure e \<or> StudentResolved user (Inl e) \<in> set (s_calls w')"
  using assms
  by (auto simp: resolve_verified_student_def ask_eq Let_def public_codes_def
      split: if_splits option.splits prod.splits sum.splits)

lemma resolve_period_query_error:
  assumes "resolve_period_query s cx user cred period allow_empty w = (w', Inl e)"
  shows "public_failure e \<or> StudentResolved user (Inl e) \<in> set (s_calls w')"
proof -
  obtain w1 q where q: "resolve_verified_student s cx user w = (w1, q)"
    by (cases "resolve_verified_student s cx user w")
  with assms resolve_verified_student_error [of s cx user w] show ?thesis
    by (auto simp: resolve_period_query_def resolve_student_def Let_def public_codes_def
        split: if_splits sum.splits prod.splits)
qed

lemma query_with_credential_limit_error:
  assumes "query_with_credential_limit s ck cx user student ip timeout query w = Some (w', Inl e)"
  shows "public_failure e"
  using assms
  by (auto simp: query_with_credential_limit_def Let_def check_limit_def after_failed_query_def
      after_answered_query_def public_codes_def
      split: option.splits prod.splits sum.splits if_splits)

lemma service_query_error:
  assumes run: "service_query s ck cx user ip timeout operation
      (resolve_period_query s cx user cred period allow_empty w) = Some (w', Inl e)"
  shows "public_failure e \<or> StudentResolved user (Inl e) \<in> set (s_calls w')"
proof -
  obtain w1 q where q: "resolve_period_query s cx user cred period allow_empty w = (w1, q)"
    by (cases "resolve_period_query s cx user cred period allow_empty w")
  show ?thesis
  proof (cases q)
    case (Inl e1)
    with run q have "w1 = w'" "e1 = e" by (simp_all add: service_query_def)
    with q Inl show ?thesis by (simp add: resolve_period_query_error)
  next
    case (Inr v)
    with run q query_with_credential_limit_error show ?thesis
      by (fastforce simp: service_query_def split: prod.splits option.splits)
  qed
qed

lemmas service_operation_defs =
  service_list_courses_def service_list_grades_def service_list_exams_def
  service_list_course_selections_def resolve_query_def resolve_optional_period_query_def

section \<open>Sorting\<close>

lemma mset_stable_sort_desc [simp]: "mset (stable_sort_desc key xs) = mset xs"
  by (simp add: stable_sort_desc_def)

lemma sorted_stable_sort_desc:
  "sorted_wrt (\<lambda>x y. key y \<le> key x) (stable_sort_desc key xs)"
  using sorted_sort_key [of key "rev xs"]
  by (simp add: stable_sort_desc_def sorted_wrt_rev sorted_wrt_map)

lemma stable_sort_desc_stable:
  "filter (\<lambda>x. key x = k) (stable_sort_desc key xs) = filter (\<lambda>x. key x = k) xs"
  by (simp add: stable_sort_desc_def sort_key_stable flip: rev_filter)

text \<open>What the provider answered to a query that succeeds is what the service passes on.\<close>

lemma query_with_credential_limit_answer:
  assumes "query_with_credential_limit s ck cx user student ip timeout query w = Some (w', Inr v)"
  shows "\<exists>cx1 w1 w2. query cx1 w1 = Some (w2, Inr v)"
  using assms
  by (fastforce simp: query_with_credential_limit_def Let_def after_answered_query_def
      split: option.splits prod.splits sum.splits)

lemma service_query_answer:
  assumes "service_query s ck cx user ip timeout operation resolved = Some (w', Inr v)"
  shows "\<exists>pv student cred period cx1 x x'. sv_provider s = Some pv \<and>
     operation pv cx1 student cred period x = Some (x', Inr v)"
proof -
  from assms obtain w1 student cred period pv where
    "resolved = (w1, Inr (student, cred, period))" "sv_provider s = Some pv"
    "query_with_credential_limit s ck cx user student ip timeout
       (call_service_provider student cred period (operation pv)) w1 = Some (w', Inr v)"
    by (auto simp: service_query_def split: prod.splits sum.splits option.splits)
  with query_with_credential_limit_answer show ?thesis
    by (fastforce simp: call_service_provider_def)
qed

section \<open>Properties\<close>

definition follows_protocol ::
    "'w service \<Rightarrow> bool \<Rightarrow> uint64 \<Rightarrow> string \<Rightarrow> 'w sworld \<Rightarrow> 'w sworld \<Rightarrow> bool \<Rightarrow> bool" where
  "follows_protocol s allow_empty user ip w w' success \<longleftrightarrow>
     (\<exists>calls. s_calls w' = s_calls w @ calls \<and>
        query_calls (sv_limiter s \<noteq> None) allow_empty user (trim_space ip) calls success)"

text \<open>
  C18: each of the four queries asks its collaborators only in the order of \<open>query_calls\<close>, whatever
  they answer. The provider is asked at most once, only after the resolver has named a verified
  student for the caller, only with that student's own number and a well-formed period, and only
  after the limiter has allowed it; a refused credential is recorded, an accepted one clears the
  failures, and an answer is given only then. Grades alone may be asked without a period.
\<close>

theorem queries_are_authorised:
  "(\<forall>w' r. service_list_courses s ck cx user cred period ip w = Some (w', r) \<longrightarrow>
      follows_protocol s False user ip w w' (err_of r = None)) \<and>
   (\<forall>w' r. service_list_grades s ck cx user cred period ip w = Some (w', r) \<longrightarrow>
      follows_protocol s True user ip w w' (err_of r = None)) \<and>
   (\<forall>w' r. service_list_exams s ck cx user cred period ip w = Some (w', r) \<longrightarrow>
      follows_protocol s False user ip w w' (err_of r = None)) \<and>
   (\<forall>w' r. service_list_course_selections s ck cx user cred period ip w = Some (w', r) \<longrightarrow>
      follows_protocol s False user ip w w' (err_of r = None))"
proof -
  note calls = service_query_calls [folded follows_protocol_def]
  have graded: "follows_protocol s True user ip w w' (err_of r = None)"
    if "service_list_grades s ck cx user cred period ip w = Some (w', r)" for w' r
  proof -
    from map_reply_outcome [OF that [unfolded service_list_grades_def
          resolve_optional_period_query_def]]
    obtain r' where
      "service_query s ck cx user ip (sv_grades_timeout s) (with_cache wc_grades pv_grades)
         (resolve_period_query s cx user cred period True w) = Some (w', r')"
      "err_of r = err_of r'" by blast
    with calls show ?thesis by metis
  qed
  show ?thesis
    by (intro conjI allI impI graded; (assumption)?)
       (simp_all add: service_list_courses_def service_list_exams_def
          service_list_course_selections_def resolve_query_def calls)
qed

text \<open>
  The grades a student gets are the ones the provider answered, ordered by descending period,
  with the provider's order kept inside each period and the cache provenance unchanged.
\<close>

theorem grades_are_sorted_by_period:
  assumes "service_list_grades s ck cx user cred period ip w = Some (w', Inr result)"
  shows "\<exists>pv student cred' p cx' x x' rows. sv_provider s = Some pv \<and>
     with_cache wc_grades pv_grades pv cx' student cred' p x =
       Some (x', Inr (result\<lparr>qr_records := rows\<rparr>)) \<and>
     mset (qr_records result) = mset rows \<and>
     sorted_wrt (\<lambda>g h. gr_period_id h \<le> gr_period_id g) (qr_records result) \<and>
     (\<forall>k. filter (\<lambda>g. gr_period_id g = k) (qr_records result) =
        filter (\<lambda>g. gr_period_id g = k) rows)"
proof -
  from assms obtain answer where
    run: "service_query s ck cx user ip (sv_grades_timeout s) (with_cache wc_grades pv_grades)
       (resolve_optional_period_query s cx user cred period w) = Some (w', Inr answer)" and
    result: "result = answer\<lparr>qr_records := stable_sort_desc gr_period_id (qr_records answer)\<rparr>"
    by (auto simp: service_list_grades_def map_reply_Inr)
  from service_query_answer [OF run] obtain pv cx' student cred' p x x' where
    pv: "sv_provider s = Some pv"
      "with_cache wc_grades pv_grades pv cx' student cred' p x = Some (x', Inr answer)"
    by blast
  have "answer = result\<lparr>qr_records := qr_records answer\<rparr>" by (simp add: result)
  with pv result show ?thesis
    by (intro exI [of _ pv] exI [of _ student] exI [of _ cred'] exI [of _ p] exI [of _ cx']
          exI [of _ x] exI [of _ x'] exI [of _ "qr_records answer"])
       (simp add: sorted_stable_sort_desc stable_sort_desc_stable)
qed

text \<open>
  C19: a query that fails, fails with an application error whose status and code are in the table
  \<open>public_codes\<close>, with the error of the caller's context, or with the error the identity resolver
  gave for this caller; no error of a provider or of the limiter leaves the service as it is.
\<close>

theorem service_errors_are_public:
  assumes "service_list_courses s ck cx user cred period ip w = Some (w', Inl e) \<or>
    service_list_grades s ck cx user cred period ip w = Some (w', Inl e) \<or>
    service_list_exams s ck cx user cred period ip w = Some (w', Inl e) \<or>
    service_list_course_selections s ck cx user cred period ip w = Some (w', Inl e)"
  shows "public_failure e \<or> StudentResolved user (Inl e) \<in> set (s_calls w')"
  using assms
  by (elim disjE)
     (auto simp: service_operation_defs intro: service_query_error dest: service_query_error)

section \<open>Concrete runs\<close>

definition sample_grade :: "string \<Rightarrow> string \<Rightarrow> grade" where
  "sample_grade period code =
     \<lparr>gr_id = code, gr_period_id = period, gr_course_code = code, gr_course_name = code,
      gr_course_type = ''required'', gr_credit = Finite 2, gr_grade_type = grade_type_number,
      gr_score = Some (Finite 90), gr_grade_level = None\<rparr>"

definition sample_grades :: "grade list" where
  "sample_grades = [sample_grade ''2024-2025-1'' ''A'', sample_grade ''2024-2025-2'' ''B'',
     sample_grade ''2024-2025-1'' ''C'', sample_grade ''2024-2025-2'' ''D'']"

definition sample_student :: student_reference where
  "sample_student = \<lparr>sr_user_id = 7, sr_student_no = ''2024001'', sr_provider = ''ouc'',
     sr_education_level = education_level_undergraduate\<rparr>"

definition no_answer :: "('w, 'v) lookup" where
  "no_answer cx student cred period w = Some (w, Inl (Sentinel ErrProviderUnavailable))"

text \<open>A provider with grades: it refuses every password but one.\<close>

definition sample_provider :: "unit provider" where
  "sample_provider =
     \<lparr>pv_courses = no_answer,
      pv_grades = (\<lambda>_ _ cred _ w.
        Some (w, if cr_password cred = ''secret'' then Inr sample_grades
                 else Inl (Sentinel ErrInvalidCredentials))),
      pv_exams = no_answer, pv_selections = no_answer, pv_cache_aware = None,
      pv_selection_schedule = None\<rparr>"

definition sample_limiter :: "unit failure_limiter" where
  "sample_limiter = \<lparr>fl_allow = (\<lambda>_ _ _ _ w. (w, Inr True)),
     fl_record_failure = (\<lambda>_ _ _ _ w. (w, None)), fl_clear = (\<lambda>_ _ _ _ w. (w, None))\<rparr>"

definition sample_service :: "unit service" where
  "sample_service =
     new_service (Some (\<lambda>_ _ w. (w, Inr sample_student))) (Some sample_provider)
       [WithCredentialFailureLimiter sample_limiter]"

definition still_clock :: "'w clock" where
  "still_clock = \<lparr>ck_now = (\<lambda>_. unix_epoch), ck_timer = (\<lambda>_. True), ck_step = (\<lambda>_. 0)\<rparr>"

definition quiet_world :: "unit sworld" where
  "quiet_world = \<lparr>s_world = (), s_calls = []\<rparr>"

definition sample_grade_query :: "string \<Rightarrow> (unit sworld, grade list query_result) reply" where
  "sample_grade_query password =
     service_list_grades sample_service still_clock background 7
       \<lparr>cr_student_no = ''2024001'', cr_password = password\<rparr> '''' ''10.0.0.1'' quiet_world"

text \<open>The texts of the sample have nothing to trim; trimming is not evaluated byte by byte.\<close>

lemma sample_trims:
  "trim_space ''2024001'' = ''2024001''" "trim_space ''10.0.0.1'' = ''10.0.0.1''"
  by (rule trim_space_visible; code_simp)+

lemma sample_grades_sorted:
  "stable_sort_desc gr_period_id sample_grades =
     [sample_grade ''2024-2025-2'' ''B'', sample_grade ''2024-2025-2'' ''D'',
      sample_grade ''2024-2025-1'' ''A'', sample_grade ''2024-2025-1'' ''C'']"
  by code_simp

lemmas sample_run_simps =
  sample_grade_query_def service_list_grades_def service_query_def resolve_optional_period_query_def
  resolve_period_query_def resolve_student_def resolve_verified_student_def sample_service_def
  new_service_def quiet_world_def sample_student_def ask_def query_with_credential_limit_def
  check_limit_def sample_limiter_def call_service_provider_def with_cache_def sample_provider_def
  after_failed_query_def after_answered_query_def provider_error_def service_ctx_err_def
  direct_result_def Let_def sample_trims sample_grades_sorted

definition sample_calls :: "string \<Rightarrow> err option \<Rightarrow> service_call \<Rightarrow> service_call list" where
  "sample_calls password e last_call =
     [StudentResolved 7 (Inr sample_student), LimitChecked 7 ''2024001'' ''10.0.0.1'' (Inr True),
      ProviderQueried sample_student
        \<lparr>cr_student_no = ''2024001'', cr_password = password\<rparr> '''' e, last_call]"

lemma sample_grade_query_answers:
  "sample_grade_query ''secret'' =
   Some (\<lparr>s_world = (),
          s_calls = sample_calls ''secret'' None (FailuresCleared 7 ''2024001'' ''10.0.0.1'' None)\<rparr>,
         Inr \<lparr>qr_records = [sample_grade ''2024-2025-2'' ''B'', sample_grade ''2024-2025-2'' ''D'',
                sample_grade ''2024-2025-1'' ''A'', sample_grade ''2024-2025-1'' ''C''],
              qr_cache = None\<rparr>)"
  by (simp add: sample_run_simps sample_calls_def)

lemma sample_grade_query_fails:
  "sample_grade_query ''guess'' =
   Some (\<lparr>s_world = (),
          s_calls = sample_calls ''guess'' (Some (Sentinel ErrInvalidCredentials))
            (FailureRecorded 7 ''2024001'' ''10.0.0.1'' None)\<rparr>,
         Inl (public_error (Sentinel ErrInvalidCredentials)))"
  by (simp add: sample_run_simps sample_calls_def)

theorem queries_are_authorised_witness:
  "query_calls True True 7 ''10.0.0.1''
     (sample_calls ''secret'' None (FailuresCleared 7 ''2024001'' ''10.0.0.1'' None)) True"
proof -
  let ?cred = "\<lparr>cr_student_no = ''2024001'', cr_password = ''secret''\<rparr>"
  from queries_are_authorised [of sample_service still_clock background 7 ?cred "''''"
      "''10.0.0.1''" quiet_world] sample_grade_query_answers [unfolded sample_grade_query_def]
  have "follows_protocol sample_service True 7 ''10.0.0.1'' quiet_world
      \<lparr>s_world = (), s_calls = sample_calls ''secret'' None
         (FailuresCleared 7 ''2024001'' ''10.0.0.1'' None)\<rparr> True"
    by fastforce
  then show ?thesis
    by (simp add: follows_protocol_def sample_service_def new_service_def quiet_world_def
        sample_trims)
qed

theorem grades_are_sorted_by_period_witness:
  "\<exists>rows. mset [sample_grade ''2024-2025-2'' ''B'', sample_grade ''2024-2025-2'' ''D'',
      sample_grade ''2024-2025-1'' ''A'', sample_grade ''2024-2025-1'' ''C''] = mset rows"
  using grades_are_sorted_by_period
    [OF sample_grade_query_answers [unfolded sample_grade_query_def]] by auto

theorem service_errors_are_public_witness:
  "public_failure (public_error (Sentinel ErrInvalidCredentials)) \<or>
   StudentResolved 7 (Inl (public_error (Sentinel ErrInvalidCredentials)))
     \<in> set (sample_calls ''guess'' (Some (Sentinel ErrInvalidCredentials))
              (FailureRecorded 7 ''2024001'' ''10.0.0.1'' None))"
  using service_errors_are_public
    [OF disjI2, OF disjI1, OF sample_grade_query_fails [unfolded sample_grade_query_def]]
  by simp

end
