(* ===== verification/OucSession.thy ===== *)
theory OucSession
  imports GoErrors GoStrings "HOL-Library.Product_Lexorder" "HOL-Library.AList"
begin

text \<open>
  The cookies of an OUC session: \<^verbatim>\<open>ouc/tracked_cookie_jar.go\<close>, the jar that remembers which host set
  a cookie, and the values and checks of \<^verbatim>\<open>ouc/session_store.go\<close> that decide what a stored session
  may contain. URL parsing and the Unicode case tables are those of Go's library, here the fields
  of \<open>url_library\<close>; the cookie jar of \<^verbatim>\<open>net/http\<close> below the tracked one is a state of its own with
  one operation.
\<close>

section \<open>URLs and hosts\<close>

record web_url =
  wu_scheme :: string
  wu_host :: string
  wu_user :: bool
  wu_path :: string
  wu_raw_query :: string
  wu_fragment :: string

text \<open>\<^verbatim>\<open>Hostname()\<close> and \<^verbatim>\<open>Port()\<close>: the host is split at its last colon when only digits follow.\<close>

definition split_host_port :: "string \<Rightarrow> string \<times> string" where
  "split_host_port host =
     (let back = rev host;
          port = rev (takeWhile (\<lambda>c. c \<noteq> CHR '':'') back);
          before = rev (drop 1 (dropWhile (\<lambda>c. c \<noteq> CHR '':'') back));
          (h, p) = (if CHR '':'' \<in> set host \<and> list_all is_digit port then (before, port)
                    else (host, ''''));
          bracketed = (h \<noteq> '''' \<and> hd h = CHR ''['' \<and> last h = CHR '']'' \<and> 2 \<le> length h)
      in (if bracketed then butlast (tl h) else h, p))"

definition url_hostname :: "web_url \<Rightarrow> string" where
  "url_hostname u = fst (split_host_port (wu_host u))"

definition url_port :: "web_url \<Rightarrow> string" where
  "url_port u = snd (split_host_port (wu_host u))"

record url_library =
  ul_parse :: "string \<Rightarrow> web_url option"
  ul_string :: "web_url \<Rightarrow> string"
  ul_lower :: "string \<Rightarrow> string"

definition host_identity :: string where "host_identity = ''id.ouc.edu.cn''"
definition host_portal :: string where "host_portal = ''my.ouc.edu.cn''"
definition host_undergraduate :: string where "host_undergraduate = ''jwgl2024.ouc.edu.cn''"
definition host_graduate :: string where "host_graduate = ''pgs.ouc.edu.cn''"
definition parent_domain :: string where "parent_domain = ''ouc.edu.cn''"

lemmas host_defs = host_identity_def host_portal_def host_undergraduate_def host_graduate_def
  parent_domain_def

definition allowed_ouc_host :: "url_library \<Rightarrow> string \<Rightarrow> bool" where
  "allowed_ouc_host ul host \<longleftrightarrow>
     to_lower (ul_lower ul) host
       \<in> {host_identity, host_portal, host_undergraduate, host_graduate}"

section \<open>Session values\<close>

definition scope_identity :: string where "scope_identity = ''identity''"
definition scope_undergraduate :: string where "scope_undergraduate = ''undergraduate''"
definition scope_graduate :: string where "scope_graduate = ''graduate''"

lemmas scope_defs = scope_identity_def scope_undergraduate_def scope_graduate_def

record session_cookie =
  sc_name :: string
  sc_value :: string
  sc_domain :: string
  sc_path :: string
  sc_expires_at :: int

record session_cookie_set =
  kset_url :: string
  kset_cookies :: "session_cookie list"

record session_state =
  sst_version :: int
  sst_sets :: "session_cookie_set list"
  sst_validated_at :: int

definition max_session_state_bytes :: int where "max_session_state_bytes = 128 * 1024"
definition max_session_cookie_sets :: nat where "max_session_cookie_sets = 32"
definition max_session_cookies :: nat where "max_session_cookies = 128"
definition max_session_cookie_length :: nat where "max_session_cookie_length = 4096"

definition valid_session_scope :: "string \<Rightarrow> bool" where
  "valid_session_scope scope \<longleftrightarrow> scope \<in> {scope_identity, scope_undergraduate, scope_graduate}"

definition scope_allows_host :: "url_library \<Rightarrow> string \<Rightarrow> string \<Rightarrow> bool" where
  "scope_allows_host ul scope host \<longleftrightarrow>
     (let h = to_lower (ul_lower ul) (trim_space host)
      in if scope = scope_identity then h = host_identity \<or> h = host_portal
         else if scope = scope_undergraduate then h = host_undergraduate
         else if scope = scope_graduate then h = host_graduate
         else False)"

section \<open>Cookie domains\<close>

definition valid_domain_label :: "string \<Rightarrow> bool" where
  "valid_domain_label label \<longleftrightarrow>
     label \<noteq> '''' \<and> length label \<le> 63 \<and> hd label \<noteq> CHR ''-'' \<and> last label \<noteq> CHR ''-'' \<and>
     list_all (\<lambda>c. byte_in 97 122 c \<or> byte_in 48 57 c \<or> c = CHR ''-'') label"

text \<open>The canonical form of a Domain attribute, or nothing when it is not a domain.\<close>

definition canonical_cookie_domain :: "url_library \<Rightarrow> string \<Rightarrow> string option" where
  "canonical_cookie_domain ul domain =
     (if domain = '''' then Some ''''
      else if trim_space domain \<noteq> domain then None
      else
        (let canonical = to_lower (ul_lower ul) (trim_prefix domain ''.'')
         in if canonical = '''' \<or> 253 < length canonical \<or> has_prefix canonical ''.'' then None
            else if list_all valid_domain_label (split_on (CHR ''.'') canonical) then Some canonical
            else None))"

text \<open>The callers that ignore the second result see the empty text for a bad domain.\<close>

definition canonical_or_empty :: "url_library \<Rightarrow> string \<Rightarrow> string" where
  "canonical_or_empty ul domain =
     (case canonical_cookie_domain ul domain of None \<Rightarrow> '''' | Some c \<Rightarrow> c)"

definition valid_session_cookie_domain :: "url_library \<Rightarrow> string \<Rightarrow> string \<Rightarrow> bool" where
  "valid_session_cookie_domain ul source_host domain =
     (case canonical_cookie_domain ul domain of
        None \<Rightarrow> False
      | Some canonical \<Rightarrow>
          canonical = '''' \<or> canonical = to_lower (ul_lower ul) (trim_space source_host) \<or>
          canonical = parent_domain)"

section \<open>What a stored session may contain\<close>

definition valid_session_cookie :: "session_cookie \<Rightarrow> bool" where
  "valid_session_cookie c \<longleftrightarrow>
     trim_space (sc_name c) \<noteq> '''' \<and> length (sc_name c) \<le> max_session_cookie_length \<and>
     length (sc_value c) \<le> max_session_cookie_length \<and> 0 \<le> sc_expires_at c \<and>
     (sc_path c = '''' \<or>
      has_prefix (sc_path c) ''/'' \<and> length (sc_path c) \<le> 1024 \<and>
      \<not> contains_any (sc_path c) (map utf8 [[13], [10], [0]]))"

fun check_session_cookies :: "url_library \<Rightarrow> string \<Rightarrow> session_cookie list \<Rightarrow> err option" where
  "check_session_cookies ul host [] = None"
| "check_session_cookies ul host (c # cs) =
     (if \<not> valid_session_cookie c then Some (Opaque ''OUC session contains an invalid cookie'')
      else if \<not> valid_session_cookie_domain ul host (sc_domain c)
      then Some (Opaque ''OUC session contains an invalid cookie domain'')
      else check_session_cookies ul host cs)"

definition session_url_host :: "url_library \<Rightarrow> string \<Rightarrow> string option" where
  "session_url_host ul text =
     (case ul_parse ul text of
        None \<Rightarrow> None
      | Some u \<Rightarrow>
          if wu_scheme u \<noteq> ''https'' \<or> \<not> allowed_ouc_host ul (url_hostname u) \<or> wu_user u \<or>
             wu_raw_query u \<noteq> '''' \<or> wu_fragment u \<noteq> ''''
          then None else Some (url_hostname u))"

fun check_session_sets ::
    "url_library \<Rightarrow> nat \<Rightarrow> session_cookie_set list \<Rightarrow> err + nat" where
  "check_session_sets ul seen [] = Inr seen"
| "check_session_sets ul seen (s # ss) =
     (case session_url_host ul (kset_url s) of
        None \<Rightarrow> Inl (Opaque ''OUC session contains a non-allowlisted URL'')
      | Some host \<Rightarrow>
          let seen' = seen + length (kset_cookies s)
          in if max_session_cookies < seen'
             then Inl (Opaque ''OUC session cookie count exceeds safe limit'')
             else case check_session_cookies ul host (kset_cookies s) of
                    Some e \<Rightarrow> Inl e
                  | None \<Rightarrow> check_session_sets ul seen' ss)"

definition validate_session_state :: "url_library \<Rightarrow> session_state \<Rightarrow> err option" where
  "validate_session_state ul st =
     (if sst_version st \<noteq> 1 then Some (Opaque ''unsupported OUC session state version'')
      else if sst_sets st = [] \<or> max_session_cookie_sets < length (sst_sets st)
      then Some (Opaque ''OUC session cookie-set count is outside the safe range'')
      else case check_session_sets ul 0 (sst_sets st) of
             Inl e \<Rightarrow> Some e
           | Inr seen \<Rightarrow>
               if seen = 0 then Some (Opaque ''OUC session contains no cookies'') else None)"

text \<open>\<^verbatim>\<open>parsed, _ := url.Parse(...)\<close>: the host of a URL that was parsed before.\<close>

definition parsed_host :: "url_library \<Rightarrow> string \<Rightarrow> string" where
  "parsed_host ul text = (case ul_parse ul text of None \<Rightarrow> '''' | Some u \<Rightarrow> url_hostname u)"

definition parent_domain_cookie :: "url_library \<Rightarrow> session_cookie \<Rightarrow> bool" where
  "parent_domain_cookie ul c \<longleftrightarrow> canonical_or_empty ul (sc_domain c) = parent_domain"

fun check_scoped_sets :: "url_library \<Rightarrow> string \<Rightarrow> session_cookie_set list \<Rightarrow> err option" where
  "check_scoped_sets ul scope [] = None"
| "check_scoped_sets ul scope (s # ss) =
     (if \<not> scope_allows_host ul scope (parsed_host ul (kset_url s))
      then Some (Opaque ''OUC session contains a cookie outside its scope'')
      else if scope \<noteq> scope_identity \<and> list_ex (parent_domain_cookie ul) (kset_cookies s)
      then Some (Opaque ''OUC target session contains a parent-domain cookie'')
      else check_scoped_sets ul scope ss)"

definition validate_scoped_session_state :: "url_library \<Rightarrow> session_state \<Rightarrow> string \<Rightarrow> err option"
where
  "validate_scoped_session_state ul st scope =
     (case validate_session_state ul st of
        Some e \<Rightarrow> Some e
      | None \<Rightarrow> check_scoped_sets ul scope (sst_sets st))"

section \<open>Migration of unscoped sessions\<close>

definition cookie_pair :: "session_cookie \<Rightarrow> string" where
  "cookie_pair c = sc_name c @ [char_of (0 :: nat)] @ sc_value c"

definition identity_pairs :: "url_library \<Rightarrow> session_state \<Rightarrow> string list" where
  "identity_pairs ul st =
     concat (map (\<lambda>s. map cookie_pair (kset_cookies s))
       (filter (\<lambda>s. scope_allows_host ul scope_identity (parsed_host ul (kset_url s)))
         (sst_sets st)))"

definition keeps_cookie :: "url_library \<Rightarrow> string \<Rightarrow> string list \<Rightarrow> session_cookie \<Rightarrow> bool" where
  "keeps_cookie ul scope identity c \<longleftrightarrow>
     \<not> (scope \<noteq> scope_identity \<and> parent_domain_cookie ul c) \<and> cookie_pair c \<notin> set identity"

definition filter_session_state :: "url_library \<Rightarrow> session_state \<Rightarrow> string \<Rightarrow> err + session_state"
where
  "filter_session_state ul st scope =
     (case validate_session_state ul st of
        Some e \<Rightarrow> Inl e
      | None \<Rightarrow>
          let identity = (if scope \<noteq> scope_identity then identity_pairs ul st else []);
              in_scope = filter (\<lambda>s. scope_allows_host ul scope (parsed_host ul (kset_url s)))
                (sst_sets st);
              kept = map (\<lambda>s. \<lparr>kset_url = kset_url s,
                  kset_cookies = filter (keeps_cookie ul scope identity) (kset_cookies s)\<rparr>) in_scope
          in Inr \<lparr>sst_version = 1, sst_sets = filter (\<lambda>s. kset_cookies s \<noteq> []) kept,
                  sst_validated_at = sst_validated_at st\<rparr>)"

section \<open>The tracked cookie jar\<close>

record http_cookie =
  hc_name :: string
  hc_value :: string
  hc_domain :: string
  hc_path :: string
  hc_expires :: gotime
  hc_max_age :: int

record tracked_cookie =
  tc_source_url :: string
  tc_source_host :: string
  tc_domain :: string
  tc_cookie_domain :: string
  tc_path :: string
  tc_name :: string
  tc_value :: string
  tc_expires :: gotime

text \<open>
  \<open>'j\<close> is the state of the library's jar. The records are a map by cookie slot; the list order
  stands for the order in which Go ranges over it.
\<close>

record 'j cookie_jar =
  cj_base :: 'j
  cj_records :: "(string \<times> tracked_cookie) list"

record 'j jar_library =
  jl_get :: "'j \<Rightarrow> web_url \<Rightarrow> (string \<times> string) list"
  jl_set :: "'j \<Rightarrow> web_url \<Rightarrow> http_cookie list \<Rightarrow> 'j"
  jl_empty :: 'j
  jl_valid :: "http_cookie \<Rightarrow> bool"
  jl_range :: "(string \<times> tracked_cookie) list \<Rightarrow> (string \<times> tracked_cookie) list"

definition new_jar :: "'j jar_library \<Rightarrow> 'j cookie_jar" where
  "new_jar jl = \<lparr>cj_base = jl_empty jl, cj_records = []\<rparr>"

definition last_slash :: "string \<Rightarrow> nat option" where
  "last_slash s = (case dropWhile (\<lambda>c. c \<noteq> CHR ''/'') (rev s) of
     [] \<Rightarrow> None | _ # before \<Rightarrow> Some (length before))"

definition default_cookie_path :: "string \<Rightarrow> string" where
  "default_cookie_path path =
     (if \<not> has_prefix path ''/'' then ''/''
      else case last_slash path of
             None \<Rightarrow> ''/''
           | Some n \<Rightarrow> if n = 0 then ''/'' else take n path)"

definition cookie_slot :: "string \<Rightarrow> string \<Rightarrow> string \<Rightarrow> string" where
  "cookie_slot domain path name = join [char_of (0 :: nat)] [domain, path, name]"

text \<open>One cookie of a response, after the checks on the source.\<close>

definition track_cookie ::
    "url_library \<Rightarrow> 'j jar_library \<Rightarrow> gotime \<Rightarrow> web_url \<Rightarrow> (string \<times> tracked_cookie) list \<Rightarrow>
     http_cookie \<Rightarrow> (string \<times> tracked_cookie) list" where
  "track_cookie ul jl now source records c =
     (let source_host = to_lower (ul_lower ul) (url_hostname source);
          cookie_domain = canonical_or_empty ul (hc_domain c);
          domain = (if cookie_domain = '''' then source_host else cookie_domain);
          path = (if has_prefix (hc_path c) ''/'' then hc_path c
                  else default_cookie_path (wu_path source));
          slot = cookie_slot domain path (hc_name c);
          expires = (if 0 < hc_max_age c
                     then now + sint (word_of_int (hc_max_age c) * word_of_int second :: int64)
                     else hc_expires c)
      in if \<not> jl_valid jl c \<or> trim_space (hc_name c) = '''' then records
         else if canonical_cookie_domain ul (hc_domain c) = None \<or>
                 \<not> valid_session_cookie_domain ul source_host cookie_domain then records
         else if domain \<noteq> source_host \<and> domain \<noteq> parent_domain then records
         else if hc_max_age c < 0 \<or> (\<not> is_zero_time expires \<and> expires \<le> now)
         then filter (\<lambda>(k, _). k \<noteq> slot) records
         else AList.update slot
           \<lparr>tc_source_url = ul_string ul (source\<lparr>wu_user := False, wu_raw_query := '''',
                              wu_fragment := ''''\<rparr>),
            tc_source_host = source_host, tc_domain = domain, tc_cookie_domain = cookie_domain,
            tc_path = path, tc_name = hc_name c, tc_value = hc_value c, tc_expires = expires\<rparr>
           records)"

definition set_cookies ::
    "url_library \<Rightarrow> 'j jar_library \<Rightarrow> gotime \<Rightarrow> web_url \<Rightarrow> http_cookie list \<Rightarrow> 'j cookie_jar \<Rightarrow>
     'j cookie_jar" where
  "set_cookies ul jl now source cookies jar =
     (let jar1 = jar\<lparr>cj_base := jl_set jl (cj_base jar) source cookies\<rparr>
      in if wu_scheme source \<noteq> ''https'' \<or> \<not> allowed_ouc_host ul (url_hostname source) then jar1
         else jar1\<lparr>cj_records := foldl (track_cookie ul jl now source) (cj_records jar) cookies\<rparr>)"

section \<open>Snapshots of a jar\<close>

definition unix_milli_or_zero :: "gotime \<Rightarrow> int" where
  "unix_milli_or_zero t = (if is_zero_time t then 0 else unix_milli t)"

definition gone :: "gotime \<Rightarrow> tracked_cookie \<Rightarrow> bool" where
  "gone now r \<longleftrightarrow> \<not> is_zero_time (tc_expires r) \<and> tc_expires r \<le> now"

definition scope_includes ::
    "url_library \<Rightarrow> bool \<Rightarrow> string list \<Rightarrow> tracked_cookie \<Rightarrow> bool" where
  "scope_includes ul allow_target_parent scopes r \<longleftrightarrow>
     list_ex (\<lambda>scope. scope_allows_host ul scope (tc_source_host r) \<and>
         (allow_target_parent \<or> scope = scope_identity \<or> tc_domain r = tc_source_host r)) scopes"

definition saved_cookie :: "tracked_cookie \<Rightarrow> session_cookie" where
  "saved_cookie r =
     \<lparr>sc_name = tc_name r, sc_value = tc_value r, sc_domain = tc_cookie_domain r,
      sc_path = tc_path r, sc_expires_at = unix_milli_or_zero (tc_expires r)\<rparr>"

text \<open>Sorted records are put into sets, one per run of equal source URLs.\<close>

fun cookie_sets :: "tracked_cookie list \<Rightarrow> session_cookie_set list" where
  "cookie_sets [] = []"
| "cookie_sets (r # rs) =
     (case cookie_sets rs of
        [] \<Rightarrow> [\<lparr>kset_url = tc_source_url r, kset_cookies = [saved_cookie r]\<rparr>]
      | s # ss \<Rightarrow>
          if kset_url s = tc_source_url r
          then s\<lparr>kset_cookies := saved_cookie r # kset_cookies s\<rparr> # ss
          else \<lparr>kset_url = tc_source_url r, kset_cookies = [saved_cookie r]\<rparr> # s # ss)"

definition snapshot_records ::
    "url_library \<Rightarrow> 'j jar_library \<Rightarrow> gotime \<Rightarrow> bool \<Rightarrow> string list \<Rightarrow> 'j cookie_jar \<Rightarrow>
     'j cookie_jar \<times> (err + session_state)" where
  "snapshot_records ul jl now allow_target_parent scopes jar =
     (if scopes = [] then (jar, Inl (Opaque ''OUC session scope is required''))
      else if \<not> list_all valid_session_scope scopes
      then (jar, Inl (Opaque ''invalid OUC session scope''))
      else
        (let jar' = jar\<lparr>cj_records := filter (\<lambda>(_, r). \<not> gone now r) (cj_records jar)\<rparr>;
             records = filter (scope_includes ul allow_target_parent scopes)
               (map snd (jl_range jl (cj_records jar')));
             sorted = sort_key (\<lambda>r. (tc_source_url r, tc_name r, tc_path r)) records
         in (jar', if records = []
                   then Inl (Opaque ''OUC scoped session contains no authority-owned cookies'')
                   else Inr \<lparr>sst_version = 1, sst_sets = cookie_sets sorted, sst_validated_at = 0\<rparr>)))"

text \<open>\<^verbatim>\<open>snapshotSessionScope\<close> and \<^verbatim>\<open>snapshotSessionForRecovery\<close>.\<close>

definition snapshot_session_scope ::
    "url_library \<Rightarrow> 'j jar_library \<Rightarrow> gotime \<Rightarrow> string \<Rightarrow> gotime \<Rightarrow> 'j cookie_jar \<Rightarrow>
     'j cookie_jar \<times> (err + session_state)" where
  "snapshot_session_scope ul jl now scope validated_at jar =
     (case snapshot_records ul jl now False [scope] jar of
        (jar', Inl e) \<Rightarrow> (jar', Inl e)
      | (jar', Inr st) \<Rightarrow>
          (jar', case validate_scoped_session_state ul st scope of
                   Some e \<Rightarrow> Inl e
                 | None \<Rightarrow>
                     Inr (if is_zero_time validated_at then st
                          else st\<lparr>sst_validated_at := unix_milli validated_at\<rparr>)))"

definition snapshot_for_recovery ::
    "url_library \<Rightarrow> 'j jar_library \<Rightarrow> gotime \<Rightarrow> string \<Rightarrow> 'j cookie_jar \<Rightarrow>
     'j cookie_jar \<times> (err + session_state)" where
  "snapshot_for_recovery ul jl now target jar =
     (if target = scope_identity \<or> \<not> valid_session_scope target
      then (jar, Inl (Opaque ''invalid OUC target session scope''))
      else case snapshot_records ul jl now True [scope_identity, target] jar of
             (jar', Inl e) \<Rightarrow> (jar', Inl e)
           | (jar', Inr st) \<Rightarrow>
               (jar', case validate_session_state ul st of Some e \<Rightarrow> Inl e | None \<Rightarrow> Inr st))"

section \<open>Restoring a session\<close>

definition restored_cookie :: "session_cookie \<Rightarrow> http_cookie" where
  "restored_cookie c =
     \<lparr>hc_name = sc_name c, hc_value = sc_value c, hc_domain = sc_domain c, hc_path = sc_path c,
      hc_expires = (if 0 < sc_expires_at c then of_unix_milli (sc_expires_at c) else 0),
      hc_max_age = 0\<rparr>"

definition live_session_cookie :: "gotime \<Rightarrow> session_cookie \<Rightarrow> bool" where
  "live_session_cookie now c \<longleftrightarrow>
     \<not> (0 < sc_expires_at c \<and> of_unix_milli (sc_expires_at c) \<le> now)"

fun restore_sets ::
    "url_library \<Rightarrow> 'j jar_library \<Rightarrow> gotime \<Rightarrow> session_cookie_set list \<Rightarrow> 'j cookie_jar \<Rightarrow> nat \<Rightarrow>
     err + 'j cookie_jar \<times> nat" where
  "restore_sets ul jl now [] jar restored = Inr (jar, restored)"
| "restore_sets ul jl now (s # ss) jar restored =
     (case ul_parse ul (kset_url s) of
        None \<Rightarrow> Inl (Opaque ''parse OUC session URL'')
      | Some origin \<Rightarrow>
          let cookies = map restored_cookie (filter (live_session_cookie now) (kset_cookies s))
          in if cookies = [] then restore_sets ul jl now ss jar restored
             else restore_sets ul jl now ss (set_cookies ul jl now origin cookies jar)
                    (restored + length cookies))"

definition restore_session ::
    "url_library \<Rightarrow> 'j jar_library \<Rightarrow> (err + unit) \<Rightarrow> gotime \<Rightarrow> session_state \<Rightarrow> err + 'j cookie_jar"
where
  "restore_session ul jl client now st =
     (case validate_session_state ul st of
        Some e \<Rightarrow> Inl e
      | None \<Rightarrow>
          (case client of
             Inl e \<Rightarrow> Inl e
           | Inr _ \<Rightarrow>
               (case restore_sets ul jl now (sst_sets st) (new_jar jl) 0 of
                  Inl e \<Rightarrow> Inl e
                | Inr (jar, restored) \<Rightarrow>
                    if restored = 0 then Inl (Opaque ''OUC session contains no live cookies'')
                    else Inr jar)))"

end
