(* ===== verification/OucPage.thy ===== *)
theory OucPage
  imports OucSession
begin

text \<open>
  What the OUC adapter reads out of the pages of the login: \<^verbatim>\<open>ouc/challenge.go\<close>,
  \<^verbatim>\<open>ouc/login_response.go\<close>, \<^verbatim>\<open>ouc/sm2.go\<close>, \<^verbatim>\<open>ouc/portal_identity.go\<close> and the form and text functions
  of \<^verbatim>\<open>ouc/sso.go\<close>. The HTML parser, the JSON decoder, SM2 and base64 are fields of
  \<open>page_library\<close>; everything the adapter does with their results is written out. A page is the tree
  \<^verbatim>\<open>html.Parse\<close> returns; \<^verbatim>\<open>url.Values\<close> is a map from names to value lists, kept as a list of pairs
  with distinct names.
\<close>

section \<open>Documents\<close>

datatype html_kind = TextNode | DocumentNode | ElementNode | CommentNode | DoctypeNode

datatype html_node = HtmlNode html_kind string "(string \<times> string) list" "html_node list"

fun node_kind :: "html_node \<Rightarrow> html_kind" where "node_kind (HtmlNode k _ _ _) = k"
fun node_data :: "html_node \<Rightarrow> string" where "node_data (HtmlNode _ d _ _) = d"
fun node_attr :: "html_node \<Rightarrow> (string \<times> string) list" where "node_attr (HtmlNode _ _ a _) = a"
fun node_children :: "html_node \<Rightarrow> html_node list" where "node_children (HtmlNode _ _ _ cs) = cs"

type_synonym form_values = "(string \<times> string list) list"

record portal_info =
  po_code :: "int option"
  po_info :: "(string \<times> string \<times> string) option"

text \<open>
  \<open>pl_json_error\<close>, \<open>pl_json_text\<close> and \<open>pl_json_security\<close> decode the first JSON value of a text into
  the type the source names; \<open>pl_json_portal\<close> also says whether the text ends after it.
\<close>

record page_library = url_library +
  pl_html :: "string \<Rightarrow> html_node option"
  pl_equal_fold :: "string \<Rightarrow> string \<Rightarrow> bool"
  pl_json_error :: "string \<Rightarrow> err + (int \<times> string) option"
  pl_json_text :: "string \<Rightarrow> err + string"
  pl_json_security :: "string \<Rightarrow> err + bool \<times> string"
  pl_json_portal :: "string \<Rightarrow> err + portal_info \<times> bool"
  pl_json_valid :: "string \<Rightarrow> bool"
  pl_json_object :: "(string \<times> string) list \<Rightarrow> err + string"
  pl_base64 :: "string \<Rightarrow> err + string"
  pl_sm2_key :: "string \<Rightarrow> err + string"
  pl_sm2_encrypt :: "nat \<Rightarrow> string \<Rightarrow> string \<Rightarrow> err + string"
  pl_base64_text :: "string \<Rightarrow> string"
  pl_resolve :: "web_url \<Rightarrow> web_url \<Rightarrow> web_url"
  pl_query :: "string \<Rightarrow> form_values"
  pl_encode :: "form_values \<Rightarrow> string"
  pl_escaped_path :: "web_url \<Rightarrow> string"
  pl_path_escape :: "string \<Rightarrow> string"

definition lower :: "('a) page_library_scheme \<Rightarrow> string \<Rightarrow> string" where
  "lower pl s = to_lower (ul_lower pl) s"

text \<open>\<^verbatim>\<open>strings.EqualFold\<close>: ASCII texts ignore the case of letters, others use the Unicode tables.\<close>

definition equal_fold :: "('a) page_library_scheme \<Rightarrow> string \<Rightarrow> string \<Rightarrow> bool" where
  "equal_fold pl s t =
     (if is_ascii s \<and> is_ascii t then map ascii_lower s = map ascii_lower t
      else pl_equal_fold pl s t)"

definition mentions :: "('a) page_library_scheme \<Rightarrow> string \<Rightarrow> string list \<Rightarrow> bool" where
  "mentions pl text_of candidates \<longleftrightarrow>
     list_ex (\<lambda>c. contains (lower pl text_of) (lower pl c)) candidates"

text \<open>\<^verbatim>\<open>url.Values\<close>.\<close>

definition values_set :: "string \<Rightarrow> string \<Rightarrow> form_values \<Rightarrow> form_values" where
  "values_set name v vs = AList.update name [v] vs"

definition values_get :: "form_values \<Rightarrow> string \<Rightarrow> string" where
  "values_get vs name = (case map_of vs name of Some (v # _) \<Rightarrow> v | _ \<Rightarrow> '''')"

definition values_del :: "string \<Rightarrow> form_values \<Rightarrow> form_values" where
  "values_del name vs = filter (\<lambda>(k, _). k \<noteq> name) vs"

section \<open>Texts the pages are recognised by\<close>

definition invalid_login_text :: "string list" where
  "invalid_login_text =
     [utf8 [0xE7, 0x94, 0xA8, 0xE6, 0x88, 0xB7, 0xE5, 0x90, 0x8D, 0xE6, 0x88, 0x96, 0xE5, 0xAF, 0x86, 0xE7, 0xA0, 0x81, 0xE9, 0x94, 0x99, 0xE8, 0xAF, 0xAF], utf8 [0xE8, 0xB4, 0xA6, 0xE5, 0x8F, 0xB7, 0xE6, 0x88, 0x96, 0xE5, 0xAF, 0x86, 0xE7, 0xA0, 0x81, 0xE9, 0x94, 0x99, 0xE8, 0xAF, 0xAF], utf8 [0xE7, 0x94, 0xA8, 0xE6, 0x88, 0xB7, 0xE5, 0x90, 0x8D, 0xE6, 0x88, 0x96, 0xE5, 0xAF, 0x86, 0xE7, 0xA0, 0x81, 0xE4, 0xB8, 0x8D, 0xE6, 0xAD, 0xA3, 0xE7, 0xA1, 0xAE], utf8 [0xE8, 0xB4, 0xA6, 0xE5, 0x8F, 0xB7, 0xE6, 0x88, 0x96, 0xE5, 0xAF, 0x86, 0xE7, 0xA0, 0x81, 0xE4, 0xB8, 0x8D, 0xE6, 0xAD, 0xA3, 0xE7, 0xA1, 0xAE],
      utf8 [0xE7, 0x94, 0xA8, 0xE6, 0x88, 0xB7, 0xE5, 0x90, 0x8D, 0xE6, 0x88, 0x96, 0xE5, 0xAF, 0x86, 0xE7, 0xA0, 0x81, 0xE6, 0x9C, 0x89, 0xE8, 0xAF, 0xAF], utf8 [0xE8, 0xB4, 0xA6, 0xE5, 0x8F, 0xB7, 0xE6, 0x88, 0x96, 0xE5, 0xAF, 0x86, 0xE7, 0xA0, 0x81, 0xE6, 0x9C, 0x89, 0xE8, 0xAF, 0xAF], utf8 [0xE5, 0xAF, 0x86, 0xE7, 0xA0, 0x81, 0xE9, 0x94, 0x99, 0xE8, 0xAF, 0xAF]]"

definition password_expired_text :: "string list" where
  "password_expired_text =
     [utf8 [0xE5, 0xAF, 0x86, 0xE7, 0xA0, 0x81, 0xE5, 0xB7, 0xB2, 0xE8, 0xBF, 0x87, 0xE6, 0x9C, 0x9F], utf8 [0xE5, 0xAF, 0x86, 0xE7, 0xA0, 0x81, 0xE5, 0xB7, 0xB2, 0xE7, 0xBB, 0x8F, 0xE8, 0xBF, 0x87, 0xE6, 0x9C, 0x9F], utf8 [0xE5, 0xAF, 0x86, 0xE7, 0xA0, 0x81, 0xE8, 0xBF, 0x87, 0xE6, 0x9C, 0x9F], utf8 [0xE5, 0xAF, 0x86, 0xE7, 0xA0, 0x81, 0xE5, 0xB7, 0xB2, 0xE5, 0xA4, 0xB1, 0xE6, 0x95, 0x88]]"

definition rejected_app_text :: "string list" where
  "rejected_app_text =
     [utf8 [0xE6, 0x97, 0xA0, 0xE6, 0x9D, 0x83, 0xE8, 0xAE, 0xBF, 0xE9, 0x97, 0xAE], utf8 [0xE6, 0xB2, 0xA1, 0xE6, 0x9C, 0x89, 0xE6, 0x9D, 0x83, 0xE9, 0x99, 0x90], utf8 [0xE6, 0x9C, 0xAA, 0xE6, 0x8E, 0x88, 0xE6, 0x9D, 0x83], utf8 [0xE7, 0x94, 0xA8, 0xE6, 0x88, 0xB7, 0xE4, 0xB8, 0x8D, 0xE5, 0xAD, 0x98, 0xE5, 0x9C, 0xA8], utf8 [0xE4, 0xB8, 0x8D, 0xE5, 0x9C, 0xA8, 0xE6, 0x9C, 0xAC, 0xE7, 0xB3, 0xBB, 0xE7, 0xBB, 0x9F], utf8 [0xE9, 0x9D, 0x9E, 0xE6, 0x9C, 0xAC, 0xE7, 0xB3, 0xBB, 0xE7, 0xBB, 0x9F, 0xE7, 0x94, 0xA8, 0xE6, 0x88, 0xB7]]"

definition strong_challenge_text :: "string list" where
  "strong_challenge_text =
     [utf8 [0xE8, 0xAF, 0xB7, 0xE5, 0xAE, 0x8C, 0xE6, 0x88, 0x90, 0xE9, 0xAA, 0x8C, 0xE8, 0xAF, 0x81, 0xE7, 0xA0, 0x81], utf8 [0xE8, 0xAF, 0xB7, 0xE8, 0xBE, 0x93, 0xE5, 0x85, 0xA5, 0xE9, 0xAA, 0x8C, 0xE8, 0xAF, 0x81, 0xE7, 0xA0, 0x81], utf8 [0xE6, 0xBB, 0x91, 0xE5, 0x8A, 0xA8, 0xE9, 0xAA, 0x8C, 0xE8, 0xAF, 0x81], utf8 [0xE8, 0xAE, 0xBE, 0xE5, 0xA4, 0x87, 0xE7, 0xA1, 0xAE, 0xE8, 0xAE, 0xA4]]"

definition security_text :: "string list" where
  "security_text = [utf8 [0xE5, 0xAE, 0x89, 0xE5, 0x85, 0xA8, 0xE9, 0xAA, 0x8C, 0xE8, 0xAF, 0x81]]"

definition login_challenge_text :: "string list" where
  "login_challenge_text = [utf8 [0xE9, 0xAA, 0x8C, 0xE8, 0xAF, 0x81, 0xE7, 0xA0, 0x81], utf8 [0xE6, 0xA0, 0xA1, 0xE9, 0xAA, 0x8C, 0xE7, 0xA0, 0x81], utf8 [0xE6, 0xBB, 0x91, 0xE5, 0x8A, 0xA8, 0xE9, 0xAA, 0x8C, 0xE8, 0xAF, 0x81], utf8 [0xE8, 0xAE, 0xBE, 0xE5, 0xA4, 0x87, 0xE7, 0xA1, 0xAE, 0xE8, 0xAE, 0xA4]]"

definition account_restricted_text :: "string list" where
  "account_restricted_text = [utf8 [0xE9, 0x94, 0x81, 0xE5, 0xAE, 0x9A], utf8 [0xE5, 0x86, 0xBB, 0xE7, 0xBB, 0x93]]"

definition continue_text :: string where
  "continue_text = utf8 [0xE7, 0xBB, 0xA7, 0xE7, 0xBB, 0xAD]"

definition academic_login_text :: string where
  "academic_login_text = utf8 [0xE7, 0x99, 0xBB, 0xE5, 0xBD, 0x95, 0xE6, 0x95, 0x99, 0xE5, 0x8A, 0xA1]"

section \<open>Walking a document\<close>

fun walk :: "html_node \<Rightarrow> html_node list" where
  "walk (HtmlNode k d a cs) = HtmlNode k d a cs # concat (map walk cs)"

fun node_text :: "html_node \<Rightarrow> string" where
  "node_text (HtmlNode k d a cs) =
     (if k = TextNode then d else concat (map node_text cs))"

definition html_attribute :: "('a) page_library_scheme \<Rightarrow> html_node \<Rightarrow> string \<Rightarrow> string option" where
  "html_attribute pl n name =
     (case filter (\<lambda>(k, _). equal_fold pl k name) (node_attr n) of [] \<Rightarrow> None | (_, v) # _ \<Rightarrow> Some v)"

definition attribute_value :: "('a) page_library_scheme \<Rightarrow> html_node \<Rightarrow> string \<Rightarrow> string" where
  "attribute_value pl n name = (case html_attribute pl n name of None \<Rightarrow> '''' | Some v \<Rightarrow> v)"

definition element_is_heading :: "html_node \<Rightarrow> bool" where
  "element_is_heading n \<longleftrightarrow>
     node_kind n = ElementNode \<and> node_data n \<in> {''title'', ''h1'', ''h2''}"

definition plain_style :: "string \<Rightarrow> string" where
  "plain_style s = filter (\<lambda>c. (of_char c :: nat) \<notin> {32, 9, 13, 10}) s"

definition element_is_hidden :: "('a) page_library_scheme \<Rightarrow> html_node \<Rightarrow> bool" where
  "element_is_hidden pl n \<longleftrightarrow>
     node_kind n = ElementNode \<and>
     (node_data n \<in> {''script'', ''style'', ''template''} \<or>
      node_data n = ''input'' \<and> equal_fold pl (trim_space (attribute_value pl n ''type'')) ''hidden'' \<or>
      html_attribute pl n ''hidden'' \<noteq> None \<or>
      equal_fold pl (trim_space (attribute_value pl n ''aria-hidden'')) ''true'' \<or>
      (let style = plain_style (lower pl (attribute_value pl n ''style''))
       in contains style ''display:none'' \<or> contains style ''visibility:hidden'') \<or>
      list_ex (\<lambda>c. c \<in> {''hidden'', ''hide'', ''d-none''})
        (go_fields (lower pl (attribute_value pl n ''class''))))"

definition is_challenge_control_name :: "string \<Rightarrow> bool" where
  "is_challenge_control_name name \<longleftrightarrow>
     contains name ''captcha'' \<or> contains name ''verifycode'' \<or> contains name ''verify_code'' \<or>
     contains name ''verify-code''"

section \<open>Challenges\<close>

record page_scan =
  ps_text :: string
  ps_heading :: string
  ps_login :: bool
  ps_control :: bool

definition empty_scan :: page_scan where
  "empty_scan = \<lparr>ps_text = '''', ps_heading = '''', ps_login = False, ps_control = False\<rparr>"

definition join_scan :: "page_scan \<Rightarrow> page_scan \<Rightarrow> page_scan" where
  "join_scan a b =
     \<lparr>ps_text = ps_text a @ ps_text b, ps_heading = ps_heading a @ ps_heading b,
      ps_login = (ps_login a \<or> ps_login b), ps_control = (ps_control a \<or> ps_control b)\<rparr>"

text \<open>What the visit of one node adds, the children not counted.\<close>

definition scan_node :: "('a) page_library_scheme \<Rightarrow> bool \<Rightarrow> bool \<Rightarrow> html_node \<Rightarrow> page_scan" where
  "scan_node pl hidden heading n =
     (let seen = node_kind n = TextNode \<and> \<not> hidden;
          input = node_kind n = ElementNode \<and> node_data n = ''input'';
          name = lower pl (trim_space (attribute_value pl n ''name''))
      in \<lparr>ps_text = (if seen then node_data n @ '' '' else ''''),
          ps_heading = (if seen \<and> heading then node_data n @ '' '' else ''''),
          ps_login = (input \<and> name \<in> {''username'', ''password''}),
          ps_control = (input \<and> \<not> hidden \<and> is_challenge_control_name name)\<rparr>)"

fun scan_page :: "('a) page_library_scheme \<Rightarrow> bool \<Rightarrow> bool \<Rightarrow> html_node \<Rightarrow> page_scan" where
  "scan_page pl above_hidden above_heading (HtmlNode k d a cs) =
     (let n = HtmlNode k d a cs;
          hidden = above_hidden \<or> element_is_hidden pl n;
          heading = above_heading \<or> element_is_heading n
      in foldr join_scan (scan_node pl hidden heading n # map (scan_page pl hidden heading) cs)
           empty_scan)"

datatype challenge_rule =
    RuleNone | VisibleControl | VisibleInstruction | StandaloneValidation | Unparseable
  | StructuredResponse

definition detect_interactive_challenge ::
    "('a) page_library_scheme \<Rightarrow> string \<Rightarrow> bool \<times> challenge_rule" where
  "detect_interactive_challenge pl body =
     (let trimmed = trim_prefix (trim_space body) (utf8 [0xEF, 0xBB, 0xBF])
      in if trimmed = '''' then (False, RuleNone)
         else if hd trimmed = CHR ''{'' \<or> hd trimmed = CHR ''['' then (False, StructuredResponse)
         else case pl_html pl trimmed of
                None \<Rightarrow> (False, Unparseable)
              | Some root \<Rightarrow>
                  (let s = scan_page pl False False root
                   in if ps_control s then (True, VisibleControl)
                      else if mentions pl (ps_text s) strong_challenge_text
                      then (True, VisibleInstruction)
                      else if \<not> ps_login s \<and> mentions pl (ps_heading s) security_text
                      then (True, StandaloneValidation)
                      else (False, RuleNone)))"

section \<open>Data in the scripts of a page\<close>

text \<open>\<^verbatim>\<open>bytes.Index\<close>: what follows the first occurrence of a marker.\<close>

fun after_marker :: "string \<Rightarrow> string \<Rightarrow> string option" where
  "after_marker m [] = (if m = '''' then Some '''' else None)"
| "after_marker m (c # cs) =
     (if has_prefix (c # cs) m then Some (drop (length m) (c # cs)) else after_marker m cs)"

definition ouc_password_expired_code :: int where "ouc_password_expired_code = 40605"

definition parse_login_response_error ::
    "('a) page_library_scheme \<Rightarrow> string \<Rightarrow> err + (int \<times> string) option" where
  "parse_login_response_error pl body =
     (case after_marker ''var error ='' body of
        None \<Rightarrow> Inr None
      | Some rest \<Rightarrow>
          (case pl_json_error pl rest of
             Inl e \<Rightarrow> Inl (wrapf ''decode OUC login response error'' e)
           | Inr r \<Rightarrow> Inr r))"

datatype login_error_kind =
    LoginUnknown | LoginInvalidCredentials | LoginPasswordExpired | LoginChallengeRequired
  | LoginAccountRestricted

definition classify_login_response_error ::
    "('a) page_library_scheme \<Rightarrow> string \<Rightarrow> login_error_kind" where
  "classify_login_response_error pl msg =
     (let message = trim_space msg
      in if message = '''' then LoginUnknown
         else if mentions pl message password_expired_text then LoginPasswordExpired
         else if mentions pl message account_restricted_text then LoginAccountRestricted
         else if mentions pl message login_challenge_text then LoginChallengeRequired
         else if mentions pl message invalid_login_text then LoginInvalidCredentials
         else LoginUnknown)"

definition parse_login_response_page_name ::
    "('a) page_library_scheme \<Rightarrow> string \<Rightarrow> err + string option" where
  "parse_login_response_page_name pl body =
     (case after_marker ''var pageName ='' body of
        None \<Rightarrow> Inr None
      | Some rest \<Rightarrow>
          (case pl_json_text pl rest of
             Inl e \<Rightarrow> Inl (wrapf ''decode OUC login response page name'' e)
           | Inr name \<Rightarrow> Inr (Some name)))"

text \<open>The security configuration: whether SM2 is on, and its key.\<close>

definition parse_login_security_config ::
    "('a) page_library_scheme \<Rightarrow> string \<Rightarrow> err + bool \<times> string" where
  "parse_login_security_config pl body =
     (case after_marker ''var ssoConfig ='' body of
        None \<Rightarrow> Inl (Opaque ''OUC login security config not found'')
      | Some rest \<Rightarrow>
          (case pl_json_security pl rest of
             Inl e \<Rightarrow> Inl (wrapf ''decode OUC login security config'' e)
           | Inr (enabled, key) \<Rightarrow>
               if enabled \<and> trim_space key = ''''
               then Inl (Opaque ''OUC SM2 public key is missing'') else Inr (enabled, key)))"

definition encrypt_sm2_password ::
    "('a) page_library_scheme \<Rightarrow> nat \<Rightarrow> string \<Rightarrow> string \<Rightarrow> err + string" where
  "encrypt_sm2_password pl random password encoded_key =
     (case pl_base64 pl (trim_space encoded_key) of
        Inl e \<Rightarrow> Inl (wrapf ''decode OUC SM2 public key'' e)
      | Inr bytes \<Rightarrow>
          (case pl_sm2_key pl bytes of
             Inl e \<Rightarrow> Inl (wrapf ''parse OUC SM2 public key'' e)
           | Inr key \<Rightarrow>
               (case pl_sm2_encrypt pl random key password of
                  Inl e \<Rightarrow> Inl (wrapf ''encrypt OUC password with SM2'' e)
                | Inr ciphertext \<Rightarrow> Inr (pl_base64_text pl ciphertext))))"

section \<open>The portal identity\<close>

record portal_identity =
  pi_real_name :: string
  pi_student_no :: string
  pi_identity :: string

definition parse_portal_identity ::
    "('a) page_library_scheme \<Rightarrow> string \<Rightarrow> string \<Rightarrow> err + portal_identity" where
  "parse_portal_identity pl body expected_student_no =
     (case pl_json_portal pl body of
        Inl e \<Rightarrow> Inl (wrapf ''decode OUC portal identity'' e)
      | Inr (response, at_end) \<Rightarrow>
          if \<not> at_end
          then Inl (wrapf ''decode OUC portal identity'' (Opaque ''multiple JSON values''))
          else
            (case (po_code response, po_info response) of
               (Some code, Some (name, number, kind)) \<Rightarrow>
                 (let p = \<lparr>pi_real_name = trim_space name, pi_student_no = trim_space number,
                           pi_identity = trim_space kind\<rparr>
                  in if code \<noteq> 0
                     then Inl (Opaque ''OUC portal did not return a successful identity'')
                     else if pi_real_name p = '''' \<or> 128 < rune_count (pi_real_name p) \<or>
                             pi_student_no p = '''' \<or> 64 < length (pi_student_no p) \<or>
                             pi_identity p = '''' \<or> 64 < rune_count (pi_identity p)
                     then Inl (Opaque ''OUC portal returned an incomplete identity'')
                     else if pi_student_no p \<noteq> trim_space expected_student_no
                     then Inl (Sentinel ErrPortalStudentMismatch)
                     else Inr p)
             | _ \<Rightarrow> Inl (Opaque ''OUC portal did not return a successful identity'')))"

section \<open>The login form\<close>

record login_form =
  lf_action :: string
  lf_values :: form_values
  lf_challenge :: bool
  lf_expiry_continue :: bool

text \<open>The last of several attributes of a name wins.\<close>

definition last_attribute :: "('a) page_library_scheme \<Rightarrow> html_node \<Rightarrow> string \<Rightarrow> string" where
  "last_attribute pl n name =
     (case rev (filter (\<lambda>(k, _). lower pl k = name) (node_attr n)) of
        [] \<Rightarrow> '''' | (_, v) # _ \<Rightarrow> v)"

definition collect_control ::
    "('a) page_library_scheme \<Rightarrow> bool \<Rightarrow> html_node \<Rightarrow> login_form \<Rightarrow> login_form" where
  "collect_control pl hidden n f =
     (if node_kind n \<noteq> ElementNode \<or> node_data n \<notin> {''input'', ''button''} then f
      else
        (let name = last_attribute pl n ''name'';
             v = last_attribute pl n ''value'';
             input_type = lower pl (last_attribute pl n ''type'');
             f1 = (if name \<noteq> '''' \<and> node_data n = ''input''
                   then f\<lparr>lf_values := values_set name v (lf_values f),
                          lf_challenge := lf_challenge f \<or>
                            (\<not> hidden \<and> input_type \<noteq> ''hidden'' \<and>
                             is_challenge_control_name (lower pl name))\<rparr>
                   else f)
         in if equal_fold pl (trim_space name) ''continue'' \<or>
               (\<not> hidden \<and> (input_type = ''submit'' \<or> input_type = ''button'') \<and>
                contains (trim_space v) continue_text) \<or>
               (\<not> hidden \<and> node_data n = ''button'' \<and>
                contains (trim_space (node_text n)) continue_text)
            then f1\<lparr>lf_expiry_continue := True\<rparr> else f1))"

fun collect_form ::
    "('a) page_library_scheme \<Rightarrow> bool \<Rightarrow> html_node \<Rightarrow> login_form \<Rightarrow> login_form" where
  "collect_form pl above_hidden (HtmlNode k d a cs) f =
     (let n = HtmlNode k d a cs; hidden = above_hidden \<or> element_is_hidden pl n
      in fold (collect_form pl hidden) cs (collect_control pl hidden n f))"

definition form_action :: "html_node \<Rightarrow> string \<Rightarrow> string" where
  "form_action n base =
     (case rev (filter (\<lambda>(k, v). k = ''action'' \<and> trim_space v \<noteq> '''') (node_attr n)) of
        [] \<Rightarrow> base | (_, v) # _ \<Rightarrow> v)"

definition parse_login_form ::
    "('a) page_library_scheme \<Rightarrow> string \<Rightarrow> web_url \<Rightarrow> err + login_form" where
  "parse_login_form pl body base =
     (case pl_html pl body of
        None \<Rightarrow> Inl (Opaque ''parse OUC login page'')
      | Some root \<Rightarrow>
          (case filter (\<lambda>n. node_kind n = ElementNode \<and> node_data n = ''form'') (walk root) of
             [] \<Rightarrow> Inl (Opaque ''OUC login form not found'')
           | selected # _ \<Rightarrow>
               (let f = collect_form pl False selected
                      \<lparr>lf_action = form_action selected (ul_string pl base), lf_values = [],
                       lf_challenge = False, lf_expiry_continue = False\<rparr>
                in if values_get (lf_values f) ''flowId'' = ''''
                   then Inl (Opaque ''OUC login flowId not found'') else Inr f)))"

section \<open>The login page of the undergraduate system\<close>

definition has_password_input :: "('a) page_library_scheme \<Rightarrow> html_node list \<Rightarrow> bool" where
  "has_password_input pl ns \<longleftrightarrow>
     list_ex (\<lambda>n. node_kind n = ElementNode \<and> node_data n = ''input'' \<and>
       list_ex (\<lambda>(k, v). equal_fold pl k ''type'' \<and> equal_fold pl v ''password'') (node_attr n)) ns"

definition is_login_form :: "('a) page_library_scheme \<Rightarrow> html_node \<Rightarrow> bool" where
  "is_login_form pl n \<longleftrightarrow>
     (let keyed = map (\<lambda>(k, v). (lower pl k, trim_space v)) (node_attr n);
          name_form = (case rev (filter (\<lambda>(k, _). k \<in> {''id'', ''name''}) keyed) of
            [] \<Rightarrow> False | (_, v) # _ \<Rightarrow> equal_fold pl v ''loginForm'');
          login_action = (case rev (filter (\<lambda>(k, _). k = ''action'') keyed) of
            [] \<Rightarrow> False
          | (_, v) # _ \<Rightarrow> (case ul_parse pl v of
                 None \<Rightarrow> False
               | Some u \<Rightarrow> equal_fold pl (wu_path u) ''/jsxsd/xk/LoginToXk''))
      in node_kind n = ElementNode \<and> node_data n = ''form'' \<and>
         (login_action \<or> (name_form \<and> has_password_input pl (walk n))))"

definition is_academic_login_page :: "('a) page_library_scheme \<Rightarrow> string \<Rightarrow> bool" where
  "is_academic_login_page pl body =
     (case pl_html pl body of
        None \<Rightarrow> False
      | Some root \<Rightarrow>
          list_ex (is_login_form pl) (walk root) \<or>
          (contains body academic_login_text \<and> has_password_input pl (walk root)))"

end
