(* ===== verification/OucConfig.thy ===== *)
theory OucConfig
  imports OucSession Providers
begin

text \<open>
  \<^verbatim>\<open>academicconfig/resolver.go\<close>: the settings of the school systems, their validation, the lifetimes
  derived from them, and the resolver that keeps the last valid snapshot. The strict JSON decoder is
  a parameter; URL parsing is that of \<open>url_library\<close>. Maps are lists of pairs in the order in which
  Go happens to range over them: it decides which of several errors is reported, nothing else.
  \<^verbatim>\<open>int\<close> and \<^verbatim>\<open>int64\<close> members are only compared with constants before they are multiplied, so they
  are \<open>int\<close>; the multiplications wrap.
\<close>

section \<open>Settings\<close>

record operation_endpoint =
  oe_path :: string
  oe_request_method :: string
  oe_request_encoding :: string
  oe_period_parameter :: string
  oe_period_parameters :: "string list"
  oe_period_separator :: string
  oe_parameters :: "(string \<times> string) list"
  oe_page_parameter :: string
  oe_page_size_parameter :: string
  oe_page_size :: int
  oe_response_encoding :: string

record endpoint_set =
  es_service_url :: string
  es_periods :: operation_endpoint
  es_courses :: operation_endpoint
  es_courses_fallback :: operation_endpoint
  es_grades :: operation_endpoint
  es_exams :: operation_endpoint
  es_selections :: operation_endpoint
  es_course_catalog :: operation_endpoint

record ouc_config =
  oc_version :: int
  oc_sso_login_url :: string
  oc_portal_service_url :: string
  oc_portal_no_redirect :: bool
  oc_trace_enabled :: bool
  oc_request_timeout_ms :: int
  oc_session_ttl :: int
  oc_sso_session_ttl :: int
  oc_undergraduate_session_ttl :: int
  oc_graduate_session_ttl :: int
  oc_probe_path :: string
  oc_validation_seconds :: int
  oc_max_response_bytes :: int
  oc_user_agent :: string
  oc_index_selection_session_id :: string
  oc_undergraduate :: endpoint_set
  oc_graduate :: endpoint_set

section \<open>Durations and defaults\<close>

definition int_seconds :: "int \<Rightarrow> duration" where
  "int_seconds s = sint (word_of_int s * word_of_int second :: int64)"

definition request_timeout :: "ouc_config \<Rightarrow> duration" where
  "request_timeout c =
     sint (word_of_int (oc_request_timeout_ms c) * word_of_int millisecond :: int64)"

definition or_default :: "int \<Rightarrow> int \<Rightarrow> int" where
  "or_default v d = (if v = 0 then d else v)"

definition sso_session_ttl :: "ouc_config \<Rightarrow> duration" where
  "sso_session_ttl c =
     int_seconds (or_default (or_default (oc_sso_session_ttl c) (oc_session_ttl c)) (15 * 60))"

definition session_ttl :: "ouc_config \<Rightarrow> duration" where
  "session_ttl c = sso_session_ttl c"

definition target_session_ttl :: "ouc_config \<Rightarrow> string \<Rightarrow> duration" where
  "target_session_ttl c level =
     int_seconds (or_default (if level = ''graduate'' then oc_graduate_session_ttl c
                              else oc_undergraduate_session_ttl c) (60 * 60))"

definition undergraduate_probe_path :: "ouc_config \<Rightarrow> string" where
  "undergraduate_probe_path c =
     (if oc_probe_path c = '''' then ''/jsxsd/framework/xsMainV.htmlx'' else oc_probe_path c)"

definition undergraduate_validation_window :: "ouc_config \<Rightarrow> duration" where
  "undergraduate_validation_window c = int_seconds (or_default (oc_validation_seconds c) 300)"

section \<open>Validation\<close>

definition valid_parameter_name :: "string \<Rightarrow> bool" where
  "valid_parameter_name v \<longleftrightarrow>
     v \<noteq> '''' \<and> length v \<le> 64 \<and>
     list_all (\<lambda>(i, c). byte_in 97 122 c \<or> byte_in 65 90 c \<or> (i \<noteq> 0 \<and> byte_in 48 57 c) \<or>
         c = CHR ''_'' \<or> c = CHR ''-'' \<or> c = CHR ''.'') (zip [0..<length v] v)"

definition check_url :: "url_library \<Rightarrow> string \<Rightarrow> string \<Rightarrow> err option" where
  "check_url ul raw expected_host =
     (case ul_parse ul (trim_space raw) of
        None \<Rightarrow> Some (Opaque ''parse'')
      | Some u \<Rightarrow>
          (let host = to_lower (ul_lower ul) (url_hostname u)
           in if wu_scheme u \<noteq> ''https'' \<or> host \<noteq> expected_host \<or> wu_user u
              then Some (Opaque ''URL must use HTTPS and exact host'')
              else if host \<notin> {host_identity, host_portal, host_undergraduate, host_graduate}
              then Some (Opaque ''host is not allowlisted'')
              else None))"

definition check_relative_path :: "url_library \<Rightarrow> string \<Rightarrow> err option" where
  "check_relative_path ul path =
     (case ul_parse ul (trim_space path) of
        None \<Rightarrow> Some (Opaque ''parse'')
      | Some u \<Rightarrow>
          if wu_scheme u \<noteq> '''' \<or> wu_host u \<noteq> '''' \<or> \<not> has_prefix (wu_path u) ''/''
          then Some (Opaque ''must be an absolute-path reference'') else None)"

definition check_probe_path :: "url_library \<Rightarrow> string \<Rightarrow> err option" where
  "check_probe_path ul path =
     (case check_relative_path ul path of
        Some e \<Rightarrow> Some e
      | None \<Rightarrow>
          (case ul_parse ul (trim_space path) of
             None \<Rightarrow> None
           | Some u \<Rightarrow>
               if wu_raw_query u \<noteq> '''' \<or> wu_fragment u \<noteq> ''''
               then Some (Opaque ''query and fragment are not allowed'') else None))"

fun check_period_names :: "string set \<Rightarrow> string list \<Rightarrow> err option" where
  "check_period_names seen [] = None"
| "check_period_names seen (raw # rest) =
     (let name = trim_space raw
      in if \<not> valid_parameter_name name
         then Some (Opaque ''period_parameters contains an invalid name'')
         else if name \<in> seen then Some (Opaque ''period_parameters contains a duplicate name'')
         else check_period_names (insert name seen) rest)"

definition check_period_parameters :: "operation_endpoint \<Rightarrow> err option" where
  "check_period_parameters e =
     (let single = trim_space (oe_period_parameter e);
          multiple = oe_period_parameters e;
          separator = oe_period_separator e
      in if single \<noteq> '''' \<and> multiple \<noteq> []
         then Some (Opaque ''period_parameter and period_parameters are mutually exclusive'')
         else if multiple = []
         then (if trim_space separator \<noteq> ''''
               then Some (Opaque ''period_separator requires period_parameters'') else None)
         else if length multiple < 2 \<or> 4 < length multiple
         then Some (Opaque ''period_parameters must contain between 2 and 4 names'')
         else if length separator \<noteq> 1 \<or> hd separator \<in> set ''%&=?#''
         then Some (Opaque ''period_separator must be one safe character'')
         else check_period_names {} multiple)"

fun check_parameters :: "operation_endpoint \<Rightarrow> (string \<times> string) list \<Rightarrow> err option" where
  "check_parameters e [] = None"
| "check_parameters e ((name, value) # rest) =
     (if \<not> valid_parameter_name name \<or> 256 < length value
      then Some (Opaque ''parameters contains an invalid entry'')
      else if name \<in> {oe_period_parameter e, oe_page_parameter e, oe_page_size_parameter e} \<or>
              name \<in> set (oe_period_parameters e)
      then Some (Opaque ''parameters cannot override mapped parameters'')
      else check_parameters e rest)"

definition check_fixed_parameters :: "operation_endpoint \<Rightarrow> err option" where
  "check_fixed_parameters e =
     (if 16 < length (oe_parameters e) then Some (Opaque ''parameters exceeds the safe limit'')
      else check_parameters e (oe_parameters e))"

definition check_catalog_pagination :: "operation_endpoint \<Rightarrow> err option" where
  "check_catalog_pagination e =
     (if \<not> valid_parameter_name (trim_space (oe_page_parameter e))
      then Some (Opaque ''page_parameter is required'')
      else if oe_page_size e < 1 \<or> 500 < oe_page_size e
      then Some (Opaque ''page_size must be between 1 and 500'')
      else if trim_space (oe_page_size_parameter e) \<noteq> '''' \<and>
              \<not> valid_parameter_name (trim_space (oe_page_size_parameter e))
      then Some (Opaque ''page_size_parameter is invalid'')
      else None)"

definition check_request_encoding :: "operation_endpoint \<Rightarrow> err option" where
  "check_request_encoding e =
     (if oe_request_encoding e = ''query''
      then (if oe_request_method e \<noteq> ''GET''
            then Some (Opaque ''query request_encoding requires GET'') else None)
      else if oe_request_encoding e = ''form'' \<or> oe_request_encoding e = ''json''
      then (if oe_request_method e \<noteq> ''POST''
            then Some (Opaque ''request_encoding requires POST'') else None)
      else Some (Opaque ''request_encoding must be query, form or json''))"

definition check_operation :: "url_library \<Rightarrow> operation_endpoint \<Rightarrow> bool \<Rightarrow> err option" where
  "check_operation ul e requires_period =
     (case check_relative_path ul (oe_path e) of
        Some err \<Rightarrow> Some (wrapf ''path'' err)
      | None \<Rightarrow>
     case check_period_parameters e of
        Some err \<Rightarrow> Some err
      | None \<Rightarrow>
          if oe_response_encoding e \<noteq> ''json'' \<and> oe_response_encoding e \<noteq> ''html''
          then Some (Opaque ''response_encoding must be json or html'')
          else if oe_request_method e \<noteq> ''GET'' \<and> oe_request_method e \<noteq> ''POST''
          then Some (Opaque ''request_method must be GET or POST'')
          else (case check_request_encoding e of
                  Some err \<Rightarrow> Some err
                | None \<Rightarrow>
                    if requires_period \<and> \<not> contains (oe_path e) ''{period_id}'' \<and>
                       trim_space (oe_period_parameter e) = '''' \<and> oe_period_parameters e = []
                    then Some (Opaque ''period parameter mapping is required'')
                    else check_fixed_parameters e))"

definition endpoint_operations :: "endpoint_set \<Rightarrow> (string \<times> operation_endpoint \<times> bool) list" where
  "endpoint_operations s =
     [(''periods'', es_periods s, False), (''courses'', es_courses s, True),
      (''courses_fallback'', es_courses_fallback s, True), (''grades'', es_grades s, False),
      (''exams'', es_exams s, True), (''selections'', es_selections s, False),
      (''course_catalog'', es_course_catalog s, True)]"

fun check_operations :: "url_library \<Rightarrow> (string \<times> operation_endpoint \<times> bool) list \<Rightarrow> err option"
where
  "check_operations ul [] = None"
| "check_operations ul ((name, e, requires_period) # rest) =
     (if trim_space (oe_path e) = '''' then check_operations ul rest
      else case check_operation ul e requires_period of
             Some err \<Rightarrow> Some (wrapf name err)
           | None \<Rightarrow>
               (case (if name = ''course_catalog'' then check_catalog_pagination e else None) of
                  Some err \<Rightarrow> Some (wrapf name err)
                | None \<Rightarrow> check_operations ul rest))"

definition check_endpoint :: "url_library \<Rightarrow> endpoint_set \<Rightarrow> string \<Rightarrow> err option" where
  "check_endpoint ul s expected_host =
     (case check_url ul (es_service_url s) expected_host of
        Some e \<Rightarrow> Some e
      | None \<Rightarrow> check_operations ul (endpoint_operations s))"

definition ttl_outside :: "int \<Rightarrow> int \<Rightarrow> bool" where
  "ttl_outside v d \<longleftrightarrow> or_default v d < 60 \<or> 3600 < or_default v d"

definition selection_id_char :: "char \<Rightarrow> bool" where
  "selection_id_char c \<longleftrightarrow>
     byte_in 65 90 c \<or> byte_in 97 122 c \<or> byte_in 48 57 c \<or> c = CHR ''_'' \<or> c = CHR ''-''"

definition validate_ouc :: "url_library \<Rightarrow> ouc_config \<Rightarrow> err option" where
  "validate_ouc ul c =
     (let selection = trim_space (oc_index_selection_session_id c);
          sso_default = or_default (oc_session_ttl c) (15 * 60)
      in if oc_version c \<noteq> 1 then Some (Opaque ''version must be 1'')
         else if oc_request_timeout_ms c < 1000 \<or> 12000 < oc_request_timeout_ms c
         then Some (Opaque ''request_timeout_ms must be between 1000 and 12000'')
         else if oc_session_ttl c \<noteq> 0 \<and>
                 (oc_sso_session_ttl c \<noteq> 0 \<or> oc_undergraduate_session_ttl c \<noteq> 0 \<or>
                  oc_graduate_session_ttl c \<noteq> 0)
         then Some (Opaque ''session_ttl_seconds cannot be combined with scoped session TTLs'')
         else if ttl_outside (oc_sso_session_ttl c) sso_default
         then Some (Opaque ''sso_session_ttl_seconds must be between 60 and 3600'')
         else if ttl_outside (oc_undergraduate_session_ttl c) 3600
         then Some (Opaque ''undergraduate_session_ttl_seconds must be between 60 and 3600'')
         else if ttl_outside (oc_graduate_session_ttl c) 3600
         then Some (Opaque ''graduate_session_ttl_seconds must be between 60 and 3600'')
         else case check_probe_path ul (undergraduate_probe_path c) of
           Some e \<Rightarrow> Some (wrapf ''invalid undergraduate_session_probe_path'' e)
         | None \<Rightarrow>
         if oc_validation_seconds c \<noteq> 0 \<and>
            (oc_validation_seconds c < 30 \<or> 3600 < oc_validation_seconds c)
         then Some (Opaque ''undergraduate_session_validation_seconds must be between 30 and 3600'')
         else if oc_max_response_bytes c < 64 * 1024 \<or> 8 * 1024 * 1024 < oc_max_response_bytes c
         then Some (Opaque ''max_response_bytes is outside the safe range'')
         else if selection \<noteq> '''' \<and>
                 \<not> (length selection \<le> 256 \<and> list_all selection_id_char selection)
         then Some (Opaque ''index_selection_session_id is invalid'')
         else case check_url ul (oc_sso_login_url c) host_identity of
           Some e \<Rightarrow> Some (wrapf ''invalid sso_login_url'' e)
         | None \<Rightarrow>
         case check_url ul (oc_portal_service_url c) host_portal of
           Some e \<Rightarrow> Some (wrapf ''invalid portal_service_url'' e)
         | None \<Rightarrow>
         case check_endpoint ul (oc_undergraduate c) host_undergraduate of
           Some e \<Rightarrow> Some (wrapf ''invalid undergraduate endpoint'' e)
         | None \<Rightarrow>
         case check_endpoint ul (oc_graduate c) host_graduate of
           Some e \<Rightarrow> Some (wrapf ''invalid graduate endpoint'' e)
         | None \<Rightarrow> None)"

section \<open>Snapshots\<close>

record provider_policy =
  pp_allow_mock :: bool
  pp_allow_ouc :: bool

record config_snapshot =
  cs_active :: string
  cs_ouc :: ouc_config
  cs_mock_credentials :: string

definition no_operation :: operation_endpoint where
  "no_operation = \<lparr>oe_path = '''', oe_request_method = '''', oe_request_encoding = '''',
     oe_period_parameter = '''', oe_period_parameters = [], oe_period_separator = '''',
     oe_parameters = [], oe_page_parameter = '''', oe_page_size_parameter = '''',
     oe_page_size = 0, oe_response_encoding = ''''\<rparr>"

definition no_endpoints :: endpoint_set where
  "no_endpoints = \<lparr>es_service_url = '''', es_periods = no_operation, es_courses = no_operation,
     es_courses_fallback = no_operation, es_grades = no_operation, es_exams = no_operation,
     es_selections = no_operation, es_course_catalog = no_operation\<rparr>"

definition no_config :: ouc_config where
  "no_config = \<lparr>oc_version = 0, oc_sso_login_url = '''', oc_portal_service_url = '''',
     oc_portal_no_redirect = False, oc_trace_enabled = False, oc_request_timeout_ms = 0,
     oc_session_ttl = 0, oc_sso_session_ttl = 0, oc_undergraduate_session_ttl = 0,
     oc_graduate_session_ttl = 0, oc_probe_path = '''', oc_validation_seconds = 0,
     oc_max_response_bytes = 0, oc_user_agent = '''', oc_index_selection_session_id = '''',
     oc_undergraduate = no_endpoints, oc_graduate = no_endpoints\<rparr>"

definition no_snapshot :: config_snapshot where
  "no_snapshot = \<lparr>cs_active = '''', cs_ouc = no_config, cs_mock_credentials = ''''\<rparr>"

text \<open>The rows of the configuration group; a missing row reads as the empty text.\<close>

definition row_text :: "(string \<rightharpoonup> string) \<Rightarrow> string \<Rightarrow> string" where
  "row_text rows key = (case rows key of None \<Rightarrow> '''' | Some t \<Rightarrow> t)"

definition parse_snapshot ::
    "url_library \<Rightarrow> (string \<Rightarrow> err + ouc_config) \<Rightarrow> (string \<rightharpoonup> string) \<Rightarrow> provider_policy \<Rightarrow>
     err + config_snapshot" where
  "parse_snapshot ul decode rows policy =
     (let row = to_lower (ul_lower ul) (trim_space (row_text rows ''active_provider''));
          mock = (if pp_allow_mock policy then trim_space (row_text rows ''mock_credentials'')
                  else '''');
          active = (if row = '''' \<and> pp_allow_mock policy then provider_mock else row);
          raw = trim_space (row_text rows ''ouc'')
      in if active = '''' then Inr no_snapshot
         else if active \<noteq> provider_mock \<and> active \<noteq> provider_ouc
         then Inl (Opaque ''active_provider must be mock or ouc'')
         else if active = provider_mock \<and> \<not> pp_allow_mock policy
         then Inl (Opaque ''mock academic provider is disabled in this environment'')
         else if active = provider_ouc \<and> \<not> pp_allow_ouc policy
         then Inl (Opaque ''OUC academic provider is disabled in this environment'')
         else if raw = ''''
         then (if active = provider_mock
               then Inr (no_snapshot\<lparr>cs_active := active, cs_mock_credentials := mock\<rparr>)
               else Inl (Opaque ''academic_provider.ouc is required''))
         else case decode raw of
                Inl e \<Rightarrow> Inl (wrapf ''decode academic_provider.ouc'' e)
              | Inr c \<Rightarrow>
                  (case validate_ouc ul c of
                     Some e \<Rightarrow> Inl e
                   | None \<Rightarrow>
                       Inr \<lparr>cs_active = active, cs_ouc = c, cs_mock_credentials = mock\<rparr>))"

text \<open>
  The resolver's state is its snapshot. \<^verbatim>\<open>NewResolver\<close> needs one good load, the ticks of the loop are
  a list of loads.
\<close>

type_synonym config_rows = "err + (string \<rightharpoonup> string)"

definition refresh_config ::
    "url_library \<Rightarrow> (string \<Rightarrow> err + ouc_config) \<Rightarrow> provider_policy \<Rightarrow> config_rows \<Rightarrow>
     config_snapshot \<Rightarrow> config_snapshot \<times> err option" where
  "refresh_config ul decode policy listed s =
     (case listed of
        Inl e \<Rightarrow> (s, Some (wrapf ''load academic provider config'' e))
      | Inr rows \<Rightarrow>
          (case parse_snapshot ul decode rows policy of
             Inl e \<Rightarrow> (s, Some e)
           | Inr s' \<Rightarrow> (s', None)))"

definition new_config_resolver ::
    "url_library \<Rightarrow> (string \<Rightarrow> err + ouc_config) \<Rightarrow> provider_policy \<Rightarrow> config_rows \<Rightarrow>
     err + config_snapshot" where
  "new_config_resolver ul decode policy listed =
     (case refresh_config ul decode policy listed no_snapshot of
        (_, Some e) \<Rightarrow> Inl e
      | (s, None) \<Rightarrow> Inr s)"

definition config_loop ::
    "url_library \<Rightarrow> (string \<Rightarrow> err + ouc_config) \<Rightarrow> provider_policy \<Rightarrow> config_rows list \<Rightarrow>
     config_snapshot \<Rightarrow> config_snapshot" where
  "config_loop ul decode policy ticks s =
     foldl (\<lambda>s listed. fst (refresh_config ul decode policy listed s)) s ticks"

section \<open>What an accepted configuration guarantees\<close>

definition trusted_url :: "url_library \<Rightarrow> string \<Rightarrow> string \<Rightarrow> bool" where
  "trusted_url ul raw host \<longleftrightarrow>
     (case ul_parse ul (trim_space raw) of
        None \<Rightarrow> False
      | Some u \<Rightarrow> wu_scheme u = ''https'' \<and> \<not> wu_user u \<and>
          to_lower (ul_lower ul) (url_hostname u) = host)"

lemma check_url_trusted: "check_url ul raw host = None \<Longrightarrow> trusted_url ul raw host"
  by (auto simp: check_url_def trusted_url_def Let_def split: option.splits if_splits)

lemma check_endpoint_trusted:
  "check_endpoint ul s host = None \<Longrightarrow> trusted_url ul (es_service_url s) host"
  by (auto simp: check_endpoint_def check_url_trusted split: option.splits)

lemma int_seconds_small: "0 \<le> s \<Longrightarrow> s \<le> 3600 \<Longrightarrow> int_seconds s = s * second"
  unfolding int_seconds_def of_int_mult [symmetric] second_def
  by (rule sint64_of_int) auto

lemma accepted_ttl:
  "\<not> ttl_outside v d \<Longrightarrow>
     int_seconds (or_default v d) \<in> {minute..hour} \<and> second dvd int_seconds (or_default v d)"
  by (auto simp: ttl_outside_def int_seconds_small duration_defs)

definition good_lifetime :: "duration \<Rightarrow> bool" where
  "good_lifetime d \<longleftrightarrow> d \<in> {minute..hour} \<and> second dvd d"

lemma validate_ouc_lifetimes:
  assumes "validate_ouc ul c = None"
  shows "good_lifetime (sso_session_ttl c)" and "good_lifetime (target_session_ttl c level)"
    and "request_timeout c \<in> {second..12 * second}"
proof -
  have t: "\<not> ttl_outside (oc_sso_session_ttl c) (or_default (oc_session_ttl c) (15 * 60))"
    "\<not> ttl_outside (oc_undergraduate_session_ttl c) 3600"
    "\<not> ttl_outside (oc_graduate_session_ttl c) 3600"
    "1000 \<le> oc_request_timeout_ms c" "oc_request_timeout_ms c \<le> 12000"
    using assms by (auto simp: validate_ouc_def Let_def split: if_splits)
  have "or_default (or_default (oc_sso_session_ttl c) (oc_session_ttl c)) (15 * 60) =
      or_default (oc_sso_session_ttl c) (or_default (oc_session_ttl c) (15 * 60))"
    by (simp add: or_default_def)
  with accepted_ttl [OF t(1)] show "good_lifetime (sso_session_ttl c)"
    by (simp add: good_lifetime_def sso_session_ttl_def)
  show "good_lifetime (target_session_ttl c level)"
    using accepted_ttl [OF t(2)] accepted_ttl [OF t(3)]
    by (simp add: good_lifetime_def target_session_ttl_def)
  have "request_timeout c = oc_request_timeout_ms c * millisecond"
    unfolding request_timeout_def of_int_mult [symmetric]
    by (rule sint64_of_int) (use t(4,5) in \<open>auto simp: duration_defs\<close>)
  with t(4,5) show "request_timeout c \<in> {second..12 * second}"
    by (auto simp: duration_defs)
qed

lemma validate_ouc_urls:
  assumes "validate_ouc ul c = None"
  shows "trusted_url ul (oc_sso_login_url c) host_identity"
    and "trusted_url ul (oc_portal_service_url c) host_portal"
    and "trusted_url ul (es_service_url (oc_undergraduate c)) host_undergraduate"
    and "trusted_url ul (es_service_url (oc_graduate c)) host_graduate"
  using assms check_url_trusted check_endpoint_trusted
  by (auto simp: validate_ouc_def Let_def split: if_splits option.splits)

definition good_snapshot :: "url_library \<Rightarrow> provider_policy \<Rightarrow> config_snapshot \<Rightarrow> bool" where
  "good_snapshot ul policy s \<longleftrightarrow>
     (cs_active s = '''' \<or> cs_active s = provider_mock \<and> pp_allow_mock policy \<or>
      cs_active s = provider_ouc \<and> pp_allow_ouc policy \<and> validate_ouc ul (cs_ouc s) = None) \<and>
     (cs_mock_credentials s \<noteq> '''' \<longrightarrow> pp_allow_mock policy)"

lemma parse_snapshot_good:
  "parse_snapshot ul decode rows policy = Inr s \<Longrightarrow> good_snapshot ul policy s"
  by (auto simp: parse_snapshot_def good_snapshot_def no_snapshot_def provider_mock_def
      provider_ouc_def Let_def split: if_splits sum.splits option.splits)

lemma refresh_config_good:
  "good_snapshot ul policy s \<Longrightarrow> good_snapshot ul policy (fst (refresh_config ul decode policy listed s))"
  by (auto simp: refresh_config_def parse_snapshot_good split: sum.splits)

lemma config_loop_good:
  "good_snapshot ul policy s \<Longrightarrow> good_snapshot ul policy (config_loop ul decode policy ticks s)"
  unfolding config_loop_def by (induction ticks arbitrary: s) (simp_all add: refresh_config_good)

text \<open>
  C35: whatever the configuration centre delivers over time, the resolver serves the school systems
  only under a policy that allows them and with an accepted configuration: every lifetime it hands
  to the session cache is a whole number of seconds between one minute and one hour (so the cache
  never refuses it and the student index never expires before a session), requests are bounded by
  1 to 12 seconds, and the login page, the portal and the two systems are https URLs of exactly
  their own hosts. Mock credentials are kept only where the mock is allowed.
\<close>

theorem resolved_config_is_valid:
  assumes start: "new_config_resolver ul decode policy listed = Inr s"
    and now: "s' = config_loop ul decode policy ticks s"
  shows "(cs_mock_credentials s' \<noteq> '''' \<longrightarrow> pp_allow_mock policy) \<and>
    (cs_active s' = '''' \<or> cs_active s' = provider_mock \<and> pp_allow_mock policy \<or>
     cs_active s' = provider_ouc \<and> pp_allow_ouc policy \<and>
     sso_session_ttl (cs_ouc s') \<in> {minute..hour} \<and> second dvd sso_session_ttl (cs_ouc s') \<and>
     target_session_ttl (cs_ouc s') level \<in> {minute..hour} \<and>
     second dvd target_session_ttl (cs_ouc s') level \<and>
     request_timeout (cs_ouc s') \<in> {second..12 * second} \<and>
     trusted_url ul (oc_sso_login_url (cs_ouc s')) host_identity \<and>
     trusted_url ul (oc_portal_service_url (cs_ouc s')) host_portal \<and>
     trusted_url ul (es_service_url (oc_undergraduate (cs_ouc s'))) host_undergraduate \<and>
     trusted_url ul (es_service_url (oc_graduate (cs_ouc s'))) host_graduate)"
proof -
  have "good_snapshot ul policy no_snapshot" by (simp add: good_snapshot_def no_snapshot_def)
  then have "good_snapshot ul policy s"
    using start refresh_config_good [of ul policy no_snapshot decode listed]
    by (auto simp: new_config_resolver_def split: prod.splits option.splits)
  then have "good_snapshot ul policy s'" unfolding now by (rule config_loop_good)
  then show ?thesis
    using validate_ouc_lifetimes [of ul "cs_ouc s'"] validate_ouc_urls [of ul "cs_ouc s'"]
    unfolding good_snapshot_def good_lifetime_def by blast
qed

text \<open>A parser for the plain URLs of the concrete instances.\<close>

definition plain_parse :: "string \<Rightarrow> web_url option" where
  "plain_parse t =
     (if has_prefix t ''https://''
      then Some \<lparr>wu_scheme = ''https'', wu_host = takeWhile (\<lambda>c. c \<noteq> CHR ''/'') (drop 8 t),
                wu_user = False, wu_path = dropWhile (\<lambda>c. c \<noteq> CHR ''/'') (drop 8 t),
                wu_raw_query = '''', wu_fragment = ''''\<rparr>
      else if has_prefix t ''/''
      then Some \<lparr>wu_scheme = '''', wu_host = '''', wu_user = False, wu_path = t,
                wu_raw_query = '''', wu_fragment = ''''\<rparr>
      else None)"

definition plain_urls :: url_library where
  "plain_urls = \<lparr>ul_parse = plain_parse,
     ul_string = (\<lambda>u. (if wu_scheme u = '''' then '''' else ''https://'' @ wu_host u) @ wu_path u),
     ul_lower = (\<lambda>s. s)\<rparr>"

definition sample_config :: ouc_config where
  "sample_config = no_config\<lparr>oc_version := 1, oc_request_timeout_ms := 5000,
     oc_max_response_bytes := 1048576, oc_sso_login_url := ''https://id.ouc.edu.cn/sso/login'',
     oc_portal_service_url := ''https://my.ouc.edu.cn/'',
     oc_undergraduate := no_endpoints\<lparr>es_service_url := ''https://jwgl2024.ouc.edu.cn/''\<rparr>,
     oc_graduate := no_endpoints\<lparr>es_service_url := ''https://pgs.ouc.edu.cn/''\<rparr>\<rparr>"

lemma plain_trim:
  "trim_space ''https://id.ouc.edu.cn/sso/login'' = ''https://id.ouc.edu.cn/sso/login''"
  "trim_space ''https://my.ouc.edu.cn/'' = ''https://my.ouc.edu.cn/''"
  "trim_space ''https://jwgl2024.ouc.edu.cn/'' = ''https://jwgl2024.ouc.edu.cn/''"
  "trim_space ''https://pgs.ouc.edu.cn/'' = ''https://pgs.ouc.edu.cn/''"
  "trim_space ''/jsxsd/framework/xsMainV.htmlx'' = ''/jsxsd/framework/xsMainV.htmlx''"
  "trim_space ''ouc'' = ''ouc''" "trim_space ''document'' = ''document''"
  by (rule trim_space_visible; simp add: visible_def)+

lemma plain_parse_samples:
  "plain_parse ''https://id.ouc.edu.cn/sso/login'' = Some \<lparr>wu_scheme = ''https'',
     wu_host = host_identity, wu_user = False, wu_path = ''/sso/login'', wu_raw_query = '''', wu_fragment = ''''\<rparr>"
  "plain_parse ''https://my.ouc.edu.cn/'' = Some \<lparr>wu_scheme = ''https'',
     wu_host = host_portal, wu_user = False, wu_path = ''/'', wu_raw_query = '''', wu_fragment = ''''\<rparr>"
  "plain_parse ''https://jwgl2024.ouc.edu.cn/'' = Some \<lparr>wu_scheme = ''https'',
     wu_host = host_undergraduate, wu_user = False, wu_path = ''/'', wu_raw_query = '''', wu_fragment = ''''\<rparr>"
  "plain_parse ''https://pgs.ouc.edu.cn/'' = Some \<lparr>wu_scheme = ''https'',
     wu_host = host_graduate, wu_user = False, wu_path = ''/'', wu_raw_query = '''', wu_fragment = ''''\<rparr>"
  by (simp_all add: plain_parse_def has_prefix_def host_defs)

lemma no_port: "CHR '':'' \<notin> set h \<Longrightarrow> h \<noteq> '''' \<Longrightarrow> hd h \<noteq> CHR ''['' \<Longrightarrow> split_host_port h = (h, '''')"
  by (simp add: split_host_port_def Let_def)

lemma host_samples:
  "split_host_port host_identity = (host_identity, '''')"
  "split_host_port host_portal = (host_portal, '''')"
  "split_host_port host_undergraduate = (host_undergraduate, '''')"
  "split_host_port host_graduate = (host_graduate, '''')"
  by (rule no_port; simp add: host_defs)+

lemma lower_samples:
  "to_lower f host_identity = host_identity" "to_lower f host_portal = host_portal"
  "to_lower f host_undergraduate = host_undergraduate" "to_lower f host_graduate = host_graduate"
  by (simp_all add: to_lower_def is_ascii_def host_defs ascii_lower_def byte_in_def)

lemma plain_checks:
  "check_url plain_urls ''https://id.ouc.edu.cn/sso/login'' host_identity = None"
  "check_url plain_urls ''https://my.ouc.edu.cn/'' host_portal = None"
  "check_url plain_urls ''https://jwgl2024.ouc.edu.cn/'' host_undergraduate = None"
  "check_url plain_urls ''https://pgs.ouc.edu.cn/'' host_graduate = None"
  by (simp_all add: check_url_def plain_trim plain_urls_def plain_parse_samples url_hostname_def
      host_samples lower_samples)

lemma no_operations: "check_operations ul (endpoint_operations (no_endpoints\<lparr>es_service_url := u\<rparr>)) = None"
  by (simp add: endpoint_operations_def no_endpoints_def no_operation_def)

lemma sample_config_accepted: "validate_ouc plain_urls sample_config = None"
proof -
  have "check_probe_path plain_urls (undergraduate_probe_path sample_config) = None"
    by (simp add: undergraduate_probe_path_def sample_config_def no_config_def check_probe_path_def
        check_relative_path_def plain_trim plain_urls_def plain_parse_def has_prefix_def)
  moreover have "check_endpoint plain_urls (oc_undergraduate sample_config) host_undergraduate = None"
    "check_endpoint plain_urls (oc_graduate sample_config) host_graduate = None"
    by (simp_all add: check_endpoint_def sample_config_def plain_checks no_operations)
  ultimately show ?thesis
    unfolding validate_ouc_def Let_def
    by (simp add: sample_config_def no_config_def plain_checks ttl_outside_def or_default_def)
qed

definition sample_rows :: "string \<rightharpoonup> string" where
  "sample_rows = [''active_provider'' \<mapsto> ''ouc'', ''ouc'' \<mapsto> ''document'']"

theorem resolved_config_is_valid_witness:
  "\<exists>s. new_config_resolver plain_urls (\<lambda>_. Inr sample_config) \<lparr>pp_allow_mock = False, pp_allow_ouc = True\<rparr>
         (Inr sample_rows) = Inr s \<and> cs_active s = provider_ouc \<and>
       sso_session_ttl (cs_ouc (config_loop plain_urls (\<lambda>_. Inr sample_config)
         \<lparr>pp_allow_mock = False, pp_allow_ouc = True\<rparr> [Inl (Opaque ''down'')] s)) \<in> {minute..hour}"
proof -
  let ?s = "\<lparr>cs_active = ''ouc'', cs_ouc = sample_config, cs_mock_credentials = ''''\<rparr>"
  let ?pol = "\<lparr>pp_allow_mock = False, pp_allow_ouc = True\<rparr>"
  have l: "to_lower (ul_lower plain_urls) ''ouc'' = ''ouc''"
    by (simp add: to_lower_def is_ascii_def ascii_lower_def byte_in_def)
  have s: "new_config_resolver plain_urls (\<lambda>_. Inr sample_config) ?pol (Inr sample_rows) = Inr ?s"
    by (simp add: new_config_resolver_def refresh_config_def parse_snapshot_def sample_rows_def
        row_text_def plain_trim l provider_mock_def provider_ouc_def sample_config_accepted Let_def)
  have t: "config_loop plain_urls (\<lambda>_. Inr sample_config) ?pol [Inl (Opaque ''down'')] ?s = ?s"
    by (simp add: config_loop_def refresh_config_def)
  from resolved_config_is_valid [OF s refl, of "[Inl (Opaque ''down'')]"] s t
  show ?thesis by (auto simp: provider_ouc_def provider_mock_def)
qed

end
