(* ===== verification/OucSessionStore.thy ===== *)
theory OucSessionStore
  imports OucSession QueryStore
begin

text \<open>
  The encrypted session cache of \<^verbatim>\<open>ouc/session_store.go\<close> over the Redis server of
  \<open>QueryStore\<close>: keys that are HMACs of the credentials, the scoped records and the two older forms
  they are migrated from, the index of a student's sessions and its expiry, and the removal of one
  scope, of one credential and of a student. HMAC, AES-GCM and JSON are the fields of
  \<open>session_codec\<close>.
\<close>

section \<open>Keys\<close>

record 'c session_codec =
  sx_hmac :: "string \<Rightarrow> string"
  sx_encode :: "session_state \<Rightarrow> err + string"
  sx_decode :: "string \<Rightarrow> err + session_state"
  sx_encrypt :: "nat \<Rightarrow> string \<Rightarrow> string \<Rightarrow> err + 'c"
  sx_decrypt :: "'c \<Rightarrow> string \<Rightarrow> err + string"

definition nul :: string where "nul = [char_of (0 :: nat)]"

definition session_key_prefix :: string where
  "session_key_prefix = ''academic:ouc:session:v1:''"
definition scoped_session_key_prefix :: string where
  "scoped_session_key_prefix = ''academic:ouc:session:v2:''"
definition student_sessions_prefix :: string where
  "student_sessions_prefix = ''academic:ouc:student-sessions:v1:''"

definition cache_key :: "('c, 's) session_codec_scheme \<Rightarrow> string \<Rightarrow> string \<Rightarrow> string" where
  "cache_key sx student_no password =
     session_key_prefix @ sx_hmac sx (trim_space student_no @ nul @ password)"

definition scoped_cache_key ::
    "('c, 's) session_codec_scheme \<Rightarrow> string \<Rightarrow> string \<Rightarrow> string \<Rightarrow> string" where
  "scoped_cache_key sx student_no password scope =
     scoped_session_key_prefix @
     sx_hmac sx (''scope'' @ nul @ scope @ nul @ trim_space student_no @ nul @ password)"

definition session_index_key :: "('c, 's) session_codec_scheme \<Rightarrow> string \<Rightarrow> string" where
  "session_index_key sx student_no =
     student_sessions_prefix @ sx_hmac sx (''student-index'' @ nul @ trim_space student_no)"

definition legacy_scoped_subject :: "string \<Rightarrow> string \<Rightarrow> string option" where
  "legacy_scoped_subject student_no scope =
     (if scope = scope_undergraduate \<or> scope = scope_graduate then Some (scope @ nul @ student_no)
      else None)"

section \<open>Loading\<close>

definition invalid_cached :: "string \<Rightarrow> err" where
  "invalid_cached text = wrapf text (Sentinel ErrInvalidCachedSession)"

text \<open>From the stored text to the state, or the reason it cannot be used.\<close>

definition open_session ::
    "url_library \<Rightarrow> ('c, 's) session_codec_scheme \<Rightarrow> string \<Rightarrow> 'c \<Rightarrow> err + session_state" where
  "open_session ul sx key encoded =
     (case sx_decrypt sx encoded key of
        Inl _ \<Rightarrow> Inl (invalid_cached ''decrypt OUC session'')
      | Inr plain \<Rightarrow>
          if max_session_state_bytes < int (length plain)
          then Inl (invalid_cached ''state exceeds safe size'')
          else (case sx_decode sx plain of
                  Inl _ \<Rightarrow> Inl (invalid_cached ''decode OUC session state'')
                | Inr st \<Rightarrow>
                    (case validate_session_state ul st of
                       Some _ \<Rightarrow> Inl (invalid_cached ''validate'')
                     | None \<Rightarrow> Inr st)))"

definition load_key ::
    "url_library \<Rightarrow> ('c, 's) session_codec_scheme \<Rightarrow> ('c, 'e) store_env_scheme \<Rightarrow> string \<Rightarrow>
     ('c, 'x) world_scheme \<Rightarrow> ('c, 'x) world_scheme \<times> (err + session_state option)" where
  "load_key ul sx env key w =
     (let (w1, r) = redis_command env (\<lambda>now r. (r, live_get now (r_results r key))) w
      in (w1, case r of
                Inl e \<Rightarrow> Inl (wrapf ''load encrypted OUC session'' e)
              | Inr None \<Rightarrow> Inr None
              | Inr (Some encoded) \<Rightarrow>
                  (case open_session ul sx key encoded of Inl e \<Rightarrow> Inl e | Inr st \<Rightarrow> Inr (Some st))))"

definition load_session ::
    "url_library \<Rightarrow> ('c, 's) session_codec_scheme \<Rightarrow> ('c, 'e) store_env_scheme \<Rightarrow> string \<Rightarrow> string \<Rightarrow>
     ('c, 'x) world_scheme \<Rightarrow> ('c, 'x) world_scheme \<times> (err + session_state option)" where
  "load_session ul sx env student_no password w =
     load_key ul sx env (cache_key sx student_no password) w"

text \<open>A record without scope as the source of a scoped one: nothing when no cookie is left.\<close>

definition migrated ::
    "url_library \<Rightarrow> string \<Rightarrow> session_state option \<Rightarrow> err + session_state option" where
  "migrated ul scope legacy =
     (case legacy of
        None \<Rightarrow> Inr None
      | Some st \<Rightarrow>
          (case filter_session_state ul st scope of
             Inl _ \<Rightarrow> Inl (invalid_cached ''filter'')
           | Inr st' \<Rightarrow> if sst_sets st' = [] then Inr None else Inr (Some st')))"

definition load_historical ::
    "url_library \<Rightarrow> ('c, 's) session_codec_scheme \<Rightarrow> ('c, 'e) store_env_scheme \<Rightarrow> string \<Rightarrow> string \<Rightarrow>
     string \<Rightarrow> ('c, 'x) world_scheme \<Rightarrow> ('c, 'x) world_scheme \<times> (err + session_state option)" where
  "load_historical ul sx env student_no password scope w =
     (case legacy_scoped_subject student_no scope of
        None \<Rightarrow> (w, Inr None)
      | Some subject \<Rightarrow>
          (let (w1, r) = load_session ul sx env subject password w
           in (w1, case r of Inl e \<Rightarrow> Inl e | Inr legacy \<Rightarrow> migrated ul scope legacy)))"

definition load_scope ::
    "url_library \<Rightarrow> ('c, 's) session_codec_scheme \<Rightarrow> ('c, 'e) store_env_scheme \<Rightarrow> string \<Rightarrow> string \<Rightarrow>
     string \<Rightarrow> ('c, 'x) world_scheme \<Rightarrow> ('c, 'x) world_scheme \<times> (err + session_state option)" where
  "load_scope ul sx env student_no password scope w =
     (if \<not> valid_session_scope scope then (w, Inl (Opaque ''invalid OUC session scope''))
      else
        (let (w1, r) = load_key ul sx env (scoped_cache_key sx student_no password scope) w
         in case r of
              Inl e \<Rightarrow> (w1, Inl e)
            | Inr (Some st) \<Rightarrow>
                (w1, case validate_scoped_session_state ul st scope of
                       Some _ \<Rightarrow> Inl (invalid_cached ''validate scope'')
                     | None \<Rightarrow> Inr (Some st))
            | Inr None \<Rightarrow>
                (let (w2, r2) = load_session ul sx env student_no password w1
                 in case r2 of
                      Inl e \<Rightarrow> (w2, Inl e)
                    | Inr legacy \<Rightarrow>
                        (case migrated ul scope legacy of
                           Inl e \<Rightarrow> (w2, Inl e)
                         | Inr (Some st) \<Rightarrow> (w2, Inr (Some st))
                         | Inr None \<Rightarrow> load_historical ul sx env student_no password scope w2))))"

section \<open>Saving\<close>

text \<open>
  The transaction of a save: \<^verbatim>\<open>SET\<close> with an expiry in milliseconds, \<^verbatim>\<open>SADD\<close>, \<^verbatim>\<open>EXPIRE NX\<close> and
  \<^verbatim>\<open>EXPIRE GT\<close>, whose expiry the client gives in whole seconds. Both round a shorter time up
  to one unit.
\<close>

definition px_ms :: "duration \<Rightarrow> int" where
  "px_ms ttl = (if 0 < ttl \<and> ttl < millisecond then 1 else ttl div millisecond)"

definition expire_ms :: "duration \<Rightarrow> int" where
  "expire_ms ttl = 1000 * (if 0 < ttl \<and> ttl < second then 1 else ttl div second)"

definition save_session_script ::
    "string \<Rightarrow> string \<Rightarrow> 'c \<Rightarrow> duration \<Rightarrow> int \<Rightarrow> 'c redis \<Rightarrow> 'c redis" where
  "save_session_script key index text ttl now r =
     (let (members, e) = (case live_index now (r_indexes r index) of
                            None \<Rightarrow> ([], None) | Some i \<Rightarrow> i);
          members' = (if key \<in> set members then members else members @ [key]);
          until = now + expire_ms ttl;
          e' = (case e of None \<Rightarrow> until | Some x \<Rightarrow> if x < until then until else x)
      in r\<lparr>r_results := (r_results r)(key \<mapsto> (text, now + px_ms ttl)),
           r_indexes := (r_indexes r)(index \<mapsto> (members', Some e'))\<rparr>)"

definition save_key ::
    "url_library \<Rightarrow> ('c, 's) session_codec_scheme \<Rightarrow> ('c, 'e) store_env_scheme \<Rightarrow> string \<Rightarrow> string \<Rightarrow>
     session_state \<Rightarrow> duration \<Rightarrow> ('c, 'x) world_scheme \<Rightarrow> ('c, 'x) world_scheme \<times> (err + unit)"
where
  "save_key ul sx env student_no key st ttl w =
     (if ttl \<le> 0 \<or> hour < ttl then (w, Inl (Opaque ''OUC session TTL is outside the safe range''))
      else case validate_session_state ul st of
             Some e \<Rightarrow> (w, Inl e)
           | None \<Rightarrow>
               (case sx_encode sx st of
                  Inl e \<Rightarrow> (w, Inl (wrapf ''encode OUC session state'' e))
                | Inr plain \<Rightarrow>
                    if max_session_state_bytes < int (length plain)
                    then (w, Inl (Opaque ''OUC session state exceeds safe size''))
                    else (case sx_encrypt sx (w_step w) plain key of
                            Inl e \<Rightarrow> (w, Inl (wrapf ''encrypt OUC session'' e))
                          | Inr encoded \<Rightarrow>
                              (let (w1, r) = redis_command env
                                 (\<lambda>now r. (save_session_script key (session_index_key sx student_no)
                                             encoded ttl now r, ())) w
                               in (w1, map_err ''save encrypted OUC session'' r)))))"

definition save_session ::
    "url_library \<Rightarrow> ('c, 's) session_codec_scheme \<Rightarrow> ('c, 'e) store_env_scheme \<Rightarrow> string \<Rightarrow> string \<Rightarrow>
     session_state \<Rightarrow> duration \<Rightarrow> ('c, 'x) world_scheme \<Rightarrow> ('c, 'x) world_scheme \<times> (err + unit)"
where
  "save_session ul sx env student_no password st ttl w =
     save_key ul sx env student_no (cache_key sx student_no password) st ttl w"

definition save_scope ::
    "url_library \<Rightarrow> ('c, 's) session_codec_scheme \<Rightarrow> ('c, 'e) store_env_scheme \<Rightarrow> string \<Rightarrow> string \<Rightarrow>
     string \<Rightarrow> session_state \<Rightarrow> duration \<Rightarrow> ('c, 'x) world_scheme \<Rightarrow>
     ('c, 'x) world_scheme \<times> (err + unit)" where
  "save_scope ul sx env student_no password scope st ttl w =
     (if \<not> valid_session_scope scope then (w, Inl (Opaque ''invalid OUC session scope''))
      else case validate_scoped_session_state ul st scope of
             Some e \<Rightarrow> (w, Inl e)
           | None \<Rightarrow>
               save_key ul sx env student_no (scoped_cache_key sx student_no password scope) st ttl w)"

section \<open>Deleting\<close>

text \<open>\<^verbatim>\<open>DEL\<close> of result keys, \<^verbatim>\<open>SREM\<close> of members of an index; a set without members is gone.\<close>

definition del_results :: "string list \<Rightarrow> 'c redis \<Rightarrow> 'c redis" where
  "del_results ks r = r\<lparr>r_results := (\<lambda>k. if k \<in> set ks then None else r_results r k)\<rparr>"

definition del_indexes :: "string list \<Rightarrow> 'c redis \<Rightarrow> 'c redis" where
  "del_indexes ks r = r\<lparr>r_indexes := (\<lambda>k. if k \<in> set ks then None else r_indexes r k)\<rparr>"

definition srem :: "int \<Rightarrow> string \<Rightarrow> string list \<Rightarrow> 'c redis \<Rightarrow> 'c redis" where
  "srem now index ks r =
     (case live_index now (r_indexes r index) of
        None \<Rightarrow> r\<lparr>r_indexes := (r_indexes r)(index := None)\<rparr>
      | Some (members, e) \<Rightarrow>
          (let left = filter (\<lambda>k. k \<notin> set ks) members
           in r\<lparr>r_indexes := (r_indexes r)(index := if left = [] then None else Some (left, e))\<rparr>))"

definition delete_session ::
    "('c, 's) session_codec_scheme \<Rightarrow> ('c, 'e) store_env_scheme \<Rightarrow> string \<Rightarrow> string \<Rightarrow>
     ('c, 'x) world_scheme \<Rightarrow> ('c, 'x) world_scheme \<times> (err + unit)" where
  "delete_session sx env student_no password w =
     (let key = cache_key sx student_no password;
          (w1, r) = redis_command env
            (\<lambda>now r. (srem now (session_index_key sx student_no) [key] (del_results [key] r), ())) w
      in (w1, map_err ''delete encrypted OUC session'' r))"

definition delete_scope_tx ::
    "('c, 's) session_codec_scheme \<Rightarrow> string \<Rightarrow> string \<Rightarrow> string \<Rightarrow> int \<Rightarrow> 'c redis \<Rightarrow> 'c redis" where
  "delete_scope_tx sx student_no password scope now r =
     (let key = scoped_cache_key sx student_no password scope;
          legacy = cache_key sx student_no password;
          r1 = srem now (session_index_key sx student_no) [key, legacy]
            (del_results [key, legacy] r)
      in case legacy_scoped_subject student_no scope of
           None \<Rightarrow> r1
         | Some subject \<Rightarrow>
             (let historical = cache_key sx subject password
              in srem now (session_index_key sx subject) [historical] (del_results [historical] r1)))"

definition delete_scope ::
    "('c, 's) session_codec_scheme \<Rightarrow> ('c, 'e) store_env_scheme \<Rightarrow> string \<Rightarrow> string \<Rightarrow> string \<Rightarrow>
     ('c, 'x) world_scheme \<Rightarrow> ('c, 'x) world_scheme \<times> (err + unit)" where
  "delete_scope sx env student_no password scope w =
     (if \<not> valid_session_scope scope then (w, Inl (Opaque ''invalid OUC session scope''))
      else
        (let (w1, r) = redis_command env
           (\<lambda>now r. (delete_scope_tx sx student_no password scope now r, ())) w
         in (w1, map_err ''delete encrypted OUC scoped session'' r)))"


fun list_sessions ::
    "('c, 'e) store_env_scheme \<Rightarrow> string list \<Rightarrow> ('c, 'x) world_scheme \<Rightarrow>
     ('c, 'x) world_scheme \<times> (err + string list)" where
  "list_sessions env [] w = (w, Inr [])"
| "list_sessions env (index # rest) w =
     (let (w1, r) = redis_command env
        (\<lambda>now r. (r, case live_index now (r_indexes r index) of None \<Rightarrow> [] | Some (ks, _) \<Rightarrow> ks)) w
      in case r of
           Inl e \<Rightarrow> (w1, Inl (wrapf ''list encrypted OUC sessions'' e))
         | Inr ks \<Rightarrow>
             (let (w2, r2) = list_sessions env rest w1
              in (w2, case r2 of Inl e \<Rightarrow> Inl e | Inr ks2 \<Rightarrow> Inr (ks @ ks2))))"


section \<open>What the checks say\<close>

definition valid_cookie_set :: "url_library \<Rightarrow> session_cookie_set \<Rightarrow> bool" where
  "valid_cookie_set ul s \<longleftrightarrow>
     (case session_url_host ul (kset_url s) of
        None \<Rightarrow> False
      | Some host \<Rightarrow> list_all (\<lambda>c. valid_session_cookie c \<and>
          valid_session_cookie_domain ul host (sc_domain c)) (kset_cookies s))"

definition cookie_count :: "session_cookie_set list \<Rightarrow> nat" where
  "cookie_count ss = sum_list (map (\<lambda>s. length (kset_cookies s)) ss)"

lemma cookie_count_simps [simp]:
  "cookie_count [] = 0"
  "cookie_count (s # ss) = length (kset_cookies s) + cookie_count ss"
  by (simp_all add: cookie_count_def)

lemma check_session_cookies_None:
  "check_session_cookies ul host cs = None \<longleftrightarrow>
     list_all (\<lambda>c. valid_session_cookie c \<and> valid_session_cookie_domain ul host (sc_domain c)) cs"
  by (induction ul host cs rule: check_session_cookies.induct) auto

lemma check_session_sets_Inr:
  "check_session_sets ul seen ss = Inr n \<longleftrightarrow>
     list_all (valid_cookie_set ul) ss \<and> n = seen + cookie_count ss \<and>
     (ss = [] \<or> n \<le> max_session_cookies)"
proof (induction ul seen ss arbitrary: n rule: check_session_sets.induct)
  case (2 ul seen s ss)
  show ?case
  proof (cases "session_url_host ul (kset_url s)")
    case (Some host)
    then have v: "valid_cookie_set ul s \<longleftrightarrow>
        check_session_cookies ul host (kset_cookies s) = None"
      by (simp add: valid_cookie_set_def check_session_cookies_None)
    show ?thesis
    proof (cases "max_session_cookies < seen + length (kset_cookies s)")
      case True
      then show ?thesis using Some by (auto simp: Let_def)
    next
      case False
      show ?thesis
      proof (cases "check_session_cookies ul host (kset_cookies s)")
        case None
        have seq: "check_session_sets ul seen (s # ss) =
            check_session_sets ul (seen + length (kset_cookies s)) ss"
          using Some None False by (simp add: Let_def)
        have s: "valid_cookie_set ul s" using v None by simp
        show ?thesis
          unfolding seq 2 [OF Some refl False None, of n] using s False
          by (cases "ss = []") (auto simp: add.assoc)
      qed (use Some False v in \<open>simp add: Let_def\<close>)
    qed
  qed (simp add: valid_cookie_set_def)
qed auto

lemma validate_session_state_None:
  "validate_session_state ul st = None \<longleftrightarrow>
     sst_version st = 1 \<and> sst_sets st \<noteq> [] \<and> length (sst_sets st) \<le> max_session_cookie_sets \<and>
     list_all (valid_cookie_set ul) (sst_sets st) \<and> cookie_count (sst_sets st) \<noteq> 0 \<and>
     cookie_count (sst_sets st) \<le> max_session_cookies"
proof (cases "check_session_sets ul 0 (sst_sets st)")
  case (Inl e)
  then have "\<not> (list_all (valid_cookie_set ul) (sst_sets st) \<and>
      (sst_sets st = [] \<or> cookie_count (sst_sets st) \<le> max_session_cookies))"
    using check_session_sets_Inr [of ul 0 "sst_sets st" "cookie_count (sst_sets st)"] by auto
  with Inl show ?thesis by (auto simp: validate_session_state_def)
next
  case (Inr n)
  with check_session_sets_Inr [of ul 0 "sst_sets st" n] show ?thesis
    by (auto simp: validate_session_state_def)
qed

lemma check_scoped_sets_None:
  "check_scoped_sets ul scope ss = None \<longleftrightarrow>
     list_all (\<lambda>s. scope_allows_host ul scope (parsed_host ul (kset_url s)) \<and>
       (scope = scope_identity \<or> \<not> list_ex (parent_domain_cookie ul) (kset_cookies s))) ss"
  by (induction ul scope ss rule: check_scoped_sets.induct) auto

lemma cookie_count_filter:
  "cookie_count (filter P (map (\<lambda>s. s\<lparr>kset_cookies := filter Q (kset_cookies s)\<rparr>) (filter R ss)))
     \<le> cookie_count ss"
proof (induction ss)
  case (Cons s ss)
  have "length (filter Q (kset_cookies s)) \<le> length (kset_cookies s)" by simp
  with Cons show ?case by (auto intro: add_mono le_trans [OF _ le_add2])
qed simp

lemma cookie_count_zero: "cookie_count ss = 0 \<longleftrightarrow> list_all (\<lambda>s. kset_cookies s = []) ss"
  by (induction ss) auto

lemma valid_cookie_set_filter:
  "valid_cookie_set ul s \<Longrightarrow> valid_cookie_set ul (s\<lparr>kset_cookies := filter Q (kset_cookies s)\<rparr>)"
  by (auto simp: valid_cookie_set_def list_all_iff split: option.splits)

text \<open>A filtered state that keeps a set is a valid state of its scope.\<close>

lemma filtered_state_in_scope:
  assumes "filter_session_state ul st scope = Inr st'" and "sst_sets st' \<noteq> []"
  shows "validate_scoped_session_state ul st' scope = None"
proof -
  define identity where
    "identity = (if scope \<noteq> scope_identity then identity_pairs ul st else [])"
  let ?R = "\<lambda>s. scope_allows_host ul scope (parsed_host ul (kset_url s))"
  let ?Q = "keeps_cookie ul scope identity"
  let ?f = "\<lambda>s. s\<lparr>kset_cookies := filter ?Q (kset_cookies s)\<rparr>"
  have f: "\<lparr>kset_url = kset_url s, kset_cookies = filter ?Q (kset_cookies s)\<rparr> = ?f s" for s
    by simp
  have valid: "validate_session_state ul st = None"
    using assms(1) by (auto simp: filter_session_state_def split: option.splits)
  have st': "st' = \<lparr>sst_version = 1, sst_sets = filter (\<lambda>s. kset_cookies s \<noteq> [])
      (map ?f (filter ?R (sst_sets st))), sst_validated_at = sst_validated_at st\<rparr>"
    using assms(1) valid unfolding filter_session_state_def Let_def identity_def [symmetric] f
    by simp
  let ?ss = "filter (\<lambda>s. kset_cookies s \<noteq> []) (map ?f (filter ?R (sst_sets st)))"
  note v = valid [unfolded validate_session_state_None]
  have "length ?ss \<le> max_session_cookie_sets"
    using v by (intro le_trans [OF length_filter_le]) (simp add: le_trans [OF length_filter_le])
  moreover have "list_all (valid_cookie_set ul) ?ss"
    using v valid_cookie_set_filter [of ul] by (auto simp: list_all_iff)
  moreover have "cookie_count ?ss \<noteq> 0"
    using assms(2) by (auto simp: cookie_count_zero list_all_iff st' filter_empty_conv)
  moreover have "cookie_count ?ss \<le> max_session_cookies"
    using v cookie_count_filter [of "\<lambda>s. kset_cookies s \<noteq> []" ?Q ?R "sst_sets st"] by simp
  moreover have "?ss \<noteq> []" using assms(2) st' by simp
  ultimately have "validate_session_state ul st' = None"
    unfolding validate_session_state_None st' by simp
  moreover have "check_scoped_sets ul scope ?ss = None"
    unfolding check_scoped_sets_None
    by (auto simp: list_all_iff list_ex_iff keeps_cookie_def)
  ultimately show ?thesis by (simp add: validate_scoped_session_state_def st')
qed

lemma migrated_in_scope:
  "migrated ul scope legacy = Inr (Some st) \<Longrightarrow> validate_scoped_session_state ul st scope = None"
  by (auto simp: migrated_def filtered_state_in_scope split: option.splits sum.splits if_splits)

text \<open>
  C33: a session handed out for a scope is a valid state of that scope, whether it comes from the
  record of the scope or is migrated from one of the two older forms, whatever the server, the
  decryption and the decoder deliver: a known version, at most 32 sets and 128 cookies, at least one
  cookie, only https URLs of the scope's own hosts without credentials, query or fragment, only
  cookies of that host or, for the identity scope alone, of the parent domain.
\<close>

theorem loaded_session_is_in_scope:
  assumes "load_scope ul sx env student_no password scope w = (w', Inr (Some st))"
  shows "sst_version st = 1 \<and> sst_sets st \<noteq> [] \<and> length (sst_sets st) \<le> 32 \<and>
     0 < cookie_count (sst_sets st) \<and> cookie_count (sst_sets st) \<le> 128 \<and>
     (\<forall>s\<in>set (sst_sets st). \<exists>host. session_url_host ul (kset_url s) = Some host \<and>
        scope_allows_host ul scope host \<and>
        (\<forall>c\<in>set (kset_cookies s). valid_session_cookie c \<and>
           valid_session_cookie_domain ul host (sc_domain c) \<and>
           (scope = scope_identity \<or> \<not> parent_domain_cookie ul c)))"
proof -
  have "validate_scoped_session_state ul st scope = None"
    using assms migrated_in_scope
    by (fastforce simp: load_scope_def load_historical_def Let_def
        split: if_splits prod.splits sum.splits option.splits)
  then have v: "validate_session_state ul st = None"
    and c: "check_scoped_sets ul scope (sst_sets st) = None"
    by (simp_all add: validate_scoped_session_state_def split: option.splits)
  have set_ok: "\<exists>host. session_url_host ul (kset_url s) = Some host \<and>
        scope_allows_host ul scope host \<and>
        (\<forall>c\<in>set (kset_cookies s). valid_session_cookie c \<and>
           valid_session_cookie_domain ul host (sc_domain c) \<and>
           (scope = scope_identity \<or> \<not> parent_domain_cookie ul c))"
    if s: "s \<in> set (sst_sets st)" for s
  proof -
    from s v have "valid_cookie_set ul s" by (simp add: validate_session_state_None list_all_iff)
    then obtain host where h: "session_url_host ul (kset_url s) = Some host"
      and k: "\<forall>c\<in>set (kset_cookies s). valid_session_cookie c \<and>
         valid_session_cookie_domain ul host (sc_domain c)"
      by (auto simp: valid_cookie_set_def list_all_iff split: option.splits)
    from h have "parsed_host ul (kset_url s) = host"
      by (auto simp: session_url_host_def parsed_host_def split: option.splits if_splits)
    with s c have "scope_allows_host ul scope host"
      and "scope = scope_identity \<or> (\<forall>c\<in>set (kset_cookies s). \<not> parent_domain_cookie ul c)"
      by (auto simp: check_scoped_sets_None list_all_iff list_ex_iff)
    with h k show ?thesis by blast
  qed
  show ?thesis
    using v set_ok by (auto simp: validate_session_state_None max_session_cookies_def
        max_session_cookie_sets_def)
qed

definition sample_url :: web_url where
  "sample_url = \<lparr>wu_scheme = ''https'', wu_host = host_graduate, wu_user = False,
     wu_path = ''/'', wu_raw_query = '''', wu_fragment = ''''\<rparr>"

definition sample_urls :: url_library where
  "sample_urls = \<lparr>ul_parse = (\<lambda>t. if t = ''https://pgs.ouc.edu.cn/'' then Some sample_url else None),
     ul_string = (\<lambda>_. ''https://pgs.ouc.edu.cn/''), ul_lower = (\<lambda>s. s)\<rparr>"

definition sample_state :: session_state where
  "sample_state = \<lparr>sst_version = 1, sst_sets = [\<lparr>kset_url = ''https://pgs.ouc.edu.cn/'',
     kset_cookies = [\<lparr>sc_name = ''JSESSIONID'', sc_value = ''v'', sc_domain = '''', sc_path = ''/'',
       sc_expires_at = 0\<rparr>]\<rparr>], sst_validated_at = 5\<rparr>"

text \<open>A codec that knows one state; its cipher keeps the key beside the text.\<close>

definition sample_session_codec :: "(string \<times> string) session_codec" where
  "sample_session_codec =
     \<lparr>sx_hmac = (\<lambda>s. s),
      sx_encode = (\<lambda>st. if st = sample_state then Inr ''state'' else Inl (Opaque ''unknown'')),
      sx_decode = (\<lambda>p. if p = ''state'' then Inr sample_state else Inl (Opaque ''unknown'')),
      sx_encrypt = (\<lambda>n p k. Inr (p, k)),
      sx_decrypt = (\<lambda>c k. if snd c = k then Inr (fst c) else Inl (Opaque ''authentication''))\<rparr>"

definition session_world :: "(string \<times> string) world" where
  "session_world = \<lparr>w_step = 0, w_redis = save_session_script
     (scoped_cache_key sample_session_codec ''s1'' ''pw'' scope_graduate)
     (session_index_key sample_session_codec ''s1'')
     (''state'', scoped_cache_key sample_session_codec ''s1'' ''pw'' scope_graduate)
     hour 900 empty_redis\<rparr>"

text \<open>Texts of visible ASCII bytes, for the concrete instances below.\<close>

lemma trim_space_sample:
  "trim_space ''s1'' = ''s1''" "trim_space ''JSESSIONID'' = ''JSESSIONID''"
  "trim_space host_graduate = host_graduate"
  by (rule trim_space_visible; simp add: host_defs visible_def)+

lemma sample_url_simps:
  "url_hostname sample_url = host_graduate" "wu_scheme sample_url = ''https''"
  "\<not> wu_user sample_url" "wu_raw_query sample_url = ''''" "wu_fragment sample_url = ''''"
  by (simp_all add: url_hostname_def sample_url_def split_host_port_def host_defs)

lemma to_lower_sample: "to_lower f host_graduate = host_graduate"
  by (simp add: to_lower_def is_ascii_def host_defs ascii_lower_def byte_in_def)

lemma sample_state_valid:
  "validate_scoped_session_state sample_urls sample_state scope_graduate = None"
proof -
  have "valid_cookie_set sample_urls (hd (sst_sets sample_state))"
    by (simp add: valid_cookie_set_def sample_state_def session_url_host_def sample_urls_def
        sample_url_simps allowed_ouc_host_def to_lower_sample valid_session_cookie_def
        trim_space_sample max_session_cookie_length_def contains_any_def utf8_def
        valid_session_cookie_domain_def canonical_cookie_domain_def has_prefix_def char_of_def)
  then have "validate_session_state sample_urls sample_state = None"
    unfolding validate_session_state_None
    by (simp add: sample_state_def max_session_cookie_sets_def max_session_cookies_def)
  moreover have "parsed_host sample_urls ''https://pgs.ouc.edu.cn/'' = host_graduate"
    by (simp add: parsed_host_def sample_urls_def sample_url_simps)
  then have "check_scoped_sets sample_urls scope_graduate (sst_sets sample_state) = None"
    by (simp add: sample_state_def scope_allows_host_def scope_defs to_lower_sample
        trim_space_sample parent_domain_cookie_def canonical_or_empty_def
        canonical_cookie_domain_def parent_domain_def)
  ultimately show ?thesis by (simp add: validate_scoped_session_state_def)
qed

theorem loaded_session_is_in_scope_witness:
  "load_scope sample_urls sample_session_codec quiet_env ''s1'' ''pw'' scope_graduate session_world =
     (session_world\<lparr>w_step := 1\<rparr>, Inr (Some sample_state)) \<and>
   (\<exists>host. session_url_host sample_urls (kset_url (hd (sst_sets sample_state))) = Some host \<and>
      scope_allows_host sample_urls scope_graduate host)"
proof -
  have "validate_session_state sample_urls sample_state = None"
    using sample_state_valid by (simp add: validate_scoped_session_state_def split: option.splits)
  then have "load_scope sample_urls sample_session_codec quiet_env ''s1'' ''pw'' scope_graduate
      session_world = (session_world\<lparr>w_step := 1\<rparr>, Inr (Some sample_state))"
    using sample_state_valid
    by (simp add: load_scope_def load_key_def redis_command_def session_world_def
        save_session_script_def live_get_def px_ms_def open_session_def sample_session_codec_def
        max_session_state_bytes_def valid_session_scope_def duration_defs Let_def
        split: prod.splits)
  moreover from loaded_session_is_in_scope [OF this]
  have "\<exists>host. session_url_host sample_urls (kset_url (hd (sst_sets sample_state))) = Some host \<and>
      scope_allows_host sample_urls scope_graduate host"
    using hd_in_set by blast
  ultimately show ?thesis by blast
qed

section \<open>Revocation of a student's sessions\<close>

text \<open>
  What the instances do to the session keys: save a session for a whole number of seconds (the
  configured lifetimes are) under its owner's index, remove keys and their index entries, revoke
  the owners of some indexes with all the keys those list, or touch neither.
\<close>

definition index_members :: "int \<Rightarrow> string \<Rightarrow> 'c redis \<Rightarrow> string list" where
  "index_members now index r =
     (case live_index now (r_indexes r index) of None \<Rightarrow> [] | Some (ks, _) \<Rightarrow> ks)"

inductive session_step :: "(string \<Rightarrow> string) \<Rightarrow> int \<times> 'c redis \<Rightarrow> int \<times> 'c redis \<Rightarrow> bool"
  for owner :: "string \<Rightarrow> string" where
  saved: "t \<le> t' \<Longrightarrow> 0 < ttl \<Longrightarrow> second dvd ttl \<Longrightarrow>
    session_step owner (t, r) (t', save_session_script key (owner key) text ttl t' r)"
| removed: "t \<le> t' \<Longrightarrow> session_step owner (t, r) (t', srem t' index ks (del_results ks r))"
| revoked: "t \<le> t' \<Longrightarrow> \<forall>i\<in>set indexes. set (index_members t' i r) \<subseteq> set ks \<Longrightarrow>
    session_step owner (t, r) (t', del_indexes indexes (del_results ks r))"
| other: "t \<le> t' \<Longrightarrow> r_results r' = r_results r \<Longrightarrow> r_indexes r' = r_indexes r \<Longrightarrow>
    session_step owner (t, r) (t', r')"

lemma whole_second_ttl: "0 < ttl \<Longrightarrow> second dvd ttl \<Longrightarrow> px_ms ttl = expire_ms ttl"
  by (auto simp: px_ms_def expire_ms_def duration_defs elim: dvdE)

lemma save_session_script_results:
  "r_results (save_session_script key index text ttl now r) =
     (r_results r)(key \<mapsto> (text, now + px_ms ttl))"
  by (simp add: save_session_script_def Let_def split: prod.splits)

lemma save_session_script_index:
  "r_indexes (save_session_script key index text ttl now r) index =
     (case live_index now (r_indexes r index) of
        None \<Rightarrow> Some ([key], Some (now + expire_ms ttl))
      | Some (ms, e) \<Rightarrow>
          Some (if key \<in> set ms then ms else ms @ [key],
                Some (case e of None \<Rightarrow> now + expire_ms ttl | Some x \<Rightarrow> max x (now + expire_ms ttl))))"
  "j \<noteq> index \<Longrightarrow> r_indexes (save_session_script key index text ttl now r) j = r_indexes r j"
  by (auto simp: save_session_script_def Let_def split: option.splits prod.splits)

lemma save_session_covers:
  assumes "index_covers owner now r" and ttl: "0 < ttl" "second dvd ttl"
  shows "index_covers owner now (save_session_script key (owner key) text ttl now r)"
  unfolding index_covers_def
proof (intro allI impI)
  let ?r = "save_session_script key (owner key) text ttl now r"
  fix k tx e assume k: "r_results ?r k = Some (tx, e)" "now \<le> e"
  show "\<exists>members x. r_indexes ?r (owner k) = Some (members, Some x) \<and> k \<in> set members \<and> e \<le> x"
  proof (cases "k = key")
    case True
    with k have "e = now + expire_ms ttl"
      by (simp add: save_session_script_results whole_second_ttl [OF ttl])
    then show ?thesis
      using True by (auto simp: save_session_script_index(1) split: option.splits)
  next
    case False
    with k have rk: "r_results r k = Some (tx, e)" by (simp add: save_session_script_results)
    show ?thesis
    proof (cases "owner k = owner key")
      case True
      from covers_live_index [OF assms(1) rk k(2)] obtain ms x where
        "live_index now (r_indexes r (owner key)) = Some (ms, Some x)" "k \<in> set ms" "e \<le> x"
        using True by auto
      then show ?thesis using True by (auto simp: save_session_script_index(1))
    next
      case False
      then show ?thesis
        using assms(1) rk k(2) unfolding save_session_script_index(2) [OF False] index_covers_def
        by blast
    qed
  qed
qed

lemma srem_results [simp]: "r_results (srem now index ks r) = r_results r"
  by (simp add: srem_def Let_def split: option.splits prod.splits)

lemma removed_covers:
  assumes "index_covers owner now r"
  shows "index_covers owner now (srem now index ks (del_results ks r))"
  unfolding index_covers_def
proof (intro allI impI)
  fix k tx e assume k: "r_results (srem now index ks (del_results ks r)) k = Some (tx, e)" "now \<le> e"
  then have rk: "k \<notin> set ks" "r_results r k = Some (tx, e)"
    by (auto simp: del_results_def split: if_splits)
  from covers_live_index [OF assms rk(2) k(2)] obtain ms x where
    m: "live_index now (r_indexes r (owner k)) = Some (ms, Some x)" "k \<in> set ms" "e \<le> x" by blast
  then have i: "r_indexes r (owner k) = Some (ms, Some x)"
    by (auto simp: live_index_def split: option.splits if_splits)
  show "\<exists>members x. r_indexes (srem now index ks (del_results ks r)) (owner k) =
      Some (members, Some x) \<and> k \<in> set members \<and> e \<le> x"
  proof (cases "owner k = index")
    case True
    moreover have "filter (\<lambda>k. k \<notin> set ks) ms \<noteq> []" using m(2) rk(1) by (auto simp: filter_empty_conv)
    ultimately show ?thesis using m rk(1) by (auto simp: srem_def Let_def del_results_def)
  next
    case False
    with m i show ?thesis
      by (auto simp: srem_def Let_def del_results_def split: option.splits prod.splits)
  qed
qed

lemma revoked_covers:
  assumes "index_covers owner now r" and "\<forall>i\<in>set indexes. set (index_members now i r) \<subseteq> set ks"
  shows "index_covers owner now (del_indexes indexes (del_results ks r))"
  unfolding index_covers_def
proof (intro allI impI)
  fix k tx e assume k: "r_results (del_indexes indexes (del_results ks r)) k = Some (tx, e)" "now \<le> e"
  then have rk: "k \<notin> set ks" "r_results r k = Some (tx, e)"
    by (auto simp: del_results_def del_indexes_def split: if_splits)
  from index_members_cover [OF assms(1) refl rk(2) k(2)]
  have "k \<in> set (index_members now (owner k) r)" by (simp add: index_members_def)
  with assms(2) rk(1) have "owner k \<notin> set indexes" by blast
  with assms(1) rk(2) k(2) show "\<exists>members x. r_indexes (del_indexes indexes (del_results ks r)) (owner k) =
      Some (members, Some x) \<and> k \<in> set members \<and> e \<le> x"
    by (simp add: index_covers_def del_indexes_def del_results_def)
qed

lemma session_step_covers:
  assumes "session_step owner x y" and "index_covers owner (fst x) (snd x)"
  shows "index_covers owner (fst y) (snd y)"
  using assms
proof (induction rule: session_step.induct)
  case (saved t t' ttl r key tx)
  then show ?case using save_session_covers [OF index_covers_later [of owner t r t']] by simp
next
  case (removed t t' r index ks)
  then show ?case using removed_covers [OF index_covers_later [of owner t r t']] by simp
next
  case (revoked t t' indexes r ks)
  then show ?case using revoked_covers [OF index_covers_later [of owner t r t']] by simp
next
  case (other t t' r' r)
  then show ?case
    using index_covers_later [of owner t r t'] by (simp add: index_covers_def)
qed

lemma session_steps_cover:
  assumes "(session_step owner)\<^sup>*\<^sup>* (t, r) (t', r')" and "index_covers owner t r"
  shows "index_covers owner t' r'"
  using assms by (induction rule: rtranclp_induct2) (auto dest: session_step_covers)

text \<open>
  The other clients of the server between two commands: any number of the steps above; the clock of
  the server does not go back. While a student is being removed, none of them adds a session of
  that student.
\<close>

definition session_clients :: "(string \<Rightarrow> string) \<Rightarrow> ('c, 'e) store_env_scheme \<Rightarrow> bool" where
  "session_clients owner env \<longleftrightarrow>
     (\<forall>n. se_server_ms env n \<le> se_server_ms env (n + 1)) \<and>
     (\<forall>n t r. t \<le> se_server_ms env n \<longrightarrow>
        (session_step owner)\<^sup>*\<^sup>* (t, r) (se_server_ms env n, se_interfere env n r))"


lemma list_sessions_step:
  assumes "list_sessions env (i # ixs) w = (w', Inr ks)"
  obtains ks' where "list_sessions env ixs (w\<lparr>w_step := w_step w + 1,
      w_redis := se_interfere env (w_step w) (w_redis w)\<rparr>) = (w', Inr ks')"
    and "ks = index_members (se_server_ms env (w_step w)) i (se_interfere env (w_step w) (w_redis w)) @ ks'"
proof -
  let ?w = "w\<lparr>w_step := w_step w + 1, w_redis := se_interfere env (w_step w) (w_redis w)\<rparr>"
  have ok: "se_fault env (w_step w) = None"
    using assms by (auto simp: redis_command_def Let_def split: option.splits)
  obtain w2 r2 where rest: "list_sessions env ixs ?w = (w2, r2)" by fastforce
  with assms ok show thesis
    by (auto intro!: that simp: redis_command_def index_members_def Let_def split: sum.splits)
qed


lemma interfered_covers:
  assumes "session_clients owner env" and "index_covers owner t r" and "t \<le> se_server_ms env n"
  shows "index_covers owner (se_server_ms env n) (se_interfere env n r)"
  using assms session_steps_cover unfolding session_clients_def by blast

lemma list_sessions_covers:
  assumes "list_sessions env indexes w = (w', Inr ks)" and "session_clients owner env"
    and "index_covers owner t (w_redis w)" and "t \<le> se_server_ms env (w_step w)"
  shows "\<exists>t'. t' \<le> se_server_ms env (w_step w') \<and> index_covers owner t' (w_redis w')"
  using assms
proof (induction indexes arbitrary: w ks t)
  case (Cons i ixs)
  from Cons.prems(1) obtain ks' where rest: "list_sessions env ixs (w\<lparr>w_step := w_step w + 1,
      w_redis := se_interfere env (w_step w) (w_redis w)\<rparr>) = (w', Inr ks')"
    by (rule list_sessions_step)
  from Cons.IH [OF rest Cons.prems(2), of "se_server_ms env (w_step w)"]
    interfered_covers [OF Cons.prems(2-4)] Cons.prems(2)
  show ?case by (simp add: session_clients_def)
qed auto






end
