(* ===== verification/OucHttp.thy ===== *)
theory OucHttp
  imports OucPage OucConfig OucSessionStore GoContext
begin

text \<open>
  One page request of the OUC adapter (\<^verbatim>\<open>ouc/sso.go\<close>): the client with its redirect policy, the
  redirect loop of \<^verbatim>\<open>net/http\<close> it runs in, and \<^verbatim>\<open>requestPageWithOptions\<close> with its error mapping.

  A request that is sent is recorded in the world (\<open>ow_sent\<close>) and answered by the environment
  (\<open>we_response\<close>): a transport error, or a response with its status, Location header, cookies and the
  bytes its body delivers before it ends or fails. The cookie jar is state that is passed on. Headers
  are the ones the adapter sets; what the library adds (Referer of a redirect, compression) is not
  modelled. Timers and cancellation come from \<open>GoContext\<close>.
\<close>

section \<open>Requests and responses\<close>

record http_request =
  rq_method :: string
  rq_url :: web_url
  rq_body :: string
  rq_headers :: "(string \<times> string) list"
  rq_cookies :: "(string \<times> string) list"
  rq_cause :: "int option"
    \<comment> \<open>\<^verbatim>\<open>Request.Response\<close>: the status of the redirect that made the client build this request\<close>

record http_response =
  rs_status :: int
  rs_location :: string
  rs_cookies :: "http_cookie list"
  rs_body :: string
  rs_failure :: "err option"

record 'c ouc_world = "'c world" +
  ow_sent :: "http_request list"

record ('c, 'j) web_env = "'c store_env" +
  we_response :: "nat \<Rightarrow> http_request \<Rightarrow> err + http_response"
  we_timer :: "nat \<Rightarrow> bool"
  we_jar :: "'j jar_library"
  we_client :: "err + unit"
    \<comment> \<open>what the client factory returns\<close>

definition web_clock :: "('c, 'j, 'e) web_env_scheme \<Rightarrow> ('c, 'x) ouc_world_scheme clock" where
  "web_clock env = \<lparr>ck_now = (\<lambda>w. se_now env (w_step w)), ck_timer = (\<lambda>w. we_timer env (w_step w)),
     ck_step = w_step\<rparr>"

section \<open>The redirect policy\<close>

definition rewrite_legacy_sso_redirect ::
    "('a) page_library_scheme \<Rightarrow> web_url \<Rightarrow> web_url option" where
  "rewrite_legacy_sso_redirect pl target =
     (if wu_scheme target \<noteq> ''http'' \<or> \<not> equal_fold pl (url_hostname target) host_identity \<or>
         url_port target \<noteq> ''8071'' \<or>
         \<not> equal_fold pl (pl_escaped_path pl target) ''/sso/login'' \<or> wu_user target
      then None
      else case map_of (pl_query pl (wu_raw_query target)) ''service'' of
             Some [v] \<Rightarrow>
               (case ul_parse pl v of
                  None \<Rightarrow> None
                | Some service \<Rightarrow>
                    if wu_scheme service \<noteq> ''https'' \<or> wu_user service \<or>
                       \<not> allowed_ouc_host (url_library.truncate pl) (url_hostname service)
                    then None
                    else Some (target\<lparr>wu_scheme := ''https'', wu_host := host_identity\<rparr>))
           | _ \<Rightarrow> None)"

datatype redirect_choice = Follow web_url | UseLast | Refuse err

text \<open>
  \<^verbatim>\<open>CheckRedirect\<close> of the client. The third argument of the library's loop is the list of requests
  made so far; the test for 307 and 308 looks at the response that \<^emph>\<open>caused\<close> the last of them.
\<close>

definition check_redirect ::
    "('a) page_library_scheme \<Rightarrow> web_url \<Rightarrow> http_request list \<Rightarrow> redirect_choice" where
  "check_redirect pl u via =
     (if 10 \<le> length via then Refuse (wrapf ''too many redirects'' (Sentinel ErrRedirectPolicy))
      else if via \<noteq> [] \<and> rq_method (last via) = ''POST'' \<and>
              (case rq_cause (last via) of None \<Rightarrow> False | Some st \<Rightarrow> 307 \<le> st)
      then UseLast
      else case rewrite_legacy_sso_redirect pl u of
             Some u' \<Rightarrow> Follow u'
           | None \<Rightarrow>
               if wu_scheme u \<noteq> ''https'' \<or> \<not> allowed_ouc_host (url_library.truncate pl) (url_hostname u)
               then Refuse (wrapf ''blocked redirect'' (Sentinel ErrRedirectPolicy))
               else Follow u)"

record page_options =
  po_accept :: string
  po_referer :: string
  po_origin :: string
  po_requested_with :: string
  po_stop_post_redirect :: bool
  po_stop_outside_host :: string
  po_report_redirect :: bool

definition no_options :: page_options where
  "no_options = \<lparr>po_accept = '''', po_referer = '''', po_origin = '''', po_requested_with = '''',
     po_stop_post_redirect = False, po_stop_outside_host = '''', po_report_redirect = False\<rparr>"

definition page_check_redirect ::
    "('a) page_library_scheme \<Rightarrow> page_options \<Rightarrow> web_url \<Rightarrow> http_request list \<Rightarrow> redirect_choice"
where
  "page_check_redirect pl opts u via =
     (if \<not> po_stop_post_redirect opts \<and> po_stop_outside_host opts = '''' then check_redirect pl u via
      else if po_stop_post_redirect opts \<and> via \<noteq> [] \<and> rq_method (last via) = ''POST'' then UseLast
      else case check_redirect pl u via of
             Follow u' \<Rightarrow>
               if po_stop_outside_host opts \<noteq> '''' \<and>
                  \<not> equal_fold pl (url_hostname u') (po_stop_outside_host opts)
               then UseLast else Follow u'
           | c \<Rightarrow> c)"

section \<open>The client\<close>

text \<open>\<^verbatim>\<open>redirectBehavior\<close>: the method of the next request and whether it keeps the body.\<close>

definition redirect_behaviour :: "string \<Rightarrow> int \<Rightarrow> (string \<times> bool) option" where
  "redirect_behaviour method status =
     (if status \<in> {301, 302, 303}
      then Some (if method = ''GET'' \<or> method = ''HEAD'' then method else ''GET'', False)
      else if status \<in> {307, 308} then Some (method, True)
      else None)"

definition send_request ::
    "url_library \<Rightarrow> ('c, 'j, 'e) web_env_scheme \<Rightarrow> http_request \<Rightarrow> ('c, 'x) ouc_world_scheme \<Rightarrow>
     'j cookie_jar \<Rightarrow> ('c, 'x) ouc_world_scheme \<times> 'j cookie_jar \<times> (err + http_response)" where
  "send_request ul env rq w jar =
     (let r = we_response env (w_step w) rq;
          w' = w\<lparr>w_step := w_step w + 1, ow_sent := ow_sent w @ [rq]\<rparr>
      in (w', case r of
                Inr rs \<Rightarrow>
                  if rs_cookies rs = [] then jar
                  else set_cookies ul (we_jar env) (se_now env (w_step w')) (rq_url rq)
                         (rs_cookies rs) jar
              | Inl _ \<Rightarrow> jar, r))"

definition with_cookies :: "'j jar_library \<Rightarrow> 'j cookie_jar \<Rightarrow> http_request \<Rightarrow> http_request" where
  "with_cookies jl jar rq = rq\<lparr>rq_cookies := jl_get jl (cj_base jar) (rq_url rq)\<rparr>"

text \<open>Where a response sends the client, with what the loop has to decide.\<close>

definition next_request ::
    "('a) page_library_scheme \<Rightarrow> page_options \<Rightarrow> http_request \<Rightarrow> http_response \<Rightarrow>
     http_request list \<Rightarrow> err + http_request option" where
  "next_request pl opts rq rs via =
     (case redirect_behaviour (rq_method rq) (rs_status rs) of
        None \<Rightarrow> Inr None
      | Some (method, keep) \<Rightarrow>
          if rs_location rs = '''' then Inr None
          else case ul_parse pl (rs_location rs) of
                 None \<Rightarrow> Inl (Opaque ''failed to parse Location header'')
               | Some ref \<Rightarrow>
                   (case page_check_redirect pl opts (pl_resolve pl (rq_url rq) ref) via of
                      Refuse e \<Rightarrow> Inl (wrapf ''redirect'' e)
                    | UseLast \<Rightarrow> Inr None
                    | Follow u \<Rightarrow>
                        Inr (Some \<lparr>rq_method = method, rq_url = u,
                                   rq_body = (if keep then rq_body rq else ''''),
                                   rq_headers = rq_headers rq, rq_cookies = [],
                                   rq_cause = Some (rs_status rs)\<rparr>)))"

lemma followed_is_bounded:
  "next_request pl opts rq rs via = Inr (Some rq') \<Longrightarrow> length via < 10"
  by (auto simp: next_request_def page_check_redirect_def check_redirect_def
      split: option.splits if_splits redirect_choice.splits)

function http_do ::
    "('a) page_library_scheme \<Rightarrow> ('c, 'j, 'e) web_env_scheme \<Rightarrow> page_options \<Rightarrow> http_request \<Rightarrow>
     http_request list \<Rightarrow> ('c, 'x) ouc_world_scheme \<Rightarrow> 'j cookie_jar \<Rightarrow>
     ('c, 'x) ouc_world_scheme \<times> 'j cookie_jar \<times> (err + http_request \<times> http_response)" where
  "http_do pl env opts rq0 via w jar =
     (let rq = with_cookies (we_jar env) jar rq0;
          (w1, jar1, r) = send_request (url_library.truncate pl) env rq w jar
      in case r of
           Inl e \<Rightarrow> (w1, jar1, Inl e)
         | Inr rs \<Rightarrow>
             (case next_request pl opts rq rs (via @ [rq]) of
                Inl e \<Rightarrow> (w1, jar1, Inl e)
              | Inr None \<Rightarrow> (w1, jar1, Inr (rq, rs))
              | Inr (Some rq') \<Rightarrow> http_do pl env opts rq' (via @ [rq]) w1 jar1))"
  by pat_completeness auto

termination
  by (relation "measure (\<lambda>(pl, env, opts, rq0, via, w, jar). 10 - length via)")
    (use followed_is_bounded in fastforce)+

declare http_do.simps [simp del]

section \<open>A page\<close>

definition is_followable_redirect :: "int \<Rightarrow> bool" where
  "is_followable_redirect status \<longleftrightarrow> status \<in> {301, 302, 303, 307, 308}"

definition page_headers :: "ouc_config \<Rightarrow> string \<Rightarrow> page_options \<Rightarrow> (string \<times> string) list" where
  "page_headers c content_type opts =
     filter (\<lambda>(_, v). v \<noteq> '''')
       [(''User-Agent'', oc_user_agent c),
        (''Accept'', if po_accept opts = '''' then ''text/html,application/json;q=0.9,*/*;q=0.8''
                     else po_accept opts),
        (''Content-Type'', content_type), (''Referer'', po_referer opts),
        (''Origin'', po_origin opts), (''X-Requested-With'', po_requested_with opts)]"

definition request_failure :: "('w) clock \<Rightarrow> go_ctx \<Rightarrow> 'w \<Rightarrow> err \<Rightarrow> err" where
  "request_failure ck cx w e =
     (if errors_is e ErrRedirectPolicy then wrapf ''OUC redirect policy'' e
      else case context_err ck cx w of
             Some (Sentinel Canceled) \<Rightarrow> Sentinel Canceled
           | Some (Sentinel DeadlineExceeded) \<Rightarrow>
               new_verification_retryable_error (Some (Sentinel DeadlineExceeded))
           | _ \<Rightarrow> new_verification_retryable_error (Some (wrapf ''request OUC service'' e)))"

text \<open>What is made of a response: the URL of the page, its bytes, and whether it is a redirect.\<close>

definition read_page ::
    "('a) page_library_scheme \<Rightarrow> ouc_config \<Rightarrow> page_options \<Rightarrow> http_request \<Rightarrow> http_response \<Rightarrow>
     err + web_url \<times> string \<times> bool" where
  "read_page pl c opts rq rs =
     (let data = take (nat (oc_max_response_bytes c + 1)) (rs_body rs);
          failure = (if int (length data) \<le> oc_max_response_bytes c then rs_failure rs else None)
      in case failure of
           Some e \<Rightarrow> Inl (new_verification_retryable_error (Some (wrapf ''read OUC response'' e)))
         | None \<Rightarrow>
             if oc_max_response_bytes c < int (length data)
             then Inl (Opaque ''OUC response exceeds configured limit'')
             else if rs_status rs < 200 \<or> 400 \<le> rs_status rs
             then Inl (Opaque ''OUC service returned HTTP status'')
             else if po_report_redirect opts \<and> is_followable_redirect (rs_status rs)
             then (if rs_location rs = ''''
                   then Inl (wrapf ''OUC handoff location is invalid'' (Opaque ''no Location header''))
                   else case ul_parse pl (rs_location rs) of
                          None \<Rightarrow> Inl (wrapf ''OUC handoff location is invalid'' (Opaque ''parse''))
                        | Some ref \<Rightarrow> Inr (pl_resolve pl (rq_url rq) ref, data, True))
             else Inr (rq_url rq, data, False))"

type_synonym ('c, 'x, 'j, 'v) web_reply =
  "('c, 'x) ouc_world_scheme \<times> 'j cookie_jar \<times> (err + 'v)"

definition request_page ::
    "('a) page_library_scheme \<Rightarrow> ('c, 'j, 'e) web_env_scheme \<Rightarrow> ouc_config \<Rightarrow> go_ctx \<Rightarrow> string \<Rightarrow>
     string \<Rightarrow> string \<Rightarrow> string \<Rightarrow> page_options \<Rightarrow> ('c, 'x) ouc_world_scheme \<Rightarrow> 'j cookie_jar \<Rightarrow>
     ('c, 'x, 'j, web_url \<times> string \<times> bool) web_reply" where
  "request_page pl env c cx method target body content_type opts w jar =
     (case ul_parse pl target of
        None \<Rightarrow> (w, jar, Inl (wrapf ''create OUC request'' (Opaque ''parse'')))
      | Some u \<Rightarrow>
          (let (w1, jar1, r) = http_do pl env opts
             \<lparr>rq_method = method, rq_url = u, rq_body = body,
              rq_headers = page_headers c content_type opts, rq_cookies = [], rq_cause = None\<rparr>
             [] w jar
           in (w1, jar1, case r of
                 Inl e \<Rightarrow> Inl (request_failure (web_clock env) cx w1 e)
               | Inr (rq, rs) \<Rightarrow> read_page pl c opts rq rs)))"

end
