(* ===== verification/OucRequest.thy ===== *)
theory OucRequest
  imports OucHttp Runes
begin

text \<open>
  The pure part of \<^verbatim>\<open>ouc/provider.go\<close> and \<^verbatim>\<open>ouc/adapter.go\<close>: the request of an academic operation
  (target URL, body and content type), the pages of the course catalog, the filter and the merge of
  course selections, the adapters of the two school systems and the translation of errors. The
  parsers of the pages (\<^verbatim>\<open>parser.go\<close>, \<^verbatim>\<open>undergraduate_parser.go\<close>, \<^verbatim>\<open>graduate_parser.go\<close> and
  \<^verbatim>\<open>course_catalog_parser.go\<close>) are functions the adapters are given (\<open>page_parsers\<close>), and so are the
  texts of floats and times.
\<close>

section \<open>Texts\<close>

text \<open>The pieces of a text around a separator that is not empty, from left to right.\<close>

fun pieces :: "string \<Rightarrow> nat \<Rightarrow> string \<Rightarrow> string \<Rightarrow> string list" where
  "pieces sep n acc [] = [rev acc]"
| "pieces sep (Suc n) acc (c # s) = pieces sep n acc s"
| "pieces sep 0 acc (c # s) =
     (if has_prefix (c # s) sep then rev acc # pieces sep (length sep - 1) [] s
      else pieces sep 0 (c # acc) s)"

function explode_runes :: "string \<Rightarrow> string list" where
  "explode_runes s =
     (if s = [] then [] else take (rune_width s) s # explode_runes (drop (rune_width s) s))"
  by auto
termination
  by (relation "measure length") (auto dest: rune_width_bounds)

declare explode_runes.simps [simp del]

text \<open>\<^verbatim>\<open>strings.Split\<close> and \<^verbatim>\<open>strings.ReplaceAll\<close> of a text that is not empty.\<close>

definition go_split :: "string \<Rightarrow> string \<Rightarrow> string list" where
  "go_split s sep = (if sep = [] then explode_runes s else pieces sep 0 [] s)"

definition replace_all :: "string \<Rightarrow> string \<Rightarrow> string \<Rightarrow> string" where
  "replace_all old new s = join new (pieces old 0 [] s)"

definition period_mark :: string where "period_mark = ''{period_id}''"

section \<open>The request of an operation\<close>

fun map_period ::
    "string list \<Rightarrow> string list \<Rightarrow> form_values \<Rightarrow> err + form_values" where
  "map_period (raw_name # names) (part # parts) vs =
     (let name = trim_space raw_name; value = trim_space part
      in if name = '''' \<or> value = ''''
         then Inl (Opaque ''academic period mapping contains an empty value'')
         else map_period names parts (values_set name value vs))"
| "map_period _ _ vs = Inr vs"

definition academic_period_values :: "operation_endpoint \<Rightarrow> string \<Rightarrow> err + form_values" where
  "academic_period_values e period_id =
     (if period_id = '''' then Inr []
      else if oe_period_parameters e = []
      then (let parameter = trim_space (oe_period_parameter e)
            in Inr (if parameter = '''' then [] else values_set parameter period_id []))
      else
        (let parts = go_split period_id (oe_period_separator e)
         in if length parts \<noteq> length (oe_period_parameters e)
            then Inl (Opaque ''academic period ID does not match configured mapping'')
            else map_period (oe_period_parameters e) parts []))"

text \<open>\<^verbatim>\<open>Set\<close> of every value of \<open>vs\<close> in turn.\<close>

definition set_all :: "form_values \<Rightarrow> form_values \<Rightarrow> form_values" where
  "set_all vs query =
     foldl (\<lambda>q (name, xs). foldl (\<lambda>q x. values_set name x q) q xs) query vs"

definition single_values :: "form_values \<Rightarrow> (string \<times> string) list option" where
  "single_values vs =
     (if list_all (\<lambda>(_, xs). length xs = 1) vs then Some (map (\<lambda>(name, xs). (name, hd xs)) vs)
      else None)"

text \<open>The URL the path names on the host of the service.\<close>

definition academic_target ::
    "('a) page_library_scheme \<Rightarrow> string \<Rightarrow> string \<Rightarrow> err + web_url" where
  "academic_target pl service_url path =
     (case ul_parse pl service_url of
        None \<Rightarrow> Inl (Opaque ''parse'')
      | Some base \<Rightarrow>
          (case ul_parse pl path of
             None \<Rightarrow> Inl (Opaque ''parse'')
           | Some ref \<Rightarrow>
               (let t = pl_resolve pl base ref
                in if wu_scheme t \<noteq> ''https'' \<or> url_hostname t \<noteq> url_hostname base
                   then Inl (Opaque ''academic endpoint escaped configured host'') else Inr t)))"

definition request_path :: "('a) page_library_scheme \<Rightarrow> operation_endpoint \<Rightarrow> string \<Rightarrow> string" where
  "request_path pl e period_id =
     (if contains (oe_path e) period_mark
      then replace_all period_mark (pl_path_escape pl period_id) (oe_path e) else oe_path e)"

definition operation_values ::
    "operation_endpoint \<Rightarrow> string \<Rightarrow> form_values \<Rightarrow> err + form_values" where
  "operation_values e period_id extra =
     (case academic_period_values e period_id of
        Inl x \<Rightarrow> Inl x
      | Inr vs \<Rightarrow>
          (let vs' = foldl (\<lambda>q (name, value). values_set name value q) vs (oe_parameters e)
           in if \<not> list_all (\<lambda>(_, xs). length xs = 1) extra
              then Inl (Opaque ''invalid academic request values'')
              else Inr (set_all extra vs')))"

text \<open>The body and its content type.\<close>

definition request_payload ::
    "('a) page_library_scheme \<Rightarrow> operation_endpoint \<Rightarrow> form_values \<Rightarrow> err + string \<times> string" where
  "request_payload pl e vs =
     (if oe_request_encoding e = ''form''
      then Inr (pl_encode pl vs, ''application/x-www-form-urlencoded'')
      else if oe_request_encoding e = ''json''
      then (case single_values vs of
              None \<Rightarrow> Inl (Opaque ''invalid academic period mapping'')
            | Some entries \<Rightarrow>
                (case pl_json_object pl entries of
                   Inl x \<Rightarrow> Inl x
                 | Inr text \<Rightarrow> Inr (text, ''application/json'')))
      else Inr ('''', ''''))"

definition academic_request_with_values ::
    "('a) page_library_scheme \<Rightarrow> string \<Rightarrow> operation_endpoint \<Rightarrow> string \<Rightarrow> form_values \<Rightarrow>
     err + string \<times> string \<times> string" where
  "academic_request_with_values pl service_url e period_id extra =
     (let path = request_path pl e period_id;
          in_path = contains path (pl_path_escape pl period_id);
          with_query = (\<lambda>vs t. t\<lparr>wu_raw_query := pl_encode pl (set_all vs (pl_query pl (wu_raw_query t)))\<rparr>)
      in case academic_target pl service_url path of
           Inl x \<Rightarrow> Inl x
         | Inr t \<Rightarrow>
             (case operation_values e period_id extra of
                Inl x \<Rightarrow> Inl x
              | Inr vs \<Rightarrow>
                  (let t1 = (if (period_id \<noteq> '''' \<or> vs \<noteq> []) \<and> \<not> in_path \<and>
                                oe_request_encoding e = ''query'' then with_query vs t else t);
                       t2 = (if extra \<noteq> [] \<and> in_path \<and> oe_request_encoding e = ''query''
                             then with_query extra t1 else t1)
                   in case (if vs \<noteq> [] \<and> \<not> in_path then request_payload pl e vs
                            else Inr ('''', '''')) of
                        Inl x \<Rightarrow> Inl x
                      | Inr (body, content_type) \<Rightarrow> Inr (ul_string pl t2, body, content_type))))"

definition academic_catalog_request ::
    "('a) page_library_scheme \<Rightarrow> string \<Rightarrow> operation_endpoint \<Rightarrow> string \<Rightarrow> int \<Rightarrow>
     err + string \<times> string \<times> string" where
  "academic_catalog_request pl service_url e period_id page =
     (if page < 1 \<or> oe_page_parameter e = '''' then Inl (Opaque ''invalid academic catalog page'')
      else
        (let vs = values_set (oe_page_parameter e) (int_text page) [];
             vs' = (if 0 < oe_page_size e \<and> oe_page_size_parameter e \<noteq> ''''
                    then values_set (oe_page_size_parameter e) (int_text (oe_page_size e)) vs else vs)
         in academic_request_with_values pl service_url e period_id vs'))"

definition catalog_request_options ::
    "('a) page_library_scheme \<Rightarrow> string \<Rightarrow> string \<Rightarrow> string \<Rightarrow> page_options" where
  "catalog_request_options pl level service_url target =
     (case (ul_parse pl service_url, ul_parse pl target) of
        (Some base, Some u) \<Rightarrow>
          if wu_scheme base \<noteq> ''https'' \<or> url_hostname base \<noteq> url_hostname u then no_options
          else
            (let base' = base\<lparr>wu_path := '''', wu_raw_query := '''', wu_fragment := ''''\<rparr>
             in if level = education_level_undergraduate
                then no_options\<lparr>po_accept := ''application/json, text/javascript, */*; q=0.01'',
                       po_referer := ul_string pl (base'\<lparr>wu_path := ''/jsxsd/xkgl/xkkb_find''\<rparr>),
                       po_requested_with := ''XMLHttpRequest''\<rparr>
                else if level = education_level_graduate
                then no_options\<lparr>po_accept := ''text/html,application/xhtml+xml,application/xml;q=0.9,*/*;q=0.8'',
                       po_referer := ul_string pl
                         (base'\<lparr>wu_path := ''/py/page/student/lnsjCxdc.htm''\<rparr>),
                       po_origin := ul_string pl base'\<rparr>
                else no_options)
      | _ \<Rightarrow> no_options)"

section \<open>Course selections\<close>

definition result_mentions :: "string \<Rightarrow> course_selection \<Rightarrow> bool" where
  "result_mentions phrase s \<longleftrightarrow>
     (case sel_result_text s of None \<Rightarrow> False | Some t \<Rightarrow> contains (trim_space t) phrase)"

definition is_personal_withdrawal :: "course_selection \<Rightarrow> bool" where
  "is_personal_withdrawal s \<longleftrightarrow> result_mentions (utf8
     [0xE4, 0xB8, 0xAA, 0xE4, 0xBA, 0xBA, 0xE9, 0x80, 0x80, 0xE9, 0x80, 0x89]) s"

definition is_administrator_withdrawal :: "course_selection \<Rightarrow> bool" where
  "is_administrator_withdrawal s \<longleftrightarrow> result_mentions (utf8
     [0xE7, 0xAE, 0xA1, 0xE7, 0x90, 0x86, 0xE5, 0x91, 0x98, 0xE9, 0x80, 0x80, 0xE9, 0x80,
      0x89]) s"

text \<open>
  The location is a fixed zone eight hours east. April 2026 is the thirty local days from day 20544
  after 1970-01-01 on.
\<close>

definition shanghai_day :: "gotime \<Rightarrow> int" where
  "shanghai_day t = ((t - unix_epoch) div second + 8 * 60 * 60) div 86400"

definition is_april_2026_selection :: "course_selection \<Rightarrow> bool" where
  "is_april_2026_selection s \<longleftrightarrow>
     (case sel_selected_at s of
        None \<Rightarrow> False | Some t \<Rightarrow> 20544 \<le> shanghai_day t \<and> shanghai_day t < 20544 + 30)"

definition filter_hidden_selections :: "course_selection list \<Rightarrow> course_selection list" where
  "filter_hidden_selections items =
     filter (\<lambda>s. \<not> (is_personal_withdrawal s \<or> is_administrator_withdrawal s \<or>
                    is_april_2026_selection s)) items"

record text_formats =
  tf_float :: "float64 \<Rightarrow> string"
    \<comment> \<open>\<^verbatim>\<open>strconv.FormatFloat(f, 'g', -1, 64)\<close>\<close>
  tf_time :: "gotime \<Rightarrow> string"
    \<comment> \<open>\<^verbatim>\<open>UTC().Format(time.RFC3339Nano)\<close>\<close>

definition or_empty :: "string option \<Rightarrow> string" where
  "or_empty t = (case t of None \<Rightarrow> '''' | Some x \<Rightarrow> x)"

definition selection_merge_key :: "text_formats \<Rightarrow> course_selection \<Rightarrow> string" where
  "selection_merge_key tf s =
     join [char_of (0 :: nat)]
       [''selection'', sel_period_id s, sel_id s, sel_course_code s, sel_course_name s,
        sel_course_type s, tf_float tf (sel_credit s), sel_teacher s, sel_campus s, sel_location s,
        sel_schedule s, int_text (sel_capacity s), int_text (sel_enrolled s), sel_status s,
        or_empty (map_option (tf_time tf) (sel_selected_at s)), or_empty (sel_result_text s),
        or_empty (sel_note s)]"

fun append_unique :: "('b \<Rightarrow> string) \<Rightarrow> string set \<Rightarrow> 'b list \<Rightarrow> 'b list" where
  "append_unique key seen [] = []"
| "append_unique key seen (x # xs) =
     (if key x \<in> seen then append_unique key seen xs
      else x # append_unique key (insert (key x) seen) xs)"

definition merge_course_selections ::
    "text_formats \<Rightarrow> course_selection list \<Rightarrow> course_selection list \<Rightarrow> course_selection list" where
  "merge_course_selections tf primary supplement =
     append_unique (selection_merge_key tf) {} (primary @ supplement)"

definition undergraduate_failure_values :: form_values where
  "undergraduate_failure_values =
     [(''lx'', [''tkrz'']), (''type'', [''list'']), (''cxsj'', [''tkjg'']), (''pageNum'', [''1'']),
      (''pageSize'', [''20'']), (''sf_request_type'', [''ajax''])]"

section \<open>Adapters\<close>

type_synonym 'v page_parser = "string \<Rightarrow> string \<Rightarrow> string \<Rightarrow> err + 'v"
  \<comment> \<open>body, encoding and period\<close>

record page_parsers =
  py_undergraduate_periods :: "string \<Rightarrow> string \<Rightarrow> err + period list"
  py_graduate_periods :: "string \<Rightarrow> string \<Rightarrow> err + period list"
  py_undergraduate_courses :: "course_schedule page_parser"
  py_graduate_courses :: "course list page_parser"
  py_selection_schedule :: "course_schedule page_parser"
  py_grades :: "grade list page_parser"
  py_graduate_grades :: "grade list page_parser"
  py_exams :: "exam list page_parser"
  py_graduate_exams :: "exam list page_parser"
  py_selections :: "course_selection list page_parser"
  py_graduate_selections :: "course_selection list page_parser"
  py_undergraduate_catalog :: "string \<Rightarrow> int \<Rightarrow> int \<Rightarrow> string \<Rightarrow> err + course_catalog_page"
  py_graduate_catalog :: "string \<Rightarrow> int \<Rightarrow> int \<Rightarrow> string \<Rightarrow> err + course_catalog_page"

record system_adapter =
  ad_endpoint :: "ouc_config \<Rightarrow> endpoint_set"
  ad_periods :: "string \<Rightarrow> string \<Rightarrow> err + period list"
  ad_courses :: "course_schedule page_parser"
  ad_selection_schedule :: "course_schedule page_parser"
  ad_grades :: "grade list page_parser"
  ad_exams :: "exam list page_parser"
  ad_selections :: "course_selection list page_parser"

definition undergraduate_adapter :: "page_parsers \<Rightarrow> system_adapter" where
  "undergraduate_adapter py =
     \<lparr>ad_endpoint = oc_undergraduate, ad_periods = py_undergraduate_periods py,
      ad_courses = py_undergraduate_courses py, ad_selection_schedule = py_selection_schedule py,
      ad_grades = py_grades py, ad_exams = py_exams py, ad_selections = py_selections py\<rparr>"

definition graduate_adapter :: "page_parsers \<Rightarrow> system_adapter" where
  "graduate_adapter py =
     \<lparr>ad_endpoint = oc_graduate, ad_periods = py_graduate_periods py,
      ad_courses = (\<lambda>body encoding period_id.
        case py_graduate_courses py body encoding period_id of
          Inl e \<Rightarrow> Inl e | Inr cs \<Rightarrow> Inr \<lparr>cs_courses = cs, cs_schedule_note = ''''\<rparr>),
      ad_selection_schedule = (\<lambda>_ _ _. Inl (Sentinel ErrProviderUnavailable)),
      ad_grades = py_graduate_grades py, ad_exams = py_graduate_exams py,
      ad_selections = py_graduate_selections py\<rparr>"

definition default_adapters :: "page_parsers \<Rightarrow> string \<rightharpoonup> system_adapter" where
  "default_adapters py =
     [education_level_undergraduate \<mapsto> undergraduate_adapter py,
      education_level_graduate \<mapsto> graduate_adapter py]"

definition parse_catalog_page ::
    "page_parsers \<Rightarrow> string \<Rightarrow> string \<Rightarrow> int \<Rightarrow> operation_endpoint \<Rightarrow> string \<Rightarrow>
     err + course_catalog_page" where
  "parse_catalog_page py level period_id page e body =
     (if level = education_level_undergraduate
      then (if oe_response_encoding e \<noteq> ''json''
            then Inl (Opaque ''undergraduate catalog must be JSON'')
            else py_undergraduate_catalog py period_id page (oe_page_size e) body)
      else if level = education_level_graduate
      then (if oe_response_encoding e \<noteq> ''html''
            then Inl (Opaque ''graduate catalog must be HTML'')
            else py_graduate_catalog py period_id page (oe_page_size e) body)
      else Inl (Opaque ''unsupported catalog education level''))"

section \<open>Kinds of query and errors\<close>

datatype query_kind =
  QueryPeriods | QueryCourses | QueryGrades | QueryExams | QuerySelections
| QueryCourseSelectionSchedule

fun operation_for :: "endpoint_set \<Rightarrow> query_kind \<Rightarrow> operation_endpoint" where
  "operation_for e QueryCourses = es_courses e"
| "operation_for e QueryGrades = es_grades e"
| "operation_for e QueryExams = es_exams e"
| "operation_for e QuerySelections = es_selections e"
| "operation_for e _ = es_periods e"

definition query_provider_error :: "err \<Rightarrow> err" where
  "query_provider_error e =
     (if errors_is e DeadlineExceeded then new_provider_retryable_error (Some (Sentinel DeadlineExceeded))
      else if errors_is e Canceled then Sentinel Canceled
      else if errors_is e VErrProviderRetryable then new_provider_retryable_error (Some e)
      else if errors_is e VErrInvalidCredentials then Sentinel ErrInvalidCredentials
      else if errors_is e VErrPasswordExpired then Sentinel ErrPasswordExpired
      else if errors_is e VErrChallengeRequired then Sentinel ErrChallengeRequired
      else if errors_is e VErrAccountRestricted then Sentinel ErrAccountRestricted
      else Sentinel ErrProviderUnavailable)"

definition retryable_session_error :: "err \<Rightarrow> bool" where
  "retryable_session_error e \<longleftrightarrow>
     \<not> (\<exists>s\<in>{VErrInvalidCredentials, VErrPasswordExpired, VErrChallengeRequired,
             VErrAccountRestricted, VErrIdentityTypeMismatch, VErrIdentityTypeAmbiguous,
             VErrIdentityTypeUnresolved}. errors_is e s)"

definition scope_for_level :: "string \<Rightarrow> string" where
  "scope_for_level level =
     (if level = education_level_undergraduate then scope_undergraduate
      else if level = education_level_graduate then scope_graduate else '''')"

end
