(* ===== verification/OucLogin.thy ===== *)
theory OucLogin
  imports OucHttp
begin

text \<open>
  The login of the OUC adapter (\<^verbatim>\<open>ouc/sso.go\<close>): \<^verbatim>\<open>authenticate\<close> with the page that may already be
  signed in, the submission of the credentials, the warning of an expiring password and the
  classification of the answer; the hand-off to a target system and its probe. A session is the
  cookie jar that is passed on, with the page the login ended at.
\<close>

section \<open>Steps that may fail\<close>

definition web_bind ::
    "('c, 'x, 'j, 'v) web_reply \<Rightarrow> (('c, 'x) ouc_world_scheme \<Rightarrow> 'j cookie_jar \<Rightarrow> 'v \<Rightarrow> ('c, 'x, 'j, 'u) web_reply) \<Rightarrow>
     ('c, 'x, 'j, 'u) web_reply" where
  "web_bind r f = (case r of (w, jar, Inl e) \<Rightarrow> (w, jar, Inl e) | (w, jar, Inr v) \<Rightarrow> f w jar v)"

definition authentication_timeout :: duration where "authentication_timeout = 10 * second"
definition sso_stage_timeout :: duration where "sso_stage_timeout = 2 * second"

definition allowed_target :: "('a) page_library_scheme \<Rightarrow> web_url \<Rightarrow> bool" where
  "allowed_target pl u \<longleftrightarrow>
     wu_scheme u = ''https'' \<and> allowed_ouc_host (url_library.truncate pl) (url_hostname u)"

definition form_content_type :: string where
  "form_content_type = ''application/x-www-form-urlencoded''"

definition service_login_url ::
    "('a) page_library_scheme \<Rightarrow> string \<Rightarrow> string \<Rightarrow> bool \<Rightarrow> err + string" where
  "service_login_url pl login_url service_url no_auto_redirect =
     (case ul_parse pl login_url of
        None \<Rightarrow> Inl (wrapf ''parse OUC login URL'' (Opaque ''parse''))
      | Some u \<Rightarrow>
          (let query = values_set ''service'' service_url (pl_query pl (wu_raw_query u));
               query' = (if no_auto_redirect then values_set ''noAutoRedirect'' ''1'' query
                         else values_del ''noAutoRedirect'' query)
           in Inr (ul_string pl (u\<lparr>wu_raw_query := pl_encode pl query'\<rparr>))))"

section \<open>The login page\<close>

text \<open>A page the server wants to continue elsewhere is fetched from an allowed host only.\<close>

definition follow_handoff ::
    "('a) page_library_scheme \<Rightarrow> ('c, 'j, 'e) web_env_scheme \<Rightarrow> ouc_config \<Rightarrow> go_ctx \<Rightarrow> string \<Rightarrow>
     web_url \<times> string \<times> bool \<Rightarrow> ('c, 'x) ouc_world_scheme \<Rightarrow> 'j cookie_jar \<Rightarrow>
     ('c, 'x, 'j, web_url \<times> string \<times> bool) web_reply" where
  "follow_handoff pl env c cx failure page w jar =
     (let (u, body, redirected) = page
      in if \<not> redirected then (w, jar, Inr page)
         else if \<not> allowed_target pl u then (w, jar, Inl (Opaque failure))
         else request_page pl env c cx ''GET'' (ul_string pl u) '''' '''' no_options w jar)"

definition login_page ::
    "('a) page_library_scheme \<Rightarrow> ('c, 'j, 'e) web_env_scheme \<Rightarrow> ouc_config \<Rightarrow> go_ctx \<Rightarrow>
     ('c, 'x) ouc_world_scheme \<Rightarrow> 'j cookie_jar \<Rightarrow> ('c, 'x, 'j, web_url \<times> string \<times> bool) web_reply"
where
  "login_page pl env c cx w jar =
     (case service_login_url pl (oc_sso_login_url c) (oc_portal_service_url c)
             (oc_portal_no_redirect c) of
        Inl e \<Rightarrow> (w, jar, Inl e)
      | Inr login_url \<Rightarrow>
          web_bind
            (request_page pl env c (context_with_timeout (web_clock env) cx sso_stage_timeout w)
               ''GET'' login_url '''' ''''
               (no_options\<lparr>po_stop_outside_host := host_identity, po_report_redirect := True\<rparr>) w jar)
            (\<lambda>w jar page. follow_handoff pl env c cx ''invalid OUC existing-session handoff URL'' page
                w jar))"

section \<open>The credentials\<close>

text \<open>The form with the credentials, or why it cannot be submitted.\<close>

definition prepare_credentials ::
    "('a) page_library_scheme \<Rightarrow> nat \<Rightarrow> string \<Rightarrow> string \<Rightarrow> web_url \<Rightarrow> string \<Rightarrow>
     err + login_form" where
  "prepare_credentials pl random student_no password u body =
     (case parse_login_form pl body u of
        Inl e \<Rightarrow> Inl e
      | Inr form \<Rightarrow>
     (case parse_login_security_config pl body of
        Inl e \<Rightarrow> Inl e
      | Inr (enabled, key) \<Rightarrow>
          if lf_challenge form then Inl (Sentinel VErrChallengeRequired)
          else
            (case (if enabled then encrypt_sm2_password pl random password key else Inr password) of
               Inl e \<Rightarrow> Inl e
             | Inr submitted \<Rightarrow>
                 (let vs = values_set ''password'' submitted
                        (values_set ''username'' student_no (lf_values form));
                      vs' = (if values_get vs ''loginType'' = ''''
                             then values_set ''loginType'' ''username_password'' vs else vs)
                  in Inr (form\<lparr>lf_values := vs'\<rparr>)))))"

text \<open>The action of a form of the login host.\<close>

definition form_target :: "('a) page_library_scheme \<Rightarrow> web_url \<Rightarrow> string \<Rightarrow> web_url option" where
  "form_target pl u action =
     (case ul_parse pl action of
        None \<Rightarrow> None
      | Some ref \<Rightarrow>
          (let t = pl_resolve pl u ref
           in if wu_scheme t = ''https'' \<and> url_hostname t = host_identity then Some t else None))"

definition submit_credentials ::
    "('a) page_library_scheme \<Rightarrow> ('c, 'j, 'e) web_env_scheme \<Rightarrow> ouc_config \<Rightarrow> go_ctx \<Rightarrow> login_form \<Rightarrow>
     web_url \<Rightarrow> ('c, 'x) ouc_world_scheme \<Rightarrow> 'j cookie_jar \<Rightarrow>
     ('c, 'x, 'j, web_url \<times> string \<times> bool) web_reply" where
  "submit_credentials pl env c cx form u w jar =
     (case form_target pl u (lf_action form) of
        None \<Rightarrow> (w, jar, Inl (Opaque ''invalid OUC login form action''))
      | Some t \<Rightarrow>
          web_bind
            (request_page pl env c (context_with_timeout (web_clock env) cx sso_stage_timeout w)
               ''POST'' (ul_string pl t) (pl_encode pl (lf_values form)) form_content_type
               (no_options\<lparr>po_stop_post_redirect := True, po_report_redirect := True\<rparr>) w jar)
            (\<lambda>w jar page. follow_handoff pl env c cx ''invalid OUC login handoff URL'' page w jar))"

section \<open>The warning of an expiring password\<close>

text \<open>The form that continues past the warning, when the page offers one.\<close>

definition continue_form ::
    "('a) page_library_scheme \<Rightarrow> web_url \<Rightarrow> string \<Rightarrow> (web_url \<times> form_values) option" where
  "continue_form pl u body =
     (case parse_login_response_page_name pl body of
        Inr (Some name) \<Rightarrow>
          if name \<noteq> ''resetWarn'' then None
          else (case parse_login_form pl body u of
                  Inl _ \<Rightarrow> None
                | Inr form \<Rightarrow>
                    if \<not> lf_expiry_continue form then None
                    else map_option (\<lambda>t. (t, values_set ''continue'' ''1''
                           (values_set ''loginType'' '''' (values_set ''password'' ''''
                             (values_set ''username'' '''' (lf_values form))))))
                      (form_target pl u (lf_action form)))
      | _ \<Rightarrow> None)"

definition continue_password_expiry_warning ::
    "('a) page_library_scheme \<Rightarrow> ('c, 'j, 'e) web_env_scheme \<Rightarrow> ouc_config \<Rightarrow> go_ctx \<Rightarrow> web_url \<Rightarrow>
     string \<Rightarrow> ('c, 'x) ouc_world_scheme \<Rightarrow> 'j cookie_jar \<Rightarrow>
     ('c, 'x, 'j, web_url \<times> string \<times> bool) web_reply" where
  "continue_password_expiry_warning pl env c cx u body w jar =
     (case continue_form pl u body of
        None \<Rightarrow> (w, jar, Inr (u, body, False))
      | Some (t, vs) \<Rightarrow>
          web_bind
            (request_page pl env c cx ''POST'' (ul_string pl t) (pl_encode pl vs) form_content_type
               no_options w jar)
            (\<lambda>w jar (u', body', _). (w, jar, Inr (u', body', True))))"

section \<open>The answer\<close>

definition response_error :: "('a) page_library_scheme \<Rightarrow> string \<Rightarrow> (int \<times> string) option" where
  "response_error pl body =
     (case parse_login_response_error pl body of Inl _ \<Rightarrow> None | Inr r \<Rightarrow> r)"

definition says_expired :: "('a) page_library_scheme \<Rightarrow> (int \<times> string) option \<Rightarrow> string \<Rightarrow> bool" where
  "says_expired pl reported body \<longleftrightarrow>
     (case reported of None \<Rightarrow> False | Some (code, _) \<Rightarrow> code = ouc_password_expired_code) \<or>
     mentions pl body password_expired_text"

definition reported_failure :: "('a) page_library_scheme \<Rightarrow> (int \<times> string) option \<Rightarrow> err option" where
  "reported_failure pl reported =
     (case reported of
        None \<Rightarrow> None
      | Some (_, msg) \<Rightarrow>
          (case classify_login_response_error pl msg of
             LoginInvalidCredentials \<Rightarrow> Some (Sentinel VErrInvalidCredentials)
           | LoginPasswordExpired \<Rightarrow> Some (Sentinel VErrPasswordExpired)
           | LoginChallengeRequired \<Rightarrow> Some (Sentinel VErrChallengeRequired)
           | LoginAccountRestricted \<Rightarrow> Some (Sentinel VErrAccountRestricted)
           | LoginUnknown \<Rightarrow> None))"

text \<open>From the last page of the login to its result.\<close>

definition login_result ::
    "('a) page_library_scheme \<Rightarrow> (int \<times> string) option \<Rightarrow> web_url \<Rightarrow> string \<Rightarrow> err + string" where
  "login_result pl reported u body =
     (case reported_failure pl reported of
        Some e \<Rightarrow> Inl e
      | None \<Rightarrow>
          if mentions pl body invalid_login_text then Inl (Sentinel VErrInvalidCredentials)
          else if url_hostname u = host_identity
          then Inl (if fst (detect_interactive_challenge pl body) then Sentinel VErrChallengeRequired
                    else Sentinel VErrProviderUnavailable)
          else if mentions pl body rejected_app_text then Inl (Sentinel VErrIdentityTypeUnresolved)
          else Inr body)"

definition classify_login ::
    "('a) page_library_scheme \<Rightarrow> ('c, 'j, 'e) web_env_scheme \<Rightarrow> ouc_config \<Rightarrow> go_ctx \<Rightarrow> web_url \<Rightarrow>
     string \<Rightarrow> ('c, 'x) ouc_world_scheme \<Rightarrow> 'j cookie_jar \<Rightarrow> ('c, 'x, 'j, string) web_reply" where
  "classify_login pl env c cx u body w jar =
     (let reported = response_error pl body
      in if \<not> says_expired pl reported body then (w, jar, login_result pl reported u body)
         else web_bind (continue_password_expiry_warning pl env c cx u body w jar)
           (\<lambda>w jar (u', body', continued).
              if \<not> continued \<or> says_expired pl (response_error pl body') body'
              then (w, jar, Inl (Sentinel VErrPasswordExpired))
              else (w, jar, login_result pl (response_error pl body') u' body')))"

definition authenticate ::
    "('a) page_library_scheme \<Rightarrow> ('c, 'j, 'e) web_env_scheme \<Rightarrow> ouc_config \<Rightarrow> go_ctx \<Rightarrow> string \<Rightarrow> string \<Rightarrow>
     ('c, 'x) ouc_world_scheme \<Rightarrow> ('c, 'x, 'j, string) web_reply" where
  "authenticate pl env c caller student_no password w =
     (let cx = context_with_timeout (web_clock env) caller authentication_timeout w;
          jar = new_jar (we_jar env)
      in case we_client env of
           Inl e \<Rightarrow> (w, jar, Inl e)
         | Inr _ \<Rightarrow>
             web_bind (login_page pl env c cx w jar)
               (\<lambda>w jar (u, body, _).
                  if url_hostname u \<noteq> host_identity then (w, jar, Inr body)
                  else case prepare_credentials pl (w_step w) student_no password u body of
                         Inl e \<Rightarrow> (w, jar, Inl e)
                       | Inr form \<Rightarrow>
                           web_bind (submit_credentials pl env c cx form u w jar)
                             (\<lambda>w jar (u', body', _). classify_login pl env c cx u' body' w jar)))"

section \<open>The hand-off to a target system\<close>

datatype service_access = Granted | IdentityRejected | TargetRejected

definition classify_service_access ::
    "('a) page_library_scheme \<Rightarrow> web_url \<Rightarrow> web_url option \<Rightarrow> web_url option \<Rightarrow> web_url option \<Rightarrow>
     string \<Rightarrow> service_access" where
  "classify_service_access pl final expected sso_login portal body =
     (let on = (\<lambda>u. case u of None \<Rightarrow> False | Some u \<Rightarrow> url_hostname final = url_hostname u)
      in if wu_scheme final \<noteq> ''https'' then TargetRejected
         else if on expected
         then (if mentions pl body rejected_app_text then TargetRejected else Granted)
         else if on sso_login \<or> on portal then IdentityRejected
         else TargetRejected)"

definition access_service ::
    "('a) page_library_scheme \<Rightarrow> ('c, 'j, 'e) web_env_scheme \<Rightarrow> ouc_config \<Rightarrow> go_ctx \<Rightarrow> string \<Rightarrow>
     ('c, 'x) ouc_world_scheme \<Rightarrow> 'j cookie_jar \<Rightarrow> ('c, 'x, 'j, service_access) web_reply" where
  "access_service pl env c cx service_url w jar =
     (case service_login_url pl (oc_sso_login_url c) service_url False of
        Inl e \<Rightarrow> (w, jar, Inl e)
      | Inr login_url \<Rightarrow>
          web_bind (request_page pl env c cx ''GET'' login_url '''' '''' no_options w jar)
            (\<lambda>w jar (u, body, _). (w, jar, Inr (classify_service_access pl u (ul_parse pl service_url)
               (ul_parse pl (oc_sso_login_url c)) (ul_parse pl (oc_portal_service_url c)) body))))"

definition academic_profile_url :: "('a) page_library_scheme \<Rightarrow> string \<Rightarrow> string \<Rightarrow> err + string" where
  "academic_profile_url pl service_url path =
     (case ul_parse pl service_url of
        None \<Rightarrow> Inl (Opaque ''invalid academic service URL'')
      | Some base \<Rightarrow>
          if \<not> allowed_target pl base then Inl (Opaque ''invalid academic service URL'')
          else (case ul_parse pl (trim_space path) of
                  None \<Rightarrow> Inl (Opaque ''invalid academic profile path'')
                | Some ref \<Rightarrow>
                    if wu_scheme ref \<noteq> '''' \<or> wu_host ref \<noteq> '''' \<or> wu_raw_query ref \<noteq> '''' \<or>
                       wu_fragment ref \<noteq> '''' \<or> \<not> has_prefix (wu_path ref) ''/''
                    then Inl (Opaque ''invalid academic profile path'')
                    else (let t = pl_resolve pl base ref
                          in if wu_scheme t \<noteq> ''https'' \<or>
                                \<not> equal_fold pl (url_hostname t) (url_hostname base)
                             then Inl (Opaque ''academic profile path escaped configured host'')
                             else Inr (ul_string pl t))))"

definition probe_undergraduate_session ::
    "('a) page_library_scheme \<Rightarrow> ('c, 'j, 'e) web_env_scheme \<Rightarrow> ouc_config \<Rightarrow> go_ctx \<Rightarrow>
     ('c, 'x) ouc_world_scheme \<Rightarrow> 'j cookie_jar \<Rightarrow> ('c, 'x, 'j, bool) web_reply" where
  "probe_undergraduate_session pl env c cx w jar =
     (case academic_profile_url pl (es_service_url (oc_undergraduate c)) (undergraduate_probe_path c) of
        Inl e \<Rightarrow> (w, jar, Inl e)
      | Inr target \<Rightarrow>
          web_bind (request_page pl env c (context_with_timeout (web_clock env) cx sso_stage_timeout w)
              ''GET'' target '''' '''' no_options w jar)
            (\<lambda>w jar (u, body, _). (w, jar, Inr (wu_scheme u = ''https'' \<and>
               url_hostname u = parsed_host (url_library.truncate pl) (es_service_url (oc_undergraduate c)) \<and>
               \<not> is_academic_login_page pl body))))"

end
