(* ===== verification/OucCredentials.thy ===== *)
theory OucCredentials
  imports OucLogin
begin

text \<open>
  What the login of the OUC adapter sends: the log of a redirect loop and of a page, the one request
  that carries the password, and the replay of a POST that the redirect policy does not refuse. The
  last sections hold a concrete site for the instances.
\<close>

section \<open>What a request sends\<close>

text \<open>
  The requests a run of the redirect loop adds to the log: the first is the one asked for, the later
  ones go to allowed https hosts, and none has a body the first did not have.
\<close>

definition page_log :: "('a) page_library_scheme \<Rightarrow> http_request \<Rightarrow> http_request list \<Rightarrow> bool" where
  "page_log pl rq sent \<longleftrightarrow>
     (case sent of
        [] \<Rightarrow> False
      | q # qs \<Rightarrow> rq_url q = rq_url rq \<and> rq_body q = rq_body rq \<and> rq_method q = rq_method rq \<and>
          rq_cause q = rq_cause rq \<and>
          (\<forall>p\<in>set qs. allowed_target pl (rq_url p) \<and> rq_body p \<in> {'''', rq_body rq}))"

lemma allowed_identity: "allowed_ouc_host ul host_identity"
proof -
  have "to_lower (ul_lower ul) host_identity = host_identity"
    by (rule lower_samples)
  then show ?thesis by (simp add: allowed_ouc_host_def)
qed

lemma check_redirect_allowed: "check_redirect pl u via = Follow u' \<Longrightarrow> allowed_target pl u'"
  by (auto simp: check_redirect_def allowed_target_def rewrite_legacy_sso_redirect_def url_hostname_def
      host_samples allowed_identity split: if_splits option.splits list.splits)

lemma page_check_redirect_allowed: "page_check_redirect pl opts u via = Follow u' \<Longrightarrow> allowed_target pl u'"
  by (auto simp: page_check_redirect_def check_redirect_allowed
      split: if_splits redirect_choice.splits)

lemma next_request_allowed:
  "next_request pl opts rq rs via = Inr (Some rq') \<Longrightarrow>
     allowed_target pl (rq_url rq') \<and> rq_body rq' \<in> {'''', rq_body rq}"
  by (auto simp: next_request_def page_check_redirect_allowed
      split: option.splits if_splits redirect_choice.splits)

lemma send_request_log:
  "send_request ul env rq w jar = (w', jar', r) \<Longrightarrow>
     ow_sent w' = ow_sent w @ [rq] \<and> w_step w' = w_step w + 1"
  by (auto simp: send_request_def Let_def)

lemma http_do_log:
  assumes "http_do pl env opts rq via w jar = (w', jar', r)"
  shows "\<exists>sent. ow_sent w' = ow_sent w @ sent \<and> w_step w' = w_step w + length sent \<and>
     page_log pl rq sent \<and> length via + length sent \<le> max 10 (length via + 1)"
  using assms
proof (induction pl env opts rq via w jar rule: http_do.induct)
  case (1 pl env opts rq0 via w jar)
  let ?rq = "with_cookies (we_jar env) jar rq0"
  obtain w1 jar1 s where sent: "send_request (url_library.truncate pl) env ?rq w jar = (w1, jar1, s)"
    by (metis prod_cases3)
  have log: "ow_sent w1 = ow_sent w @ [?rq]" "w_step w1 = w_step w + 1"
    using send_request_log [OF sent] by simp_all
  have one: "page_log pl rq0 [?rq]" by (simp add: page_log_def with_cookies_def)
  show ?case
  proof (cases "\<exists>rs rq'. s = Inr rs \<and> next_request pl opts ?rq rs (via @ [?rq]) = Inr (Some rq')")
    case False
    then have "w' = w1"
      using "1.prems" sent by (auto simp: http_do.simps [of pl env opts rq0] Let_def split: sum.splits option.splits)
    with log one show ?thesis by (intro exI [of _ "[?rq]"]) simp
  next
    case True
    then obtain rs rq' where s: "s = Inr rs" and n: "next_request pl opts ?rq rs (via @ [?rq]) = Inr (Some rq')"
      by blast
    have rest: "http_do pl env opts rq' (via @ [?rq]) w1 jar1 = (w', jar', r)"
      using "1.prems" sent s n by (simp add: http_do.simps [of pl env opts rq0] Let_def)
    from "1.IH" [OF refl refl sent [symmetric] refl s n refl rest] obtain sent' where
      l: "ow_sent w' = ow_sent w1 @ sent'" "w_step w' = w_step w1 + length sent'"
        "page_log pl rq' sent'" "length (via @ [?rq]) + length sent' \<le> max 10 (length (via @ [?rq]) + 1)"
      by blast
    have "page_log pl rq0 (?rq # sent')"
      using l(3) next_request_allowed [OF n]
      by (auto simp: page_log_def with_cookies_def split: list.splits)
    moreover have "length via + 1 < 10" using followed_is_bounded [OF n] by simp
    ultimately show ?thesis
      using log l(1,2,4) by (intro exI [of _ "?rq # sent'"]) auto
  qed
qed

text \<open>A request without a body sends none; a POST that stops at redirects is sent alone.\<close>

lemma http_do_stopped:
  assumes "http_do pl env opts rq [] w jar = (w', jar', r)" and "po_stop_post_redirect opts"
    and "rq_method rq = ''POST''"
  shows "\<exists>q. ow_sent w' = ow_sent w @ [q] \<and> w_step w' = w_step w + 1 \<and> page_log pl rq [q]"
proof -
  let ?rq = "with_cookies (we_jar env) jar rq"
  obtain w1 jar1 s where sent: "send_request (url_library.truncate pl) env ?rq w jar = (w1, jar1, s)"
    by (metis prod_cases3)
  have m: "rq_method ?rq = ''POST''" using assms(3) by (simp add: with_cookies_def)
  have "next_request pl opts ?rq rs [?rq] \<noteq> Inr (Some rq')" for rs rq'
    using assms(2) m by (auto simp: next_request_def page_check_redirect_def split: option.splits)
  then have "w' = w1"
    using assms(1) sent by (auto simp: http_do.simps [of pl env opts rq] Let_def split: sum.splits option.splits)
  with send_request_log [OF sent] show ?thesis
    by (intro exI [of _ ?rq]) (simp add: page_log_def with_cookies_def)
qed

lemma request_page_log:
  assumes "request_page pl env c cx method target body ct opts w jar = (w', jar', r)"
    and "ul_parse pl target = Some u"
  shows "\<exists>sent q. ow_sent w' = ow_sent w @ q # sent \<and> w_step w' = w_step w + 1 + length sent \<and>
     rq_url q = u \<and> rq_body q = body \<and> rq_method q = method \<and>
     (\<forall>p\<in>set sent. allowed_target pl (rq_url p) \<and> rq_body p \<in> {'''', body}) \<and> length sent < 10 \<and>
     (po_stop_post_redirect opts \<and> method = ''POST'' \<longrightarrow> sent = [])"
proof -
  let ?rq = "\<lparr>rq_method = method, rq_url = u, rq_body = body,
     rq_headers = page_headers c ct opts, rq_cookies = [], rq_cause = None\<rparr>"
  obtain w1 jar1 s where run: "http_do pl env opts ?rq [] w jar = (w1, jar1, s)"
    by (metis prod_cases3)
  have w: "w' = w1" using assms run by (simp add: request_page_def)
  from http_do_log [OF run] obtain sent where
    l: "ow_sent w1 = ow_sent w @ sent" "w_step w1 = w_step w + length sent" "page_log pl ?rq sent"
      "length sent \<le> 10" by auto
  then obtain q qs where s: "sent = q # qs" by (cases sent) (auto simp: page_log_def)
  have "qs = []" if "po_stop_post_redirect opts" "method = ''POST''"
    using http_do_stopped [OF run that(1)] that(2) l(1) s by auto
  with l s w show ?thesis
    by (intro exI [of _ qs] exI [of _ q]) (auto simp: page_log_def)
qed

text \<open>\<^verbatim>\<open>http.NewRequest\<close> parses the text it is given: nothing is sent when it is not a URL.\<close>

lemma request_page_unparsed:
  "ul_parse pl target = None \<Longrightarrow> request_page pl env c cx method target body ct opts w jar = (w', jar', r) \<Longrightarrow>
     w' = w"
  by (simp add: request_page_def)

text \<open>
  C37: a page request always ends: the redirect loop sends at most ten requests, whatever the servers
  answer, moving the world on by exactly one step for each of them, and after the first one it asks
  only the four known hosts, over https, with the same body or none.
\<close>

theorem page_requests_end:
  assumes "request_page pl env c cx method target body content_type opts w jar = (w', jar', r)"
  shows "\<exists>sent. ow_sent w' = ow_sent w @ sent \<and> length sent \<le> 10 \<and> w_step w' = w_step w + length sent \<and>
     (\<forall>q\<in>set sent. rq_body q = body \<or> rq_body q = '''') \<and>
     (\<forall>q\<in>set (tl sent). wu_scheme (rq_url q) = ''https'' \<and>
        to_lower (ul_lower pl) (url_hostname (rq_url q))
          \<in> {''id.ouc.edu.cn'', ''my.ouc.edu.cn'', ''jwgl2024.ouc.edu.cn'', ''pgs.ouc.edu.cn''})"
proof (cases "ul_parse pl target")
  case None
  with request_page_unparsed [OF None assms] show ?thesis by (intro exI [of _ "[]"]) simp
next
  case (Some u)
  from request_page_log [OF assms Some] obtain sent q where
    "ow_sent w' = ow_sent w @ q # sent" "w_step w' = w_step w + 1 + length sent" "rq_body q = body"
    "\<forall>p\<in>set sent. allowed_target pl (rq_url p) \<and> rq_body p \<in> {'''', body}" "length sent < 10"
    by blast
  moreover have "ul_lower (url_library.truncate pl) = ul_lower pl"
    by (simp add: url_library.truncate_def)
  ultimately show ?thesis
    by (intro exI [of _ "q # sent"])
      (auto simp: allowed_target_def allowed_ouc_host_def host_defs)
qed

section \<open>Where the credentials go\<close>

text \<open>
  The text of a URL of an allowed host names that host again: how \<^verbatim>\<open>URL.String\<close> and \<^verbatim>\<open>url.Parse\<close>
  treat scheme and host.
\<close>

definition url_text_law :: "('a) page_library_scheme \<Rightarrow> bool" where
  "url_text_law pl \<longleftrightarrow>
     (\<forall>u v. allowed_target pl u \<longrightarrow> ul_parse pl (ul_string pl u) = Some v \<longrightarrow>
        wu_scheme v = wu_scheme u \<and> wu_host v = wu_host u)"

definition sends ::
    "('a) page_library_scheme \<Rightarrow> (http_request \<Rightarrow> bool) \<Rightarrow> ('c, 'x) ouc_world_scheme \<Rightarrow>
     ('c, 'x) ouc_world_scheme \<Rightarrow> bool" where
  "sends pl P w w' \<longleftrightarrow>
     (\<exists>sent. ow_sent w' = ow_sent w @ sent \<and> (\<forall>q\<in>set sent. allowed_target pl (rq_url q) \<and> P q))"

definition no_body :: "http_request \<Rightarrow> bool" where "no_body q \<longleftrightarrow> rq_body q = ''''"

lemma sends_refl [simp]: "sends pl P w w" by (simp add: sends_def)

lemma sends_trans: "sends pl P w w1 \<Longrightarrow> sends pl P w1 w2 \<Longrightarrow> sends pl P w w2"
  unfolding sends_def by (fastforce intro: exI [of _ "s1 @ s2" for s1 s2])

lemma sends_mono: "sends pl P w w' \<Longrightarrow> (\<And>q. P q \<Longrightarrow> Q q) \<Longrightarrow> sends pl Q w w'"
  unfolding sends_def by blast

lemma web_bind_cases:
  assumes "web_bind r f = (w', jar', x)"
  obtains e where "r = (w', jar', Inl e)"
  | w1 jar1 v where "r = (w1, jar1, Inr v)" "f w1 jar1 v = (w', jar', x)"
  using assms by (cases r) (auto simp: web_bind_def split: sum.splits)

lemma same_place:
  assumes "url_text_law pl" and "allowed_target pl u" and "ul_parse pl (ul_string pl u) = Some v"
  shows "allowed_target pl v \<and> url_hostname v = url_hostname u"
  using assms unfolding url_text_law_def allowed_target_def url_hostname_def by metis

lemma request_page_sends:
  assumes "url_text_law pl" and "allowed_target pl u"
    and "request_page pl env c cx method (ul_string pl u) body ct opts w jar = (w', jar', r)"
  shows "sends pl (\<lambda>q. rq_body q \<in> {'''', body}) w w'"
proof (cases "ul_parse pl (ul_string pl u)")
  case None
  with request_page_unparsed [OF None assms(3)] show ?thesis by simp
next
  case (Some v)
  from request_page_log [OF assms(3) Some] obtain sent q where
    l: "ow_sent w' = ow_sent w @ q # sent" "rq_url q = v" "rq_body q = body"
      "\<forall>p\<in>set sent. allowed_target pl (rq_url p) \<and> rq_body p \<in> {'''', body}" by blast
  with same_place [OF assms(1,2) Some] show ?thesis
    unfolding sends_def by (intro exI [of _ "q # sent"]) auto
qed

lemmas request_page_sends_nothing =
  request_page_sends [where body = "''''", folded no_body_def, unfolded insert_absorb2 singleton_iff,
    folded no_body_def]

lemma follow_handoff_sends:
  assumes "url_text_law pl" and "follow_handoff pl env c cx failure page w jar = (w', jar', r)"
  shows "sends pl no_body w w'"
  using assms request_page_sends_nothing [OF assms(1)]
  by (fastforce simp: follow_handoff_def Let_def split: prod.splits if_splits)

lemma service_login_url_allowed:
  assumes "service_login_url pl t service na = Inr target" and "ul_parse pl t = Some login"
    and "allowed_target pl login"
  shows "\<exists>u. allowed_target pl u \<and> target = ul_string pl u"
proof -
  obtain q where "target = ul_string pl (login\<lparr>wu_raw_query := q\<rparr>)"
    using assms(1,2) by (auto simp: service_login_url_def Let_def split: if_splits)
  then show ?thesis
    using assms(3) by (intro exI [of _ "login\<lparr>wu_raw_query := q\<rparr>"]) (simp add: allowed_target_def url_hostname_def)
qed

lemma login_page_sends:
  assumes law: "url_text_law pl" and login: "ul_parse pl (oc_sso_login_url c) = Some login"
    "allowed_target pl login"
    and run: "login_page pl env c cx w jar = (w', jar', r)"
  shows "sends pl no_body w w'"
proof (cases "service_login_url pl (oc_sso_login_url c) (oc_portal_service_url c) (oc_portal_no_redirect c)")
  case (Inl e)
  with run show ?thesis by (simp add: login_page_def)
next
  case (Inr target)
  with service_login_url_allowed [OF Inr login] obtain u where
    u: "allowed_target pl u" "target = ul_string pl u" by blast
  from run show ?thesis
    unfolding login_page_def Inr u(2) sum.case
    by (elim web_bind_cases)
      (auto dest!: request_page_sends_nothing [OF law u(1)] follow_handoff_sends [OF law]
        intro: sends_trans)
qed

text \<open>The requests with the credentials: at most one has a body, and it goes to the login host.\<close>

definition one_login_post :: "('a) page_library_scheme \<Rightarrow> http_request list \<Rightarrow> bool" where
  "one_login_post pl sent \<longleftrightarrow>
     length (filter (\<lambda>q. rq_body q \<noteq> '''') sent) \<le> 1 \<and>
     (\<forall>q\<in>set sent. allowed_target pl (rq_url q) \<and>
        (rq_body q \<noteq> '''' \<longrightarrow> rq_method q = ''POST'' \<and> url_hostname (rq_url q) = host_identity))"

lemma form_target_identity:
  "form_target pl u action = Some t \<Longrightarrow> allowed_target pl t \<and> url_hostname t = host_identity"
  by (auto simp: form_target_def Let_def allowed_target_def allowed_identity
      split: option.splits if_splits)

lemma submit_credentials_sends:
  assumes law: "url_text_law pl" and run: "submit_credentials pl env c cx form u w jar = (w', jar', r)"
  shows "\<exists>sent. ow_sent w' = ow_sent w @ sent \<and> one_login_post pl sent"
proof (cases "form_target pl u (lf_action form)")
  case None
  with run show ?thesis
    by (intro exI [of _ "[]"]) (auto simp: submit_credentials_def one_login_post_def)
next
  case (Some t)
  note t = form_target_identity [OF Some]
  define opts where "opts = no_options\<lparr>po_stop_post_redirect := True, po_report_redirect := True\<rparr>"
  have post: "\<exists>sent. ow_sent w1 = ow_sent w @ sent \<and> one_login_post pl sent"
    if p: "request_page pl env c ctx ''POST'' (ul_string pl t) body ct opts w jar = (w1, jar1, x)"
    for ctx body ct w1 jar1 x
  proof (cases "ul_parse pl (ul_string pl t)")
    case None
    with request_page_unparsed [OF None p] show ?thesis
      by (intro exI [of _ "[]"]) (simp add: one_login_post_def)
  next
    case (Some v)
    from request_page_log [OF p Some] obtain q where
      "ow_sent w1 = ow_sent w @ [q]" "rq_url q = v" "rq_method q = ''POST''"
      by (auto simp: opts_def)
    with same_place [OF law conjunct1 [OF t] Some] t show ?thesis
      by (intro exI [of _ "[q]"]) (simp add: one_login_post_def)
  qed
  have more: "\<exists>sent. ow_sent w2 = ow_sent w @ sent \<and> one_login_post pl sent"
    if "\<exists>sent. ow_sent w1 = ow_sent w @ sent \<and> one_login_post pl sent" and "sends pl no_body w1 w2" for w1 w2
  proof -
    from that obtain a b where ab: "ow_sent w2 = ow_sent w @ a @ b" "one_login_post pl a"
      "\<forall>q\<in>set b. allowed_target pl (rq_url q) \<and> rq_body q = ''''"
      by (auto simp: sends_def no_body_def)
    then have "filter (\<lambda>q. rq_body q \<noteq> '''') b = []" by (simp add: filter_empty_conv)
    with ab show ?thesis by (intro exI [of _ "a @ b"]) (auto simp: one_login_post_def)
  qed
  from run show ?thesis
    unfolding submit_credentials_def Some option.case opts_def [symmetric]
    by (elim web_bind_cases) (auto dest!: post follow_handoff_sends [OF law] intro: more)
qed

text \<open>A form whose password is empty.\<close>

definition blank_password :: "('a) page_library_scheme \<Rightarrow> http_request \<Rightarrow> bool" where
  "blank_password pl q \<longleftrightarrow>
     rq_body q = '''' \<or>
     (\<exists>vs. rq_body q = pl_encode pl vs \<and> values_get vs ''password'' = '''' \<and>
        values_get vs ''username'' = '''')"

lemma values_get_set: "values_get (values_set n v vs) m = (if m = n then v else values_get vs m)"
  by (simp add: values_get_def values_set_def AList.update_conv')

lemma continue_form_blank:
  assumes "continue_form pl u body = Some (t, vs)"
  shows "values_get vs ''password'' = ''''" and "values_get vs ''username'' = ''''"
    and "allowed_target pl t"
  using assms form_target_identity
  by (auto simp: continue_form_def values_get_set split: sum.splits option.splits if_splits)

lemma classify_login_sends:
  assumes law: "url_text_law pl" and run: "classify_login pl env c cx u body w jar = (w', jar', r)"
  shows "sends pl (blank_password pl) w w'"
proof -
  have cont: "sends pl (blank_password pl) w w1"
    if c: "continue_password_expiry_warning pl env c cx u body w jar = (w1, jar1, x)" for w1 jar1 x
  proof (cases "continue_form pl u body")
    case None
    with c show ?thesis by (simp add: continue_password_expiry_warning_def)
  next
    case (Some tv)
    obtain t vs where tv: "tv = (t, vs)" by fastforce
    note form = continue_form_blank [OF Some [unfolded tv]]
    have "sends pl (blank_password pl) w w2"
      if "request_page pl env c cx ''POST'' (ul_string pl t) (pl_encode pl vs) ct opts w jar = (w2, jar2, y)"
      for w2 jar2 y ct opts
      by (rule sends_mono [OF request_page_sends [OF law form(3) that]])
        (use form(1,2) in \<open>auto simp: blank_password_def\<close>)
    with c Some tv show ?thesis
      unfolding continue_password_expiry_warning_def
      by (auto elim!: web_bind_cases split: prod.splits)
  qed
  from run show ?thesis
    unfolding classify_login_def Let_def
    by (auto elim!: web_bind_cases dest: cont split: if_splits prod.splits)
qed

text \<open>The log of a login: the credentials in its first part, blank forms in its second.\<close>

definition login_log ::
    "('a) page_library_scheme \<Rightarrow> ('c, 'x) ouc_world_scheme \<Rightarrow> ('c, 'x) ouc_world_scheme \<Rightarrow> bool" where
  "login_log pl w w' \<longleftrightarrow>
     (\<exists>before after. ow_sent w' = ow_sent w @ before @ after \<and> one_login_post pl before \<and>
        (\<forall>q\<in>set after. allowed_target pl (rq_url q) \<and> blank_password pl q))"

lemma one_login_post_quiet:
  assumes "\<forall>q\<in>set a. allowed_target pl (rq_url q) \<and> rq_body q = ''''" and "one_login_post pl b"
  shows "one_login_post pl (a @ b)"
proof -
  have "filter (\<lambda>q. rq_body q \<noteq> '''') a = []" using assms(1) by (simp add: filter_empty_conv)
  with assms show ?thesis by (auto simp: one_login_post_def)
qed

lemma login_log_posted:
  assumes "sends pl no_body w w1" and "\<exists>s. ow_sent w2 = ow_sent w1 @ s \<and> one_login_post pl s"
  shows "login_log pl w w2"
proof -
  from assms obtain a b where "ow_sent w2 = ow_sent w @ a @ b" "one_login_post pl b"
    "\<forall>q\<in>set a. allowed_target pl (rq_url q) \<and> rq_body q = ''''"
    by (auto simp: sends_def no_body_def)
  then show ?thesis
    unfolding login_log_def
    by (intro exI [of _ "a @ b"] exI [of _ "[]"]) (simp add: one_login_post_quiet)
qed

lemma login_log_quiet: "sends pl no_body w w1 \<Longrightarrow> login_log pl w w1"
  by (rule login_log_posted) (auto simp: one_login_post_def intro: exI [of _ "[]"])

lemma login_log_classified:
  assumes "login_log pl w w1" and "sends pl (blank_password pl) w1 w2"
  shows "login_log pl w w2"
proof -
  from assms obtain a b d where "ow_sent w2 = ow_sent w @ a @ b @ d" "one_login_post pl a"
    "\<forall>q\<in>set (b @ d). allowed_target pl (rq_url q) \<and> blank_password pl q"
    unfolding sends_def login_log_def by (auto simp: ball_Un)
  then show ?thesis
    unfolding login_log_def by (intro exI [of _ a] exI [of _ "b @ d"]) simp
qed

lemma authenticate_log:
  assumes law: "url_text_law pl" and login: "ul_parse pl (oc_sso_login_url c) = Some login"
    "allowed_target pl login"
    and run: "authenticate pl env c cx student_no password w = (w', jar', r)"
  shows "login_log pl w w'"
proof (cases "we_client env")
  case (Inl e)
  with run login_log_quiet [of pl w w] show ?thesis by (simp add: authenticate_def)
next
  case (Inr x)
  note page = login_page_sends [OF law login]
  note quiet = login_log_quiet [OF page]
    and posted = login_log_posted [OF page submit_credentials_sends [OF law]]
  note classified = login_log_classified [OF posted classify_login_sends [OF law]]
  from run Inr show ?thesis
    unfolding authenticate_def Let_def Inr sum.case
    by (auto elim!: web_bind_cases split: if_splits sum.splits prod.splits)
      (blast intro: quiet posted classified)+
qed

text \<open>
  C36: the password leaves the program at most once per login, in the body of one POST request to
  the login host over https, which is not repeated on a redirect. Every other request of the login
  has no body, or (the answer to the warning of an expiring password, sent after it) a form whose
  user name and password are empty; and every request of the login goes to one of the four known
  hosts over https. This holds whatever the pages, forms and redirects of the servers say.
\<close>

theorem password_leaves_once:
  assumes law: "url_text_law pl" and login: "ul_parse pl (oc_sso_login_url c) = Some login"
    "allowed_target pl login"
    and run: "authenticate pl env c cx student_no password w = (w', jar', r)"
  shows "\<exists>before after. ow_sent w' = ow_sent w @ before @ after \<and>
     (\<forall>q\<in>set (before @ after). wu_scheme (rq_url q) = ''https'' \<and>
        allowed_ouc_host (url_library.truncate pl) (url_hostname (rq_url q))) \<and>
     length (filter (\<lambda>q. rq_body q \<noteq> '''') before) \<le> 1 \<and>
     (\<forall>q\<in>set before. rq_body q \<noteq> '''' \<longrightarrow>
        rq_method q = ''POST'' \<and> url_hostname (rq_url q) = ''id.ouc.edu.cn'') \<and>
     (\<forall>q\<in>set after. rq_body q = '''' \<or>
        (\<exists>vs. rq_body q = pl_encode pl vs \<and> values_get vs ''password'' = '''' \<and>
           values_get vs ''username'' = ''''))"
proof -
  from authenticate_log [OF assms] obtain before after where
    log: "ow_sent w' = ow_sent w @ before @ after" "one_login_post pl before"
      "\<forall>q\<in>set after. allowed_target pl (rq_url q) \<and> blank_password pl q"
    unfolding login_log_def by blast
  show ?thesis
    by (intro exI [of _ before] exI [of _ after] conjI)
      (use log in \<open>auto simp: one_login_post_def allowed_target_def blank_password_def
         host_identity_def\<close>)
qed

section \<open>A login\<close>

text \<open>A concrete site: its URLs, one login form, and servers that answer a login with a hand-off.\<close>

definition site_url :: "string \<Rightarrow> web_url" where
  "site_url host = \<lparr>wu_scheme = ''https'', wu_host = host, wu_user = False, wu_path = ''/'',
     wu_raw_query = '''', wu_fragment = ''''\<rparr>"

definition site_form :: html_node where
  "site_form = HtmlNode DocumentNode '''' []
     [HtmlNode ElementNode ''form'' [(''action'', ''https://id.ouc.edu.cn/'')]
        [HtmlNode ElementNode ''input'' [(''name'', ''flowId''), (''value'', ''f1'')] []]]"

definition site_parse :: "string \<Rightarrow> web_url option" where
  "site_parse t =
     (if t = ''https://id.ouc.edu.cn/'' then Some (site_url host_identity)
      else if t = ''https://my.ouc.edu.cn/'' then Some (site_url host_portal)
      else if t = ''https://pgs.ouc.edu.cn/'' then Some (site_url host_graduate)
      else None)"

definition site_string :: "web_url \<Rightarrow> string" where
  "site_string u =
     (if wu_host u = host_identity then ''https://id.ouc.edu.cn/''
      else if wu_host u = host_portal then ''https://my.ouc.edu.cn/''
      else if wu_host u = host_graduate then ''https://pgs.ouc.edu.cn/'' else ''?'')"

definition site_library :: page_library where
  "site_library =
     \<lparr>ul_parse = site_parse, ul_string = site_string, ul_lower = (\<lambda>s. s),
      pl_html = (\<lambda>t. if has_prefix t ''var ssoConfig ='' then Some site_form else None),
      pl_equal_fold = (\<lambda>s t. s = t), pl_json_error = (\<lambda>_. Inr None),
      pl_json_text = (\<lambda>_. Inr ''''), pl_json_security = (\<lambda>_. Inr (False, '''')),
      pl_json_portal = (\<lambda>_. Inl (Opaque ''json'')), pl_json_valid = (\<lambda>_. True),
      pl_json_object = (\<lambda>_. Inr ''{}''), pl_base64 = (\<lambda>s. Inr s), pl_sm2_key = (\<lambda>s. Inr s),
      pl_sm2_encrypt = (\<lambda>n key p. Inr p), pl_base64_text = (\<lambda>s. s), pl_resolve = (\<lambda>b r. r),
      pl_query = (\<lambda>_. []),
      pl_encode = (\<lambda>vs. concat (map (\<lambda>(k, v). k @ ''='' @ concat v @ ''&'') vs)),
      pl_escaped_path = wu_path, pl_path_escape = (\<lambda>s. s)\<rparr>"

definition site_env :: "(string \<times> string, unit) web_env" where
  "site_env = store_env.extend quiet_env
     (web_env.fields
        (\<lambda>n _. Inr (if n = 0 then \<lparr>rs_status = 200, rs_location = '''', rs_cookies = [],
                                   rs_body = ''var ssoConfig = 1'', rs_failure = None\<rparr>
                    else if n = 1 then \<lparr>rs_status = 302, rs_location = ''https://my.ouc.edu.cn/'',
                                   rs_cookies = [], rs_body = '''', rs_failure = None\<rparr>
                    else \<lparr>rs_status = 200, rs_location = '''', rs_cookies = [], rs_body = ''home'',
                          rs_failure = None\<rparr>))
        (\<lambda>_. False)
        \<lparr>jl_get = (\<lambda>_ _. []), jl_set = (\<lambda>_ _ _. ()), jl_empty = (), jl_valid = (\<lambda>_. True),
         jl_range = (\<lambda>rs. rs)\<rparr>
        (Inr ()))"

definition site_config :: ouc_config where
  "site_config = sample_config\<lparr>oc_sso_login_url := ''https://id.ouc.edu.cn/''\<rparr>"

definition site_world :: "(string \<times> string) ouc_world" where
  "site_world = \<lparr>w_step = 0, w_redis = empty_redis, ow_sent = []\<rparr>"

lemma site_law: "url_text_law site_library"
  by (auto simp: url_text_law_def site_library_def allowed_target_def site_string_def site_parse_def
      site_url_def split: if_splits)

lemma site_login: "ul_parse site_library (oc_sso_login_url site_config) = Some (site_url host_identity)"
  "allowed_target site_library (site_url host_identity)"
  by (simp_all add: site_library_def site_config_def site_parse_def allowed_target_def site_url_def
      url_hostname_def host_samples allowed_identity)

lemma site_step:
  "we_response site_env 0 rq = Inr \<lparr>rs_status = 200, rs_location = '''', rs_cookies = [],
     rs_body = ''var ssoConfig = 1'', rs_failure = None\<rparr>"
  "jl_get (we_jar site_env) j u = []"
  by (simp_all add: site_env_def store_env.defs web_env.defs)

theorem page_requests_end_witness:
  "ow_sent (fst (request_page site_library site_env site_config background ''GET''
      ''https://id.ouc.edu.cn/'' '''' '''' no_options site_world (new_jar (we_jar site_env)))) \<noteq> [] \<and>
   w_step (fst (request_page site_library site_env site_config background ''GET''
      ''https://id.ouc.edu.cn/'' '''' '''' no_options site_world (new_jar (we_jar site_env)))) \<le> 10"
proof -
  let ?r = "request_page site_library site_env site_config background ''GET''
      ''https://id.ouc.edu.cn/'' '''' '''' no_options site_world (new_jar (we_jar site_env))"
  have r: "?r = (fst ?r, fst (snd ?r), snd (snd ?r))" by simp
  have "ow_sent (fst ?r) \<noteq> []"
    by (simp add: request_page_def http_do.simps send_request_def site_world_def site_step
        with_cookies_def next_request_def redirect_behaviour_def site_library_def site_parse_def Let_def)
  moreover have "w_step site_world = 0" by (simp add: site_world_def)
  ultimately show ?thesis using page_requests_end [OF r] by auto
qed

theorem password_leaves_once_witness:
  "\<exists>before after. ow_sent (fst (authenticate site_library site_env site_config background ''s1'' ''pw''
       site_world)) = before @ after \<and> length (filter (\<lambda>q. rq_body q \<noteq> '''') before) \<le> 1 \<and>
     list_all (\<lambda>q. wu_scheme (rq_url q) = ''https'') (before @ after)"
proof -
  let ?r = "authenticate site_library site_env site_config background ''s1'' ''pw'' site_world"
  have r: "?r = (fst ?r, fst (snd ?r), snd (snd ?r))" by simp
  have "ow_sent site_world = []" by (simp add: site_world_def)
  with password_leaves_once [OF site_law site_login r] show ?thesis by (auto simp: list_all_iff)
qed

section \<open>Redirects of a POST\<close>

text \<open>
  C38: the client means to refuse 307 and 308, which repeat a POST with its body, but it looks at the
  response that caused the \<^emph>\<open>last\<close> request, and a request nobody redirected has none: the first 307
  of a POST is followed, and the body goes out a second time, to whichever of the four hosts the
  redirect names. Only the POST with the credentials is safe, because its request stops at any
  redirect.
\<close>

theorem post_is_replayed_on_307:
  assumes posts: "rq_method rq = ''POST''" "rq_cause rq = None"
    and opts: "\<not> po_stop_post_redirect opts" "po_stop_outside_host opts = ''''"
    and first: "we_response env (w_step w) (with_cookies (we_jar env) jar rq) = Inr rs"
      "rs_status rs \<in> {307, 308}" "ul_parse pl (rs_location rs) = Some ref" "rs_location rs \<noteq> ''''"
    and target: "allowed_target pl (pl_resolve pl (rq_url rq) ref)"
    and run: "http_do pl env opts rq [] w jar = (w', jar', r)"
  shows "\<exists>p q sent. ow_sent w' = ow_sent w @ p # q # sent \<and> rq_method q = ''POST'' \<and>
     rq_body q = rq_body rq \<and> rq_body p = rq_body rq \<and> rq_cause q \<in> {Some 307, Some 308} \<and>
     rq_url q = pl_resolve pl (rq_url rq) ref"
proof -
  let ?p = "with_cookies (we_jar env) jar rq"
  let ?u = "pl_resolve pl (rq_url rq) ref"
  define q where "q = \<lparr>rq_method = ''POST'', rq_url = ?u, rq_body = rq_body rq,
     rq_headers = rq_headers rq, rq_cookies = [], rq_cause = Some (rs_status rs)\<rparr>"
  have p: "rq_method ?p = ''POST''" "rq_cause ?p = None" "rq_url ?p = rq_url rq"
    "rq_body ?p = rq_body rq" "rq_headers ?p = rq_headers rq"
    using posts by (simp_all add: with_cookies_def)
  have "rewrite_legacy_sso_redirect pl ?u = None"
    using target by (simp add: rewrite_legacy_sso_redirect_def allowed_target_def)
  then have "check_redirect pl ?u [?p] = Follow ?u"
    using target p by (simp add: check_redirect_def allowed_target_def)
  then have n: "next_request pl opts ?p rs [?p] = Inr (Some q)"
    using first p opts by (auto simp: next_request_def redirect_behaviour_def page_check_redirect_def q_def)
  obtain w1 jar1 where sent: "send_request (url_library.truncate pl) env ?p w jar = (w1, jar1, Inr rs)"
    using first(1) by (simp add: send_request_def Let_def)
  have "http_do pl env opts q [?p] w1 jar1 = (w', jar', r)"
    using run sent n by (simp add: http_do.simps [of pl env opts rq] Let_def)
  from http_do_log [OF this] obtain s where
    "ow_sent w' = ow_sent w1 @ s" "page_log pl q s" by blast
  moreover have "ow_sent w1 = ow_sent w @ [?p]" using send_request_log [OF sent] by simp
  moreover obtain q' s' where "s = q' # s'" using \<open>page_log pl q s\<close> by (cases s) (auto simp: page_log_def)
  ultimately show ?thesis
    using p first(2) by (intro exI [of _ ?p] exI [of _ q'] exI [of _ s']) (auto simp: page_log_def q_def)
qed

definition replay_env :: "(string \<times> string, unit) web_env" where
  "replay_env = site_env\<lparr>we_response := (\<lambda>n _. Inr (if n = 0
     then \<lparr>rs_status = 307, rs_location = ''https://pgs.ouc.edu.cn/'', rs_cookies = [],
           rs_body = '''', rs_failure = None\<rparr>
     else \<lparr>rs_status = 200, rs_location = '''', rs_cookies = [], rs_body = ''home'',
           rs_failure = None\<rparr>))\<rparr>"

definition replay_request :: http_request where
  "replay_request = \<lparr>rq_method = ''POST'', rq_url = site_url host_identity, rq_body = ''continue=1'',
     rq_headers = [], rq_cookies = [], rq_cause = None\<rparr>"

theorem post_is_replayed_on_307_witness:
  "\<exists>p q sent. ow_sent (fst (http_do site_library replay_env no_options replay_request [] site_world
      (new_jar (we_jar replay_env)))) = p # q # sent \<and> rq_body q = ''continue=1'' \<and>
     rq_url q = site_url host_graduate"
proof -
  let ?r = "http_do site_library replay_env no_options replay_request [] site_world
      (new_jar (we_jar replay_env))"
  let ?rs = "\<lparr>rs_status = 307, rs_location = ''https://pgs.ouc.edu.cn/'', rs_cookies = [],
     rs_body = '''', rs_failure = None\<rparr>"
  have r: "?r = (fst ?r, fst (snd ?r), snd (snd ?r))" by simp
  have m: "rq_method replay_request = ''POST''" "rq_cause replay_request = None"
    by (simp_all add: replay_request_def)
  have o: "\<not> po_stop_post_redirect no_options" "po_stop_outside_host no_options = ''''"
    by (simp_all add: no_options_def)
  have f: "we_response replay_env (w_step site_world)
      (with_cookies (we_jar replay_env) (new_jar (we_jar replay_env)) replay_request) = Inr ?rs"
    by (simp add: replay_env_def site_world_def)
  have l: "rs_status ?rs \<in> {307, 308}" "ul_parse site_library (rs_location ?rs) = Some (site_url host_graduate)"
    "rs_location ?rs \<noteq> ''''"
    by (simp_all add: site_library_def site_parse_def)
  have t: "allowed_target site_library (pl_resolve site_library (rq_url replay_request) (site_url host_graduate))"
    by (simp add: site_library_def allowed_target_def site_url_def url_hostname_def host_samples
        allowed_ouc_host_def lower_samples)
  from post_is_replayed_on_307 [OF m o f l t r] show ?thesis
    by (auto simp: site_world_def replay_request_def site_library_def)
qed

end
