(* ===== verification/OucProvider.thy ===== *)
theory OucProvider
  imports OucRequest OucCredentials
begin

text \<open>
  The provider of the OUC adapter (\<^verbatim>\<open>ouc/provider.go\<close>): the session of a query (a saved cookie of the
  target system, the hand-off from a saved identity, a login), the query with its second attempt, the
  pages of the course catalog, the operations of \<^verbatim>\<open>application.Provider\<close> and \<^verbatim>\<open>Verify\<close>. A session is
  its cookie jar. What a call of \<^verbatim>\<open>singleflight\<close> meets is an oracle: \<open>op_flight n\<close> is the result another
  request's recovery hands to the call made at step \<open>n\<close>, and nothing when the call runs its own. A
  caller waits for the recovery it runs; when its context is done as well, \<open>op_abandon\<close> says which of
  the two ready cases its \<^verbatim>\<open>select\<close> takes. Traces, observers and diagnostic captures are not modelled.
\<close>

section \<open>The provider\<close>

datatype session_store_kind = NoStore | UnscopedStore | ScopedStore

record ('c, 'j) ouc_provider =
  op_library :: page_library
  op_codec :: "'c session_codec"
  op_env :: "('c, 'j) web_env"
  op_store :: session_store_kind
  op_config :: "(nat \<Rightarrow> config_snapshot) option"
  op_adapters :: "string \<rightharpoonup> system_adapter"
  op_parsers :: page_parsers
  op_formats :: text_formats
  op_flight :: "nat \<Rightarrow> (err \<times> bool + session_state) option"
  op_abandon :: "nat \<Rightarrow> bool"

definition op_urls :: "('c, 'j, 'p) ouc_provider_scheme \<Rightarrow> url_library" where
  "op_urls p = url_library.truncate (op_library p)"

definition op_clock :: "('c, 'j, 'p) ouc_provider_scheme \<Rightarrow> ('c, 'x) ouc_world_scheme clock" where
  "op_clock p = web_clock (op_env p)"

definition op_now :: "('c, 'j, 'p) ouc_provider_scheme \<Rightarrow> ('c, 'x) ouc_world_scheme \<Rightarrow> gotime" where
  "op_now p w = se_now (op_env p) (w_step w)"

definition provider_config ::
    "('c, 'j, 'p) ouc_provider_scheme \<Rightarrow> ('c, 'x) ouc_world_scheme \<Rightarrow> err + ouc_config" where
  "provider_config p w =
     (case op_config p of
        None \<Rightarrow> Inl (Sentinel VErrProviderUnavailable)
      | Some resolve \<Rightarrow>
          if cs_active (resolve (w_step w)) \<noteq> provider_ouc then Inl (Sentinel VErrProviderUnavailable)
          else Inr (cs_ouc (resolve (w_step w))))"

section \<open>Saving and deleting sessions\<close>

text \<open>\<^verbatim>\<open>sessionOrigins\<close>: the URLs whose cookies a session without scope is made of.\<close>

definition origin_texts :: "('a) page_library_scheme \<Rightarrow> ouc_config \<Rightarrow> string list" where
  "origin_texts pl c =
     [oc_sso_login_url c, oc_portal_service_url c, es_service_url (oc_undergraduate c),
      es_service_url (oc_graduate c)] @
     concat (map (\<lambda>e. case ul_parse pl (es_service_url e) of
         None \<Rightarrow> []
       | Some base \<Rightarrow> concat (map (\<lambda>o'.
           case ul_parse pl (replace_all period_mark ''session'' (oe_path o')) of
             None \<Rightarrow> []
           | Some ref \<Rightarrow> [ul_string pl (pl_resolve pl base ref)])
           [es_periods e, es_courses e, es_courses_fallback e, es_grades e, es_exams e,
            es_selections e, es_course_catalog e]))
       [oc_undergraduate c, oc_graduate c])"

definition origin_of :: "('a) page_library_scheme \<Rightarrow> string \<Rightarrow> web_url list" where
  "origin_of pl raw =
     (case ul_parse pl raw of
        None \<Rightarrow> []
      | Some u \<Rightarrow>
          if allowed_target pl u then [u\<lparr>wu_raw_query := '''', wu_fragment := ''''\<rparr>] else [])"

definition session_origins :: "('a) page_library_scheme \<Rightarrow> ouc_config \<Rightarrow> web_url list" where
  "session_origins pl c = append_unique (ul_string pl) {} (concat (map (origin_of pl) (origin_texts pl c)))"

definition snapshot_session ::
    "('a) page_library_scheme \<Rightarrow> 'j jar_library \<Rightarrow> ouc_config \<Rightarrow> 'j cookie_jar \<Rightarrow> err + session_state"
where
  "snapshot_session pl jl c jar =
     (let sets = concat (map (\<lambda>u.
            let cookies = jl_get jl (cj_base jar) u
            in if cookies = [] then []
               else [\<lparr>kset_url = ul_string pl u, kset_cookies = map (\<lambda>(name, value).
                        \<lparr>sc_name = name, sc_value = value, sc_domain = '''', sc_path = '''',
                         sc_expires_at = 0\<rparr>) cookies\<rparr>])
            (session_origins pl c));
          st = \<lparr>sst_version = 1, sst_sets = sets, sst_validated_at = 0\<rparr>
      in case validate_session_state (url_library.truncate pl) st of Some e \<Rightarrow> Inl e | None \<Rightarrow> Inr st)"

text \<open>Saving and deleting are best effort: their errors are only traced.\<close>

definition save_unscoped ::
    "('c, 'j, 'p) ouc_provider_scheme \<Rightarrow> ouc_config \<Rightarrow> string \<Rightarrow> string \<Rightarrow> 'j cookie_jar \<Rightarrow>
     ('c, 'x) ouc_world_scheme \<Rightarrow> ('c, 'x) ouc_world_scheme" where
  "save_unscoped p c student_no password jar w =
     (if op_store p = NoStore then w
      else case snapshot_session (op_library p) (we_jar (op_env p)) c jar of
             Inl _ \<Rightarrow> w
           | Inr st \<Rightarrow>
               fst (save_session (op_urls p) (op_codec p) (op_env p) student_no password st
                      (session_ttl c) w))"

definition save_identity_session ::
    "('c, 'j, 'p) ouc_provider_scheme \<Rightarrow> ouc_config \<Rightarrow> string \<Rightarrow> string \<Rightarrow> 'j cookie_jar \<Rightarrow>
     ('c, 'x) ouc_world_scheme \<Rightarrow> ('c, 'x) ouc_world_scheme \<times> 'j cookie_jar" where
  "save_identity_session p c student_no password jar w =
     (if op_store p \<noteq> ScopedStore then (save_unscoped p c student_no password jar w, jar)
      else case snapshot_session_scope (op_urls p) (we_jar (op_env p)) (op_now p w) scope_identity 0 jar of
             (jar', Inl _) \<Rightarrow> (w, jar')
           | (jar', Inr st) \<Rightarrow>
               (fst (save_scope (op_urls p) (op_codec p) (op_env p) student_no password scope_identity
                       st (sso_session_ttl c) w), jar'))"

definition save_target_session ::
    "('c, 'j, 'p) ouc_provider_scheme \<Rightarrow> ouc_config \<Rightarrow> string \<Rightarrow> string \<Rightarrow> string \<Rightarrow> 'j cookie_jar \<Rightarrow>
     ('c, 'x) ouc_world_scheme \<Rightarrow> ('c, 'x) ouc_world_scheme \<times> 'j cookie_jar" where
  "save_target_session p c student_no password scope jar w =
     (if op_store p \<noteq> ScopedStore then (save_unscoped p c student_no password jar w, jar)
      else case snapshot_session_scope (op_urls p) (we_jar (op_env p)) (op_now p w) scope (op_now p w) jar of
             (jar', Inl _) \<Rightarrow> (w, jar')
           | (jar', Inr st) \<Rightarrow>
               (let level = (if scope = scope_graduate then education_level_graduate
                             else education_level_undergraduate)
                in (fst (save_scope (op_urls p) (op_codec p) (op_env p) student_no password scope st
                           (target_session_ttl c level) w), jar')))"

definition delete_unscoped ::
    "('c, 'j, 'p) ouc_provider_scheme \<Rightarrow> credential \<Rightarrow> ('c, 'x) ouc_world_scheme \<Rightarrow>
     ('c, 'x) ouc_world_scheme" where
  "delete_unscoped p cred w =
     (if op_store p = NoStore then w
      else fst (delete_session (op_codec p) (op_env p) (cr_student_no cred) (cr_password cred) w))"

definition delete_target_session ::
    "('c, 'j, 'p) ouc_provider_scheme \<Rightarrow> credential \<Rightarrow> string \<Rightarrow> ('c, 'x) ouc_world_scheme \<Rightarrow>
     ('c, 'x) ouc_world_scheme" where
  "delete_target_session p cred scope w =
     (if op_store p = ScopedStore
      then fst (delete_scope (op_codec p) (op_env p) (cr_student_no cred) (cr_password cred) scope w)
      else delete_unscoped p cred w)"

definition delete_identity_session ::
    "('c, 'j, 'p) ouc_provider_scheme \<Rightarrow> credential \<Rightarrow> ('c, 'x) ouc_world_scheme \<Rightarrow>
     ('c, 'x) ouc_world_scheme" where
  "delete_identity_session p cred w = delete_target_session p cred scope_identity w"

section \<open>The session of a target system\<close>

definition restored ::
    "('c, 'j, 'p) ouc_provider_scheme \<Rightarrow> session_state \<Rightarrow> ('c, 'x) ouc_world_scheme \<Rightarrow>
     err + 'j cookie_jar" where
  "restored p st w =
     restore_session (op_urls p) (we_jar (op_env p)) (we_client (op_env p)) (op_now p w) st"

text \<open>The saved cookie of the target, when it can still be used.\<close>

definition load_target_session ::
    "('c, 'j, 'p) ouc_provider_scheme \<Rightarrow> ouc_config \<Rightarrow> go_ctx \<Rightarrow> credential \<Rightarrow> string \<Rightarrow>
     ('c, 'x) ouc_world_scheme \<Rightarrow> ('c, 'x) ouc_world_scheme \<times> (err + 'j cookie_jar option)" where
  "load_target_session p c cx cred scope w =
     (case load_scope (op_urls p) (op_codec p) (op_env p) (cr_student_no cred) (cr_password cred) scope w of
        (w1, Inl e) \<Rightarrow>
          if errors_is e ErrInvalidCachedSession
          then (delete_target_session p cred scope w1, Inr None)
          else (w1, case context_err (op_clock p) cx w1 of Some x \<Rightarrow> Inl x | None \<Rightarrow> Inr None)
      | (w1, Inr None) \<Rightarrow> (w1, Inr None)
      | (w1, Inr (Some st)) \<Rightarrow>
          (case restored p st w1 of
             Inl _ \<Rightarrow> (delete_target_session p cred scope w1, Inr None)
           | Inr jar \<Rightarrow>
               if scope \<noteq> scope_undergraduate then (w1, Inr (Some jar))
               else if 0 < sst_validated_at st \<and>
                       op_now p w1 - of_unix_milli (sst_validated_at st) \<le> undergraduate_validation_window c
               then (w1, Inr (Some jar))
               else case probe_undergraduate_session (op_library p) (op_env p) c cx w1 jar of
                      (w2, jar2, Inl e) \<Rightarrow> (w2, Inl e)
                    | (w2, jar2, Inr valid) \<Rightarrow>
                        if \<not> valid then (delete_target_session p cred scope w2, Inr None)
                        else (let (w3, jar3) = save_target_session p c (cr_student_no cred)
                                    (cr_password cred) scope jar2 w2
                              in (w3, Inr (Some jar3)))))"

text \<open>A login, and the hand-off to the target.\<close>

definition login_to_target ::
    "('c, 'j, 'p) ouc_provider_scheme \<Rightarrow> ouc_config \<Rightarrow> go_ctx \<Rightarrow> credential \<Rightarrow> string \<Rightarrow> string \<Rightarrow>
     ('c, 'x) ouc_world_scheme \<Rightarrow> ('c, 'x) ouc_world_scheme \<times> (err + 'j cookie_jar)" where
  "login_to_target p c cx cred scope service_url w =
     (case authenticate (op_library p) (op_env p) c cx (cr_student_no cred) (cr_password cred) w of
        (w1, jar, Inl e) \<Rightarrow> (w1, Inl e)
      | (w1, jar, Inr _) \<Rightarrow>
          (let (w2, jar2) = save_identity_session p c (cr_student_no cred) (cr_password cred) jar w1
           in case access_service (op_library p) (op_env p) c cx service_url w2 jar2 of
                (w3, jar3, Inl e) \<Rightarrow> (w3, Inl e)
              | (w3, jar3, Inr access) \<Rightarrow>
                  if access \<noteq> Granted then (w3, Inl (Sentinel VErrProviderUnavailable))
                  else (let (w4, jar4) = save_target_session p c (cr_student_no cred)
                              (cr_password cred) scope jar3 w3
                        in (w4, Inr jar4))))"

definition recover_target_session ::
    "('c, 'j, 'p) ouc_provider_scheme \<Rightarrow> ouc_config \<Rightarrow> go_ctx \<Rightarrow> credential \<Rightarrow> string \<Rightarrow> string \<Rightarrow>
     ('c, 'x) ouc_world_scheme \<Rightarrow> ('c, 'x) ouc_world_scheme \<times> (err + 'j cookie_jar)" where
  "recover_target_session p c cx cred scope service_url w =
     (case load_scope (op_urls p) (op_codec p) (op_env p) (cr_student_no cred) (cr_password cred)
             scope_identity w of
        (w1, Inl e) \<Rightarrow>
          if errors_is e ErrInvalidCachedSession
          then login_to_target p c cx cred scope service_url (delete_identity_session p cred w1)
          else (case context_err (op_clock p) cx w1 of
                  Some x \<Rightarrow> (w1, Inl x)
                | None \<Rightarrow> login_to_target p c cx cred scope service_url w1)
      | (w1, Inr None) \<Rightarrow> login_to_target p c cx cred scope service_url w1
      | (w1, Inr (Some identity)) \<Rightarrow>
          (case restored p identity w1 of
             Inl _ \<Rightarrow> login_to_target p c cx cred scope service_url (delete_identity_session p cred w1)
           | Inr jar \<Rightarrow>
               (case access_service (op_library p) (op_env p) c cx service_url w1 jar of
                  (w2, jar2, Inl e) \<Rightarrow> (w2, Inl e)
                | (w2, jar2, Inr Granted) \<Rightarrow>
                    (let (w3, jar3) = save_target_session p c (cr_student_no cred) (cr_password cred)
                           scope jar2 w2
                     in (w3, Inr jar3))
                | (w2, jar2, Inr TargetRejected) \<Rightarrow> (w2, Inl (Sentinel VErrProviderUnavailable))
                | (w2, jar2, Inr IdentityRejected) \<Rightarrow>
                    login_to_target p c cx cred scope service_url (delete_identity_session p cred w2))))"

section \<open>Recovery shared by concurrent requests\<close>

text \<open>The context of a recovery, and whether the caller's deadline bounds it.\<close>

definition detached_context ::
    "('w) clock \<Rightarrow> go_ctx \<Rightarrow> duration \<Rightarrow> 'w \<Rightarrow> go_ctx \<times> bool" where
  "detached_context ck cx timeout w =
     (let own = ck_now ck w + timeout
      in case cx_deadline cx of
           None \<Rightarrow> (\<lparr>cx_deadline = Some own, cx_cancelled = (\<lambda>_. False)\<rparr>, False)
         | Some d \<Rightarrow>
             if d < own then (\<lparr>cx_deadline = Some d, cx_cancelled = (\<lambda>_. False)\<rparr>, True)
             else (\<lparr>cx_deadline = Some own, cx_cancelled = (\<lambda>_. False)\<rparr>, False))"

text \<open>What the leader hands to everyone: the state, or the error with \<^verbatim>\<open>callerDeadlineExpired\<close>.\<close>

definition lead_recovery ::
    "('c, 'j, 'p) ouc_provider_scheme \<Rightarrow> ouc_config \<Rightarrow> go_ctx \<Rightarrow> credential \<Rightarrow> string \<Rightarrow> string \<Rightarrow>
     ('c, 'x) ouc_world_scheme \<Rightarrow> ('c, 'x) ouc_world_scheme \<times> (err \<times> bool + session_state)" where
  "lead_recovery p c cx cred scope service_url w =
     (let (rcx, bound) = detached_context (op_clock p) cx (request_timeout c) w;
          failed = (\<lambda>e w'. (w', Inl (e, bound \<and> is_err (context_err (op_clock p) rcx w') DeadlineExceeded)));
          hand_out = (\<lambda>jar w'.
            case snd (snapshot_for_recovery (op_urls p) (we_jar (op_env p)) (op_now p w') scope jar) of
              Inl e \<Rightarrow> failed e w'
            | Inr st \<Rightarrow> (w', Inr st))
      in case load_target_session p c rcx cred scope w of
           (w1, Inl e) \<Rightarrow> failed e w1
         | (w1, Inr (Some jar)) \<Rightarrow> hand_out jar w1
         | (w1, Inr None) \<Rightarrow>
             (case recover_target_session p c rcx cred scope service_url w1 of
                (w2, Inl e) \<Rightarrow> failed e w2
              | (w2, Inr jar) \<Rightarrow> hand_out jar w2))"

text \<open>A call of the group: it waits for another request's recovery, or runs its own.\<close>

definition join_recovery ::
    "('c, 'j, 'p) ouc_provider_scheme \<Rightarrow> ouc_config \<Rightarrow> go_ctx \<Rightarrow> credential \<Rightarrow> string \<Rightarrow> string \<Rightarrow>
     ('c, 'x) ouc_world_scheme \<Rightarrow>
     ('c, 'x) ouc_world_scheme \<times> bool \<times> (err \<times> bool + session_state)" where
  "join_recovery p c cx cred scope service_url w =
     (case op_flight p (w_step w) of
        Some r \<Rightarrow> (w\<lparr>w_step := w_step w + 1\<rparr>, True, r)
      | None \<Rightarrow>
          (let (w', r) = lead_recovery p c cx cred scope service_url w in (w', False, r)))"

definition max_recovery_elections :: nat where "max_recovery_elections = 2"

primrec elect ::
    "('c, 'j, 'p) ouc_provider_scheme \<Rightarrow> ouc_config \<Rightarrow> go_ctx \<Rightarrow> credential \<Rightarrow> string \<Rightarrow> string \<Rightarrow>
     nat \<Rightarrow> ('c, 'x) ouc_world_scheme \<Rightarrow> ('c, 'x) ouc_world_scheme \<times> (err + 'j cookie_jar)" where
  "elect p c cx cred scope service_url 0 w = (w, Inl (Sentinel VErrProviderUnavailable))"
| "elect p c cx cred scope service_url (Suc n) w =
     (let (w1, follower, r) = join_recovery p c cx cred scope service_url w;
          done = context_err (op_clock p) cx w1
      in if done \<noteq> None \<and> op_abandon p (w_step w1) then (w1, Inl (the done))
         else case r of
                Inl (e, timed_out) \<Rightarrow>
                  if Suc n = max_recovery_elections \<and> follower \<and> timed_out \<and>
                     errors_is e DeadlineExceeded \<and> done = None
                  then elect p c cx cred scope service_url n w1
                  else (w1, Inl e)
              | Inr st \<Rightarrow>
                  (w1, case restored p st w1 of
                         Inl _ \<Rightarrow> Inl (Sentinel VErrProviderUnavailable)
                       | Inr jar \<Rightarrow> Inr jar))"

section \<open>The session of a query\<close>

definition login_unscoped ::
    "('c, 'j, 'p) ouc_provider_scheme \<Rightarrow> ouc_config \<Rightarrow> go_ctx \<Rightarrow> credential \<Rightarrow> credential \<Rightarrow> string \<Rightarrow>
     ('c, 'x) ouc_world_scheme \<Rightarrow> ('c, 'x) ouc_world_scheme \<times> (err + 'j cookie_jar)" where
  "login_unscoped p c cx cred cache service_url w =
     (case authenticate (op_library p) (op_env p) c cx (cr_student_no cred) (cr_password cred) w of
        (w1, jar, Inl e) \<Rightarrow> (w1, Inl e)
      | (w1, jar, Inr _) \<Rightarrow>
          (case access_service (op_library p) (op_env p) c cx service_url w1 jar of
             (w2, jar2, Inl e) \<Rightarrow> (w2, Inl e)
           | (w2, jar2, Inr access) \<Rightarrow>
               if access \<noteq> Granted then (w2, Inl (Sentinel VErrProviderUnavailable))
               else (save_unscoped p c (cr_student_no cache) (cr_password cache) jar2 w2, Inr jar2)))"

definition session_for_legacy_query ::
    "('c, 'j, 'p) ouc_provider_scheme \<Rightarrow> ouc_config \<Rightarrow> go_ctx \<Rightarrow> credential \<Rightarrow> string \<Rightarrow>
     ('c, 'x) ouc_world_scheme \<Rightarrow> ('c, 'x) ouc_world_scheme \<times> (err + 'j cookie_jar)" where
  "session_for_legacy_query p c cx cred service_url w =
     (if op_store p = NoStore then login_unscoped p c cx cred cred service_url w
      else case load_session (op_urls p) (op_codec p) (op_env p) (cr_student_no cred) (cr_password cred) w of
             (w1, Inl _) \<Rightarrow> login_unscoped p c cx cred cred service_url w1
           | (w1, Inr None) \<Rightarrow> login_unscoped p c cx cred cred service_url w1
           | (w1, Inr (Some st)) \<Rightarrow>
               (case restored p st w1 of
                  Inl _ \<Rightarrow> login_unscoped p c cx cred cred service_url (delete_unscoped p cred w1)
                | Inr jar \<Rightarrow>
                    (case access_service (op_library p) (op_env p) c cx service_url w1 jar of
                       (w2, jar2, Inl e) \<Rightarrow> (w2, Inl e)
                     | (w2, jar2, Inr Granted) \<Rightarrow>
                         (save_unscoped p c (cr_student_no cred) (cr_password cred) jar2 w2, Inr jar2)
                     | (w2, jar2, Inr TargetRejected) \<Rightarrow> (w2, Inl (Sentinel VErrProviderUnavailable))
                     | (w2, jar2, Inr IdentityRejected) \<Rightarrow>
                         login_unscoped p c cx cred cred service_url (delete_unscoped p cred w2))))"

definition session_for_query ::
    "('c, 'j, 'p) ouc_provider_scheme \<Rightarrow> ouc_config \<Rightarrow> go_ctx \<Rightarrow> string \<Rightarrow> credential \<Rightarrow> string \<Rightarrow>
     ('c, 'x) ouc_world_scheme \<Rightarrow> ('c, 'x) ouc_world_scheme \<times> (err + 'j cookie_jar)" where
  "session_for_query p c cx level cred service_url w =
     (let scope = scope_for_level level
      in if op_store p \<noteq> ScopedStore then session_for_legacy_query p c cx cred service_url w
         else if \<not> valid_session_scope scope then (w, Inl (Sentinel VErrIdentityTypeMismatch))
         else case load_target_session p c cx cred scope w of
                (w1, Inl e) \<Rightarrow> (w1, Inl e)
              | (w1, Inr (Some jar)) \<Rightarrow> (w1, Inr jar)
              | (w1, Inr None) \<Rightarrow> elect p c cx cred scope service_url max_recovery_elections w1)"

definition session_for_catalog_query ::
    "('c, 'j, 'p) ouc_provider_scheme \<Rightarrow> ouc_config \<Rightarrow> go_ctx \<Rightarrow> credential \<Rightarrow> credential \<Rightarrow> string \<Rightarrow>
     string \<Rightarrow> ('c, 'x) ouc_world_scheme \<Rightarrow> ('c, 'x) ouc_world_scheme \<times> (err + 'j cookie_jar)" where
  "session_for_catalog_query p c cx cred cache level service_url w =
     (case op_store p of
        ScopedStore \<Rightarrow> session_for_query p c cx level cred service_url w
      | NoStore \<Rightarrow> login_unscoped p c cx cred cache service_url w
      | UnscopedStore \<Rightarrow>
          (case load_session (op_urls p) (op_codec p) (op_env p) (cr_student_no cache)
                  (cr_password cache) w of
             (w1, Inr (Some st)) \<Rightarrow>
               (case restored p st w1 of
                  Inr jar \<Rightarrow> (w1, Inr jar)
                | Inl _ \<Rightarrow> login_unscoped p c cx cred cache service_url (delete_unscoped p cache w1))
           | (w1, _) \<Rightarrow> login_unscoped p c cx cred cache service_url w1))"

section \<open>A query\<close>

record 'j query_page =
  qp_body :: string
  qp_encoding :: string
  qp_adapter :: system_adapter
  qp_fallback :: operation_endpoint
  qp_session :: "'j cookie_jar"
  qp_config :: ouc_config
  qp_url :: web_url

text \<open>
  What is made of the page a business request ended at. \<open>Rejected\<close> is the login page of the target
  or a page of the SSO: the session is dropped and the query starts over.
\<close>

datatype page_class = Challenged | Rejected | Misplaced | Broken | Accepted

definition classify_page ::
    "('a) page_library_scheme \<Rightarrow> operation_endpoint \<Rightarrow> web_url \<Rightarrow> web_url \<Rightarrow> string \<Rightarrow> page_class" where
  "classify_page pl e expected u body =
     (if fst (detect_interactive_challenge pl body) then Challenged
      else if wu_scheme u = ''https'' \<and> (url_hostname u = host_identity \<or> url_hostname u = host_portal)
      then Rejected
      else if wu_scheme u = ''https'' \<and> url_hostname u = url_hostname expected \<and>
              is_academic_login_page pl body then Rejected
      else if wu_scheme u \<noteq> ''https'' \<or> url_hostname u \<noteq> url_hostname expected then Misplaced
      else if oe_response_encoding e = ''json'' \<and> \<not> pl_json_valid pl body then Broken
      else Accepted)"

definition max_query_attempts :: nat where "max_query_attempts = 2"

text \<open>The attempts that are left; the request is its URL, its body and its content type.\<close>

primrec query_attempts ::
    "('c, 'j, 'p) ouc_provider_scheme \<Rightarrow> ouc_config \<Rightarrow> go_ctx \<Rightarrow> string \<Rightarrow> credential \<Rightarrow>
     system_adapter \<Rightarrow> operation_endpoint \<Rightarrow> operation_endpoint \<Rightarrow> string \<times> string \<times> string \<Rightarrow>
     web_url \<Rightarrow> nat \<Rightarrow> ('c, 'x) ouc_world_scheme \<Rightarrow>
     ('c, 'x) ouc_world_scheme \<times> (err + 'j query_page)" where
  "query_attempts p c cx level cred ad e fallback request expected 0 w =
     (w, Inl (Sentinel ErrProviderUnavailable))"
| "query_attempts p c cx level cred ad e fallback request expected (Suc n) w =
     (case session_for_query p c cx level cred (es_service_url (ad_endpoint ad c)) w of
        (w1, Inl x) \<Rightarrow> (w1, Inl (query_provider_error x))
      | (w1, Inr jar) \<Rightarrow>
          (let (url, payload, content_type) = request
           in case request_page (op_library p) (op_env p) c cx (oe_request_method e) url payload
                     content_type no_options w1 jar of
                (w2, jar2, Inl x) \<Rightarrow> (w2, Inl (query_provider_error x))
              | (w2, jar2, Inr (u, body, _)) \<Rightarrow>
                  (case classify_page (op_library p) e expected u body of
                     Challenged \<Rightarrow>
                       (delete_target_session p cred (scope_for_level level) w2,
                        Inl (Sentinel ErrChallengeRequired))
                   | Rejected \<Rightarrow>
                       (let w3 = delete_target_session p cred (scope_for_level level) w2
                        in if n = 0 then (w3, Inl (Sentinel ErrProviderUnavailable))
                           else query_attempts p c cx level cred ad e fallback request expected n w3)
                   | Misplaced \<Rightarrow> (w2, Inl (Sentinel ErrProviderUnavailable))
                   | Broken \<Rightarrow> (w2, Inl (Sentinel ErrProviderUnavailable))
                   | Accepted \<Rightarrow>
                       (w2, Inr \<lparr>qp_body = body, qp_encoding = oe_response_encoding e, qp_adapter = ad,
                                 qp_fallback = fallback, qp_session = jar2, qp_config = c,
                                 qp_url = u\<rparr>))))"

text \<open>\<^verbatim>\<open>queryWithOperationAndValues\<close>.\<close>

definition query_page_of ::
    "('c, 'j, 'p) ouc_provider_scheme \<Rightarrow> go_ctx \<Rightarrow> student_reference \<Rightarrow> credential \<Rightarrow> query_kind \<Rightarrow>
     string \<Rightarrow> operation_endpoint option \<Rightarrow> form_values \<Rightarrow> ('c, 'x) ouc_world_scheme \<Rightarrow>
     ('c, 'x) ouc_world_scheme \<times> (err + 'j query_page)" where
  "query_page_of p cx student cred kind period_id override vs w =
     (let level = sr_education_level student;
          failed = (w, Inl (Sentinel ErrProviderUnavailable))
      in case provider_config p w of
           Inl _ \<Rightarrow> failed
         | Inr c \<Rightarrow>
             (case op_adapters p level of
                None \<Rightarrow> failed
              | Some ad \<Rightarrow>
                  if sr_provider student \<noteq> provider_ouc then failed
                  else
                    (let endpoint = ad_endpoint ad c;
                         e = (case override of None \<Rightarrow> operation_for endpoint kind | Some o' \<Rightarrow> o');
                         fallback = (if override = None \<and> kind = QueryCourses
                                     then es_courses_fallback endpoint else no_operation)
                     in if trim_space (oe_path e) = '''' then failed
                        else case academic_request_with_values (op_library p)
                                    (es_service_url endpoint) e period_id vs of
                               Inl _ \<Rightarrow> failed
                             | Inr request \<Rightarrow>
                                 (case ul_parse (op_library p) (fst request) of
                                    None \<Rightarrow> failed
                                  | Some expected \<Rightarrow>
                                      query_attempts p c cx level cred ad e fallback request expected
                                        max_query_attempts w))))"

text \<open>
  Parsing a page: only one that parses refreshes the saved session of the target
  (\<^verbatim>\<open>onParseResult\<close>).
\<close>

definition parse_page ::
    "('c, 'j, 'p) ouc_provider_scheme \<Rightarrow> string \<Rightarrow> credential \<Rightarrow> 'j query_page \<Rightarrow> err + 'v \<Rightarrow>
     ('c, 'x) ouc_world_scheme \<Rightarrow> ('c, 'x) ouc_world_scheme \<times> (err + 'v)" where
  "parse_page p level cred page parsed w =
     (case parsed of
        Inl e \<Rightarrow> (w, Inl e)
      | Inr v \<Rightarrow>
          (fst (save_target_session p (qp_config page) (cr_student_no cred) (cr_password cred)
                  (scope_for_level level) (qp_session page) w), Inr v))"

definition query_and_parse ::
    "('c, 'j, 'p) ouc_provider_scheme \<Rightarrow> go_ctx \<Rightarrow> student_reference \<Rightarrow> credential \<Rightarrow> query_kind \<Rightarrow>
     string \<Rightarrow> operation_endpoint option \<Rightarrow> form_values \<Rightarrow> (system_adapter \<Rightarrow> 'v page_parser) \<Rightarrow>
     ('c, 'x) ouc_world_scheme \<Rightarrow> ('c, 'x) ouc_world_scheme \<times> (err + 'v \<times> 'j query_page)" where
  "query_and_parse p cx student cred kind period_id override vs parser w =
     (case query_page_of p cx student cred kind period_id override vs w of
        (w1, Inl e) \<Rightarrow> (w1, Inl e)
      | (w1, Inr page) \<Rightarrow>
          (case parse_page p (sr_education_level student) cred page
                  (parser (qp_adapter page) (qp_body page) (qp_encoding page) period_id) w1 of
             (w2, Inl e) \<Rightarrow> (w2, Inl e)
           | (w2, Inr v) \<Rightarrow> (w2, Inr (v, page))))"

definition without_page :: "'w \<times> (err + 'v \<times> 'q) \<Rightarrow> 'w \<times> (err + 'v)" where
  "without_page r = (fst r, case snd r of Inl e \<Rightarrow> Inl e | Inr (v, _) \<Rightarrow> Inr v)"

section \<open>The operations\<close>

definition ouc_list_periods ::
    "('c, 'j, 'p) ouc_provider_scheme \<Rightarrow> go_ctx \<Rightarrow> student_reference \<Rightarrow> credential \<Rightarrow>
     ('c, 'x) ouc_world_scheme \<Rightarrow> ('c, 'x) ouc_world_scheme \<times> (err + period list)" where
  "ouc_list_periods p cx student cred w =
     without_page (query_and_parse p cx student cred QueryPeriods '''' None []
       (\<lambda>ad body encoding _. ad_periods ad body encoding) w)"

definition ouc_list_courses ::
    "('c, 'j, 'p) ouc_provider_scheme \<Rightarrow> go_ctx \<Rightarrow> student_reference \<Rightarrow> credential \<Rightarrow> string \<Rightarrow>
     ('c, 'x) ouc_world_scheme \<Rightarrow> ('c, 'x) ouc_world_scheme \<times> (err + course_schedule)" where
  "ouc_list_courses p cx student cred period_id w =
     (case query_and_parse p cx student cred QueryCourses period_id None [] ad_courses w of
        (w1, Inl e) \<Rightarrow> (w1, Inl e)
      | (w1, Inr (result, page)) \<Rightarrow>
          if cs_courses result = [] \<and> sr_education_level student = education_level_graduate \<and>
             trim_space (oe_path (qp_fallback page)) \<noteq> ''''
          then without_page (query_and_parse p cx student cred QueryCourses period_id
                 (Some (qp_fallback page)) [] ad_courses w1)
          else (w1, Inr result))"

definition selection_entry :: "ouc_config \<Rightarrow> operation_endpoint" where
  "selection_entry c = no_operation\<lparr>oe_path := ''/jsxsd/xsxk/newXsxkzx'', oe_request_method := ''GET'',
     oe_request_encoding := ''query'', oe_response_encoding := ''html'',
     oe_parameters := [(''jx0502zbid'', oc_index_selection_session_id c), (''isallsc'', ''1'')]\<rparr>"

definition selection_notice :: operation_endpoint where
  "selection_notice = no_operation\<lparr>oe_path := ''/jsxsd/xsxk/xsxk_tzsm'', oe_request_method := ''GET'',
     oe_request_encoding := ''query'', oe_response_encoding := ''html''\<rparr>"

definition ouc_selection_schedule ::
    "('c, 'j, 'p) ouc_provider_scheme \<Rightarrow> go_ctx \<Rightarrow> student_reference \<Rightarrow> credential \<Rightarrow> string \<Rightarrow>
     ('c, 'x) ouc_world_scheme \<Rightarrow> ('c, 'x) ouc_world_scheme \<times> (err + course_schedule)" where
  "ouc_selection_schedule p cx student cred period_id w =
     (case provider_config p w of
        Inl _ \<Rightarrow> (w, Inl (Sentinel ErrProviderUnavailable))
      | Inr c \<Rightarrow>
          if trim_space (oc_index_selection_session_id c) = '''' \<or>
             sr_education_level student \<noteq> education_level_undergraduate
          then (w, Inl (Sentinel ErrProviderUnavailable))
          else (case query_and_parse p cx student cred QueryCourseSelectionSchedule period_id
                        (Some (selection_entry c)) [] (\<lambda>_ _ _ _. Inr ()) w of
                  (w1, Inl e) \<Rightarrow> (w1, Inl e)
                | (w1, Inr _) \<Rightarrow>
                    without_page (query_and_parse p cx student cred QueryCourseSelectionSchedule
                      period_id (Some selection_notice) [] ad_selection_schedule w1)))"

definition ouc_list_grades ::
    "('c, 'j, 'p) ouc_provider_scheme \<Rightarrow> go_ctx \<Rightarrow> student_reference \<Rightarrow> credential \<Rightarrow> string \<Rightarrow>
     ('c, 'x) ouc_world_scheme \<Rightarrow> ('c, 'x) ouc_world_scheme \<times> (err + grade list)" where
  "ouc_list_grades p cx student cred period_id w =
     without_page (query_and_parse p cx student cred QueryGrades period_id None [] ad_grades w)"

definition ouc_list_exams ::
    "('c, 'j, 'p) ouc_provider_scheme \<Rightarrow> go_ctx \<Rightarrow> student_reference \<Rightarrow> credential \<Rightarrow> string \<Rightarrow>
     ('c, 'x) ouc_world_scheme \<Rightarrow> ('c, 'x) ouc_world_scheme \<times> (err + exam list)" where
  "ouc_list_exams p cx student cred period_id w =
     without_page (query_and_parse p cx student cred QueryExams period_id None [] ad_exams w)"

text \<open>
  The supplement with the failed selections of an undergraduate is best effort, unless the context
  is done.
\<close>

definition ouc_list_selections ::
    "('c, 'j, 'p) ouc_provider_scheme \<Rightarrow> go_ctx \<Rightarrow> student_reference \<Rightarrow> credential \<Rightarrow> string \<Rightarrow>
     ('c, 'x) ouc_world_scheme \<Rightarrow> ('c, 'x) ouc_world_scheme \<times> (err + course_selection list)" where
  "ouc_list_selections p cx student cred period_id w =
     (case query_and_parse p cx student cred QuerySelections period_id None [] ad_selections w of
        (w1, Inl e) \<Rightarrow> (w1, Inl e)
      | (w1, Inr (found, _)) \<Rightarrow>
          if sr_education_level student \<noteq> education_level_undergraduate then (w1, Inr found)
          else
            (let items = filter_hidden_selections found
             in case query_page_of p cx student cred QuerySelections period_id None
                       undergraduate_failure_values w1 of
                  (w2, Inl e) \<Rightarrow>
                    (w2, if context_err (op_clock p) cx w2 \<noteq> None then Inl e else Inr items)
                | (w2, Inr page) \<Rightarrow>
                    (case parse_page p (sr_education_level student) cred page
                            (ad_selections (qp_adapter page) (qp_body page) (qp_encoding page) period_id)
                            w2 of
                       (w3, Inl _) \<Rightarrow> (w3, Inr items)
                     | (w3, Inr more_items) \<Rightarrow>
                         (w3, Inr (merge_course_selections (op_formats p) items
                                (filter_hidden_selections more_items))))))"

section \<open>The course catalog\<close>

text \<open>\<^verbatim>\<open>waitCatalogRetry\<close>: the timer of the delay or the end of the context, whichever is ready.\<close>

definition wait_catalog_retry ::
    "('c, 'j, 'p) ouc_provider_scheme \<Rightarrow> go_ctx \<Rightarrow> ('c, 'x) ouc_world_scheme \<Rightarrow>
     ('c, 'x) ouc_world_scheme \<times> err option" where
  "wait_catalog_retry p cx w =
     (let w' = w\<lparr>w_step := w_step w + 1\<rparr>
      in (w', if op_abandon p (w_step w') then context_err (op_clock p) cx w' else None))"

definition catalog_rejected ::
    "('a) page_library_scheme \<Rightarrow> web_url \<Rightarrow> web_url \<Rightarrow> string \<Rightarrow> bool" where
  "catalog_rejected pl expected u body \<longleftrightarrow>
     wu_scheme u \<noteq> ''https'' \<or> url_hostname u \<noteq> url_hostname expected \<or>
     url_hostname u = host_identity \<or> url_hostname u = host_portal \<or> is_academic_login_page pl body"

definition max_catalog_attempts :: nat where "max_catalog_attempts = 3"

definition catalog_subject ::
    "('c, 'j, 'p) ouc_provider_scheme \<Rightarrow> credential \<Rightarrow> string \<Rightarrow> credential" where
  "catalog_subject p cred level =
     (if op_store p = ScopedStore then cred
      else cred\<lparr>cr_student_no := level @ nul @ cr_student_no cred\<rparr>)"

text \<open>The session of an attempt: the one in use, or a new one.\<close>

definition catalog_session ::
    "('c, 'j, 'p) ouc_provider_scheme \<Rightarrow> ouc_config \<Rightarrow> go_ctx \<Rightarrow> credential \<Rightarrow> string \<Rightarrow> string \<Rightarrow>
     'j cookie_jar option \<Rightarrow> ('c, 'x) ouc_world_scheme \<Rightarrow>
     ('c, 'x) ouc_world_scheme \<times> (err + 'j cookie_jar)" where
  "catalog_session p c cx cred level service_url current w =
     (case current of
        Some jar \<Rightarrow> (w, Inr jar)
      | None \<Rightarrow>
          session_for_catalog_query p c cx cred (catalog_subject p cred level) level service_url w)"

text \<open>
  What an attempt says: the final answer, or another attempt with or without the session in use.
\<close>

datatype ('v, 'j) attempt = Final "err + 'v" | Again "'j cookie_jar option"

definition catalog_attempt ::
    "('c, 'j, 'p) ouc_provider_scheme \<Rightarrow> ouc_config \<Rightarrow> go_ctx \<Rightarrow> credential \<Rightarrow> string \<Rightarrow> string \<Rightarrow>
     int \<Rightarrow> operation_endpoint \<Rightarrow> string \<Rightarrow> string \<times> string \<times> string \<Rightarrow> web_url \<Rightarrow> bool \<Rightarrow>
     'j cookie_jar option \<Rightarrow> ('c, 'x) ouc_world_scheme \<Rightarrow>
     ('c, 'x) ouc_world_scheme \<times> (course_catalog_page, 'j) attempt" where
  "catalog_attempt p c cx cred level period_id page e service_url request expected final_try current w =
     (let subject = catalog_subject p cred level;
          going = (\<lambda>w. \<not> final_try \<and> context_err (op_clock p) cx w = None);
          again = (\<lambda>w jar. case wait_catalog_retry p cx w of
                       (w', Some x) \<Rightarrow> (w', Final (Inl (query_provider_error x)))
                     | (w', None) \<Rightarrow> (w', Again (Some jar)))
      in case catalog_session p c cx cred level service_url current w of
           (w1, Inl x) \<Rightarrow>
             (w1, if going w1 \<and> retryable_session_error x \<and> \<not> errors_is x VErrProviderRetryable
                  then Again None else Final (Inl (query_provider_error x)))
         | (w1, Inr jar) \<Rightarrow>
             (let (url, payload, content_type) = request
              in case request_page (op_library p) (op_env p) c cx (oe_request_method e) url payload
                        content_type (catalog_request_options (op_library p) level service_url url)
                        w1 jar of
                   (w2, jar2, Inl x) \<Rightarrow>
                     if going w2 then again w2 jar2 else (w2, Final (Inl (query_provider_error x)))
                 | (w2, jar2, Inr (u, body, _)) \<Rightarrow>
                     if fst (detect_interactive_challenge (op_library p) body)
                     then (delete_target_session p subject (scope_for_level level) w2,
                           Final (Inl (Sentinel ErrChallengeRequired)))
                     else if catalog_rejected (op_library p) expected u body
                     then (delete_target_session p subject (scope_for_level level) w2,
                           if final_try then Final (Inl (Sentinel ErrProviderUnavailable)) else Again None)
                     else (case parse_catalog_page (op_parsers p) level period_id page e body of
                             Inl _ \<Rightarrow>
                               if going w2 then again w2 jar2
                               else (w2, Final (Inl (Sentinel ErrContractChanged)))
                           | Inr result \<Rightarrow>
                               (fst (save_target_session p c (cr_student_no subject)
                                       (cr_password subject) (scope_for_level level) jar2 w2),
                                Final (Inr result)))))"

primrec catalog_attempts ::
    "('c, 'j, 'p) ouc_provider_scheme \<Rightarrow> ouc_config \<Rightarrow> go_ctx \<Rightarrow> credential \<Rightarrow> string \<Rightarrow> string \<Rightarrow>
     int \<Rightarrow> operation_endpoint \<Rightarrow> string \<Rightarrow> string \<times> string \<times> string \<Rightarrow> web_url \<Rightarrow>
     nat \<Rightarrow> 'j cookie_jar option \<Rightarrow> ('c, 'x) ouc_world_scheme \<Rightarrow>
     ('c, 'x) ouc_world_scheme \<times> (err + course_catalog_page)" where
  "catalog_attempts p c cx cred level period_id page e service_url request expected 0 current w =
     (w, Inl (Sentinel ErrProviderUnavailable))"
| "catalog_attempts p c cx cred level period_id page e service_url request expected (Suc n) current w =
     (case catalog_attempt p c cx cred level period_id page e service_url request expected (n = 0)
             current w of
        (w1, Final r) \<Rightarrow> (w1, r)
      | (w1, Again next) \<Rightarrow>
          catalog_attempts p c cx cred level period_id page e service_url request expected n next w1)"

definition max_course_catalog_page :: int where "max_course_catalog_page = 500"

definition ouc_list_catalog_page ::
    "('c, 'j, 'p) ouc_provider_scheme \<Rightarrow> go_ctx \<Rightarrow> credential \<Rightarrow> string \<Rightarrow> string \<Rightarrow> int \<Rightarrow>
     ('c, 'x) ouc_world_scheme \<Rightarrow> ('c, 'x) ouc_world_scheme \<times> (err + course_catalog_page)" where
  "ouc_list_catalog_page p cx cred level period_id page w =
     (let failed = (w, Inl (Sentinel ErrProviderUnavailable))
      in if page < 1 \<or> max_course_catalog_page < page \<or> trim_space period_id = '''' \<or>
            trim_space (cr_student_no cred) = '''' \<or> cr_password cred = '''' then failed
         else case provider_config p w of
                Inl _ \<Rightarrow> failed
              | Inr c \<Rightarrow>
                  (case op_adapters p level of
                     None \<Rightarrow> failed
                   | Some ad \<Rightarrow>
                       (let e = es_course_catalog (ad_endpoint ad c);
                            service_url = es_service_url (ad_endpoint ad c)
                        in if trim_space (oe_path e) = '''' then failed
                           else case academic_catalog_request (op_library p) service_url e period_id page of
                                  Inl _ \<Rightarrow> failed
                                | Inr request \<Rightarrow>
                                    (case ul_parse (op_library p) (fst request) of
                                       None \<Rightarrow> failed
                                     | Some expected \<Rightarrow>
                                         catalog_attempts p c cx cred level period_id page e
                                           service_url request expected max_catalog_attempts None w))))"

section \<open>Verification\<close>

definition ouc_verify ::
    "('c, 'j, 'p) ouc_provider_scheme \<Rightarrow> go_ctx \<Rightarrow> verification_command \<Rightarrow>
     ('c, 'x) ouc_world_scheme \<Rightarrow> ('c, 'x) ouc_world_scheme \<times> (err + verification_result)" where
  "ouc_verify p cx command w =
     (let student_no = trim_space (vc_student_no command);
          level = trim_space (vc_education_level command)
      in case provider_config p w of
           Inl e \<Rightarrow> (w, Inl e)
         | Inr c \<Rightarrow>
             if op_adapters p level = None then (w, Inl (Sentinel VErrIdentityTypeMismatch))
             else (case authenticate (op_library p) (op_env p) c cx student_no (vc_password command) w of
                     (w1, jar, Inl e) \<Rightarrow> (w1, Inl e)
                   | (w1, jar, Inr body) \<Rightarrow>
                       (case parse_portal_identity (op_library p) body student_no of
                          Inl _ \<Rightarrow> (w1, Inl (Sentinel VErrProviderUnavailable))
                        | Inr identity \<Rightarrow>
                            (fst (save_identity_session p c student_no (vc_password command) jar w1),
                             Inr \<lparr>vr_real_name = pi_real_name identity, vr_provider = provider_ouc,
                                  vr_education_level = level\<rparr>))))"

text \<open>
  The provider as the router and the service see it; every call returns.
\<close>

definition ouc_queries ::
    "('c, 'j, 'p) ouc_provider_scheme \<Rightarrow> ('c, 'x) ouc_world_scheme provider" where
  "ouc_queries p =
     \<lparr>pv_courses = (\<lambda>cx student cred period w. Some (ouc_list_courses p cx student cred period w)),
      pv_grades = (\<lambda>cx student cred period w. Some (ouc_list_grades p cx student cred period w)),
      pv_exams = (\<lambda>cx student cred period w. Some (ouc_list_exams p cx student cred period w)),
      pv_selections = (\<lambda>cx student cred period w. Some (ouc_list_selections p cx student cred period w)),
      pv_cache_aware = None,
      pv_selection_schedule =
        Some (\<lambda>cx student cred period w. Some (ouc_selection_schedule p cx student cred period w))\<rparr>"

definition ouc_verifier ::
    "('c, 'j, 'p) ouc_provider_scheme \<Rightarrow> ('c, 'x) ouc_world_scheme verifier" where
  "ouc_verifier p cx command w = Some (ouc_verify p cx command w)"

end
