(* ===== verification/OucQueries.thy ===== *)
theory OucQueries
  imports OucProvider
begin

text \<open>
  What a query of the OUC provider may send and what it may answer. The log of a run is split by
  \<open>posts\<close>: every request goes over https to one of the known hosts, and all but a bounded number of
  them are harmless (here: no body, the blank form that continues past an expiry warning, or the body
  of the query itself). The bound composes along the code, from the login over the shared recovery to
  the attempts of a query and of the course catalog.
\<close>

section \<open>Steps that send nothing\<close>

lemma redis_command_sent [simp]: "ow_sent (fst (redis_command env f w)) = ow_sent w"
  by (simp add: redis_command_def Let_def split: prod.splits option.splits)

lemma redis_command_unsent: "redis_command env f w = (w', r) \<Longrightarrow> ow_sent w' = ow_sent w"
  by (metis redis_command_sent fst_conv)

named_theorems unsent

lemma load_key_unsent [unsent]: "load_key ul sx env key w = (w', r) \<Longrightarrow> ow_sent w' = ow_sent w"
  by (auto simp: load_key_def Let_def dest: redis_command_unsent split: prod.splits)

lemma load_session_unsent [unsent]:
  "load_session ul sx env s pw w = (w', r) \<Longrightarrow> ow_sent w' = ow_sent w"
  by (auto simp: load_session_def dest: unsent)

lemma load_historical_unsent [unsent]:
  "load_historical ul sx env s pw scope w = (w', r) \<Longrightarrow> ow_sent w' = ow_sent w"
  by (auto simp: load_historical_def Let_def dest: unsent split: option.splits prod.splits)

lemma load_scope_unsent [unsent]:
  "load_scope ul sx env s pw scope w = (w', r) \<Longrightarrow> ow_sent w' = ow_sent w"
  by (auto simp: load_scope_def Let_def dest!: unsent
      split: if_splits prod.splits sum.splits option.splits)

lemma save_key_sent [simp]: "ow_sent (fst (save_key ul sx env s key st ttl w)) = ow_sent w"
  by (auto simp: save_key_def Let_def dest: redis_command_unsent
      split: option.splits sum.splits prod.splits)

lemma save_session_sent [simp]: "ow_sent (fst (save_session ul sx env s pw st ttl w)) = ow_sent w"
  by (simp add: save_session_def)

lemma save_scope_sent [simp]: "ow_sent (fst (save_scope ul sx env s pw scope st ttl w)) = ow_sent w"
  by (simp add: save_scope_def split: option.splits)

lemma delete_session_sent [simp]: "ow_sent (fst (delete_session sx env s pw w)) = ow_sent w"
  by (auto simp: delete_session_def Let_def dest: redis_command_unsent split: prod.splits)

lemma delete_scope_sent [simp]: "ow_sent (fst (delete_scope sx env s pw scope w)) = ow_sent w"
  by (auto simp: delete_scope_def Let_def dest: redis_command_unsent split: prod.splits)

lemma save_unscoped_sent [simp]: "ow_sent (save_unscoped p c s pw jar w) = ow_sent w"
  by (simp add: save_unscoped_def split: sum.splits)

lemma save_identity_session_sent [simp]:
  "ow_sent (fst (save_identity_session p c s pw jar w)) = ow_sent w"
  by (simp add: save_identity_session_def split: prod.splits sum.splits)

lemma save_target_session_sent [simp]:
  "ow_sent (fst (save_target_session p c s pw scope jar w)) = ow_sent w"
  by (simp add: save_target_session_def Let_def split: prod.splits sum.splits)

lemma save_identity_session_unsent [unsent]:
  "save_identity_session p c s pw jar w = (w', jar') \<Longrightarrow> ow_sent w' = ow_sent w"
  by (metis save_identity_session_sent fst_conv)

lemma save_target_session_unsent [unsent]:
  "save_target_session p c s pw scope jar w = (w', jar') \<Longrightarrow> ow_sent w' = ow_sent w"
  by (metis save_target_session_sent fst_conv)

lemma delete_sent [simp]:
  "ow_sent (delete_unscoped p cred w) = ow_sent w"
  "ow_sent (delete_target_session p cred scope w) = ow_sent w"
  "ow_sent (delete_identity_session p cred w) = ow_sent w"
  by (simp_all add: delete_unscoped_def delete_target_session_def delete_identity_session_def)

section \<open>Counting requests\<close>

text \<open>
  At most \<open>n\<close> requests of the log are not harmless, those are \<^verbatim>\<open>POST\<close>s to the login host, and every
  request goes to a known host.
\<close>

definition posts ::
    "('a) page_library_scheme \<Rightarrow> (http_request \<Rightarrow> bool) \<Rightarrow> nat \<Rightarrow> ('c, 'x) ouc_world_scheme \<Rightarrow>
     ('c, 'x) ouc_world_scheme \<Rightarrow> bool" where
  "posts pl Q n w w' \<longleftrightarrow>
     (\<exists>sent. ow_sent w' = ow_sent w @ sent \<and> length (filter (\<lambda>q. \<not> Q q) sent) \<le> n \<and>
        (\<forall>q\<in>set sent. allowed_target pl (rq_url q) \<and>
           (Q q \<or> rq_method q = ''POST'' \<and> url_hostname (rq_url q) = host_identity)))"

lemma posts_same: "ow_sent w' = ow_sent w \<Longrightarrow> posts pl Q n w w'"
  by (simp add: posts_def)

lemma posts_trans: "posts pl Q n w w1 \<Longrightarrow> posts pl Q m w1 w2 \<Longrightarrow> n + m \<le> k \<Longrightarrow> posts pl Q k w w2"
  unfolding posts_def
  by (elim exE conjE, rule_tac x = "sent @ senta" in exI) auto

lemma posts_of_sends:
  assumes "sends pl P w w'" and "\<And>q. P q \<Longrightarrow> Q q"
  shows "posts pl Q n w w'"
proof -
  from assms(1) obtain sent where s: "ow_sent w' = ow_sent w @ sent"
    "\<forall>q\<in>set sent. allowed_target pl (rq_url q) \<and> P q" unfolding sends_def by blast
  with assms(2) have "filter (\<lambda>q. \<not> Q q) sent = []" by (auto simp: filter_empty_conv)
  with s assms(2) show ?thesis unfolding posts_def by (intro exI [of _ sent]) auto
qed

text \<open>What a query may repeat: no body, a blank form, its own body.\<close>

definition harmless :: "('a) page_library_scheme \<Rightarrow> string \<Rightarrow> http_request \<Rightarrow> bool" where
  "harmless pl payload q \<longleftrightarrow> blank_password pl q \<or> rq_body q = payload"

lemma no_body_harmless: "no_body q \<Longrightarrow> harmless pl payload q"
  by (simp add: no_body_def harmless_def blank_password_def)

lemma login_log_posts:
  assumes "login_log pl w w'"
  shows "posts pl (harmless pl payload) 1 w w'"
proof -
  from assms obtain before after where l: "ow_sent w' = ow_sent w @ before @ after"
    "one_login_post pl before" "\<forall>q\<in>set after. allowed_target pl (rq_url q) \<and> blank_password pl q"
    unfolding login_log_def by blast
  have "filter (\<lambda>q. \<not> harmless pl payload q) after = []"
    using l(3) by (auto simp: filter_empty_conv harmless_def)
  moreover have "length (filter (\<lambda>q. \<not> harmless pl payload q) before) \<le>
      length (filter (\<lambda>q. rq_body q \<noteq> '''') before)"
    by (induction before) (auto simp: harmless_def blank_password_def)
  ultimately show ?thesis
    using l unfolding posts_def
    by (intro exI [of _ "before @ after"])
      (auto simp: one_login_post_def harmless_def blank_password_def)
qed

section \<open>The pieces of a session\<close>

text \<open>
  How a URL reference without scheme and authority is resolved: the base gives both.
\<close>

definition resolve_law :: "('a) page_library_scheme \<Rightarrow> bool" where
  "resolve_law pl \<longleftrightarrow>
     (\<forall>b r. wu_scheme r = '''' \<longrightarrow> wu_host r = '''' \<longrightarrow> \<not> wu_user r \<longrightarrow>
        wu_scheme (pl_resolve pl b r) = wu_scheme b \<and> wu_host (pl_resolve pl b r) = wu_host b)"

text \<open>
  A configuration whose login page is on a known host and whose probe path names no user (only a path
  with an empty host, such as \<^verbatim>\<open>//user@/x\<close>, does).
\<close>

definition trusted_config :: "('a) page_library_scheme \<Rightarrow> ouc_config \<Rightarrow> bool" where
  "trusted_config pl c \<longleftrightarrow>
     (\<exists>login. ul_parse pl (oc_sso_login_url c) = Some login \<and> allowed_target pl login) \<and>
     (\<forall>r. ul_parse pl (trim_space (undergraduate_probe_path c)) = Some r \<longrightarrow> \<not> wu_user r)"

lemma access_service_sends:
  assumes law: "url_text_law pl" and trusted: "trusted_config pl c"
    and run: "access_service pl env c cx service_url w jar = (w', jar', r)"
  shows "sends pl no_body w w'"
proof (cases "service_login_url pl (oc_sso_login_url c) service_url False")
  case (Inl e)
  with run show ?thesis by (simp add: access_service_def)
next
  case (Inr target)
  from trusted obtain login where "ul_parse pl (oc_sso_login_url c) = Some login"
    "allowed_target pl login" unfolding trusted_config_def by blast
  from service_login_url_allowed [OF Inr this] obtain u where
    u: "allowed_target pl u" "target = ul_string pl u" by blast
  from run show ?thesis
    unfolding access_service_def Inr u(2) sum.case
    by (elim web_bind_cases) (auto dest!: request_page_sends_nothing [OF law u(1)])
qed

lemma academic_profile_url_allowed:
  assumes law: "resolve_law pl" and "academic_profile_url pl service path = Inr target"
    and user: "\<And>r. ul_parse pl (trim_space path) = Some r \<Longrightarrow> \<not> wu_user r"
  shows "\<exists>u. allowed_target pl u \<and> target = ul_string pl u"
proof -
  from assms(2) obtain base ref where b: "allowed_target pl base" "ul_parse pl (trim_space path) = Some ref"
    "wu_scheme ref = ''''" "wu_host ref = ''''" "target = ul_string pl (pl_resolve pl base ref)"
    by (auto simp: academic_profile_url_def Let_def split: option.splits if_splits)
  then have "wu_scheme (pl_resolve pl base ref) = wu_scheme base \<and>
      wu_host (pl_resolve pl base ref) = wu_host base"
    using law user unfolding resolve_law_def by blast
  with b show ?thesis
    by (intro exI [of _ "pl_resolve pl base ref"]) (simp add: allowed_target_def url_hostname_def)
qed

lemma probe_sends:
  assumes law: "url_text_law pl" "resolve_law pl" and trusted: "trusted_config pl c"
    and run: "probe_undergraduate_session pl env c cx w jar = (w', jar', r)"
  shows "sends pl no_body w w'"
proof (cases "academic_profile_url pl (es_service_url (oc_undergraduate c)) (undergraduate_probe_path c)")
  case (Inl e)
  with run show ?thesis by (simp add: probe_undergraduate_session_def)
next
  case (Inr target)
  from academic_profile_url_allowed [OF law(2) Inr] trusted obtain u where
    u: "allowed_target pl u" "target = ul_string pl u" unfolding trusted_config_def by blast
  from run show ?thesis
    unfolding probe_undergraduate_session_def Inr u(2) sum.case
    by (elim web_bind_cases) (auto dest!: request_page_sends_nothing [OF law(1) u(1)])
qed

definition sound :: "('a) page_library_scheme \<Rightarrow> ouc_config \<Rightarrow> bool" where
  "sound pl c \<longleftrightarrow> url_text_law pl \<and> resolve_law pl \<and> trusted_config pl c"

named_theorems posting

lemma access_service_posts [posting]:
  assumes "access_service pl env c cx service_url w jar = (w', jar', r)" and "sound pl c"
  shows "posts pl (harmless pl payload) 0 w w'"
  by (rule posts_of_sends [OF access_service_sends [OF _ _ assms(1)]])
    (use assms(2) in \<open>auto simp: sound_def no_body_harmless\<close>)

lemma probe_posts [posting]:
  assumes "probe_undergraduate_session pl env c cx w jar = (w', jar', r)" and "sound pl c"
  shows "posts pl (harmless pl payload) 0 w w'"
  by (rule posts_of_sends [OF probe_sends [OF _ _ _ assms(1)]])
    (use assms(2) in \<open>auto simp: sound_def no_body_harmless\<close>)

lemma authenticate_posts [posting]:
  assumes "authenticate pl env c cx student_no password w = (w', jar', r)" and "sound pl c"
  shows "posts pl (harmless pl payload) 1 w w'"
proof -
  from assms(2) obtain login where "url_text_law pl" "ul_parse pl (oc_sso_login_url c) = Some login"
    "allowed_target pl login" unfolding sound_def trusted_config_def by blast
  from login_log_posts [OF authenticate_log [OF this assms(1)]] show ?thesis .
qed

text \<open>Steps that send nothing can be put before or after.\<close>

lemma posts_before: "ow_sent w1 = ow_sent w \<Longrightarrow> posts pl Q n w1 w2 \<Longrightarrow> posts pl Q n w w2"
  by (simp add: posts_def)

lemma posts_after: "ow_sent w2 = ow_sent w1 \<Longrightarrow> posts pl Q n w w1 \<Longrightarrow> posts pl Q n w w2"
  by (simp add: posts_def)

lemma posts_mono: "posts pl Q n w w' \<Longrightarrow> n \<le> m \<Longrightarrow> posts pl Q m w w'"
  by (fastforce simp: posts_def)

lemma posts_seq: "posts pl Q n w w1 \<Longrightarrow> posts pl Q m w1 w2 \<Longrightarrow> posts pl Q (n + m) w w2"
  by (rule posts_trans) auto

text \<open>Only what the server log says matters.\<close>

lemma posts_log:
  "ow_sent v = ow_sent w \<Longrightarrow> ow_sent v' = ow_sent w' \<Longrightarrow> posts pl Q n v v' \<longleftrightarrow> posts pl Q n w w'"
  by (simp add: posts_def)

lemma posts_unsent [simp]:
  "posts pl Q n w (delete_unscoped p cred v) = posts pl Q n w v"
  "posts pl Q n w (delete_target_session p cred scope v) = posts pl Q n w v"
  "posts pl Q n w (delete_identity_session p cred v) = posts pl Q n w v"
  "posts pl Q n w (save_unscoped p c s pw jar v) = posts pl Q n w v"
  "posts pl Q n w (fst (save_target_session p c s pw scope jar v)) = posts pl Q n w v"
  "posts pl Q n w (fst (save_identity_session p c s pw jar v)) = posts pl Q n w v"
  by (simp_all add: posts_def)

lemma posts_refl [simp]: "posts pl Q n w w"
  by (simp add: posts_same)

section \<open>The session of a query\<close>

lemma load_target_session_posts [posting]:
  assumes "load_target_session p c cx cred scope w = (w', r)" and "sound (op_library p) c"
  shows "posts (op_library p) (harmless (op_library p) payload) 0 w w'"
proof -
  obtain w1 x where load: "load_scope (op_urls p) (op_codec p) (op_env p) (cr_student_no cred)
      (cr_password cred) scope w = (w1, x)" by fastforce
  have probed: "posts (op_library p) (harmless (op_library p) payload) 0 w w2"
    if "probe_undergraduate_session (op_library p) (op_env p) c cx w1 jar = (w2, jar2, y)" for w2 jar jar2 y
    using probe_posts [OF that assms(2)] load_scope_unsent [OF load] by (rule posts_before [rotated])
  show ?thesis
    using assms(1) load_scope_unsent [OF load] load
    by (auto simp: load_target_session_def Let_def dest!: unsent probed
        intro: posts_same posts_after
        split: sum.splits option.splits if_splits prod.splits)
qed

lemma login_to_target_posts [posting]:
  assumes "login_to_target p c cx cred scope service_url w = (w', r)" and "sound (op_library p) c"
  shows "posts (op_library p) (harmless (op_library p) payload) 1 w w'"
proof -
  let ?posts = "posts (op_library p) (harmless (op_library p) payload)"
  obtain w1 jar x where login: "authenticate (op_library p) (op_env p) c cx (cr_student_no cred)
      (cr_password cred) w = (w1, jar, x)" by (metis prod_cases3)
  note one = authenticate_posts [OF login assms(2)]
  have handed: "?posts 1 w w3"
    if "ow_sent w2 = ow_sent w1"
      and "access_service (op_library p) (op_env p) c cx service_url w2 jar2 = (w3, jar3, y)" for w2 jar2 w3 jar3 y
    using posts_seq [OF one posts_before [OF that(1) access_service_posts [OF that(2) assms(2)]]]
    by simp
  show ?thesis
    using assms(1) login one
    by (auto simp: login_to_target_def Let_def simp del: One_nat_def dest!: unsent
        intro: handed posts_after [OF _ handed] split: sum.splits if_splits prod.splits)
qed

lemma recover_target_session_posts [posting]:
  assumes "recover_target_session p c cx cred scope service_url w = (w', r)"
    and "sound (op_library p) c"
  shows "posts (op_library p) (harmless (op_library p) payload) 1 w w'"
proof -
  let ?posts = "posts (op_library p) (harmless (op_library p) payload)"
  obtain w1 x where load: "load_scope (op_urls p) (op_codec p) (op_env p) (cr_student_no cred)
      (cr_password cred) scope_identity w = (w1, x)" by fastforce
  note same = load_scope_unsent [OF load]
  have login: "?posts 1 w w3"
    if "login_to_target p c cx cred scope service_url v = (w3, y)" "ow_sent v = ow_sent w" for v w3 y
    using posts_before [OF that(2) login_to_target_posts [OF that(1) assms(2)]] .
  have handed: "?posts 0 w w2"
    if "access_service (op_library p) (op_env p) c cx service_url w1 jar = (w2, jar2, y)" for jar w2 jar2 y
    using posts_before [OF same access_service_posts [OF that assms(2)]] .
  have handed_login: "?posts 1 w w3"
    if "access_service (op_library p) (op_env p) c cx service_url w1 jar = (w2, jar2, y)"
      and "login_to_target p c cx cred scope service_url (delete_identity_session p cred w2) = (w3, z)"
    for jar w2 jar2 y w3 z
  proof -
    have "?posts 1 w2 w3"
      using posts_before [OF _ login_to_target_posts [OF that(2) assms(2)]] by simp
    from posts_seq [OF handed [OF that(1)] this] show ?thesis by simp
  qed
  show ?thesis
    using assms(1) load same
    by (auto simp: recover_target_session_def Let_def simp del: One_nat_def dest!: unsent
        intro: login posts_same handed_login posts_mono [OF handed] posts_after [OF _ posts_mono [OF handed]]
        split: sum.splits option.splits if_splits prod.splits service_access.splits)
qed

lemma lead_recovery_posts:
  assumes "lead_recovery p c cx cred scope service_url w = (w', r)" and "sound (op_library p) c"
  shows "posts (op_library p) (harmless (op_library p) payload) 1 w w'"
proof -
  let ?posts = "posts (op_library p) (harmless (op_library p) payload)"
  have loaded: "?posts 0 v v'" if "load_target_session p c rcx cred scope v = (v', x)" for v v' x rcx
    using load_target_session_posts [OF that assms(2)] .
  have both: "?posts 1 w w2"
    if "load_target_session p c rcx cred scope w = (w1, x)"
      and "recover_target_session p c rcx cred scope service_url w1 = (w2, y)" for w1 x w2 y rcx
    using posts_seq [OF loaded [OF that(1)] recover_target_session_posts [OF that(2) assms(2)]] by simp
  show ?thesis
    using assms(1)
    by (auto simp: lead_recovery_def Let_def simp del: One_nat_def intro: both posts_mono [OF loaded]
        split: prod.splits sum.splits option.splits)
qed

text \<open>A request that waited for another one's recovery has sent nothing itself.\<close>

lemma join_recovery_posts:
  assumes "join_recovery p c cx cred scope service_url w = (w', follower, r)"
    and "sound (op_library p) c"
  shows "posts (op_library p) (harmless (op_library p) payload) (if follower then 0 else 1) w w'"
  using assms lead_recovery_posts [OF _ assms(2)]
  by (auto simp: join_recovery_def Let_def simp del: One_nat_def intro: posts_same
      split: option.splits prod.splits)

lemma elect_posts:
  assumes "sound (op_library p) c"
  shows "elect p c cx cred scope service_url n w = (w', r) \<Longrightarrow>
    posts (op_library p) (harmless (op_library p) payload) 1 w w'"
proof (induction n arbitrary: w)
  case 0
  then show ?case by simp
next
  case (Suc n)
  let ?posts = "posts (op_library p) (harmless (op_library p) payload)"
  obtain w1 follower x where join: "join_recovery p c cx cred scope service_url w = (w1, follower, x)"
    by (metis prod_cases3)
  note joined = join_recovery_posts [OF join assms]
  have one: "?posts 1 w w1" by (rule posts_mono [OF joined]) simp
  have next_one: "?posts 1 w w'"
    if "elect p c cx cred scope service_url n w1 = (w', r)" and "follower"
    using posts_seq [OF joined Suc.IH [OF that(1)]] that(2) by simp
  show ?case
    using Suc.prems join one next_one
    by (auto simp: Let_def simp del: One_nat_def split: if_splits sum.splits)
qed

lemma login_unscoped_posts [posting]:
  assumes "login_unscoped p c cx cred cache service_url w = (w', r)" and "sound (op_library p) c"
  shows "posts (op_library p) (harmless (op_library p) payload) 1 w w'"
proof -
  let ?posts = "posts (op_library p) (harmless (op_library p) payload)"
  obtain w1 jar x where login: "authenticate (op_library p) (op_env p) c cx (cr_student_no cred)
      (cr_password cred) w = (w1, jar, x)" by (metis prod_cases3)
  note one = authenticate_posts [OF login assms(2)]
  have handed: "?posts 1 w w3"
    if "access_service (op_library p) (op_env p) c cx service_url w1 jar = (w3, jar3, y)" for w3 jar3 y
    using posts_seq [OF one access_service_posts [OF that assms(2)]] by simp
  show ?thesis
    using assms(1) login one
    by (auto simp: login_unscoped_def simp del: One_nat_def intro: handed
        split: sum.splits if_splits prod.splits)
qed

text \<open>A login after a stored session was found, refused and dropped.\<close>

lemma session_for_legacy_query_posts:
  assumes "session_for_legacy_query p c cx cred service_url w = (w', r)" and "sound (op_library p) c"
  shows "posts (op_library p) (harmless (op_library p) payload) 1 w w'"
proof -
  let ?posts = "posts (op_library p) (harmless (op_library p) payload)"
  obtain w1 x where load: "load_session (op_urls p) (op_codec p) (op_env p) (cr_student_no cred)
      (cr_password cred) w = (w1, x)" by fastforce
  note same = load_session_unsent [OF load]
  have login: "?posts 1 w w3"
    if "login_unscoped p c cx cred cred service_url v = (w3, y)" "ow_sent v = ow_sent w" for v w3 y
    using posts_before [OF that(2) login_unscoped_posts [OF that(1) assms(2)]] .
  have handed: "?posts 0 w w2"
    if "access_service (op_library p) (op_env p) c cx service_url w1 jar = (w2, jar2, y)" for jar w2 jar2 y
    using posts_before [OF same access_service_posts [OF that assms(2)]] .
  have handed_login: "?posts 1 w w3"
    if "access_service (op_library p) (op_env p) c cx service_url w1 jar = (w2, jar2, y)"
      and "login_unscoped p c cx cred cred service_url (delete_unscoped p cred w2) = (w3, z)"
    for jar w2 jar2 y w3 z
  proof -
    have "?posts 1 w2 w3"
      using posts_before [OF _ login_unscoped_posts [OF that(2) assms(2)]] by simp
    from posts_seq [OF handed [OF that(1)] this] show ?thesis by simp
  qed
  show ?thesis
    using assms(1) load same
    by (auto simp: session_for_legacy_query_def simp del: One_nat_def
        intro: login posts_same handed_login posts_mono [OF handed]
        split: sum.splits option.splits if_splits prod.splits service_access.splits)
qed

lemma session_for_query_posts [posting]:
  assumes "session_for_query p c cx level cred service_url w = (w', r)" and "sound (op_library p) c"
  shows "posts (op_library p) (harmless (op_library p) payload) 1 w w'"
proof -
  let ?posts = "posts (op_library p) (harmless (op_library p) payload)"
  have loaded: "?posts 0 w w1"
    if "load_target_session p c cx cred (scope_for_level level) w = (w1, x)" for w1 x
    using load_target_session_posts [OF that assms(2)] .
  have elected: "?posts 1 w w2"
    if "load_target_session p c cx cred (scope_for_level level) w = (w1, x)"
      and "elect p c cx cred (scope_for_level level) service_url n w1 = (w2, y)" for w1 x w2 y n
    using posts_seq [OF loaded [OF that(1)] elect_posts [OF assms(2) that(2)]] by simp
  show ?thesis
    using assms(1) session_for_legacy_query_posts [OF _ assms(2)]
    by (auto simp: session_for_query_def Let_def simp del: One_nat_def
        intro: elected posts_mono [OF loaded] split: if_splits sum.splits option.splits prod.splits)
qed

lemma session_for_catalog_query_posts [posting]:
  assumes "session_for_catalog_query p c cx cred cache level service_url w = (w', r)"
    and "sound (op_library p) c"
  shows "posts (op_library p) (harmless (op_library p) payload) 1 w w'"
proof -
  let ?posts = "posts (op_library p) (harmless (op_library p) payload)"
  obtain w1 x where load: "load_session (op_urls p) (op_codec p) (op_env p) (cr_student_no cache)
      (cr_password cache) w = (w1, x)" by fastforce
  note same = load_session_unsent [OF load]
  have login: "?posts 1 w w3"
    if "login_unscoped p c cx cred cache service_url v = (w3, y)" "ow_sent v = ow_sent w" for v w3 y
    using posts_before [OF that(2) login_unscoped_posts [OF that(1) assms(2)]] .
  show ?thesis
    using assms(1) load same session_for_query_posts [OF _ assms(2)]
    by (auto simp: session_for_catalog_query_def simp del: One_nat_def intro: login posts_same
        split: session_store_kind.splits sum.splits option.splits prod.splits)
qed

section \<open>The requests of a query\<close>

lemma academic_request_allowed:
  assumes "academic_request_with_values pl service_url e period_id vs = Inr (url, payload, ct)"
    and "ul_parse pl service_url = Some base" and "allowed_target pl base"
  obtains u where "allowed_target pl u" and "url = ul_string pl u"
    and "url_hostname u = url_hostname base"
proof -
  from assms(1) obtain t q where t: "academic_target pl service_url (request_path pl e period_id) = Inr t"
    and "url = ul_string pl t \<or> url = ul_string pl (t\<lparr>wu_raw_query := q\<rparr>)"
    by (auto simp: academic_request_with_values_def Let_def split: sum.splits if_splits)
  then obtain u where "url = ul_string pl u" "wu_scheme u = wu_scheme t" "wu_host u = wu_host t" by auto
  moreover from t assms(2,3) have "wu_scheme t = ''https'' \<and> url_hostname t = url_hostname base"
    by (auto simp: academic_target_def Let_def split: option.splits if_splits)
  ultimately show ?thesis
    using that assms(3) by (simp add: allowed_target_def url_hostname_def)
qed

text \<open>
  Without a period the fixed parameters of an operation are not sent: the path contains the empty
  text, which the code takes for a path that already names the period.
\<close>

lemma no_parameters_without_period:
  assumes "pl_path_escape pl '''' = ''''"
  shows "academic_request_with_values pl service_url e '''' [] =
     (case academic_target pl service_url (request_path pl e '''') of
        Inl x \<Rightarrow> Inl x
      | Inr t \<Rightarrow> Inr (ul_string pl t, '''', ''''))"
proof -
  have "contains s ''''" for s by (cases s) (simp_all add: has_prefix_def)
  then show ?thesis
    using assms by (auto simp: academic_request_with_values_def operation_values_def
        academic_period_values_def Let_def split: sum.splits)
qed

lemma business_page_posts:
  assumes "sound pl c" and "allowed_target pl u"
    and "request_page pl env c cx m (ul_string pl u) payload ct opts w jar = (w', jar', r)"
  shows "posts pl (harmless pl payload) 0 w w'"
proof -
  have "url_text_law pl" using assms(1) by (simp add: sound_def)
  from request_page_sends [OF this assms(2,3)] show ?thesis
    by (rule posts_of_sends) (auto simp: harmless_def blank_password_def)
qed

lemma query_attempts_posts:
  assumes "sound (op_library p) c" and "allowed_target (op_library p) u"
  shows "query_attempts p c cx level cred ad e fallback (ul_string (op_library p) u, payload, ct)
      expected n w = (w', r) \<Longrightarrow> posts (op_library p) (harmless (op_library p) payload) n w w'"
proof (induction n arbitrary: w)
  case 0
  then show ?case by simp
next
  case (Suc n)
  let ?posts = "posts (op_library p) (harmless (op_library p) payload)"
  obtain w1 x where session: "session_for_query p c cx level cred (es_service_url (ad_endpoint ad c)) w
      = (w1, x)" by fastforce
  have one: "?posts 1 w w1" by (rule session_for_query_posts [OF session assms(1)])
  have page: "?posts 1 w w2"
    if "request_page (op_library p) (op_env p) c cx (oe_request_method e) (ul_string (op_library p) u)
      payload ct no_options w1 jar = (w2, jar2, y)" for jar w2 jar2 y
    using posts_seq [OF one business_page_posts [OF assms that]] by simp
  have again: "?posts (Suc n) w w'"
    if "request_page (op_library p) (op_env p) c cx (oe_request_method e) (ul_string (op_library p) u)
      payload ct no_options w1 jar = (w2, jar2, y)"
      and "query_attempts p c cx level cred ad e fallback (ul_string (op_library p) u, payload, ct)
        expected n (delete_target_session p cred scope w2) = (w', r)" for jar w2 jar2 y scope
  proof -
    have "?posts n w2 w'" by (rule posts_before [OF _ Suc.IH [OF that(2)]]) simp
    from posts_seq [OF page [OF that(1)] this] show ?thesis by simp
  qed
  have more: "?posts (Suc m) w v" if "?posts 1 w v" for m v using that by (rule posts_mono) simp
  show ?case
    using Suc.prems session more [OF one]
    by (auto simp: Let_def intro: more [OF page] again
        split: sum.splits page_class.splits if_splits prod.splits)
qed

lemma catalog_attempt_posts:
  assumes "sound (op_library p) c" and "allowed_target (op_library p) u"
    and run: "catalog_attempt p c cx cred level period_id page e service_url
      (ul_string (op_library p) u, payload, ct) expected final_try current w = (w', r)"
  shows "posts (op_library p) (harmless (op_library p) payload) 1 w w'"
proof -
  let ?posts = "posts (op_library p) (harmless (op_library p) payload)"
  obtain w1 x where session: "catalog_session p c cx cred level service_url current w = (w1, x)"
    by fastforce
  have one: "?posts 1 w w1"
    using session session_for_catalog_query_posts [OF _ assms(1)]
    by (auto simp: catalog_session_def split: option.splits)
  have page: "?posts 1 w w2"
    if "request_page (op_library p) (op_env p) c cx (oe_request_method e) (ul_string (op_library p) u)
      payload ct opts w1 jar = (w2, jar2, y)" for jar w2 jar2 y opts
    using posts_seq [OF one business_page_posts [OF assms(1,2) that]] by simp
  have waited: "?posts 1 w w3" if "wait_catalog_retry p cx w2 = (w3, z)" "?posts 1 w w2" for w2 w3 z
    using that by (auto simp: wait_catalog_retry_def Let_def posts_def)
  show ?thesis
    using run session one
    by (auto simp: catalog_attempt_def Let_def simp del: One_nat_def intro: page waited [OF _ page]
        split: sum.splits if_splits prod.splits option.splits)
qed

lemma catalog_attempts_posts:
  assumes "sound (op_library p) c" and "allowed_target (op_library p) u"
  shows "catalog_attempts p c cx cred level period_id page e service_url
      (ul_string (op_library p) u, payload, ct) expected n current w = (w', r) \<Longrightarrow>
    posts (op_library p) (harmless (op_library p) payload) n w w'"
proof (induction n arbitrary: w current)
  case 0
  then show ?case by simp
next
  case (Suc n)
  let ?posts = "posts (op_library p) (harmless (op_library p) payload)"
  obtain w1 x where run: "catalog_attempt p c cx cred level period_id page e service_url
      (ul_string (op_library p) u, payload, ct) expected (n = 0) current w = (w1, x)" by fastforce
  note one = catalog_attempt_posts [OF assms run]
  have "?posts (Suc n) w w'"
    if "catalog_attempts p c cx cred level period_id page e service_url
      (ul_string (op_library p) u, payload, ct) expected n other w1 = (w', r)" for other
    using posts_seq [OF one Suc.IH [OF that]] by simp
  then show ?case
    using Suc.prems run posts_mono [OF one] by (auto split: attempt.splits)
qed

section \<open>What a query sends and answers\<close>

lemma query_page_of_attempts:
  assumes "provider_config p w = Inr c" and "op_adapters p (sr_education_level student) = Some ad"
    and "e = (case override of None \<Rightarrow> operation_for (ad_endpoint ad c) kind | Some x \<Rightarrow> x)"
    and "academic_request_with_values (op_library p) (es_service_url (ad_endpoint ad c)) e period_id vs =
      Inr request"
    and "query_page_of p cx student cred kind period_id override vs w = (w', r)"
  shows "w' = w \<and> r = Inl (Sentinel ErrProviderUnavailable) \<or>
    (\<exists>fallback expected. ul_parse (op_library p) (fst request) = Some expected \<and>
       query_attempts p c cx (sr_education_level student) cred ad e fallback request expected
         max_query_attempts w = (w', r))"
  using assms by (auto simp: query_page_of_def Let_def split: if_splits option.splits)

text \<open>
  C39: one query submits the password at most twice (its attempts), however the saved sessions, the
  concurrent recoveries, the redirects and the pages turn out: of all the requests it sends, over
  https and to known hosts only, at most two have a body that is neither the body of the query nor
  the blank form of an expiry warning, and those are \<^verbatim>\<open>POST\<close>s to the login host. A request that
  waits for the recovery of another one adds none.
\<close>

theorem query_sends_credentials_at_most_twice:
  assumes law: "url_text_law (op_library p)" "resolve_law (op_library p)"
    and config: "provider_config p w = Inr c" "trusted_config (op_library p) c"
    and adapter: "op_adapters p (sr_education_level student) = Some ad"
    and base: "ul_parse (op_library p) (es_service_url (ad_endpoint ad c)) = Some base"
      "allowed_target (op_library p) base"
    and operation: "e = (case override of None \<Rightarrow> operation_for (ad_endpoint ad c) kind | Some x \<Rightarrow> x)"
    and request: "academic_request_with_values (op_library p) (es_service_url (ad_endpoint ad c)) e
      period_id vs = Inr (url, payload, content_type)"
    and run: "query_page_of p cx student cred kind period_id override vs w = (w', r)"
  shows "\<exists>sent. ow_sent w' = ow_sent w @ sent \<and>
    (\<forall>q\<in>set sent. wu_scheme (rq_url q) = ''https'' \<and>
       allowed_ouc_host (op_urls p) (url_hostname (rq_url q))) \<and>
    length (filter (\<lambda>q. rq_body q \<noteq> payload \<and> \<not> blank_password (op_library p) q) sent) \<le> 2 \<and>
    (\<forall>q\<in>set sent. rq_body q \<noteq> payload \<and> \<not> blank_password (op_library p) q \<longrightarrow>
       rq_method q = ''POST'' \<and> url_hostname (rq_url q) = ''id.ouc.edu.cn'')"
proof -
  have "sound (op_library p) c" using law config(2) by (simp add: sound_def)
  moreover obtain u where "allowed_target (op_library p) u" "url = ul_string (op_library p) u"
    by (rule academic_request_allowed [OF request base])
  ultimately have "posts (op_library p) (harmless (op_library p) payload) max_query_attempts w w'"
    using query_page_of_attempts [OF config(1) adapter operation request run] query_attempts_posts
    by fastforce
  then show ?thesis
    unfolding posts_def max_query_attempts_def
    by (elim exE, intro exI conjI ballI impI)
      (auto simp: harmless_def allowed_target_def op_urls_def host_identity_def conj_commute)
qed

text \<open>
  A page of the course catalog takes at most three attempts, with a new session for each at
  worst: the password is submitted at most three times.
\<close>

theorem catalog_sends_credentials_at_most_three_times:
  assumes law: "url_text_law (op_library p)" "resolve_law (op_library p)"
    and config: "provider_config p w = Inr c" "trusted_config (op_library p) c"
    and adapter: "op_adapters p level = Some ad"
    and base: "ul_parse (op_library p) (es_service_url (ad_endpoint ad c)) = Some base"
      "allowed_target (op_library p) base"
    and request: "academic_catalog_request (op_library p) (es_service_url (ad_endpoint ad c))
      (es_course_catalog (ad_endpoint ad c)) period_id page = Inr (url, payload, content_type)"
    and run: "ouc_list_catalog_page p cx cred level period_id page w = (w', r)"
  shows "\<exists>sent. ow_sent w' = ow_sent w @ sent \<and>
    (\<forall>q\<in>set sent. wu_scheme (rq_url q) = ''https'' \<and>
       allowed_ouc_host (op_urls p) (url_hostname (rq_url q))) \<and>
    length (filter (\<lambda>q. rq_body q \<noteq> payload \<and> \<not> blank_password (op_library p) q) sent) \<le> 3"
proof -
  have sound: "sound (op_library p) c" using law config(2) by (simp add: sound_def)
  obtain vs where vs: "academic_request_with_values (op_library p) (es_service_url (ad_endpoint ad c))
      (es_course_catalog (ad_endpoint ad c)) period_id vs = Inr (url, payload, content_type)"
    using request by (auto simp: academic_catalog_request_def Let_def split: if_splits)
  obtain u where u: "allowed_target (op_library p) u" "url = ul_string (op_library p) u"
    by (rule academic_request_allowed [OF vs base])
  have "posts (op_library p) (harmless (op_library p) payload) max_catalog_attempts w w'"
    using run config(1) adapter request u(2) catalog_attempts_posts [OF sound u(1)]
    by (auto simp: ouc_list_catalog_page_def Let_def split: if_splits option.splits)
  then show ?thesis
    unfolding posts_def max_catalog_attempts_def
    by (elim exE, intro exI conjI ballI)
      (auto simp: harmless_def allowed_target_def op_urls_def conj_commute)
qed

section \<open>Errors and answers\<close>







lemma classify_page_accepted:
  "classify_page pl e expected u body = Accepted \<longleftrightarrow>
     \<not> fst (detect_interactive_challenge pl body) \<and> wu_scheme u = ''https'' \<and>
     url_hostname u = url_hostname expected \<and> url_hostname u \<notin> {host_identity, host_portal} \<and>
     \<not> is_academic_login_page pl body \<and>
     (oe_response_encoding e = ''json'' \<longrightarrow> pl_json_valid pl body)"
  by (auto simp: classify_page_def)


section \<open>A query\<close>

text \<open>
  A concrete provider: the graduate system, a session saved in the cache, and servers that answer
  with an empty JSON object.
\<close>

definition graduate_parse :: "string \<Rightarrow> web_url option" where
  "graduate_parse t =
     (if t = ''https://pgs.ouc.edu.cn/'' then Some sample_url
      else if t = ''https://id.ouc.edu.cn/'' then Some (site_url host_identity)
      else if t = ''/grades''
      then Some \<lparr>wu_scheme = '''', wu_host = '''', wu_user = False, wu_path = ''/grades'',
                 wu_raw_query = '''', wu_fragment = ''''\<rparr>
      else None)"

definition graduate_library :: page_library where
  "graduate_library = site_library\<lparr>ul_parse := graduate_parse,
     pl_resolve := (\<lambda>b r. if wu_host r = '''' then r\<lparr>wu_scheme := wu_scheme b, wu_host := wu_host b\<rparr>
                        else r)\<rparr>"

definition grades_operation :: operation_endpoint where
  "grades_operation = no_operation\<lparr>oe_path := ''/grades'', oe_request_method := ''GET'',
     oe_request_encoding := ''query'', oe_response_encoding := ''json''\<rparr>"

definition graduate_config :: ouc_config where
  "graduate_config = site_config\<lparr>oc_graduate := no_endpoints\<lparr>
     es_service_url := ''https://pgs.ouc.edu.cn/'', es_grades := grades_operation,
     es_course_catalog := grades_operation\<lparr>oe_page_parameter := ''page''\<rparr>\<rparr>\<rparr>"

definition no_parsers :: page_parsers where
  "no_parsers =
     \<lparr>py_undergraduate_periods = (\<lambda>_ _. Inr []), py_graduate_periods = (\<lambda>_ _. Inr []),
      py_undergraduate_courses = (\<lambda>_ _ _. Inr \<lparr>cs_courses = [], cs_schedule_note = ''''\<rparr>),
      py_graduate_courses = (\<lambda>_ _ _. Inr []),
      py_selection_schedule = (\<lambda>_ _ _. Inr \<lparr>cs_courses = [], cs_schedule_note = ''''\<rparr>),
      py_grades = (\<lambda>_ _ _. Inr []), py_graduate_grades = (\<lambda>_ _ _. Inr []),
      py_exams = (\<lambda>_ _ _. Inr []), py_graduate_exams = (\<lambda>_ _ _. Inr []),
      py_selections = (\<lambda>_ _ _. Inr []), py_graduate_selections = (\<lambda>_ _ _. Inr []),
      py_undergraduate_catalog = (\<lambda>_ _ _ _. Inl (Opaque ''empty'')),
      py_graduate_catalog = (\<lambda>_ _ _ _. Inl (Opaque ''empty''))\<rparr>"

definition answering_env :: "(string \<times> string, unit) web_env" where
  "answering_env = site_env\<lparr>we_response := (\<lambda>_ _. Inr \<lparr>rs_status = 200, rs_location = '''',
     rs_cookies = [], rs_body = ''{}'', rs_failure = None\<rparr>)\<rparr>"

definition graduate_provider :: "(string \<times> string, unit) ouc_provider" where
  "graduate_provider =
     \<lparr>op_library = graduate_library, op_codec = sample_session_codec, op_env = answering_env,
      op_store = ScopedStore,
      op_config = Some (\<lambda>_. \<lparr>cs_active = provider_ouc, cs_ouc = graduate_config,
                             cs_mock_credentials = ''''\<rparr>),
      op_adapters = default_adapters no_parsers, op_parsers = no_parsers,
      op_formats = \<lparr>tf_float = (\<lambda>_. ''''), tf_time = (\<lambda>_. '''')\<rparr>,
      op_flight = (\<lambda>_. None), op_abandon = (\<lambda>_. False)\<rparr>"

definition graduate_student :: student_reference where
  "graduate_student = \<lparr>sr_user_id = 1, sr_student_no = ''s1'', sr_provider = provider_ouc,
     sr_education_level = education_level_graduate\<rparr>"

definition graduate_credential :: credential where
  "graduate_credential = \<lparr>cr_student_no = ''s1'', cr_password = ''pw''\<rparr>"

definition graduate_world :: "(string \<times> string) ouc_world" where
  "graduate_world = \<lparr>w_step = 0, w_redis = w_redis session_world, ow_sent = []\<rparr>"

lemma graduate_simps [simp]:
  "op_library graduate_provider = graduate_library"
  "op_env graduate_provider = answering_env"
  "op_codec graduate_provider = sample_session_codec"
  "op_store graduate_provider = ScopedStore"
  "ul_parse graduate_library = graduate_parse"
  "ul_string graduate_library = site_string"
  "pl_encode graduate_library = pl_encode site_library"
  "pl_html graduate_library = pl_html site_library"
  "pl_json_valid graduate_library b"
  "pl_path_escape graduate_library = (\<lambda>s. s)"
  "pl_query graduate_library = (\<lambda>_. [])"
  by (simp_all add: graduate_provider_def graduate_library_def site_library_def)

lemma graduate_laws: "url_text_law graduate_library" "resolve_law graduate_library"
    "trusted_config graduate_library graduate_config"
proof -
  show "url_text_law graduate_library"
    by (auto simp: url_text_law_def allowed_target_def site_string_def graduate_parse_def
        site_url_def sample_url_def split: if_splits)
  show "resolve_law graduate_library" by (simp add: resolve_law_def graduate_library_def)
  have "ul_parse graduate_library (oc_sso_login_url graduate_config) = Some (site_url host_identity)"
    by (simp add: graduate_config_def site_config_def graduate_parse_def)
  moreover have "allowed_target graduate_library (site_url host_identity)"
    by (simp add: allowed_target_def site_url_def url_hostname_def host_samples allowed_identity)
  ultimately show "trusted_config graduate_library graduate_config"
    by (auto simp: trusted_config_def graduate_parse_def sample_url_def site_url_def split: if_splits)
qed

lemma graduate_service: "allowed_target pl sample_url"
  by (simp add: allowed_target_def sample_url_simps allowed_ouc_host_def to_lower_sample)

lemma graduate_setup:
  "provider_config graduate_provider w = Inr graduate_config"
  "op_adapters graduate_provider education_level_graduate = Some (graduate_adapter no_parsers)"
  "ad_endpoint (graduate_adapter no_parsers) graduate_config = oc_graduate graduate_config"
  "es_service_url (oc_graduate graduate_config) = ''https://pgs.ouc.edu.cn/''"
  "es_grades (oc_graduate graduate_config) = grades_operation"
  "sr_education_level graduate_student = education_level_graduate"
  by (simp_all add: provider_config_def graduate_provider_def default_adapters_def graduate_adapter_def
      graduate_config_def graduate_parse_def graduate_student_def
      education_level_graduate_def education_level_undergraduate_def)

lemma grades_fields:
  "oe_path grades_operation = ''/grades''" "oe_request_method grades_operation = ''GET''"
  "oe_request_encoding grades_operation = ''query''" "oe_response_encoding grades_operation = ''json''"
  "oe_parameters grades_operation = []"
  by (simp_all add: grades_operation_def no_operation_def)

lemma graduate_request:
  "academic_request_with_values graduate_library ''https://pgs.ouc.edu.cn/'' grades_operation '''' [] = Inr (''https://pgs.ouc.edu.cn/'', '''', '''')"
proof -
  have path: "request_path graduate_library grades_operation '''' = ''/grades''"
    by (simp add: request_path_def grades_operation_def period_mark_def has_prefix_def)
  have target: "academic_target graduate_library ''https://pgs.ouc.edu.cn/'' ''/grades'' =
      Inr \<lparr>wu_scheme = ''https'', wu_host = host_graduate, wu_user = False, wu_path = ''/grades'',
           wu_raw_query = '''', wu_fragment = ''''\<rparr>"
    by (simp add: academic_target_def graduate_setup graduate_parse_def graduate_library_def
        sample_url_def url_hostname_def Let_def)
  show ?thesis
    by (simp add: academic_request_with_values_def path target operation_values_def
        academic_period_values_def grades_fields site_string_def has_prefix_def host_defs)
qed

lemma graduate_state_valid:
  "validate_session_state (op_urls graduate_provider) sample_state = None"
  "validate_scoped_session_state (op_urls graduate_provider) sample_state scope_graduate = None"
proof -
  let ?ul = "op_urls graduate_provider"
  have parse: "ul_parse ?ul ''https://pgs.ouc.edu.cn/'' = Some sample_url"
    by (simp add: op_urls_def url_library.truncate_def graduate_parse_def)
  have "valid_cookie_set ?ul (hd (sst_sets sample_state))"
    by (simp add: valid_cookie_set_def sample_state_def session_url_host_def parse
        sample_url_simps allowed_ouc_host_def to_lower_sample valid_session_cookie_def
        trim_space_sample max_session_cookie_length_def contains_any_def utf8_def
        valid_session_cookie_domain_def canonical_cookie_domain_def has_prefix_def char_of_def)
  then show v: "validate_session_state ?ul sample_state = None"
    unfolding validate_session_state_None
    by (simp add: sample_state_def max_session_cookie_sets_def max_session_cookies_def)
  have "parsed_host ?ul ''https://pgs.ouc.edu.cn/'' = host_graduate"
    by (simp add: parsed_host_def parse sample_url_simps)
  then have "check_scoped_sets ?ul scope_graduate (sst_sets sample_state) = None"
    by (simp add: sample_state_def scope_allows_host_def scope_defs to_lower_sample
        trim_space_sample parent_domain_cookie_def canonical_or_empty_def
        canonical_cookie_domain_def parent_domain_def)
  with v show "validate_scoped_session_state ?ul sample_state scope_graduate = None"
    by (simp add: validate_scoped_session_state_def)
qed

text \<open>The saved session is found and restored, and the query is one request.\<close>

lemma graduate_load:
  "load_scope (op_urls graduate_provider) sample_session_codec answering_env ''s1'' ''pw'' scope_graduate
     graduate_world = (graduate_world\<lparr>w_step := 1\<rparr>, Inr (Some sample_state))"
  using graduate_state_valid
  by (simp add: load_scope_def load_key_def redis_command_def graduate_world_def session_world_def
      save_session_script_def live_get_def px_ms_def open_session_def sample_session_codec_def
      max_session_state_bytes_def valid_session_scope_def duration_defs Let_def
      answering_env_def site_env_def store_env.defs web_env.defs quiet_env_def
      split: prod.splits)

lemma graduate_restored:
  "\<exists>jar. restored graduate_provider sample_state w = Inr jar"
proof -
  have parse: "ul_parse (op_urls graduate_provider) ''https://pgs.ouc.edu.cn/'' = Some sample_url"
    by (simp add: op_urls_def url_library.truncate_def graduate_parse_def)
  have sets: "sst_sets sample_state = [\<lparr>kset_url = ''https://pgs.ouc.edu.cn/'',
      kset_cookies = [\<lparr>sc_name = ''JSESSIONID'', sc_value = ''v'', sc_domain = '''', sc_path = ''/'',
        sc_expires_at = 0\<rparr>]\<rparr>]"
    by (simp add: sample_state_def)
  have client: "we_client answering_env = Inr ()"
    by (simp add: answering_env_def site_env_def store_env.defs web_env.defs)
  show ?thesis
    by (simp add: restored_def restore_session_def graduate_state_valid client sets parse
        live_session_cookie_def)
qed

lemma graduate_session:
  obtains jar where "session_for_query graduate_provider graduate_config background
    education_level_graduate graduate_credential service graduate_world =
      (graduate_world\<lparr>w_step := 1\<rparr>, Inr jar)"
proof -
  obtain jar where jar: "restored graduate_provider sample_state (graduate_world\<lparr>w_step := 1\<rparr>) = Inr jar"
    using graduate_restored by blast
  have scope: "scope_for_level education_level_graduate = scope_graduate"
    by (simp add: scope_for_level_def education_level_graduate_def education_level_undergraduate_def)
  have known: "scope_graduate \<noteq> scope_undergraduate" "valid_session_scope scope_graduate"
    by (simp_all add: scope_defs valid_session_scope_def)
  have "load_target_session graduate_provider graduate_config background graduate_credential
      scope_graduate graduate_world = (graduate_world\<lparr>w_step := 1\<rparr>, Inr (Some jar))"
    by (simp add: load_target_session_def graduate_credential_def graduate_load jar known
        del: One_nat_def)
  then have "session_for_query graduate_provider graduate_config background
    education_level_graduate graduate_credential service graduate_world =
      (graduate_world\<lparr>w_step := 1\<rparr>, Inr jar)"
    by (simp add: session_for_query_def scope known del: One_nat_def)
  then show ?thesis by (rule that)
qed

lemma graduate_page:
  "\<exists>w' jar'. request_page graduate_library answering_env graduate_config background ''GET''
     ''https://pgs.ouc.edu.cn/'' '''' '''' no_options w jar = (w', jar', Inr (sample_url, ''{}'', False)) \<and>
     (\<exists>q. ow_sent w' = ow_sent w @ [q] \<and> rq_url q = sample_url)"
proof -
  have answer: "we_response answering_env n rq = Inr \<lparr>rs_status = 200, rs_location = '''', rs_cookies = [],
      rs_body = ''{}'', rs_failure = None\<rparr>" for n rq
    by (simp add: answering_env_def)
  have limit: "2 \<le> oc_max_response_bytes graduate_config"
    by (simp add: graduate_config_def site_config_def sample_config_def)
  then have "take (nat (oc_max_response_bytes graduate_config + 1)) ''{}'' = ''{}''" by simp
  with limit show ?thesis
    by (simp add: request_page_def http_do.simps send_request_def answer with_cookies_def
        next_request_def redirect_behaviour_def graduate_parse_def read_page_def no_options_def Let_def)
qed

lemma graduate_answer:
  "\<exists>w' page q. query_page_of graduate_provider background graduate_student graduate_credential
     QueryGrades '''' None [] graduate_world = (w', Inr page) \<and> qp_body page = ''{}'' \<and>
     ow_sent w' = [q] \<and> rq_url q = sample_url"
proof -
  obtain jar where session: "session_for_query graduate_provider graduate_config background
      education_level_graduate graduate_credential ''https://pgs.ouc.edu.cn/'' graduate_world =
      (graduate_world\<lparr>w_step := 1\<rparr>, Inr jar)" by (rule graduate_session)
  from graduate_page [of "graduate_world\<lparr>w_step := 1\<rparr>" jar] obtain w' jar' q where
    page: "request_page graduate_library answering_env graduate_config background ''GET''
       ''https://pgs.ouc.edu.cn/'' '''' '''' no_options (graduate_world\<lparr>w_step := 1\<rparr>) jar =
       (w', jar', Inr (sample_url, ''{}'', False))"
    and q: "ow_sent w' = [q]" "rq_url q = sample_url"
    by (auto simp: graduate_world_def)
  have trims: "trim_space ''{}'' = ''{}''" "trim_space ''/grades'' = ''/grades''"
    by (rule trim_space_visible; simp add: visible_def)+
  have "classify_page graduate_library grades_operation sample_url sample_url ''{}'' = Accepted"
    by (simp add: classify_page_accepted detect_interactive_challenge_def trims trim_prefix_def
        has_prefix_def utf8_def is_academic_login_page_def sample_url_simps host_defs site_library_def)
  then show ?thesis
    using session page q
    by (simp add: query_page_of_def graduate_setup trims grades_fields graduate_request
        graduate_student_def graduate_parse_def max_query_attempts_def eval_nat_numeral Let_def)
qed

theorem query_sends_credentials_at_most_twice_witness:
  "\<exists>w' page q. query_page_of graduate_provider background graduate_student graduate_credential
     QueryGrades '''' None [] graduate_world = (w', Inr page) \<and> ow_sent w' = [q] \<and>
     wu_scheme (rq_url q) = ''https'' \<and>
     length (filter (\<lambda>q. rq_body q \<noteq> '''' \<and> \<not> blank_password graduate_library q) [q]) \<le> 2"
proof -
  from graduate_answer obtain w' page q where run: "query_page_of graduate_provider background
      graduate_student graduate_credential QueryGrades '''' None [] graduate_world = (w', Inr page)"
    and q: "ow_sent w' = [q]" by blast
  have "ow_sent graduate_world = []" by (simp add: graduate_world_def)
  with query_sends_credentials_at_most_twice [of graduate_provider graduate_world graduate_config
      graduate_student "graduate_adapter no_parsers" sample_url grades_operation QueryGrades None "''''"
      "[]" "''https://pgs.ouc.edu.cn/''" "''''" "''''", OF _ _ graduate_setup(1) _ _ _ _ _ _ run]
    graduate_laws graduate_service [of graduate_library] graduate_setup graduate_request q
  have "wu_scheme (rq_url q) = ''https'' \<and>
     length (filter (\<lambda>q. rq_body q \<noteq> '''' \<and> \<not> blank_password graduate_library q) [q]) \<le> 2"
    by (auto simp: graduate_parse_def)
  with run q show ?thesis by blast
qed


lemma graduate_catalog_request:
  "academic_catalog_request graduate_library ''https://pgs.ouc.edu.cn/''
     (es_course_catalog (oc_graduate graduate_config)) ''2025'' 1 =
     Inr (''https://pgs.ouc.edu.cn/'', '''', '''')"
proof -
  let ?e = "es_course_catalog (oc_graduate graduate_config)"
  have fields: "oe_path ?e = ''/grades''" "oe_page_parameter ?e = ''page''" "oe_page_size ?e = 0"
    "oe_request_encoding ?e = ''query''" "oe_parameters ?e = []" "oe_period_parameters ?e = []"
    "oe_period_parameter ?e = ''''"
    by (simp_all add: graduate_config_def grades_operation_def no_operation_def)
  have path: "request_path graduate_library ?e ''2025'' = ''/grades''"
    by (simp add: request_path_def fields period_mark_def has_prefix_def)
  have target: "academic_target graduate_library ''https://pgs.ouc.edu.cn/'' ''/grades'' =
      Inr \<lparr>wu_scheme = ''https'', wu_host = host_graduate, wu_user = False, wu_path = ''/grades'',
           wu_raw_query = '''', wu_fragment = ''''\<rparr>"
    by (simp add: academic_target_def graduate_parse_def graduate_library_def
        sample_url_def url_hostname_def Let_def)
  show ?thesis
    by (simp add: academic_catalog_request_def academic_request_with_values_def path target
        operation_values_def academic_period_values_def fields site_string_def has_prefix_def host_defs
        request_payload_def values_set_def Let_def)
qed

theorem catalog_sends_credentials_at_most_three_times_witness:
  "\<exists>sent. ow_sent (fst (ouc_list_catalog_page graduate_provider background graduate_credential
       education_level_graduate ''2025'' 1 graduate_world)) = sent \<and>
     list_all (\<lambda>q. wu_scheme (rq_url q) = ''https'') sent \<and>
     length (filter (\<lambda>q. rq_body q \<noteq> '''' \<and> \<not> blank_password graduate_library q) sent) \<le> 3"
proof -
  let ?r = "ouc_list_catalog_page graduate_provider background graduate_credential
       education_level_graduate ''2025'' 1 graduate_world"
  have run: "?r = (fst ?r, snd ?r)" by simp
  have "ow_sent graduate_world = []" by (simp add: graduate_world_def)
  with catalog_sends_credentials_at_most_three_times [of graduate_provider graduate_world
      graduate_config education_level_graduate "graduate_adapter no_parsers" sample_url "''2025''" 1
      "''https://pgs.ouc.edu.cn/''" "''''" "''''", OF _ _ graduate_setup(1) _ _ _ _ _ run]
    graduate_laws graduate_service [of graduate_library] graduate_setup graduate_catalog_request
  show ?thesis by (auto simp: graduate_parse_def list_all_iff)
qed

end
