(* ===== verification/GoRegexp.thy ===== *)
theory GoRegexp
  imports GoStrings
begin

text \<open>
  Go's \<^verbatim>\<open>regexp\<close> as the parsers of the school systems use it: leftmost matches, and among those of one
  position the first in the order in which a backtracking search meets them (earlier alternatives
  first, repetitions as long as possible). \<open>run r s\<close> lists the matches at the start of \<open>s\<close> in this
  order, each with the rest of the text and the texts of its groups; a group that takes no part is
  the empty text, as in \<^verbatim>\<open>FindStringSubmatch\<close>. A rune outside ASCII is the literal of its bytes: its
  leading byte occurs nowhere inside another rune, so a search by bytes meets the runes of a search
  by runes. No group of the sources is below a star, and no pattern matches the empty text.
\<close>

datatype re =
    Lit string
  | Byte "(nat \<times> nat) list"
  | NotByte "(nat \<times> nat) list"
  | Seq re re
  | Alt re re
  | Opt re
  | Star re
  | Group re
  | AtEnd

primrec groups :: "re \<Rightarrow> nat" where
  "groups (Lit t) = 0"
| "groups (Byte rs) = 0"
| "groups (NotByte rs) = 0"
| "groups (Seq r q) = groups r + groups q"
| "groups (Alt r q) = groups r + groups q"
| "groups (Opt r) = groups r"
| "groups (Star r) = 0"
| "groups (Group r) = Suc (groups r)"
| "groups AtEnd = 0"

definition in_ranges :: "(nat \<times> nat) list \<Rightarrow> char \<Rightarrow> bool" where
  "in_ranges rs c \<longleftrightarrow> list_ex (\<lambda>(lo, hi). byte_in lo hi c) rs"

fun one_byte :: "(char \<Rightarrow> bool) \<Rightarrow> string \<Rightarrow> (string \<times> string list) list" where
  "one_byte p [] = []"
| "one_byte p (c # s) = (if p c then [(s, [])] else [])"

text \<open>Repetitions, the longest first; the length of the text bounds their number.\<close>

primrec star_run :: "(string \<Rightarrow> string list) \<Rightarrow> nat \<Rightarrow> string \<Rightarrow> string list" where
  "star_run f 0 s = [s]"
| "star_run f (Suc n) s =
     concat (map (star_run f n) (filter (\<lambda>t. length t < length s) (f s))) @ [s]"

primrec run :: "re \<Rightarrow> string \<Rightarrow> (string \<times> string list) list" where
  "run (Lit t) = (\<lambda>s. if has_prefix s t then [(drop (length t) s, [])] else [])"
| "run (Byte rs) = one_byte (in_ranges rs)"
| "run (NotByte rs) = one_byte (\<lambda>c. \<not> in_ranges rs c)"
| "run (Seq r q) = (\<lambda>s. concat (map (\<lambda>(t, g). map (\<lambda>(u, h). (u, g @ h)) (run q t)) (run r s)))"
| "run (Alt r q) = (\<lambda>s.
     map (\<lambda>(t, g). (t, g @ replicate (groups q) '''')) (run r s) @
     map (\<lambda>(t, g). (t, replicate (groups r) '''' @ g)) (run q s))"
| "run (Opt r) = (\<lambda>s. run r s @ [(s, replicate (groups r) '''')])"
| "run (Star r) = (\<lambda>s. map (\<lambda>t. (t, [])) (star_run (\<lambda>u. map fst (run r u)) (length s) s))"
| "run (Group r) = (\<lambda>s. map (\<lambda>(t, g). (t, take (length s - length t) s # g)) (run r s))"
| "run AtEnd = (\<lambda>s. if s = [] then [(s, [])] else [])"

section \<open>Searching\<close>

text \<open>The first match at the start of the text, its rest and its submatches with the whole first.\<close>

definition first_match :: "re \<Rightarrow> string \<Rightarrow> (string list \<times> string) option" where
  "first_match r s =
     (case run r s of
        [] \<Rightarrow> None
      | (t, g) # _ \<Rightarrow> Some (take (length s - length t) s # g, t))"

fun leftmost :: "re \<Rightarrow> string \<Rightarrow> (string list \<times> string) option" where
  "leftmost r [] = first_match r []"
| "leftmost r (c # s) =
     (case first_match r (c # s) of None \<Rightarrow> leftmost r s | Some m \<Rightarrow> Some m)"

text \<open>\<^verbatim>\<open>FindStringSubmatch\<close> gives no submatches (\<^verbatim>\<open>nil\<close>) without a match; \<^verbatim>\<open>^\<close> anchors the pattern.\<close>

definition find_submatch :: "re \<Rightarrow> string \<Rightarrow> string list" where
  "find_submatch r s = (case leftmost r s of None \<Rightarrow> [] | Some (m, _) \<Rightarrow> m)"

definition anchored_submatch :: "re \<Rightarrow> string \<Rightarrow> string list" where
  "anchored_submatch r s = (case first_match r s of None \<Rightarrow> [] | Some (m, _) \<Rightarrow> m)"

definition find_text :: "re \<Rightarrow> string \<Rightarrow> string" where
  "find_text r s = (case find_submatch r s of [] \<Rightarrow> '''' | m # _ \<Rightarrow> m)"

definition match_string :: "re \<Rightarrow> string \<Rightarrow> bool" where
  "match_string r s \<longleftrightarrow> find_submatch r s \<noteq> []"

lemma run_suffix: "(t, g) \<in> set (run r s) \<Longrightarrow> suffix t s"
proof (induction r arbitrary: s t g)
  case (Lit p)
  then show ?case by (auto simp: suffix_drop split: if_splits)
next
  case (Byte rs)
  then show ?case by (cases s) (auto simp: suffix_Cons split: if_splits)
next
  case (NotByte rs)
  then show ?case by (cases s) (auto simp: suffix_Cons split: if_splits)
next
  case (Seq r q)
  then show ?case by (fastforce intro: suffix_order.trans)
next
  case (Star r)
  have "u \<in> set (star_run (\<lambda>v. map fst (run r v)) n s) \<Longrightarrow> suffix u s" for u n s
  proof (induction n arbitrary: s)
    case (Suc n)
    then show ?case using Star.IH by (fastforce intro: suffix_order.trans)
  qed simp
  with Star.prems show ?case by auto
qed (auto split: if_splits)

lemma run_shorter: "(t, g) \<in> set (run r s) \<Longrightarrow> length t \<le> length s"
  by (rule suffix_length_le [OF run_suffix])

lemma leftmost_shorter: "leftmost r s = Some (m, t) \<Longrightarrow> length t \<le> length s"
proof (induction s)
  case Nil
  then show ?case
    using run_shorter [of t _ r "[]"]
    by (auto simp: first_match_def split: list.splits)
next
  case (Cons c s)
  show ?case
  proof (cases "first_match r (c # s)")
    case None
    with Cons show ?thesis by simp
  next
    case (Some p)
    with Cons.prems have "p = (m, t)" by simp
    with Some have "\<exists>g. (t, g) \<in> set (run r (c # s))"
      by (auto simp: first_match_def split: list.splits)
    then show ?thesis by (auto dest: run_shorter)
  qed
qed

text \<open>\<^verbatim>\<open>FindAllStringSubmatch\<close>: the search goes on behind each match.\<close>

function find_all_submatch :: "re \<Rightarrow> string \<Rightarrow> string list list" where
  "find_all_submatch r s =
     (case leftmost r s of
        None \<Rightarrow> []
      | Some (m, t) \<Rightarrow> m # (if length t < length s then find_all_submatch r t else []))"
  by pat_completeness auto
termination by (relation "measure (length \<circ> snd)") auto

declare find_all_submatch.simps [simp del]

definition find_all_text :: "re \<Rightarrow> string \<Rightarrow> string list" where
  "find_all_text r s = map hd (find_all_submatch r s)"

section \<open>Patterns\<close>

fun seq :: "re list \<Rightarrow> re" where
  "seq [] = Lit ''''"
| "seq [r] = r"
| "seq (r # rs) = Seq r (seq rs)"

fun alts :: "re list \<Rightarrow> re" where
  "alts [] = NotByte [(0, 255)]"
| "alts [r] = r"
| "alts (r # rs) = Alt r (alts rs)"

definition one_of :: "string list \<Rightarrow> re" where
  "one_of ts = alts (map Lit ts)"

definition plus :: "re \<Rightarrow> re" where
  "plus r = Seq r (Star r)"

definition re_digit :: re where "re_digit = Byte [(48, 57)]"
definition re_space :: re where "re_space = Byte [(9, 10), (12, 13), (32, 32)]"
definition re_spaces :: re where "re_spaces = Star re_space"
definition re_number :: re where "re_number = plus re_digit"

section \<open>Numbers\<close>

text \<open>\<^verbatim>\<open>strconv.Atoi\<close>: an optional sign and decimal digits in the range of 64 bits.\<close>

definition decimal :: "string \<Rightarrow> int option" where
  "decimal s = (if s \<noteq> '''' \<and> list_all is_digit s then Some (digits_value s) else None)"

definition in_int64 :: "int \<Rightarrow> bool" where
  "in_int64 i \<longleftrightarrow> - (2 ^ 63) \<le> i \<and> i < 2 ^ 63"

definition go_atoi :: "string \<Rightarrow> int option" where
  "go_atoi s =
     (let number =
        (case s of
           [] \<Rightarrow> None
         | c # t \<Rightarrow>
             if c = CHR ''-'' then map_option uminus (decimal t)
             else if c = CHR ''+'' then decimal t else decimal s)
      in case number of None \<Rightarrow> None | Some i \<Rightarrow> if in_int64 i then Some i else None)"

lemma go_atoi_range: "go_atoi s = Some i \<Longrightarrow> in_int64 i"
  by (auto simp: go_atoi_def Let_def split: option.splits if_splits)

section \<open>The first match\<close>

definition starts :: "re \<Rightarrow> string \<Rightarrow> string \<Rightarrow> string list \<Rightarrow> bool" where
  "starts r s t g \<longleftrightarrow> (\<exists>ms. run r s = (t, g) # ms)"

lemma starts_Seq: "starts r s t g \<Longrightarrow> starts q t u h \<Longrightarrow> starts (Seq r q) s u (g @ h)"
  by (auto simp: starts_def)

lemma starts_Opt: "starts r s t g \<Longrightarrow> starts (Opt r) s t g"
  by (auto simp: starts_def)

lemma starts_Opt_none: "run r s = [] \<Longrightarrow> starts (Opt r) s s (replicate (groups r) '''')"
  by (simp add: starts_def)

lemma starts_Lit: "starts (Lit t) (t @ s) s []"
  by (simp add: starts_def has_prefix_def)

lemma starts_Group: "starts r s t g \<Longrightarrow> starts (Group r) s t (take (length s - length t) s # g)"
  by (auto simp: starts_def)

lemma starts_Star_none: "run r s = [] \<Longrightarrow> starts (Star r) s s []"
  by (cases "length s") (simp_all add: starts_def)

lemma run_Seq_none: "run r s = [] \<Longrightarrow> run (Seq r q) s = []"
  by simp

lemma first_match_starts:
  "starts r s t g \<Longrightarrow> first_match r s = Some (take (length s - length t) s # g, t)"
  by (auto simp: starts_def first_match_def)

lemma first_match_none: "first_match r s = None \<longleftrightarrow> run r s = []"
  by (simp add: first_match_def split: list.splits)

lemma leftmost_starts: "starts r s t g \<Longrightarrow> leftmost r s = Some (take (length s - length t) s # g, t)"
  by (cases s) (simp_all add: first_match_starts)

lemma leftmost_skip: "run r (c # s) = [] \<Longrightarrow> leftmost r (c # s) = leftmost r s"
  by (simp add: first_match_def)

lemma leftmost_later: "run r s \<noteq> [] \<Longrightarrow> leftmost r (pre @ s) \<noteq> None"
  by (induction pre) (cases s, auto simp: first_match_none split: option.splits)

section \<open>Digits\<close>

text \<open>A run of digits is matched to its end.\<close>

lemma is_digit_range: "in_ranges [(48, 57)] c \<longleftrightarrow> is_digit c"
  by (simp add: in_ranges_def byte_in_def is_digit_def)

definition no_digit_at :: "string \<Rightarrow> bool" where
  "no_digit_at s \<longleftrightarrow> (case s of [] \<Rightarrow> True | c # _ \<Rightarrow> \<not> is_digit c)"

lemma run_digit: "run re_digit (c # s) = (if is_digit c then [(s, [])] else [])" "run re_digit [] = []"
  by (simp_all add: re_digit_def is_digit_range)

lemma star_digits:
  assumes "list_all is_digit ds" and "no_digit_at s" and "length ds \<le> n"
  shows "\<exists>ts. star_run (\<lambda>u. map fst (run re_digit u)) n (ds @ s) = s # ts"
  using assms
proof (induction ds arbitrary: n)
  case Nil
  have "run re_digit s = []" using Nil.prems(2) by (cases s) (simp_all add: run_digit no_digit_at_def)
  then show ?case by (cases n) simp_all
next
  case (Cons d ds)
  then obtain m where n: "n = Suc m" by (cases n) simp_all
  with Cons show ?case by (fastforce simp: run_digit)
qed

lemma starts_number:
  assumes "list_all is_digit ds" and "ds \<noteq> []" and "no_digit_at s"
  shows "starts re_number (ds @ s) s []"
proof -
  obtain d ds' where ds: "ds = d # ds'" using assms(2) by (cases ds) auto
  have "starts re_digit (ds @ s) (ds' @ s) []" using assms(1) by (simp add: ds starts_def run_digit)
  moreover have "starts (Star re_digit) (ds' @ s) s []"
    using star_digits [of ds' s "length (ds' @ s)"] assms by (auto simp: ds starts_def)
  ultimately show ?thesis
    using starts_Seq [of re_digit "ds @ s" "ds' @ s" "[]" "Star re_digit" s "[]"]
    by (simp add: re_number_def plus_def)
qed

lemma run_number_none: "no_digit_at s \<Longrightarrow> run re_number s = []"
  by (cases s) (simp_all add: re_number_def plus_def run_digit no_digit_at_def)

lemma number_shorter: "leftmost re_number s = Some (m, t) \<Longrightarrow> length t < length s"
proof (induction s)
  case Nil
  then show ?case by (simp add: first_match_def run_number_none no_digit_at_def)
next
  case (Cons c s)
  show ?case
  proof (cases "is_digit c")
    case False
    then have "leftmost re_number (c # s) = leftmost re_number s"
      by (intro leftmost_skip run_number_none) (simp add: no_digit_at_def)
    with Cons show ?thesis by (auto simp del: leftmost.simps intro: less_SucI)
  next
    case True
    let ?ds = "takeWhile is_digit (c # s)" and ?rest = "dropWhile is_digit (c # s)"
    have "list_all is_digit ?ds" by (auto simp: list_all_iff dest: set_takeWhileD)
    moreover have "no_digit_at ?rest"
      by (simp add: no_digit_at_def hd_dropWhile split: list.splits) (metis hd_dropWhile list.sel(1) list.distinct(1))
    ultimately have "starts re_number (?ds @ ?rest) ?rest []"
      using True by (intro starts_number) simp_all
    then have "leftmost re_number (c # s) = Some (take (length (c # s) - length ?rest) (c # s) # [], ?rest)"
      using leftmost_starts by (metis takeWhile_dropWhile_id)
    with Cons.prems True show ?thesis
      by (simp add: le_imp_less_Suc length_dropWhile_le)
  qed
qed

lemma find_numbers_digits:
  assumes "list_all is_digit ds" and "ds \<noteq> []" and "no_digit_at s"
  shows "find_all_text re_number (ds @ s) = ds # find_all_text re_number s"
proof -
  have "leftmost re_number (ds @ s) = Some ([ds], s)"
    using leftmost_starts [OF starts_number [OF assms]] by simp
  then show ?thesis
    using assms(2) by (simp add: find_all_text_def find_all_submatch.simps [of re_number "ds @ s"])
qed

lemma find_numbers_skip:
  assumes "\<not> is_digit c"
  shows "find_all_text re_number (c # s) = find_all_text re_number s"
proof -
  have "leftmost re_number (c # s) = leftmost re_number s"
    using assms by (intro leftmost_skip run_number_none) (simp add: no_digit_at_def)
  then show ?thesis
    using number_shorter [of s]
    by (auto simp: find_all_text_def find_all_submatch.simps [of re_number "c # s"]
        find_all_submatch.simps [of re_number s] split: option.splits dest: less_SucI)
qed

lemma find_numbers_Nil: "find_all_text re_number [] = []"
  by (simp add: find_all_text_def find_all_submatch.simps [of re_number "[]"] first_match_def
      run_number_none no_digit_at_def)

lemma find_numbers_none: "list_all (\<lambda>c. \<not> is_digit c) s \<Longrightarrow> find_all_text re_number s = []"
  by (induction s) (simp_all add: find_numbers_Nil find_numbers_skip)

section \<open>Matches are parts of the text\<close>

lemma first_match_run:
  "first_match r s = Some (m, t) \<Longrightarrow>
    \<exists>g. (t, g) \<in> set (run r s) \<and> m = take (length s - length t) s # g"
  by (fastforce simp: first_match_def split: list.splits)

lemma leftmost_parts:
  "leftmost r s = Some (m, t) \<Longrightarrow> \<exists>pre part. m \<noteq> [] \<and> hd m = part \<and> s = pre @ part @ t"
proof (induction s)
  case Nil
  then show ?case
    using run_suffix [of t _ r "[]"]
    by (auto simp: first_match_def split: list.splits)
next
  case (Cons c s)
  show ?case
  proof (cases "first_match r (c # s)")
    case None
    with Cons show ?thesis by (fastforce intro: exI [of _ "c # _"])
  next
    case (Some p)
    with Cons.prems have "first_match r (c # s) = Some (m, t)" by simp
    from first_match_run [OF this] obtain g where g: "(t, g) \<in> set (run r (c # s))"
      "m = take (length (c # s) - length t) (c # s) # g"
      by blast
    then obtain part where "c # s = part @ t" using run_suffix by (blast elim: suffixE)
    with g show ?thesis by auto
  qed
qed

lemma find_all_sublist: "part \<in> set (find_all_text r s) \<Longrightarrow> sublist part s"
  unfolding find_all_text_def
proof (induction r s rule: find_all_submatch.induct)
  case (1 r s)
  show ?case
  proof (cases "leftmost r s")
    case None
    with 1 show ?thesis by (simp add: find_all_submatch.simps [of r s])
  next
    case (Some p)
    obtain m t where p: "p = (m, t)" by (cases p)
    from leftmost_parts [of r s m t] Some p obtain pre where s: "s = pre @ hd m @ t" by auto
    then have "sublist (hd m) s" "sublist t s" by (auto simp: sublist_def) (metis append_assoc append_Nil2)
    then have "sublist u s" if "sublist u t" for u using that sublist_order.order_trans by blast
    with \<open>sublist (hd m) s\<close> 1 Some p show ?thesis
      by (fastforce simp: find_all_submatch.simps [of r s] split: if_splits)
  qed
qed

end
