(* ===== verification/GoCalendar.thy ===== *)
theory GoCalendar
  imports Prelude
begin

text \<open>
  The proleptic Gregorian calendar of Go's \<^verbatim>\<open>time\<close> package as far as the parsers use it: \<^verbatim>\<open>time.Date\<close> at
  midnight in a fixed zone, \<^verbatim>\<open>Year\<close>, \<^verbatim>\<open>Month\<close> and \<^verbatim>\<open>Weekday\<close>. A day is the number of days since
  1 January of year 1, which was a Monday.
\<close>

definition leap_year :: "int \<Rightarrow> bool" where
  "leap_year y \<longleftrightarrow> y mod 4 = 0 \<and> (y mod 100 \<noteq> 0 \<or> y mod 400 = 0)"

definition year_start :: "int \<Rightarrow> int" where
  "year_start y = 365 * (y - 1) + (y - 1) div 4 - (y - 1) div 100 + (y - 1) div 400"

definition month_start :: "int \<Rightarrow> int \<Rightarrow> int" where
  "month_start y m =
     [0, 31, 59, 90, 120, 151, 181, 212, 243, 273, 304, 334] ! nat (m - 1) +
     (if leap_year y \<and> 2 < m then 1 else 0)"

definition date_day :: "int \<Rightarrow> int \<Rightarrow> int \<Rightarrow> int" where
  "date_day y m d = year_start y + month_start y m + (d - 1)"

definition weekday_of :: "int \<Rightarrow> int" where \<comment> \<open>Monday is 1, Sunday 0\<close>
  "weekday_of n = (n + 1) mod 7"

text \<open>The year of a day: four-hundreds, hundreds, fours and ones of years, the last of each possibly long.\<close>

definition year_of :: "int \<Rightarrow> int" where
  "year_of n =
     (let c = n div 146097; r = n mod 146097;
          h = min 3 (r div 36524); r1 = r - 36524 * h;
          q = r1 div 1461; r2 = r1 mod 1461
      in 400 * c + 100 * h + 4 * q + min 3 (r2 div 365) + 1)"

definition month_of :: "int \<Rightarrow> int" where
  "month_of n =
     int (length (takeWhile (\<lambda>m. month_start (year_of n) m \<le> n - year_start (year_of n))
       [1, 2, 3, 4, 5, 6, 7, 8, 9, 10, 11, 12]))"

text \<open>A day is in the year it is given, and that year is the only one.\<close>

lemma year_start_mono:
  assumes "y < z"
  shows "year_start y < year_start z"
proof -
  have "(z - 1) div 100 \<le> ((y - 1) + 100 * (z - y)) div 100"
    using assms by (intro zdiv_mono1) simp_all
  then have "(z - 1) div 100 \<le> (y - 1) div 100 + (z - y)" by simp
  moreover have "(y - 1) div 4 \<le> (z - 1) div 4" "(y - 1) div 400 \<le> (z - 1) div 400"
    using assms by (simp_all add: zdiv_mono1)
  ultimately show ?thesis using assms by (simp add: year_start_def)
qed

lemma year_start_split:
  assumes "0 \<le> h" "h \<le> 3" "0 \<le> q" "q \<le> 24" "0 \<le> b" "b \<le> 3"
  shows "year_start (400 * c + 100 * h + 4 * q + b + 1) = 146097 * c + 36524 * h + 1461 * q + 365 * b"
proof -
  let ?y = "400 * c + 100 * h + 4 * q + b"
  have "?y div 4 = 100 * c + 25 * h + q"
    by (rule int_div_pos_eq [where r = b]) (use assms in simp_all)
  moreover have "?y div 100 = 4 * c + h"
    by (rule int_div_pos_eq [where r = "4 * q + b"]) (use assms in simp_all)
  moreover have "?y div 400 = c"
    by (rule int_div_pos_eq [where r = "100 * h + 4 * q + b"]) (use assms in simp_all)
  ultimately show ?thesis by (simp add: year_start_def)
qed

text \<open>Cutting a number into pieces of a size, the last of which may be longer.\<close>

lemma pieces_bounds:
  fixes x :: int
  assumes "0 \<le> x" and "0 < k" and "0 \<le> m"
  defines "i \<equiv> min m (x div k)"
  shows "0 \<le> i" "i \<le> m" "0 \<le> x - k * i" "i < m \<Longrightarrow> x - k * i < k"
proof -
  have e: "x = k * (x div k) + x mod k" "0 \<le> x mod k" "x mod k < k"
    using assms by simp_all
  have "0 \<le> x div k" using assms by (simp add: pos_imp_zdiv_nonneg_iff)
  with assms show "0 \<le> i" "i \<le> m" by (simp_all add: i_def)
  have "k * i \<le> k * (x div k)" using assms by (simp add: i_def)
  with e show "0 \<le> x - k * i" by linarith
  show "x - k * i < k" if "i < m"
    using that e by (auto simp: i_def min_def minus_mult_div_eq_mod split: if_splits)
qed

lemma year_of_bounds: "year_start (year_of n) \<le> n \<and> n < year_start (year_of n + 1)"
proof -
  define c r where cr: "c = n div 146097" "r = n mod 146097"
  define h where h: "h = min 3 (r div 36524)"
  define r1 where r1: "r1 = r - 36524 * h"
  define q r2 where q: "q = r1 div 1461" "r2 = r1 mod 1461"
  define b where b: "b = min 3 (r2 div 365)"
  have r: "0 \<le> r" "r < 146097" and n: "n = 146097 * c + r" by (simp_all add: cr)
  have hb: "0 \<le> h" "h \<le> 3" "0 \<le> r1" "h < 3 \<Longrightarrow> r1 < 36524"
    using pieces_bounds [of r 36524 3] r by (simp_all add: h r1)
  then have r1': "r1 \<le> 36524" using r unfolding r1 by (cases "h < 3") simp_all
  have qb: "0 \<le> q" "0 \<le> r2" "r2 < 1461" "r1 = 1461 * q + r2"
    using hb by (simp_all add: q pos_imp_zdiv_nonneg_iff)
  then have q24: "q \<le> 24" using r1' by linarith
  have bb: "0 \<le> b" "b \<le> 3" "365 * b \<le> r2" "b < 3 \<Longrightarrow> r2 < 365 * (b + 1)"
    using pieces_bounds [of r2 365 3] qb by (simp_all add: b algebra_simps)
  have y: "year_of n = 400 * c + 100 * h + 4 * q + b + 1"
    by (simp add: year_of_def cr h r1 q b Let_def)
  have s: "year_start (year_of n) = 146097 * c + 36524 * h + 1461 * q + 365 * b"
    unfolding y using hb qb q24 bb by (simp add: year_start_split)
  have "year_start (year_of n) \<le> n" using s n r1 qb bb by linarith
  moreover have "n < year_start (year_of n + 1)"
  proof (cases "b < 3")
    case True
    have e: "year_of n + 1 = 400 * c + 100 * h + 4 * q + (b + 1) + 1" by (simp add: y)
    have "year_start (year_of n + 1) = 146097 * c + 36524 * h + 1461 * q + 365 * (b + 1)"
      unfolding e by (rule year_start_split) (use hb qb q24 bb True in simp_all)
    with n r1 qb bb True show ?thesis by linarith
  next
    case False
    then have b3: "b = 3" using bb by simp
    show ?thesis
    proof (cases "q < 24")
      case True
      have e: "year_of n + 1 = 400 * c + 100 * h + 4 * (q + 1) + 0 + 1" by (simp add: y b3)
      have "year_start (year_of n + 1) = 146097 * c + 36524 * h + 1461 * (q + 1) + 365 * 0"
        unfolding e by (rule year_start_split) (use hb qb q24 bb True in simp_all)
      with n r1 qb(3,4) show ?thesis by simp
    next
      case False
      then have q24: "q = 24" using q24 by simp
      show ?thesis
      proof (cases "h < 3")
        case True
        have e: "year_of n + 1 = 400 * c + 100 * (h + 1) + 4 * 0 + 0 + 1" by (simp add: y b3 q24)
        have "year_start (year_of n + 1) = 146097 * c + 36524 * (h + 1) + 1461 * 0 + 365 * 0"
          unfolding e by (rule year_start_split) (use hb qb q24 bb True in simp_all)
        with n r1 hb(4) [OF True] show ?thesis by simp
      next
        case False
        then have h3: "h = 3" using hb by simp
        have e: "year_of n + 1 = 400 * (c + 1) + 100 * 0 + 4 * 0 + 0 + 1" by (simp add: y b3 q24 h3)
        have "year_start (year_of n + 1) = 146097 * (c + 1) + 36524 * 0 + 1461 * 0 + 365 * 0"
          unfolding e by (rule year_start_split) simp_all
        with n r show ?thesis by simp
      qed
    qed
  qed
  ultimately show ?thesis by simp
qed

lemma year_of_unique:
  assumes "year_start y \<le> n" and "n < year_start (y + 1)"
  shows "year_of n = y"
proof (rule ccontr)
  assume "year_of n \<noteq> y"
  then consider "year_of n + 1 \<le> y" | "y + 1 \<le> year_of n" by linarith
  then show False
  proof cases
    case 1
    then have "year_start (year_of n + 1) \<le> year_start y"
      using year_start_mono [of "year_of n + 1" y] by (cases "year_of n + 1 = y") simp_all
    with year_of_bounds [of n] assms show False by linarith
  next
    case 2
    then have "year_start (y + 1) \<le> year_start (year_of n)"
      using year_start_mono [of "y + 1" "year_of n"] by (cases "y + 1 = year_of n") simp_all
    with year_of_bounds [of n] assms show False by linarith
  qed
qed

section \<open>Instants\<close>

definition shanghai_offset :: duration where "shanghai_offset = 8 * hour"

text \<open>Midnight of a day in the zone, and the day of an instant there.\<close>

definition shanghai_midnight :: "int \<Rightarrow> gotime" where
  "shanghai_midnight n = n * (24 * hour) - shanghai_offset"

definition shanghai_day_of :: "gotime \<Rightarrow> int" where
  "shanghai_day_of t = (t + shanghai_offset) div (24 * hour)"

lemma shanghai_day_of_midnight [simp]: "shanghai_day_of (shanghai_midnight n) = n"
  by (simp add: shanghai_day_of_def shanghai_midnight_def duration_defs)

text \<open>The loop that looks for a Monday.\<close>

lemma weekday_multiple: "weekday_of n = 1 \<longleftrightarrow> - n mod 7 = 0"
proof
  assume "weekday_of n = 1"
  then have "(n + 1 - 1) mod 7 = (1 - 1) mod 7" unfolding weekday_of_def by (metis mod_diff_left_eq)
  then have "7 dvd n" by (simp add: dvd_eq_mod_eq_0)
  then show "- n mod 7 = 0" by simp
next
  assume "- n mod 7 = 0"
  then obtain k where "n = 7 * k" by (metis dvd_def dvd_eq_mod_eq_0 dvd_minus_iff)
  then show "weekday_of n = 1" by (simp add: weekday_of_def)
qed

lemma not_monday: "weekday_of n \<noteq> 1 \<Longrightarrow> - (n + 1) mod 7 = - n mod 7 - 1"
proof -
  assume "weekday_of n \<noteq> 1"
  then have "- n mod 7 \<noteq> 0" "0 \<le> - n mod 7" by (simp_all add: weekday_multiple)
  then have "0 \<le> - n mod 7 - 1" "- n mod 7 - 1 < 7"
    using pos_mod_bound [of 7 "- n"] by simp_all
  then have "(- n mod 7 - 1) mod 7 = - n mod 7 - 1" by simp
  then have "(- n - 1) mod 7 = - n mod 7 - 1" by (metis mod_diff_left_eq)
  moreover have "- (n + 1) = - n - 1" by simp
  ultimately show ?thesis by (simp only:)
qed

function next_monday :: "int \<Rightarrow> int" where
  "next_monday n = (if weekday_of n = 1 then n else next_monday (n + 1))"
  by auto
termination
proof (relation "measure (\<lambda>n. nat (- n mod 7))")
  fix n :: int assume "weekday_of n \<noteq> 1"
  then have "- (n + 1) mod 7 < - n mod 7" by (simp add: not_monday del: minus_add_distrib)
  moreover have "0 \<le> - (n + 1) mod 7" by simp
  ultimately show "(n + 1, n) \<in> measure (\<lambda>n. nat (- n mod 7))" by simp
qed simp

declare next_monday.simps [simp del]

lemma next_monday_eq: "next_monday n = n + - n mod 7"
proof (induction n rule: next_monday.induct)
  case (1 n)
  show ?case
  proof (cases "weekday_of n = 1")
    case True
    then have "- n mod 7 = 0" by (simp add: weekday_multiple)
    with True show ?thesis by (simp add: next_monday.simps [of n])
  next
    case False
    then have "- (n + 1) mod 7 = - n mod 7 - 1" by (rule not_monday)
    with 1 [OF False] False show ?thesis by (simp add: next_monday.simps [of n])
  qed
qed

lemma next_monday_props: "weekday_of (next_monday n) = 1 \<and> n \<le> next_monday n \<and> next_monday n < n + 7"
proof -
  have "- n mod 7 = - n - 7 * (- n div 7)" by (rule minus_mult_div_eq_mod [symmetric])
  then have e: "n + - n mod 7 = 7 * - (- n div 7)" by simp
  have "(7 * k + 1) mod 7 = (1 :: int)" for k :: int by simp
  then have "(n + - n mod 7 + 1) mod 7 = 1" by (simp only: e)
  moreover have "0 \<le> - n mod 7" "- n mod 7 < 7" by simp_all
  ultimately show ?thesis by (simp add: next_monday_eq weekday_of_def)
qed

end
