(* ===== verification/OucLabels.thy ===== *)
theory OucLabels
  imports Prelude
begin

text \<open>
  The texts the pages of the school systems are read by, as the bytes of their UTF-8 encodings. Each
  is named by its pronunciation; the comment says what it means.
\<close>

abbreviation zh_xueqi :: string where \<comment> \<open>term\<close>
  "zh_xueqi \<equiv> utf8 [0xE5, 0xAD, 0xA6, 0xE6, 0x9C, 0x9F]"
abbreviation zh_kaishi_riqi :: string where \<comment> \<open>start date\<close>
  "zh_kaishi_riqi \<equiv> utf8
    [0xE5, 0xBC, 0x80, 0xE5, 0xA7, 0x8B, 0xE6, 0x97, 0xA5, 0xE6, 0x9C, 0x9F]"
abbreviation zh_zhoushu :: string where \<comment> \<open>number of weeks\<close>
  "zh_zhoushu \<equiv> utf8 [0xE5, 0x91, 0xA8, 0xE6, 0x95, 0xB0]"
abbreviation zh_dangqian_xueqi :: string where \<comment> \<open>current term\<close>
  "zh_dangqian_xueqi \<equiv> utf8
    [0xE5, 0xBD, 0x93, 0xE5, 0x89, 0x8D, 0xE5, 0xAD, 0xA6, 0xE6, 0x9C, 0x9F]"
abbreviation zh_kecheng_mingcheng :: string where \<comment> \<open>course name\<close>
  "zh_kecheng_mingcheng \<equiv> utf8
    [0xE8, 0xAF, 0xBE, 0xE7, 0xA8, 0x8B, 0xE5, 0x90, 0x8D, 0xE7, 0xA7, 0xB0]"
abbreviation zh_kecheng_ming :: string where \<comment> \<open>course name, short\<close>
  "zh_kecheng_ming \<equiv> utf8 [0xE8, 0xAF, 0xBE, 0xE7, 0xA8, 0x8B, 0xE5, 0x90, 0x8D]"
abbreviation zh_kecheng_hao :: string where \<comment> \<open>course number\<close>
  "zh_kecheng_hao \<equiv> utf8 [0xE8, 0xAF, 0xBE, 0xE7, 0xA8, 0x8B, 0xE5, 0x8F, 0xB7]"
abbreviation zh_kecheng_bianhao :: string where \<comment> \<open>course code\<close>
  "zh_kecheng_bianhao \<equiv> utf8
    [0xE8, 0xAF, 0xBE, 0xE7, 0xA8, 0x8B, 0xE7, 0xBC, 0x96, 0xE5, 0x8F, 0xB7]"
abbreviation zh_kecheng_xingzhi :: string where \<comment> \<open>kind of course\<close>
  "zh_kecheng_xingzhi \<equiv> utf8
    [0xE8, 0xAF, 0xBE, 0xE7, 0xA8, 0x8B, 0xE6, 0x80, 0xA7, 0xE8, 0xB4, 0xA8]"
abbreviation zh_shangke_zhouci :: string where \<comment> \<open>weeks of teaching\<close>
  "zh_shangke_zhouci \<equiv> utf8
    [0xE4, 0xB8, 0x8A, 0xE8, 0xAF, 0xBE, 0xE5, 0x91, 0xA8, 0xE6, 0xAC, 0xA1]"
abbreviation zh_shouke_jiaoshi :: string where \<comment> \<open>lecturer\<close>
  "zh_shouke_jiaoshi \<equiv> utf8
    [0xE6, 0x8E, 0x88, 0xE8, 0xAF, 0xBE, 0xE6, 0x95, 0x99, 0xE5, 0xB8, 0x88]"
abbreviation zh_shangke_jiaoshi :: string where \<comment> \<open>lecturer\<close>
  "zh_shangke_jiaoshi \<equiv> utf8
    [0xE4, 0xB8, 0x8A, 0xE8, 0xAF, 0xBE, 0xE6, 0x95, 0x99, 0xE5, 0xB8, 0x88]"
abbreviation zh_renke_jiaoshi :: string where \<comment> \<open>teacher of the course\<close>
  "zh_renke_jiaoshi \<equiv> utf8
    [0xE4, 0xBB, 0xBB, 0xE8, 0xAF, 0xBE, 0xE6, 0x95, 0x99, 0xE5, 0xB8, 0x88]"
abbreviation zh_renke_laoshi :: string where \<comment> \<open>teacher of the course\<close>
  "zh_renke_laoshi \<equiv> utf8
    [0xE4, 0xBB, 0xBB, 0xE8, 0xAF, 0xBE, 0xE8, 0x80, 0x81, 0xE5, 0xB8, 0x88]"
abbreviation zh_jiaoshi :: string where \<comment> \<open>teacher\<close>
  "zh_jiaoshi \<equiv> utf8 [0xE6, 0x95, 0x99, 0xE5, 0xB8, 0x88]"
abbreviation zh_laoshi :: string where \<comment> \<open>teacher\<close>
  "zh_laoshi \<equiv> utf8 [0xE8, 0x80, 0x81, 0xE5, 0xB8, 0x88]"
abbreviation zh_xiaoqu :: string where \<comment> \<open>campus\<close>
  "zh_xiaoqu \<equiv> utf8 [0xE6, 0xA0, 0xA1, 0xE5, 0x8C, 0xBA]"
abbreviation zh_shangke_xiaoqu :: string where \<comment> \<open>campus of teaching\<close>
  "zh_shangke_xiaoqu \<equiv> utf8
    [0xE4, 0xB8, 0x8A, 0xE8, 0xAF, 0xBE, 0xE6, 0xA0, 0xA1, 0xE5, 0x8C, 0xBA]"
abbreviation zh_shangke_didian :: string where \<comment> \<open>place of teaching\<close>
  "zh_shangke_didian \<equiv> utf8
    [0xE4, 0xB8, 0x8A, 0xE8, 0xAF, 0xBE, 0xE5, 0x9C, 0xB0, 0xE7, 0x82, 0xB9]"
abbreviation zh_didian :: string where \<comment> \<open>place\<close>
  "zh_didian \<equiv> utf8 [0xE5, 0x9C, 0xB0, 0xE7, 0x82, 0xB9]"
abbreviation zh_jiaoshi_room :: string where \<comment> \<open>classroom\<close>
  "zh_jiaoshi_room \<equiv> utf8 [0xE6, 0x95, 0x99, 0xE5, 0xAE, 0xA4]"
abbreviation zh_xingqi :: string where \<comment> \<open>weekday\<close>
  "zh_xingqi \<equiv> utf8 [0xE6, 0x98, 0x9F, 0xE6, 0x9C, 0x9F]"
abbreviation zh_kaishi_jieci :: string where \<comment> \<open>first section\<close>
  "zh_kaishi_jieci \<equiv> utf8
    [0xE5, 0xBC, 0x80, 0xE5, 0xA7, 0x8B, 0xE8, 0x8A, 0x82, 0xE6, 0xAC, 0xA1]"
abbreviation zh_jieshu_jieci :: string where \<comment> \<open>last section\<close>
  "zh_jieshu_jieci \<equiv> utf8
    [0xE7, 0xBB, 0x93, 0xE6, 0x9D, 0x9F, 0xE8, 0x8A, 0x82, 0xE6, 0xAC, 0xA1]"
abbreviation zh_jieci :: string where \<comment> \<open>sections\<close>
  "zh_jieci \<equiv> utf8 [0xE8, 0x8A, 0x82, 0xE6, 0xAC, 0xA1]"
abbreviation zh_zhouci :: string where \<comment> \<open>weeks\<close>
  "zh_zhouci \<equiv> utf8 [0xE5, 0x91, 0xA8, 0xE6, 0xAC, 0xA1]"
abbreviation zh_chengji :: string where \<comment> \<open>grade\<close>
  "zh_chengji \<equiv> utf8 [0xE6, 0x88, 0x90, 0xE7, 0xBB, 0xA9]"
abbreviation zh_dengji :: string where \<comment> \<open>level\<close>
  "zh_dengji \<equiv> utf8 [0xE7, 0xAD, 0x89, 0xE7, 0xBA, 0xA7]"
abbreviation zh_xuefen :: string where \<comment> \<open>credit\<close>
  "zh_xuefen \<equiv> utf8 [0xE5, 0xAD, 0xA6, 0xE5, 0x88, 0x86]"
abbreviation zh_youxiu :: string where \<comment> \<open>excellent\<close>
  "zh_youxiu \<equiv> utf8 [0xE4, 0xBC, 0x98, 0xE7, 0xA7, 0x80]"
abbreviation zh_you :: string where \<comment> \<open>excellent, short\<close>
  "zh_you \<equiv> utf8 [0xE4, 0xBC, 0x98]"
abbreviation zh_mianxiu :: string where \<comment> \<open>exempt\<close>
  "zh_mianxiu \<equiv> utf8 [0xE5, 0x85, 0x8D, 0xE4, 0xBF, 0xAE]"
abbreviation zh_tongguo :: string where \<comment> \<open>passed\<close>
  "zh_tongguo \<equiv> utf8 [0xE9, 0x80, 0x9A, 0xE8, 0xBF, 0x87]"
abbreviation zh_wei_tongguo :: string where \<comment> \<open>not passed\<close>
  "zh_wei_tongguo \<equiv> utf8 [0xE6, 0x9C, 0xAA, 0xE9, 0x80, 0x9A, 0xE8, 0xBF, 0x87]"
abbreviation zh_liang :: string where \<comment> \<open>good, short\<close>
  "zh_liang \<equiv> utf8 [0xE8, 0x89, 0xAF]"
abbreviation zh_lianghao :: string where \<comment> \<open>good\<close>
  "zh_lianghao \<equiv> utf8 [0xE8, 0x89, 0xAF, 0xE5, 0xA5, 0xBD]"
abbreviation zh_zhong :: string where \<comment> \<open>medium, short\<close>
  "zh_zhong \<equiv> utf8 [0xE4, 0xB8, 0xAD]"
abbreviation zh_zhongdeng :: string where \<comment> \<open>medium\<close>
  "zh_zhongdeng \<equiv> utf8 [0xE4, 0xB8, 0xAD, 0xE7, 0xAD, 0x89]"
abbreviation zh_hege :: string where \<comment> \<open>qualified\<close>
  "zh_hege \<equiv> utf8 [0xE5, 0x90, 0x88, 0xE6, 0xA0, 0xBC]"
abbreviation zh_bu_hege :: string where \<comment> \<open>not qualified\<close>
  "zh_bu_hege \<equiv> utf8 [0xE4, 0xB8, 0x8D, 0xE5, 0x90, 0x88, 0xE6, 0xA0, 0xBC]"
abbreviation zh_jige :: string where \<comment> \<open>pass\<close>
  "zh_jige \<equiv> utf8 [0xE5, 0x8F, 0x8A, 0xE6, 0xA0, 0xBC]"
abbreviation zh_bu_jige :: string where \<comment> \<open>fail\<close>
  "zh_bu_jige \<equiv> utf8 [0xE4, 0xB8, 0x8D, 0xE5, 0x8F, 0x8A, 0xE6, 0xA0, 0xBC]"
abbreviation zh_kaoshi_shijian :: string where \<comment> \<open>exam time\<close>
  "zh_kaoshi_shijian \<equiv> utf8
    [0xE8, 0x80, 0x83, 0xE8, 0xAF, 0x95, 0xE6, 0x97, 0xB6, 0xE9, 0x97, 0xB4]"
abbreviation zh_kaoshi_xingzhi :: string where \<comment> \<open>kind of exam\<close>
  "zh_kaoshi_xingzhi \<equiv> utf8
    [0xE8, 0x80, 0x83, 0xE8, 0xAF, 0x95, 0xE6, 0x80, 0xA7, 0xE8, 0xB4, 0xA8]"
abbreviation zh_kaoshi_leixing :: string where \<comment> \<open>type of exam\<close>
  "zh_kaoshi_leixing \<equiv> utf8
    [0xE8, 0x80, 0x83, 0xE8, 0xAF, 0x95, 0xE7, 0xB1, 0xBB, 0xE5, 0x9E, 0x8B]"
abbreviation zh_kaoshi_didian :: string where \<comment> \<open>exam place\<close>
  "zh_kaoshi_didian \<equiv> utf8
    [0xE8, 0x80, 0x83, 0xE8, 0xAF, 0x95, 0xE5, 0x9C, 0xB0, 0xE7, 0x82, 0xB9]"
abbreviation zh_kaoshi_fangshi :: string where \<comment> \<open>exam method\<close>
  "zh_kaoshi_fangshi \<equiv> utf8
    [0xE8, 0x80, 0x83, 0xE8, 0xAF, 0x95, 0xE6, 0x96, 0xB9, 0xE5, 0xBC, 0x8F]"
abbreviation zh_kaoshi_riqi :: string where \<comment> \<open>exam date\<close>
  "zh_kaoshi_riqi \<equiv> utf8
    [0xE8, 0x80, 0x83, 0xE8, 0xAF, 0x95, 0xE6, 0x97, 0xA5, 0xE6, 0x9C, 0x9F]"
abbreviation zh_kaoshi_kecheng :: string where \<comment> \<open>exam course\<close>
  "zh_kaoshi_kecheng \<equiv> utf8
    [0xE8, 0x80, 0x83, 0xE8, 0xAF, 0x95, 0xE8, 0xAF, 0xBE, 0xE7, 0xA8, 0x8B]"
abbreviation zh_kaoshi_xiaoqu :: string where \<comment> \<open>exam campus\<close>
  "zh_kaoshi_xiaoqu \<equiv> utf8
    [0xE8, 0x80, 0x83, 0xE8, 0xAF, 0x95, 0xE6, 0xA0, 0xA1, 0xE5, 0x8C, 0xBA]"
abbreviation zh_kaochang :: string where \<comment> \<open>exam room\<close>
  "zh_kaochang \<equiv> utf8 [0xE8, 0x80, 0x83, 0xE5, 0x9C, 0xBA]"
abbreviation zh_zuoweihao :: string where \<comment> \<open>seat number\<close>
  "zh_zuoweihao \<equiv> utf8 [0xE5, 0xBA, 0xA7, 0xE4, 0xBD, 0x8D, 0xE5, 0x8F, 0xB7]"
abbreviation zh_zuohao :: string where \<comment> \<open>seat number, short\<close>
  "zh_zuohao \<equiv> utf8 [0xE5, 0xBA, 0xA7, 0xE5, 0x8F, 0xB7]"
abbreviation zh_kedai_ziliao :: string where \<comment> \<open>allowed materials\<close>
  "zh_kedai_ziliao \<equiv> utf8
    [0xE5, 0x8F, 0xAF, 0xE5, 0xB8, 0xA6, 0xE8, 0xB5, 0x84, 0xE6, 0x96, 0x99]"
abbreviation zh_beizhu :: string where \<comment> \<open>note\<close>
  "zh_beizhu \<equiv> utf8 [0xE5, 0xA4, 0x87, 0xE6, 0xB3, 0xA8]"
abbreviation zh_kebiao_beizhu :: string where \<comment> \<open>timetable note\<close>
  "zh_kebiao_beizhu \<equiv> utf8
    [0xE8, 0xAF, 0xBE, 0xE8, 0xA1, 0xA8, 0xE5, 0xA4, 0x87, 0xE6, 0xB3, 0xA8]"
abbreviation zh_tuike_leixing :: string where \<comment> \<open>kind of withdrawal\<close>
  "zh_tuike_leixing \<equiv> utf8
    [0xE9, 0x80, 0x80, 0xE8, 0xAF, 0xBE, 0xE7, 0xB1, 0xBB, 0xE5, 0x9E, 0x8B]"
abbreviation zh_xuanke_zhuangtai :: string where \<comment> \<open>selection status\<close>
  "zh_xuanke_zhuangtai \<equiv> utf8
    [0xE9, 0x80, 0x89, 0xE8, 0xAF, 0xBE, 0xE7, 0x8A, 0xB6, 0xE6, 0x80, 0x81]"
abbreviation zh_xuanke_shijian :: string where \<comment> \<open>selection time\<close>
  "zh_xuanke_shijian \<equiv> utf8
    [0xE9, 0x80, 0x89, 0xE8, 0xAF, 0xBE, 0xE6, 0x97, 0xB6, 0xE9, 0x97, 0xB4]"
abbreviation zh_shangke_shijian :: string where \<comment> \<open>teaching time\<close>
  "zh_shangke_shijian \<equiv> utf8
    [0xE4, 0xB8, 0x8A, 0xE8, 0xAF, 0xBE, 0xE6, 0x97, 0xB6, 0xE9, 0x97, 0xB4]"
abbreviation zh_shijian :: string where \<comment> \<open>time\<close>
  "zh_shijian \<equiv> utf8 [0xE6, 0x97, 0xB6, 0xE9, 0x97, 0xB4]"
abbreviation zh_rongliang :: string where \<comment> \<open>capacity\<close>
  "zh_rongliang \<equiv> utf8 [0xE5, 0xAE, 0xB9, 0xE9, 0x87, 0x8F]"
abbreviation zh_yixuan_renshu :: string where \<comment> \<open>enrolled\<close>
  "zh_yixuan_renshu \<equiv> utf8
    [0xE5, 0xB7, 0xB2, 0xE9, 0x80, 0x89, 0xE4, 0xBA, 0xBA, 0xE6, 0x95, 0xB0]"
abbreviation zh_dai :: string where \<comment> \<open>waiting\<close>
  "zh_dai \<equiv> utf8 [0xE5, 0xBE, 0x85]"
abbreviation zh_queren_zhong :: string where \<comment> \<open>being confirmed\<close>
  "zh_queren_zhong \<equiv> utf8 [0xE7, 0xA1, 0xAE, 0xE8, 0xAE, 0xA4, 0xE4, 0xB8, 0xAD]"
abbreviation zh_chuli_zhong :: string where \<comment> \<open>being processed\<close>
  "zh_chuli_zhong \<equiv> utf8 [0xE5, 0xA4, 0x84, 0xE7, 0x90, 0x86, 0xE4, 0xB8, 0xAD]"
abbreviation zh_yuxuan :: string where \<comment> \<open>preselected\<close>
  "zh_yuxuan \<equiv> utf8 [0xE9, 0xA2, 0x84, 0xE9, 0x80, 0x89]"
abbreviation zh_luoxuan :: string where \<comment> \<open>not drawn\<close>
  "zh_luoxuan \<equiv> utf8 [0xE8, 0x90, 0xBD, 0xE9, 0x80, 0x89]"
abbreviation zh_weixuan :: string where \<comment> \<open>not selected\<close>
  "zh_weixuan \<equiv> utf8 [0xE6, 0x9C, 0xAA, 0xE9, 0x80, 0x89]"
abbreviation zh_shibai :: string where \<comment> \<open>failed\<close>
  "zh_shibai \<equiv> utf8 [0xE5, 0xA4, 0xB1, 0xE8, 0xB4, 0xA5]"
abbreviation zh_tuixuan :: string where \<comment> \<open>withdrawn\<close>
  "zh_tuixuan \<equiv> utf8 [0xE9, 0x80, 0x80, 0xE9, 0x80, 0x89]"
abbreviation zh_quxiao :: string where \<comment> \<open>cancelled\<close>
  "zh_quxiao \<equiv> utf8 [0xE5, 0x8F, 0x96, 0xE6, 0xB6, 0x88]"
abbreviation zh_shi :: string where \<comment> \<open>yes\<close>
  "zh_shi \<equiv> utf8 [0xE6, 0x98, 0xAF]"
abbreviation zh_dangqian :: string where \<comment> \<open>current\<close>
  "zh_dangqian \<equiv> utf8 [0xE5, 0xBD, 0x93, 0xE5, 0x89, 0x8D]"
abbreviation zh_xuanke_hao :: string where \<comment> \<open>selection number\<close>
  "zh_xuanke_hao \<equiv> utf8 [0xE9, 0x80, 0x89, 0xE8, 0xAF, 0xBE, 0xE5, 0x8F, 0xB7]"
abbreviation zh_xuanke :: string where \<comment> \<open>selection\<close>
  "zh_xuanke \<equiv> utf8 [0xE9, 0x80, 0x89, 0xE8, 0xAF, 0xBE]"
abbreviation zh_jiaoxueban_hao :: string where \<comment> \<open>class number\<close>
  "zh_jiaoxueban_hao \<equiv> utf8
    [0xE6, 0x95, 0x99, 0xE5, 0xAD, 0xA6, 0xE7, 0x8F, 0xAD, 0xE5, 0x8F, 0xB7]"
abbreviation zh_dan :: string where \<comment> \<open>odd\<close>
  "zh_dan \<equiv> utf8 [0xE5, 0x8D, 0x95]"
abbreviation zh_shuang :: string where \<comment> \<open>even\<close>
  "zh_shuang \<equiv> utf8 [0xE5, 0x8F, 0x8C]"
abbreviation zh_danzhou :: string where \<comment> \<open>odd weeks\<close>
  "zh_danzhou \<equiv> utf8 [0xE5, 0x8D, 0x95, 0xE5, 0x91, 0xA8]"
abbreviation zh_shuangzhou :: string where \<comment> \<open>even weeks\<close>
  "zh_shuangzhou \<equiv> utf8 [0xE5, 0x8F, 0x8C, 0xE5, 0x91, 0xA8]"
abbreviation zh_quanzhou :: string where \<comment> \<open>all weeks\<close>
  "zh_quanzhou \<equiv> utf8 [0xE5, 0x85, 0xA8, 0xE5, 0x91, 0xA8]"
abbreviation zh_quan :: string where \<comment> \<open>all\<close>
  "zh_quan \<equiv> utf8 [0xE5, 0x85, 0xA8]"
abbreviation zh_zhou :: string where \<comment> \<open>week\<close>
  "zh_zhou \<equiv> utf8 [0xE5, 0x91, 0xA8]"
abbreviation zh_di :: string where \<comment> \<open>ordinal mark\<close>
  "zh_di \<equiv> utf8 [0xE7, 0xAC, 0xAC]"
abbreviation zh_jie :: string where \<comment> \<open>section\<close>
  "zh_jie \<equiv> utf8 [0xE8, 0x8A, 0x82]"
abbreviation zh_yi :: string where \<comment> \<open>one\<close>
  "zh_yi \<equiv> utf8 [0xE4, 0xB8, 0x80]"
abbreviation zh_er :: string where \<comment> \<open>two\<close>
  "zh_er \<equiv> utf8 [0xE4, 0xBA, 0x8C]"
abbreviation zh_san :: string where \<comment> \<open>three\<close>
  "zh_san \<equiv> utf8 [0xE4, 0xB8, 0x89]"
abbreviation zh_si :: string where \<comment> \<open>four\<close>
  "zh_si \<equiv> utf8 [0xE5, 0x9B, 0x9B]"
abbreviation zh_wu :: string where \<comment> \<open>five\<close>
  "zh_wu \<equiv> utf8 [0xE4, 0xBA, 0x94]"
abbreviation zh_liu :: string where \<comment> \<open>six\<close>
  "zh_liu \<equiv> utf8 [0xE5, 0x85, 0xAD]"
abbreviation zh_qi :: string where \<comment> \<open>seven\<close>
  "zh_qi \<equiv> utf8 [0xE4, 0xB8, 0x83]"
abbreviation zh_ri :: string where \<comment> \<open>Sunday\<close>
  "zh_ri \<equiv> utf8 [0xE6, 0x97, 0xA5]"
abbreviation zh_tian :: string where \<comment> \<open>Sunday\<close>
  "zh_tian \<equiv> utf8 [0xE5, 0xA4, 0xA9]"
abbreviation zh_xingqi_ri :: string where \<comment> \<open>Sunday\<close>
  "zh_xingqi_ri \<equiv> utf8 [0xE6, 0x98, 0x9F, 0xE6, 0x9C, 0x9F, 0xE6, 0x97, 0xA5]"
abbreviation zh_xingqi_tian :: string where \<comment> \<open>Sunday\<close>
  "zh_xingqi_tian \<equiv> utf8 [0xE6, 0x98, 0x9F, 0xE6, 0x9C, 0x9F, 0xE5, 0xA4, 0xA9]"
abbreviation zh_xingqi_qi :: string where \<comment> \<open>Sunday\<close>
  "zh_xingqi_qi \<equiv> utf8 [0xE6, 0x98, 0x9F, 0xE6, 0x9C, 0x9F, 0xE4, 0xB8, 0x83]"
abbreviation zh_xingqi_yi :: string where \<comment> \<open>Monday\<close>
  "zh_xingqi_yi \<equiv> utf8 [0xE6, 0x98, 0x9F, 0xE6, 0x9C, 0x9F, 0xE4, 0xB8, 0x80]"
abbreviation zh_xingqi_er :: string where \<comment> \<open>Tuesday\<close>
  "zh_xingqi_er \<equiv> utf8 [0xE6, 0x98, 0x9F, 0xE6, 0x9C, 0x9F, 0xE4, 0xBA, 0x8C]"
abbreviation zh_xingqi_san :: string where \<comment> \<open>Wednesday\<close>
  "zh_xingqi_san \<equiv> utf8 [0xE6, 0x98, 0x9F, 0xE6, 0x9C, 0x9F, 0xE4, 0xB8, 0x89]"
abbreviation zh_xingqi_si :: string where \<comment> \<open>Thursday\<close>
  "zh_xingqi_si \<equiv> utf8 [0xE6, 0x98, 0x9F, 0xE6, 0x9C, 0x9F, 0xE5, 0x9B, 0x9B]"
abbreviation zh_xingqi_wu :: string where \<comment> \<open>Friday\<close>
  "zh_xingqi_wu \<equiv> utf8 [0xE6, 0x98, 0x9F, 0xE6, 0x9C, 0x9F, 0xE4, 0xBA, 0x94]"
abbreviation zh_xingqi_liu :: string where \<comment> \<open>Saturday\<close>
  "zh_xingqi_liu \<equiv> utf8 [0xE6, 0x98, 0x9F, 0xE6, 0x9C, 0x9F, 0xE5, 0x85, 0xAD]"
abbreviation zh_zhou_ri :: string where \<comment> \<open>Sunday\<close>
  "zh_zhou_ri \<equiv> utf8 [0xE5, 0x91, 0xA8, 0xE6, 0x97, 0xA5]"
abbreviation zh_zhou_tian :: string where \<comment> \<open>Sunday\<close>
  "zh_zhou_tian \<equiv> utf8 [0xE5, 0x91, 0xA8, 0xE5, 0xA4, 0xA9]"
abbreviation zh_zhou_qi :: string where \<comment> \<open>Sunday\<close>
  "zh_zhou_qi \<equiv> utf8 [0xE5, 0x91, 0xA8, 0xE4, 0xB8, 0x83]"
abbreviation zh_tuihuanke :: string where \<comment> \<open>exchange of courses\<close>
  "zh_tuihuanke \<equiv> utf8 [0xE9, 0x80, 0x80, 0xE6, 0x8D, 0xA2, 0xE8, 0xAF, 0xBE]"
abbreviation zh_shenqing_mianxiu :: string where \<comment> \<open>exemption requested\<close>
  "zh_shenqing_mianxiu \<equiv> utf8
    [0xE6, 0xAD, 0xA3, 0xE5, 0x9C, 0xA8, 0xE7, 0x94, 0xB3, 0xE8, 0xAF, 0xB7, 0xE5,
     0x85, 0x8D, 0xE4, 0xBF, 0xAE]"
abbreviation zh_zhengzai_xiudu :: string where \<comment> \<open>being taken\<close>
  "zh_zhengzai_xiudu \<equiv> utf8
    [0xE6, 0xAD, 0xA3, 0xE5, 0x9C, 0xA8, 0xE4, 0xBF, 0xAE, 0xE8, 0xAF, 0xBB]"
abbreviation zh_zaixiu :: string where \<comment> \<open>being taken, short\<close>
  "zh_zaixiu \<equiv> utf8 [0xE5, 0x9C, 0xA8, 0xE4, 0xBF, 0xAE]"
abbreviation zh_zhengzai_chongxiu :: string where \<comment> \<open>being repeated\<close>
  "zh_zhengzai_chongxiu \<equiv> utf8
    [0xE6, 0xAD, 0xA3, 0xE5, 0x9C, 0xA8, 0xE9, 0x87, 0x8D, 0xE4, 0xBF, 0xAE]"
abbreviation zh_xuanke_xuenian :: string where \<comment> \<open>academic year of the selection\<close>
  "zh_xuanke_xuenian \<equiv> utf8
    [0xE9, 0x80, 0x89, 0xE8, 0xAF, 0xBE, 0xE5, 0xAD, 0xA6, 0xE5, 0xB9, 0xB4]"
abbreviation zh_xiudu_chengji :: string where \<comment> \<open>state or grade\<close>
  "zh_xiudu_chengji \<equiv> utf8
    [0xE4, 0xBF, 0xAE, 0xE8, 0xAF, 0xBB, 0xE6, 0x83, 0x85, 0xE5, 0x86, 0xB5, 0x2F,
     0xE6, 0x88, 0x90, 0xE7, 0xBB, 0xA9]"
abbreviation zh_kaike_xuenian :: string where \<comment> \<open>academic year of the opening\<close>
  "zh_kaike_xuenian \<equiv> utf8
    [0xE5, 0xBC, 0x80, 0xE8, 0xAF, 0xBE, 0xE5, 0xAD, 0xA6, 0xE5, 0xB9, 0xB4]"
abbreviation zh_kaike_xueqi :: string where \<comment> \<open>term of the opening\<close>
  "zh_kaike_xueqi \<equiv> utf8
    [0xE5, 0xBC, 0x80, 0xE8, 0xAF, 0xBE, 0xE5, 0xAD, 0xA6, 0xE6, 0x9C, 0x9F]"
abbreviation zh_banji_bianhao :: string where \<comment> \<open>class number\<close>
  "zh_banji_bianhao \<equiv> utf8
    [0xE7, 0x8F, 0xAD, 0xE7, 0xBA, 0xA7, 0xE7, 0xBC, 0x96, 0xE5, 0x8F, 0xB7]"
abbreviation zh_shijian_didian :: string where \<comment> \<open>time and place\<close>
  "zh_shijian_didian \<equiv> utf8
    [0xE6, 0x97, 0xB6, 0xE9, 0x97, 0xB4, 0xE4, 0xB8, 0x8E, 0xE5, 0x9C, 0xB0, 0xE7,
     0x82, 0xB9]"
abbreviation zh_yan_paren :: string where \<comment> \<open>end of a graduate room\<close>
  "zh_yan_paren \<equiv> utf8 [0xE7, 0xA0, 0x94, 0x29]"
abbreviation zh_kaike_hao :: string where \<comment> \<open>opening number\<close>
  "zh_kaike_hao \<equiv> utf8 [0xE5, 0xBC, 0x80, 0xE8, 0xAF, 0xBE, 0xE5, 0x8F, 0xB7]"
abbreviation zh_xiaqiu :: string where \<comment> \<open>summer and autumn\<close>
  "zh_xiaqiu \<equiv> utf8 [0xE5, 0xA4, 0x8F, 0xE7, 0xA7, 0x8B]"
abbreviation zh_qiu :: string where \<comment> \<open>autumn\<close>
  "zh_qiu \<equiv> utf8 [0xE7, 0xA7, 0x8B]"
abbreviation zh_chun :: string where \<comment> \<open>spring\<close>
  "zh_chun \<equiv> utf8 [0xE6, 0x98, 0xA5]"
abbreviation zh_chunji :: string where \<comment> \<open>spring term\<close>
  "zh_chunji \<equiv> utf8 [0xE6, 0x98, 0xA5, 0xE5, 0xAD, 0xA3]"
abbreviation zh_xuenian :: string where \<comment> \<open>academic year\<close>
  "zh_xuenian \<equiv> utf8 [0xE5, 0xAD, 0xA6, 0xE5, 0xB9, 0xB4]"
abbreviation zh_xuenian_blank :: string where \<comment> \<open>academic year and a blank\<close>
  "zh_xuenian_blank \<equiv> utf8 [0xE5, 0xAD, 0xA6, 0xE5, 0xB9, 0xB4, 0x20]"
abbreviation zh_kaishi_shijian :: string where \<comment> \<open>start time\<close>
  "zh_kaishi_shijian \<equiv> utf8
    [0xE5, 0xBC, 0x80, 0xE5, 0xA7, 0x8B, 0xE6, 0x97, 0xB6, 0xE9, 0x97, 0xB4]"
abbreviation zh_kaoshi_kaishi :: string where \<comment> \<open>exam start\<close>
  "zh_kaoshi_kaishi \<equiv> utf8
    [0xE8, 0x80, 0x83, 0xE8, 0xAF, 0x95, 0xE5, 0xBC, 0x80, 0xE5, 0xA7, 0x8B, 0xE6,
     0x97, 0xB6, 0xE9, 0x97, 0xB4]"
abbreviation zh_jieshu_shijian :: string where \<comment> \<open>end time\<close>
  "zh_jieshu_shijian \<equiv> utf8
    [0xE7, 0xBB, 0x93, 0xE6, 0x9D, 0x9F, 0xE6, 0x97, 0xB6, 0xE9, 0x97, 0xB4]"
abbreviation zh_kaoshi_jieshu :: string where \<comment> \<open>exam end\<close>
  "zh_kaoshi_jieshu \<equiv> utf8
    [0xE8, 0x80, 0x83, 0xE8, 0xAF, 0x95, 0xE7, 0xBB, 0x93, 0xE6, 0x9D, 0x9F, 0xE6,
     0x97, 0xB6, 0xE9, 0x97, 0xB4]"
abbreviation zh_date_layout :: string where \<comment> \<open>a layout of dates\<close>
  "zh_date_layout \<equiv> utf8
    [0x32, 0x30, 0x30, 0x36, 0xE5, 0xB9, 0xB4, 0x30, 0x31, 0xE6, 0x9C, 0x88, 0x30,
     0x32, 0xE6, 0x97, 0xA5, 0x20, 0x31, 0x35, 0x3A, 0x30, 0x34]"
abbreviation zh_kaoshi_anpai :: string where \<comment> \<open>exam schedule\<close>
  "zh_kaoshi_anpai \<equiv> utf8
    [0xE8, 0x80, 0x83, 0xE8, 0xAF, 0x95, 0xE5, 0xAE, 0x89, 0xE6, 0x8E, 0x92]"
abbreviation zh_kaike_xueyuan :: string where \<comment> \<open>department\<close>
  "zh_kaike_xueyuan \<equiv> utf8
    [0xE5, 0xBC, 0x80, 0xE8, 0xAF, 0xBE, 0xE5, 0xAD, 0xA6, 0xE9, 0x99, 0xA2]"
abbreviation zh_shangke_yuyan :: string where \<comment> \<open>language\<close>
  "zh_shangke_yuyan \<equiv> utf8
    [0xE4, 0xB8, 0x8A, 0xE8, 0xAF, 0xBE, 0xE8, 0xAF, 0xAD, 0xE8, 0xA8, 0x80]"
abbreviation zh_shangke_shijian_didian :: string where \<comment> \<open>teaching time and place\<close>
  "zh_shangke_shijian_didian \<equiv> utf8
    [0xE4, 0xB8, 0x8A, 0xE8, 0xAF, 0xBE, 0xE6, 0x97, 0xB6, 0xE9, 0x97, 0xB4, 0xE5,
     0x9C, 0xB0, 0xE7, 0x82, 0xB9]"
abbreviation zh_gong :: string where \<comment> \<open>in total\<close>
  "zh_gong \<equiv> utf8 [0xE5, 0x85, 0xB1]"
abbreviation zh_zong :: string where \<comment> \<open>total\<close>
  "zh_zong \<equiv> utf8 [0xE6, 0x80, 0xBB]"
abbreviation zh_zongji :: string where \<comment> \<open>grand total\<close>
  "zh_zongji \<equiv> utf8 [0xE6, 0x80, 0xBB, 0xE8, 0xAE, 0xA1]"
abbreviation zh_zongshu :: string where \<comment> \<open>total number\<close>
  "zh_zongshu \<equiv> utf8 [0xE6, 0x80, 0xBB, 0xE6, 0x95, 0xB0]"
abbreviation zh_tiao :: string where \<comment> \<open>entries\<close>
  "zh_tiao \<equiv> utf8 [0xE6, 0x9D, 0xA1]"
abbreviation zh_ye :: string where \<comment> \<open>pages\<close>
  "zh_ye \<equiv> utf8 [0xE9, 0xA1, 0xB5]"
abbreviation zh_lparen :: string where \<comment> \<open>wide parenthesis\<close>
  "zh_lparen \<equiv> utf8 [0xEF, 0xBC, 0x88]"
abbreviation zh_rparen :: string where \<comment> \<open>wide parenthesis\<close>
  "zh_rparen \<equiv> utf8 [0xEF, 0xBC, 0x89]"
abbreviation zh_lbracket :: string where \<comment> \<open>wide bracket\<close>
  "zh_lbracket \<equiv> utf8 [0xE3, 0x80, 0x90]"
abbreviation zh_rbracket :: string where \<comment> \<open>wide bracket\<close>
  "zh_rbracket \<equiv> utf8 [0xE3, 0x80, 0x91]"
abbreviation zh_colon :: string where \<comment> \<open>wide colon\<close>
  "zh_colon \<equiv> utf8 [0xEF, 0xBC, 0x9A]"
abbreviation zh_comma :: string where \<comment> \<open>wide comma\<close>
  "zh_comma \<equiv> utf8 [0xEF, 0xBC, 0x8C]"
abbreviation zh_semicolon :: string where \<comment> \<open>wide semicolon\<close>
  "zh_semicolon \<equiv> utf8 [0xEF, 0xBC, 0x9B]"
abbreviation zh_list_comma :: string where \<comment> \<open>list comma\<close>
  "zh_list_comma \<equiv> utf8 [0xE3, 0x80, 0x81]"
abbreviation zh_bar :: string where \<comment> \<open>wide bar\<close>
  "zh_bar \<equiv> utf8 [0xEF, 0xBD, 0x9C]"
abbreviation zh_wide_plus :: string where \<comment> \<open>wide plus\<close>
  "zh_wide_plus \<equiv> utf8 [0xEF, 0xBC, 0x8B]"
abbreviation zh_slash :: string where \<comment> \<open>wide slash\<close>
  "zh_slash \<equiv> utf8 [0xEF, 0xBC, 0x8F]"
abbreviation zh_long_dash :: string where \<comment> \<open>em dash\<close>
  "zh_long_dash \<equiv> utf8 [0xE2, 0x80, 0x94]"
abbreviation zh_wave :: string where \<comment> \<open>wide tilde\<close>
  "zh_wave \<equiv> utf8 [0xEF, 0xBD, 0x9E]"
abbreviation zh_zhi :: string where \<comment> \<open>to\<close>
  "zh_zhi \<equiv> utf8 [0xE8, 0x87, 0xB3]"
abbreviation zh_arrow :: string where \<comment> \<open>arrow\<close>
  "zh_arrow \<equiv> utf8 [0xE2, 0x86, 0x92]"
abbreviation zh_nbsp :: string where \<comment> \<open>no-break space\<close>
  "zh_nbsp \<equiv> utf8 [0xC2, 0xA0]"

end
