(* ===== verification/OucTables.thy ===== *)
theory OucTables
  imports GoRegexp GoCalendar OucLabels OucRequest
begin

text \<open>
  \<^verbatim>\<open>ouc/parser.go\<close>: rows of named values out of the JSON or HTML of a page, the fields of a row, and
  the periods, courses, grades, exams and selections read from them. JSON decoding, the conversion
  between floats and texts, the reading of times and SHA-256 are fields of \<open>parse_library\<close>. The
  names of a page are tried in the order of the source.
\<close>

section \<open>Values\<close>

datatype json =
    JNull
  | JBool bool
  | JNumber float64
  | JString string
  | JArray "json list"
  | JObject "(string \<times> json) list"

type_synonym row = "string \<Rightarrow> json option"

text \<open>
  \<open>rl_json\<close> is \<^verbatim>\<open>json.Unmarshal\<close> into \<^verbatim>\<open>any\<close>, the names of an object distinct; \<open>rl_parse_float\<close> is
  \<^verbatim>\<open>ParseFloat\<close> with the value it gives beside an error; \<open>rl_float_int\<close> is the conversion of a value
  outside the range of \<^verbatim>\<open>int\<close>, which the language leaves open; \<open>rl_parse_time\<close> reads a layout in the
  zone of Shanghai.
\<close>

record parse_library = page_library +
  rl_json :: "string \<Rightarrow> json option"
  rl_float_plain :: "float64 \<Rightarrow> string"
  rl_float_general :: "float64 \<Rightarrow> string"
  rl_parse_float :: "string \<Rightarrow> float64 \<times> bool"
  rl_float_int :: "float64 \<Rightarrow> int"
  rl_parse_time :: "string \<Rightarrow> string \<Rightarrow> gotime option"
  rl_sha256 :: "string \<Rightarrow> string"

text \<open>\<^verbatim>\<open>fmt.Sprint\<close> of a decoded value; the names of a map are sorted.\<close>

fun sprint :: "('a) parse_library_scheme \<Rightarrow> json \<Rightarrow> string" where
  "sprint rl JNull = ''<nil>''"
| "sprint rl (JBool b) = (if b then ''true'' else ''false'')"
| "sprint rl (JNumber f) = rl_float_general rl f"
| "sprint rl (JString s) = s"
| "sprint rl (JArray vs) = ''['' @ join '' '' (map (sprint rl) vs) @ '']''"
| "sprint rl (JObject kvs) =
     ''map['' @ join '' '' (map (\<lambda>(k, v). k @ '':'' @ v)
       (sort_key fst (map (\<lambda>(k, v). (k, sprint rl v)) kvs))) @ '']''"

section \<open>Fields of a row\<close>

fun field_string :: "('a) parse_library_scheme \<Rightarrow> row \<Rightarrow> string list \<Rightarrow> string" where
  "field_string rl row [] = ''''"
| "field_string rl row (key # keys) =
     (case row key of
        None \<Rightarrow> field_string rl row keys
      | Some JNull \<Rightarrow> field_string rl row keys
      | Some (JString s) \<Rightarrow>
          (if trim_space s \<noteq> '''' then trim_space s else field_string rl row keys)
      | Some (JNumber f) \<Rightarrow> rl_float_plain rl f
      | Some v \<Rightarrow> trim_space (sprint rl v))"

definition number_pattern :: re where
  "number_pattern = seq [Opt (Lit ''-''), re_number, Opt (Seq (Lit ''.'') re_number)]"

definition float_int :: "('a) parse_library_scheme \<Rightarrow> float64 \<Rightarrow> int" where
  "float_int rl f =
     (case f of
        Finite q \<Rightarrow>
          (let i = (if q < 0 then - \<lfloor>- q\<rfloor> else \<lfloor>q\<rfloor>)
           in if in_int64 i then i else rl_float_int rl f)
      | _ \<Rightarrow> rl_float_int rl f)"

definition field_int :: "('a) parse_library_scheme \<Rightarrow> row \<Rightarrow> string list \<Rightarrow> int" where
  "field_int rl row keys =
     (let m = find_text number_pattern (field_string rl row keys)
      in if m = '''' then 0 else float_int rl (fst (rl_parse_float rl m)))"

definition field_float :: "('a) parse_library_scheme \<Rightarrow> row \<Rightarrow> string list \<Rightarrow> float64 \<times> bool" where
  "field_float rl row keys =
     (let m = find_text number_pattern (field_string rl row keys)
      in if m = '''' then (Finite 0, False) else rl_parse_float rl m)"

definition field_bool :: "('a) parse_library_scheme \<Rightarrow> row \<Rightarrow> string list \<Rightarrow> bool" where
  "field_bool rl row keys \<longleftrightarrow>
     lower rl (field_string rl row keys) \<in> {''true'', ''1'', zh_shi, zh_dangqian}"

fun first_layout ::
    "('a) parse_library_scheme \<Rightarrow> string \<Rightarrow> string list \<Rightarrow> gotime" where
  "first_layout rl value [] = 0"
| "first_layout rl value (layout # layouts) =
     (case rl_parse_time rl layout value of Some t \<Rightarrow> t | None \<Rightarrow> first_layout rl value layouts)"

definition field_time_layouts :: "string list" where
  "field_time_layouts =
     [''2006-01-02T15:04:05Z07:00'', ''2006-01-02 15:04:05'', ''2006-01-02 15:04'', ''2006-01-02'',
      ''2006/01/02 15:04'', ''2006/01/02'']"

definition field_time :: "('a) parse_library_scheme \<Rightarrow> row \<Rightarrow> string list \<Rightarrow> gotime" where
  "field_time rl row keys = first_layout rl (field_string rl row keys) field_time_layouts"

fun field_ints :: "('a) parse_library_scheme \<Rightarrow> row \<Rightarrow> string list \<Rightarrow> int list" where
  "field_ints rl row [] = []"
| "field_ints rl row (key # keys) =
     (case row key of
        None \<Rightarrow> field_ints rl row keys
      | Some (JArray vs) \<Rightarrow> List.map_filter (\<lambda>v. go_atoi (trim_space (sprint rl v))) vs
      | Some _ \<Rightarrow>
          List.map_filter go_atoi (find_all_text number_pattern (field_string rl row [key])))"

definition value_or :: "string \<Rightarrow> string \<Rightarrow> string" where
  "value_or s fallback = (if s \<noteq> '''' then s else fallback)"

section \<open>Rows of a page\<close>

definition object_rows :: "json list \<Rightarrow> row list" where
  "object_rows vs =
     List.map_filter (\<lambda>v. case v of JObject kvs \<Rightarrow> Some (map_of kvs) | _ \<Rightarrow> None) vs"

text \<open>The names a table may be wrapped in; a map that holds no table lets the next name be tried.\<close>

definition row_keys :: "string list" where
  "row_keys = [''data'', ''rows'', ''list'', ''result'', ''items'']"

fun unwrap_rows :: "json \<Rightarrow> row list option" where
  "unwrap_rows (JArray vs) = Some (object_rows vs)"
| "unwrap_rows (JObject kvs) =
     (let nested = map (\<lambda>(k, v). (k, unwrap_rows v)) kvs
      in case List.map_filter (\<lambda>k. Option.bind (map_of nested k) id) row_keys of
           [] \<Rightarrow> None
         | rows # _ \<Rightarrow> Some rows)"
| "unwrap_rows _ = None"

definition is_element :: "string \<Rightarrow> html_node \<Rightarrow> bool" where
  "is_element tag n \<longleftrightarrow> node_kind n = ElementNode \<and> node_data n = tag"

definition is_cell :: "html_node \<Rightarrow> bool" where
  "is_cell n \<longleftrightarrow> is_element ''td'' n \<or> is_element ''th'' n"

definition direct_table_cells :: "html_node \<Rightarrow> html_node list" where
  "direct_table_cells n = filter is_cell (node_children n)"

text \<open>A row under the headers of its table: a later column of the same name wins.\<close>

definition header_row :: "string list \<Rightarrow> string list \<Rightarrow> row" where
  "header_row headers cells =
     foldl (\<lambda>r (h, c). r(h \<mapsto> JString c)) Map.empty (zip headers cells)"

definition html_table_rows :: "html_node \<Rightarrow> row list" where
  "html_table_rows t =
     (let rows = filter (\<lambda>cells. cells \<noteq> [])
            (map (\<lambda>tr. map (\<lambda>c. trim_space (node_text c)) (direct_table_cells tr))
              (filter (is_element ''tr'') (walk t)))
      in case rows of
           headers # cells # more_cells \<Rightarrow> map (header_row headers) (cells # more_cells)
         | _ \<Rightarrow> [])"

definition html_rows :: "('a) parse_library_scheme \<Rightarrow> string \<Rightarrow> row list option" where
  "html_rows rl body =
     (case pl_html rl body of
        None \<Rightarrow> None
      | Some doc \<Rightarrow>
          (let rows = concat (map html_table_rows (filter (is_element ''table'') (walk doc)))
           in if rows = [] then None else Some rows))"

definition tabular_rows :: "('a) parse_library_scheme \<Rightarrow> string \<Rightarrow> string \<Rightarrow> row list option" where
  "tabular_rows rl body encoding =
     (if encoding = ''html'' then html_rows rl body
      else case rl_json rl body of None \<Rightarrow> None | Some v \<Rightarrow> unwrap_rows v)"

definition with_rows ::
    "('a) parse_library_scheme \<Rightarrow> string \<Rightarrow> string \<Rightarrow> (row list \<Rightarrow> err + 'v) \<Rightarrow> err + 'v" where
  "with_rows rl body encoding f =
     (case tabular_rows rl body encoding of
        None \<Rightarrow> Inl (Sentinel ErrProviderUnavailable)
      | Some rows \<Rightarrow> f rows)"

definition row_id ::
    "('a) parse_library_scheme \<Rightarrow> row \<Rightarrow> string list \<Rightarrow> string \<Rightarrow> nat \<Rightarrow> string" where
  "row_id rl row keys code index =
     (let given = field_string rl row keys
      in if given = '''' then code @ ''-'' @ int_text (int index + 1) else given)"

section \<open>Periods and courses\<close>

definition parse_period :: "('a) parse_library_scheme \<Rightarrow> row \<Rightarrow> period option" where
  "parse_period rl row =
     (let given = field_string rl row
            [''id'', ''period_id'', ''semesterId'', ''semesterCode'', ''xnxqdm'', ''xnxq''];
          label = field_string rl row [''label'', ''name'', ''semesterName'', ''xnxqmc'', zh_xueqi];
          ident = (if given = '''' then label else given);
          start = field_time rl row [''start_date'', ''startDate'', ''kssj'', zh_kaishi_riqi];
          weeks = field_int rl row [''week_count'', ''weekCount'', ''zcs'', zh_zhoushu];
          short = field_string rl row [''short_label'', ''shortLabel'']
      in if ident = '''' \<or> label = '''' then None
         else Some \<lparr>pd_id = ident, pd_label = label,
                pd_short_label = (if short = '''' then label else short),
                pd_start_date = (if is_zero_time start then unix_epoch else start),
                pd_week_count = (if weeks \<le> 0 then 20 else weeks),
                pd_is_current = field_bool rl row [''is_current'', ''isCurrent'', ''dq'', zh_dangqian_xueqi]\<rparr>)"

definition parse_periods ::
    "('a) parse_library_scheme \<Rightarrow> string \<Rightarrow> string \<Rightarrow> err + period list" where
  "parse_periods rl body encoding =
     with_rows rl body encoding (\<lambda>rows.
       let result = List.map_filter (parse_period rl) rows
       in if result = [] then Inl (Sentinel ErrProviderUnavailable) else Inr result)"

definition period_keys :: "string list" where
  "period_keys = [''period_id'', ''semesterId'', ''xnxqdm'', ''xnxqid'']"

definition code_keys :: "string list" where
  "code_keys = [''course_code'', ''courseCode'', ''kch'', zh_kecheng_hao]"

definition parse_course ::
    "('a) parse_library_scheme \<Rightarrow> string \<Rightarrow> nat \<times> row \<Rightarrow> course option" where
  "parse_course rl period_id = (\<lambda>(index, row).
     let name = field_string rl row
           [''name'', ''course_name'', ''courseName'', ''kcmc'', ''kc_mc'', zh_kecheng_mingcheng];
         code = field_string rl row [''course_code'', ''courseCode'', ''kch'', ''kcdm'', zh_kecheng_hao];
         weeks = field_ints rl row [''weeks'', ''week_list'', ''zcd'', zh_shangke_zhouci]
     in if name = '''' then None
        else Some \<lparr>co_id = row_id rl row [''id'', ''course_id'', ''courseId'', ''jx0404id''] code index,
               co_period_id = value_or (field_string rl row period_keys) period_id,
               co_course_code = code, co_class_num = '''', co_name = name,
               co_teacher = field_string rl row [''teacher'', ''teacherName'', ''jsxm'', zh_shouke_jiaoshi],
               co_campus = field_string rl row [''campus'', ''campusName'', ''xqmc'', zh_xiaoqu],
               co_location = field_string rl row [''location'', ''classroom'', ''jsmc'', zh_shangke_didian],
               co_note = '''',
               co_weekday = field_int rl row [''weekday'', ''dayOfWeek'', ''xqj'', zh_xingqi],
               co_start_section =
                 field_int rl row [''start_section'', ''startSection'', ''ksjc'', zh_kaishi_jieci],
               co_end_section =
                 field_int rl row [''end_section'', ''endSection'', ''jsjc'', zh_jieshu_jieci],
               co_weeks = (if weeks = [] then [1] else weeks)\<rparr>)"

definition parse_courses :: "('a) parse_library_scheme \<Rightarrow> course list page_parser" where
  "parse_courses rl body encoding period_id =
     with_rows rl body encoding (\<lambda>rows.
       Inr (List.map_filter (parse_course rl period_id) (enumerate 0 rows)))"

section \<open>Grades\<close>

definition convert_undergraduate_score :: "string \<Rightarrow> rat" where
  "convert_undergraduate_score raw =
     (let t = trim_space raw
      in if t \<in> {zh_youxiu, zh_you, zh_mianxiu} then 90
         else if t = zh_tongguo then 85
         else if t \<in> {zh_liang, zh_lianghao} then 80
         else if t \<in> {zh_zhong, zh_zhongdeng} then 70
         else if t \<in> {zh_hege, zh_jige} then 60
         else 0)"

text \<open>The type of a grade, its score and its level.\<close>

definition raw_grade_value ::
    "('a) parse_library_scheme \<Rightarrow> string \<Rightarrow> string \<times> float64 option \<times> string option" where
  "raw_grade_value rl raw =
     (case rl_parse_float rl raw of
        (f, True) \<Rightarrow> (grade_type_number, Some f, None)
      | (_, False) \<Rightarrow>
          (if raw \<noteq> ''''
           then (grade_type_level, Some (Finite (convert_undergraduate_score raw)), Some raw)
           else (grade_type_level, None, None)))"

definition grade_name :: "('a) parse_library_scheme \<Rightarrow> row \<Rightarrow> string" where
  "grade_name rl row =
     field_string rl row [''course_name'', ''courseName'', ''kcmc'', ''kc_mc'', zh_kecheng_mingcheng]"

definition parse_grade ::
    "('a) parse_library_scheme \<Rightarrow> string \<Rightarrow> nat \<Rightarrow> row \<Rightarrow> grade" where
  "parse_grade rl period_id index row =
     (let code = field_string rl row code_keys;
          raw = field_string rl row
            [''grade_level'', ''level'', ''dj'', ''zcjstr'', ''score'', ''cj'', zh_chengji, zh_dengji, ''zcj''];
          (kind, score, level) = raw_grade_value rl raw
      in \<lparr>gr_id = row_id rl row [''id'', ''grade_id'', ''cj0708id''] code index,
          gr_period_id = value_or
            (field_string rl row [''period_id'', ''semesterId'', ''xnxqdm'', ''xqstr'', ''xnxqid''])
            period_id,
          gr_course_code = code, gr_course_name = grade_name rl row,
          gr_course_type = field_string rl row
            [''course_type'', ''courseType'', ''kcxzmc'', ''kccm'', zh_kecheng_xingzhi],
          gr_credit = fst (field_float rl row [''credit'', ''xf'', zh_xuefen]),
          gr_grade_type = kind, gr_score = score, gr_grade_level = level\<rparr>)"

text \<open>A row with the identifier of an earlier one is the same grade again.\<close>

fun grade_rows ::
    "('a) parse_library_scheme \<Rightarrow> string \<Rightarrow> string set \<Rightarrow> (nat \<times> row) list \<Rightarrow> grade list" where
  "grade_rows rl period_id seen [] = []"
| "grade_rows rl period_id seen ((index, row) # rows) =
     (let own = field_string rl row [''cj0708id'']
      in if grade_name rl row = '''' \<or> (own \<noteq> '''' \<and> own \<in> seen)
         then grade_rows rl period_id seen rows
         else parse_grade rl period_id index row #
                grade_rows rl period_id (if own \<noteq> '''' then insert own seen else seen) rows)"

definition parse_grades :: "('a) parse_library_scheme \<Rightarrow> grade list page_parser" where
  "parse_grades rl body encoding period_id =
     with_rows rl body encoding (\<lambda>rows. Inr (grade_rows rl period_id {} (enumerate 0 rows)))"

definition normalize_grade_level :: "string \<Rightarrow> string option" where
  "normalize_grade_level raw =
     (let t = trim_space raw
      in if t = grade_level_excellent then Some grade_level_excellent
         else if t = grade_level_good then Some grade_level_good
         else if t = grade_level_medium then Some grade_level_medium
         else if t \<in> {grade_level_pass, zh_hege, zh_tongguo} then Some grade_level_pass
         else if t \<in> {grade_level_fail, zh_bu_hege, zh_wei_tongguo} then Some grade_level_fail
         else if t = grade_level_exempt then Some grade_level_exempt
         else None)"

section \<open>Exams\<close>

definition re_clock :: re where
  "re_clock = Group (seq [re_digit, Opt re_digit, Lit '':'', re_digit, re_digit])"

definition exam_time_range_pattern :: re where
  "exam_time_range_pattern =
     seq [re_spaces,
          Group (seq [re_digit, re_digit, re_digit, re_digit, Lit ''-'', re_digit, re_digit,
                      Lit ''-'', re_digit, re_digit]),
          plus re_space, re_clock, re_spaces,
          one_of [''~'', zh_wave, ''-'', zh_zhi], re_spaces, re_clock, re_spaces, AtEnd]"

definition parse_exam_time_range ::
    "('a) parse_library_scheme \<Rightarrow> string \<Rightarrow> (gotime \<times> gotime) option" where
  "parse_exam_time_range rl value =
     (case anchored_submatch exam_time_range_pattern value of
        [_, day, clock, clock'] \<Rightarrow>
          (case (rl_parse_time rl ''2006-01-02 15:04'' (day @ '' '' @ clock),
                 rl_parse_time rl ''2006-01-02 15:04'' (day @ '' '' @ clock')) of
             (Some start, Some end_at) \<Rightarrow> if start < end_at then Some (start, end_at) else None
           | _ \<Rightarrow> None)
      | _ \<Rightarrow> None)"

text \<open>An exam with no end ends two hours after it starts.\<close>

definition default_exam_end :: "gotime \<Rightarrow> gotime \<Rightarrow> gotime" where
  "default_exam_end start end_at =
     (if is_zero_time end_at \<and> \<not> is_zero_time start then start + 2 * hour else end_at)"

definition parse_exam ::
    "('a) parse_library_scheme \<Rightarrow> string \<Rightarrow> nat \<times> row \<Rightarrow> exam option" where
  "parse_exam rl period_id = (\<lambda>(index, row).
     let name = field_string rl row
           [''course_name'', ''courseName'', ''kcmc'', ''kskcmc'', zh_kecheng_mingcheng];
         code = field_string rl row code_keys;
         (start, end_at) =
           (case parse_exam_time_range rl (field_string rl row [''kssj'', zh_kaoshi_shijian]) of
              Some r \<Rightarrow> r
            | None \<Rightarrow> (field_time rl row [''start_at'', ''startAt'', ''kssj'', zh_kaoshi_shijian],
                       field_time rl row [''end_at'', ''endAt'', ''jssj'']));
         phase = field_string rl row [''phase'', ''examPhase'', ''ksxzmc'', zh_kaoshi_xingzhi]
     in if name = '''' then None
        else Some \<lparr>ex_id = row_id rl row [''id'', ''exam_id'', ''kw0410id'', ''kw0413id''] code index,
               ex_period_id = value_or (field_string rl row period_keys) period_id,
               ex_course_code = code, ex_course_name = name, ex_start_at = start,
               ex_end_at = default_exam_end start end_at,
               ex_campus = field_string rl row [''campus'', ''campusName'', ''ksxq'', ''xqmc'', zh_xiaoqu],
               ex_location = field_string rl row
                 [''location'', ''classroom'', ''jsmc'', ''js_mc'', zh_kaoshi_didian],
               ex_seat = field_string rl row [''seat'', ''seatNo'', ''zwh'', zh_zuoweihao],
               ex_phase = (if phase = '''' then exam_phase_final else phase),
               ex_method = field_string rl row [''method'', ''examMethod'', ''ksfs'', zh_kaoshi_fangshi],
               ex_materials = field_string rl row [''materials'', ''allowedMaterials'', zh_kedai_ziliao],
               ex_notice = field_string rl row [''notice'', ''remark'', ''bz'', ''bzywmc'', zh_beizhu]\<rparr>)"

definition parse_exams :: "('a) parse_library_scheme \<Rightarrow> exam list page_parser" where
  "parse_exams rl body encoding period_id =
     with_rows rl body encoding (\<lambda>rows.
       Inr (List.map_filter (parse_exam rl period_id) (enumerate 0 rows)))"

section \<open>Selections\<close>

definition normalize_course_selection_status ::
    "('a) parse_library_scheme \<Rightarrow> string \<Rightarrow> string" where
  "normalize_course_selection_status rl raw =
     (let v = trim_space (lower rl raw)
      in if v = course_selection_selected then course_selection_selected
         else if v = course_selection_pending then course_selection_pending
         else if v = course_selection_failed then course_selection_failed
         else if contains_any v [zh_dai, zh_queren_zhong, zh_chuli_zhong, zh_yuxuan] then course_selection_pending
         else if contains_any v [zh_luoxuan, zh_weixuan, zh_shibai, zh_tuixuan, zh_quxiao]
         then course_selection_failed
         else course_selection_selected)"

definition selection_schedule_with_result :: "string \<Rightarrow> string \<Rightarrow> string" where
  "selection_schedule_with_result schedule result_text =
     (if trim_space result_text \<noteq> '''' then trim_space result_text else trim_space schedule)"

definition status_keys :: "string list" where
  "status_keys = [''tklx'', zh_tuike_leixing, ''xkzt'', zh_xuanke_zhuangtai]"

definition selection_result_text :: "('a) parse_library_scheme \<Rightarrow> row \<Rightarrow> string" where
  "selection_result_text rl row =
     field_string rl row ([''result_text'', ''resultText''] @ status_keys)"

definition or_none :: "string \<Rightarrow> string option" where
  "or_none s = (if s = '''' then None else Some s)"

definition parse_selection ::
    "('a) parse_library_scheme \<Rightarrow> string \<Rightarrow> nat \<Rightarrow> row \<Rightarrow> course_selection" where
  "parse_selection rl period_id index row =
     (let code = field_string rl row code_keys;
          status = normalize_course_selection_status rl
            (field_string rl row ([''status'', ''selectionStatus''] @ status_keys));
          result_text = selection_result_text rl row;
          selected_at = field_time rl row [''selected_at'', ''selectedAt'', ''xksj'', zh_xuanke_shijian];
          schedule = field_string rl row [''schedule'', ''courseTime'', ''sksj'', zh_shangke_shijian]
      in \<lparr>sel_id = row_id rl row [''id'', ''selection_id'', ''jx02id'', ''jx0404id''] code index,
          sel_period_id = value_or (field_string rl row period_keys) period_id,
          sel_course_code = code, sel_course_name = grade_name rl row,
          sel_course_type = field_string rl row
            [''course_type'', ''courseType'', ''kcxzmc'', ''kcxz_mc'', ''kclb_mc'', ''kcsxmc'',
             zh_kecheng_xingzhi],
          sel_credit = fst (field_float rl row [''credit'', ''xf'', zh_xuefen]),
          sel_teacher = field_string rl row
            [''teacher'', ''teacherName'', ''jsxm'', ''xm'', ''skls'', zh_shouke_jiaoshi],
          sel_campus = field_string rl row [''campus'', ''campusName'', ''xqmc'', zh_xiaoqu],
          sel_location = field_string rl row
            [''location'', ''classroom'', ''jsmc'', ''skdd'', zh_didian],
          sel_schedule =
            (if status = course_selection_failed
             then selection_schedule_with_result schedule result_text else schedule),
          sel_capacity = field_int rl row [''capacity'', ''maxCount'', ''krl'', zh_rongliang],
          sel_enrolled = field_int rl row [''enrolled'', ''selectedCount'', ''yxrs'', zh_yixuan_renshu],
          sel_status = status,
          sel_selected_at = (if is_zero_time selected_at then None else Some selected_at),
          sel_result_text = or_none result_text,
          sel_note = or_none (field_string rl row [''note'', ''remark'', ''bz'', zh_beizhu])\<rparr>)"

fun selection_rows ::
    "('a) parse_library_scheme \<Rightarrow> string \<Rightarrow> (nat \<times> row) list \<Rightarrow> err + course_selection list" where
  "selection_rows rl period_id [] = Inr []"
| "selection_rows rl period_id ((index, row) # rows) =
     (if grade_name rl row = '''' then selection_rows rl period_id rows
      else if 500 < rune_count (selection_result_text rl row)
      then Inl (Opaque ''course selection result text is too long'')
      else case selection_rows rl period_id rows of
             Inl e \<Rightarrow> Inl e
           | Inr ss \<Rightarrow> Inr (parse_selection rl period_id index row # ss))"

definition parse_selections :: "('a) parse_library_scheme \<Rightarrow> course_selection list page_parser" where
  "parse_selections rl body encoding period_id =
     with_rows rl body encoding (\<lambda>rows. selection_rows rl period_id (enumerate 0 rows))"

end
