(* ===== verification/Spec2Isabelle.thy ===== *)
theory Spec2Isabelle
  imports CoordinatorCache CoordinatorLiveness StatsScheduler StatsTrigger StatsSnapshot AcademicService OucQueries OucTables
begin

text \<open>
  A verification library for campus-academic, the Go services that query the school systems of a
  university for students and publish statistics about courses. File names are below
  \<^verbatim>\<open>src/internal\<close>.

  \<^bold>\<open>The program.\<close> A query enters through \<^verbatim>\<open>academic/application\<close>, which authorises it, limits failed
  passwords and asks a provider. The provider router sends it to the provider of the current
  configuration; around the OUC provider the query coordinator keeps an encrypted result cache in
  Redis, one leader per query and one query per student over all instances, a circuit breaker, a
  token bucket and local permits. The OUC provider logs in through the SSO, keeps sessions in an
  encrypted cache and reads the pages of two systems. Separately, the statistics worker aggregates
  the grades once a day, or on request, and publishes them with rules that protect small groups.

  \<^bold>\<open>Foundations.\<close> \<open>Prelude\<close> (integers, time, byte strings, collections of facts), \<open>Runes\<close> and
  \<open>GoStrings\<close> (UTF-8, \<^verbatim>\<open>strings\<close>, \<^verbatim>\<open>strconv\<close>), \<open>GoErrors\<close> (error trees with \<^verbatim>\<open>errors.Is\<close> and
  \<^verbatim>\<open>errors.As\<close>), \<open>GoContext\<close> (deadlines and cancellation), \<open>AcademicDomain\<close>
  (\<^verbatim>\<open>academic/domain/models.go\<close>).

  \<^bold>\<open>Query coordination\<close> (\<^verbatim>\<open>academic/infrastructure/querycoord\<close>).
  \<^item> \<open>Circuit\<close>: the four Lua scripts of the circuit breaker over three Redis keys; one probe at a
    time, an opened circuit stays open, only the probe closes it.
  \<^item> \<open>RateLimit\<close>, \<open>RateLimitConfig\<close>: the token bucket with rounding, and \<^verbatim>\<open>core/ratelimitconfig\<close>.
  \<^item> \<open>QueryStore\<close>: \<^verbatim>\<open>store.go\<close>, the cache, leases, failure markers and the revocation of a student.
    The locale \<open>token_lease\<close> is the contract of a lease, interpreted on the Redis lease.
  \<^item> \<open>QueryConfig\<close>, \<open>Coordinator\<close>: \<^verbatim>\<open>coordinator.go\<close> statement by statement. \<open>CoordinatorSafety\<close>
    refines a request to the protocol of leases, circuit, permit and bucket; \<open>CoordinatorCache\<close> is
    about cache modes, errors and times; \<open>CoordinatorLiveness\<close> about termination and capacity, with
    the locale \<open>request_invariant\<close> interpreted on the channels of the coordinator.

  \<^bold>\<open>Application.\<close> \<open>Providers\<close> (the provider interfaces and \<^verbatim>\<open>providerrouter/router.go\<close>),
  \<open>AcademicService\<close> (\<^verbatim>\<open>academic/application/service.go\<close>: order of the calls, public errors).

  \<^bold>\<open>The OUC adapter\<close> (\<^verbatim>\<open>academic/infrastructure/ouc\<close>, \<^verbatim>\<open>academicconfig\<close>).
  \<^item> \<open>OucConfig\<close>: \<^verbatim>\<open>academicconfig/resolver.go\<close>, validation and the snapshot in use.
  \<^item> \<open>OucSession\<close>, \<open>OucSessionStore\<close>: \<^verbatim>\<open>tracked_cookie_jar.go\<close> and \<^verbatim>\<open>session_store.go\<close>; what a
    stored session may contain, and its revocation.
  \<^item> \<open>OucPage\<close>: \<^verbatim>\<open>challenge.go\<close>, \<^verbatim>\<open>login_response.go\<close>, \<^verbatim>\<open>sm2.go\<close>, \<^verbatim>\<open>portal_identity.go\<close> and the
    login form of \<^verbatim>\<open>sso.go\<close>. \<open>OucHttp\<close>, \<open>OucLogin\<close>: one page with its redirects, the login, the
    hand-off to a target (\<^verbatim>\<open>sso.go\<close>). \<open>OucCredentials\<close>: where the password goes.
  \<^item> \<open>OucRequest\<close>, \<open>OucProvider\<close>: \<^verbatim>\<open>provider.go\<close> and \<^verbatim>\<open>adapter.go\<close>, from the request of an operation
    over the recovery of a session to the operations of the provider and \<^verbatim>\<open>Verify\<close>. \<open>OucQueries\<close>
    composes the login with the recovery and the attempts: how often a password leaves, and what an
    answer may be.

  \<^bold>\<open>Statistics\<close> (\<^verbatim>\<open>academic_statistics\<close>).
  \<^item> \<open>StatsDomain\<close>: \<^verbatim>\<open>domain/statistics.go\<close>. \<open>StatsSource\<close>, \<open>StatsSnapshot\<close>: the rows of the source
    database and the snapshot aggregated from them (\<^verbatim>\<open>infrastructure/source.go\<close>).
  \<^item> \<open>StatsPublication\<close>, \<open>StatsProjection\<close>, \<open>StatsStore\<close>: the rules for small groups, the projection
    computed in Go against SQL's grouping, and the tables with their transactions
    (\<^verbatim>\<open>infrastructure/store.go\<close>). The locale \<open>publication_row\<close> is shared by the two kinds of row.
  \<^item> \<open>StatsManager\<close>, \<open>StatsScheduler\<close>, \<open>StatsTrigger\<close>: a run under its lock, the daily schedule and
    the runs on request (\<^verbatim>\<open>application/manager.go\<close>, \<^verbatim>\<open>worker\<close>, \<^verbatim>\<open>application/trigger.go\<close>).

  \<^bold>\<open>How effects are modelled.\<close> State is passed explicitly. A Redis command, a statement of the
  database and a request to a server are each one step of a world; functions of the step number say
  what the clock shows, what others did before, whether the command fails and whether it was applied
  nevertheless, which ready case a \<^verbatim>\<open>select\<close> takes and which role \<^verbatim>\<open>singleflight\<close> gives. Theorems hold
  for all these functions, so for every interleaving with other clients and goroutines. A context
  acts through the failures it causes and through \<^verbatim>\<open>ctx.Err()\<close>. Errors are values (\<open>err + 'a\<close>). A
  loop that may wait takes fuel, one unit per turn, and gives \<open>None\<close> without; \<open>CoordinatorLiveness\<close>
  proves which fuel is enough once the deadline has passed. All other loops terminate by structure or
  by a measure (the redirect loop by its bound of ten).

  \<^bold>\<open>Parameters.\<close> The encodings and libraries the code calls are arguments: JSON, HTML, URL parsing,
  the Unicode tables, HMAC, AES-GCM, SM2, zstd, \<^verbatim>\<open>net/http\<close>'s cookie jar, the texts of floats and
  times, and the order in which Go ranges over a map. What is relied on is a named hypothesis
  (\<open>codec_laws\<close>, \<open>url_text_law\<close>, \<open>resolve_law\<close>, the relative error of a double), and each theorem
  with one has an instance for which it holds.

  \<^bold>\<open>Simplifications.\<close> A request that leads a shared load or recovery waits for it, so its own later
  steps come after those of the goroutine it started. Times are nanoseconds without the rounding of
  a \<^verbatim>\<open>DATETIME(3)\<close> column. Headers a library adds to a redirected request are not recorded.

  \<^bold>\<open>Not modelled.\<close> The parsers of the school systems' pages (parameters of the adapters), traces,
  metrics and captures of refused pages, the gRPC servers, mock providers, the reading of process
  configuration, the wiring of the binaries and generated code.
\<close>

end
